(* ===== verification/Prelude.thy ===== *)
theory Prelude
  imports Complex_Main "HOL-Library.Word" "HOL-Library.AList" "HOL-Library.Multiset"
begin

text \<open>
  The shared vocabulary of the development: the fixed-width integers of the C++ code as words,
  the comparison the code uses to detect 64-bit overflow before it happens, and
  \<open>std::unordered_map\<close> as an association list with distinct keys.

  \<^item> \<open>umap_find\<close>, \<open>umap_put\<close> and \<open>umap_modify\<close> are \<open>m.find(k)\<close>, \<open>m[k] = v\<close> and a mutation
    through the iterator that \<open>m.find(k)\<close> returns.
  \<^item> \<open>umap_map\<close> is a range-for loop that mutates every value; \<open>umap_sweep\<close> is a range-for loop
    that mutates every value and a second object (the region table) as it goes.

  The iteration order of an \<open>unordered_map\<close> is unspecified; in the model it is the order of the
  list, so a statement about every list is a statement about every iteration order.
\<close>

section \<open>Fixed-width integers\<close>

type_synonym u8 = "8 word"
type_synonym u16 = "16 word"
type_synonym u32 = "32 word"
type_synonym u64 = "64 word"

abbreviation UINT64_MAX :: u64 where
  "UINT64_MAX \<equiv> 0xFFFFFFFFFFFFFFFF"

section \<open>Unordered maps\<close>

type_synonym ('k, 'v) umap = "('k \<times> 'v) list"

definition umap_find :: "('k, 'v) umap \<Rightarrow> 'k \<Rightarrow> 'v option" where
  "umap_find m k = map_of m k"

definition umap_put :: "'k \<Rightarrow> 'v \<Rightarrow> ('k, 'v) umap \<Rightarrow> ('k, 'v) umap" where
  "umap_put k v m = AList.update k v m"

definition umap_modify :: "'k \<Rightarrow> ('v \<Rightarrow> 'v) \<Rightarrow> ('k, 'v) umap \<Rightarrow> ('k, 'v) umap" where
  "umap_modify k f m = map (\<lambda>(k', v). (k', if k' = k then f v else v)) m"

definition umap_map :: "('v \<Rightarrow> 'v) \<Rightarrow> ('k, 'v) umap \<Rightarrow> ('k, 'v) umap" where
  "umap_map f m = map (\<lambda>(k, v). (k, f v)) m"

fun umap_sweep :: "('s \<Rightarrow> 'v \<Rightarrow> 's \<times> 'v) \<Rightarrow> 's \<Rightarrow> ('k, 'v) umap \<Rightarrow> 's \<times> ('k, 'v) umap" where
  "umap_sweep f s [] = (s, [])"
| "umap_sweep f s ((k, v) # m) =
     (let (s', v') = f s v; (s'', m') = umap_sweep f s' m in (s'', (k, v') # m'))"

definition umap_wf :: "('k, 'v) umap \<Rightarrow> bool" where
  "umap_wf m \<longleftrightarrow> distinct (map fst m)"

definition umap_keys :: "('k, 'v) umap \<Rightarrow> 'k set" where
  "umap_keys m = fst ` set m"

section \<open>Arithmetic below the wrap-around\<close>

lemma unat_u64_less: "unat (x :: u64) < 2 ^ 64"
  using unsigned_less [of x, where ?'a = nat] by simp

lemma overflow_test: "(UINT64_MAX - s < v) \<longleftrightarrow> 2 ^ 64 \<le> unat v + unat s"
proof -
  have m: "unat UINT64_MAX = 2 ^ 64 - 1" by simp
  have "s \<le> UINT64_MAX" unfolding word_le_nat_alt m using unat_u64_less [of s] by simp
  then have "unat (UINT64_MAX - s) = 2 ^ 64 - 1 - unat s"
    unfolding m [symmetric] by (rule unat_sub)
  then show ?thesis unfolding word_less_nat_alt using unat_u64_less [of s] by simp arith
qed

lemma unat_add_u64: "unat a + unat b < 2 ^ 64 \<Longrightarrow> unat (a + b :: u64) = unat a + unat b"
  by (simp add: unat_word_ariths)

lemma unat_sub_u64: "n \<le> a \<Longrightarrow> unat (a - n :: u64) = unat a - unat n"
  by (rule unat_sub)

lemmas u64_nat = word_le_nat_alt word_less_nat_alt overflow_test

section \<open>The map interface\<close>

text \<open>
  What the fabric relies on of \<open>std::unordered_map\<close>: a lookup after a store, after a mutation in
  place and after a loop over the values, and that each of them keeps the keys distinct.
\<close>

locale unordered_map =
  fixes find :: "'m \<Rightarrow> 'k \<Rightarrow> 'v option"
    and put :: "'k \<Rightarrow> 'v \<Rightarrow> 'm \<Rightarrow> 'm"
    and modify :: "'k \<Rightarrow> ('v \<Rightarrow> 'v) \<Rightarrow> 'm \<Rightarrow> 'm"
    and wf :: "'m \<Rightarrow> bool"
    and keys :: "'m \<Rightarrow> 'k set"
  assumes find_put: "find (put k v m) j = (if j = k then Some v else find m j)"
    and find_modify: "find (modify k f m) j = (if j = k then map_option f (find m k) else find m j)"
    and wf_put: "wf m \<Longrightarrow> wf (put k v m)"
    and wf_modify: "wf m \<Longrightarrow> wf (modify k f m)"
    and keys_find: "k \<in> keys m \<longleftrightarrow> find m k \<noteq> None"
begin

lemma keys_put: "keys (put k v m) = insert k (keys m)"
  by (auto simp: keys_find find_put split: if_splits)

lemma keys_modify: "keys (modify k f m) = keys m"
  by (auto simp: keys_find find_modify split: if_splits)

lemma put_overwrites: "find (put k w (put k v m)) = find (put k w m)"
  by (auto simp: find_put)

lemma put_commutes: "j \<noteq> k \<Longrightarrow> find (put j w (put k v m)) = find (put k v (put j w m))"
  by (auto simp: find_put)

lemma modify_missing: "find m k = None \<Longrightarrow> find (modify k f m) = find m"
  by (auto simp: find_modify)

end

lemma umap_find_modify:
  "umap_find (umap_modify k f m) j = (if j = k then map_option f (umap_find m k) else umap_find m j)"
  by (induction m) (auto simp: umap_find_def umap_modify_def)

interpretation um: unordered_map umap_find umap_put umap_modify umap_wf umap_keys
proof unfold_locales
  show "umap_find (umap_put k v m) j = (if j = k then Some v else umap_find m j)" for k v m j
    by (simp add: umap_find_def umap_put_def update_conv)
  show "umap_wf (umap_put k v m)" if "umap_wf m" for k v m
    using that by (simp add: umap_wf_def umap_put_def distinct_update)
  show "umap_wf (umap_modify k f m)" if "umap_wf m" for k f m
    using that by (simp add: umap_wf_def umap_modify_def comp_def case_prod_beta)
  show "k \<in> umap_keys m \<longleftrightarrow> umap_find m k \<noteq> None" for k m
    by (simp add: umap_keys_def umap_find_def map_of_eq_None_iff)
qed (rule umap_find_modify)

lemmas umap_simps [simp] = um.find_put um.find_modify um.wf_put um.wf_modify um.keys_put um.keys_modify

lemma umap_find_map [simp]: "umap_find (umap_map f m) k = map_option f (umap_find m k)"
  by (induction m) (auto simp: umap_find_def umap_map_def)

lemma umap_wf_map [simp]: "umap_wf (umap_map f m) = umap_wf m"
  by (simp add: umap_wf_def umap_map_def comp_def case_prod_beta)

lemma umap_keys_map [simp]: "umap_keys (umap_map f m) = umap_keys m"
  by (auto simp: um.keys_find)

lemma umap_wf_Nil [simp]: "umap_wf []" and umap_find_Nil [simp]: "umap_find [] k = None"
  by (simp_all add: umap_wf_def umap_find_def)

lemma umap_find_in_set: "umap_find m k = Some v \<Longrightarrow> (k, v) \<in> set m"
  by (simp add: umap_find_def map_of_SomeD)

lemma umap_in_set_find: "umap_wf m \<Longrightarrow> (k, v) \<in> set m \<Longrightarrow> umap_find m k = Some v"
  by (simp add: umap_find_def umap_wf_def)

lemma umap_sweep_keys [simp]: "map fst (snd (umap_sweep f s m)) = map fst m"
  by (induction m arbitrary: s) (auto simp: Let_def case_prod_beta)

lemma umap_sweep_wf [simp]: "umap_wf (snd (umap_sweep f s m)) = umap_wf m"
  by (simp add: umap_wf_def)

lemma umap_put_fresh: "umap_find m k = None \<Longrightarrow> umap_put k v m = m @ [(k, v)]"
  by (induction m) (auto simp: umap_find_def umap_put_def split: if_splits)

text \<open>Reading a filtered loop over a map back as a lookup.\<close>

lemma umap_in_set_iff: "umap_wf m \<Longrightarrow> (k, v) \<in> set m \<longleftrightarrow> umap_find m k = Some v"
  by (rule iffI) (erule (1) umap_in_set_find, erule umap_find_in_set)

lemma umap_filter_ex:
  assumes "umap_wf m"
  shows "(\<exists>x \<in> set (filter (\<lambda>(k, v). P v) m). fst x = i \<and> h (snd x) = w) \<longleftrightarrow>
    (\<exists>v. umap_find m i = Some v \<and> P v \<and> h v = w)" (is "?l \<longleftrightarrow> ?r")
proof
  assume ?l
  then obtain v where "(i, v) \<in> set m" "P v" "h v = w" by auto
  then show ?r unfolding umap_in_set_iff [OF assms] by blast
next
  assume ?r
  then obtain v where "(i, v) \<in> set m" "P v" "h v = w" unfolding umap_in_set_iff [OF assms, symmetric] by blast
  then show ?l by (intro bexI [of _ "(i, v)"]) simp_all
qed

lemma umap_filter_keys:
  assumes "umap_wf m"
  shows "i \<in> fst ` set (filter (\<lambda>(k, v). P v) m) \<longleftrightarrow> (\<exists>v. umap_find m i = Some v \<and> P v)"
  using umap_filter_ex [OF assms, of P i "\<lambda>_. ()" "()"] by (simp add: image_iff eq_commute)

end
