(* ===== verification/Ids.thy ===== *)
theory Ids
  imports Prelude
begin

text \<open>
  Identities (\<open>include/memory_expansion_fabric/id.hpp\<close>, \<open>authority.hpp\<close>). The template
  \<open>TypedId<Tag>\<close> is a datatype with a phantom parameter, one tag type per kind, so the type checker
  keeps identities of different kinds apart as the C++ compiler does. Ordering is the defaulted
  \<open>operator<=>\<close>, the order of the underlying 64-bit values. \<open>IdAllocator\<close> is its atomic counter.
\<close>

section \<open>Typed identifiers\<close>

datatype 'tag TypedId = TypedId (id_value: u64)

definition null :: "'tag TypedId \<Rightarrow> bool" where
  "null i \<longleftrightarrow> id_value i = 0"

text \<open>A default-constructed identifier (\<open>TypedId()\<close>) holds zero.\<close>

definition null_id :: "'tag TypedId" where
  "null_id = TypedId 0"

instantiation TypedId :: (type) linorder
begin

definition less_eq_TypedId :: "'a TypedId \<Rightarrow> 'a TypedId \<Rightarrow> bool" where
  "less_eq_TypedId x y \<longleftrightarrow> id_value x \<le> id_value y"

definition less_TypedId :: "'a TypedId \<Rightarrow> 'a TypedId \<Rightarrow> bool" where
  "less_TypedId x y \<longleftrightarrow> id_value x < id_value y"

instance
  by standard (auto simp: less_eq_TypedId_def less_TypedId_def intro: TypedId.expand)

end

datatype ProviderIdTag = ProviderIdTag
datatype ProviderGenTag = ProviderGenTag
datatype DomainIdTag = DomainIdTag
datatype DomainGenTag = DomainGenTag
datatype RegionIdTag = RegionIdTag
datatype RegionGenTag = RegionGenTag
datatype PoolIdTag = PoolIdTag
datatype PoolGenTag = PoolGenTag
datatype AttachmentIdTag = AttachmentIdTag
datatype AttachmentGenTag = AttachmentGenTag
datatype ConsumerIdTag = ConsumerIdTag
datatype ConsumerGenTag = ConsumerGenTag
datatype ReservationIdTag = ReservationIdTag
datatype ReservationGenTag = ReservationGenTag
datatype PolicyIdTag = PolicyIdTag
datatype PolicyGenTag = PolicyGenTag
datatype EvidenceIdTag = EvidenceIdTag
datatype EvidenceGenTag = EvidenceGenTag
datatype WorkerIdTag = WorkerIdTag
datatype WorkerBootTag = WorkerBootTag
datatype CoordinatorIdTag = CoordinatorIdTag
datatype CoordinatorEpochTag = CoordinatorEpochTag
datatype FailureDomainIdTag = FailureDomainIdTag
datatype SelectionIdTag = SelectionIdTag
datatype SelectionGenTag = SelectionGenTag

type_synonym ProviderId = "ProviderIdTag TypedId"
type_synonym ProviderGeneration = "ProviderGenTag TypedId"
type_synonym ExpansionDomainId = "DomainIdTag TypedId"
type_synonym ExpansionDomainGeneration = "DomainGenTag TypedId"
type_synonym RegionId = "RegionIdTag TypedId"
type_synonym RegionGeneration = "RegionGenTag TypedId"
type_synonym PoolId = "PoolIdTag TypedId"
type_synonym PoolGeneration = "PoolGenTag TypedId"
type_synonym AttachmentId = "AttachmentIdTag TypedId"
type_synonym AttachmentGeneration = "AttachmentGenTag TypedId"
type_synonym ConsumerId = "ConsumerIdTag TypedId"
type_synonym ConsumerGeneration = "ConsumerGenTag TypedId"
type_synonym ReservationId = "ReservationIdTag TypedId"
type_synonym ReservationGeneration = "ReservationGenTag TypedId"
type_synonym PolicyId = "PolicyIdTag TypedId"
type_synonym PolicyGeneration = "PolicyGenTag TypedId"
type_synonym EvidenceId = "EvidenceIdTag TypedId"
type_synonym EvidenceGeneration = "EvidenceGenTag TypedId"
type_synonym WorkerId = "WorkerIdTag TypedId"
type_synonym WorkerBootId = "WorkerBootTag TypedId"
type_synonym CoordinatorId = "CoordinatorIdTag TypedId"
type_synonym CoordinatorEpoch = "CoordinatorEpochTag TypedId"
type_synonym FailureDomainId = "FailureDomainIdTag TypedId"
type_synonym SelectionId = "SelectionIdTag TypedId"
type_synonym SelectionGeneration = "SelectionGenTag TypedId"

section \<open>The authority tuple\<close>

record Authority =
  au_epoch :: CoordinatorEpoch
  au_worker :: WorkerId
  au_boot :: WorkerBootId

definition operator_authority :: "CoordinatorEpoch \<Rightarrow> Authority" where
  "operator_authority e = \<lparr>au_epoch = e, au_worker = null_id, au_boot = null_id\<rparr>"

definition worker_authority :: "CoordinatorEpoch \<Rightarrow> WorkerId \<Rightarrow> WorkerBootId \<Rightarrow> Authority" where
  "worker_authority e w b = \<lparr>au_epoch = e, au_worker = w, au_boot = b\<rparr>"

definition isOperator :: "Authority \<Rightarrow> bool" where
  "isOperator a \<longleftrightarrow> null (au_worker a)"

section \<open>The identifier allocator\<close>

text \<open>
  \<open>IdAllocator::nextValue\<close>: \<open>fetch_add\<close> on a wrapping 64-bit counter, retried when it read zero.
  The state is the counter \<open>next_\<close>; the result is the value handed out and the new counter.
\<close>

definition FirstValidValue :: u64 where
  "FirstValidValue = 1"

function nextValue :: "u64 \<Rightarrow> u64 \<times> u64" where
  "nextValue n = (if n = 0 then nextValue (n + 1) else (n, n + 1))"
  by pat_completeness auto
termination
  by (relation "measure (\<lambda>n. if n = 0 then 1 else 0)") auto

definition next_id :: "u64 \<Rightarrow> 'tag TypedId \<times> u64" where
  "next_id n = (let (v, n') = nextValue n in (TypedId v, n'))"

declare nextValue.simps [simp del]

lemma id_value_eq_iff: "id_value i = id_value j \<longleftrightarrow> i = j"
  by (cases i; cases j) simp

lemma null_null_id [simp]: "null null_id"
  by (simp add: null_def null_id_def)

lemma null_iff: "null i \<longleftrightarrow> i = null_id"
  by (cases i) (simp add: null_def null_id_def)

lemma null_TypedId [simp]: "null (TypedId v) \<longleftrightarrow> v = 0"
  by (simp add: null_def)

lemma nextValue_nonzero: "n \<noteq> 0 \<Longrightarrow> nextValue n = (n, n + 1)"
  by (simp add: nextValue.simps)

lemma nextValue_eval: "nextValue n = (if n = 0 then (1, 2) else (n, n + 1))"
  by (simp add: nextValue.simps [of n] nextValue.simps [of 1])

lemma next_id_valid: "\<not> null (fst (next_id n))"
  by (simp add: next_id_def null_def nextValue_eval)

lemma next_id_nonzero: "n \<noteq> 0 \<Longrightarrow> next_id n = (TypedId n, n + 1)"
  by (simp add: next_id_def nextValue_nonzero)

end
