(* ===== verification/Enums.thy ===== *)
theory Enums
  imports Prelude
begin

text \<open>
  The scoped enumerations of \<open>include/memory_expansion_fabric/enums.hpp\<close> and the error codes of
  \<open>result.hpp\<close>, constructor by constructor and in declaration order. A scoped enumerator such as
  \<open>RegionLifecycle::ONLINE\<close> is the qualified constructor \<open>RegionLifecycle.ONLINE\<close>.

  Every enumeration has the underlying type \<open>std::uint8_t\<close>, so \<open>static_cast<E>(b)\<close> of a byte that
  names no enumerator is still a value of the type. The enumerations that the codecs fill from bytes
  therefore carry one more constructor, \<open>\<dots>_raw b\<close>, for those values.
\<close>

datatype ProviderKind =
  SYSTEM_MEMORY | HOST_EXPANSION | CXL_CLASS | REMOTE_MEMORY | FABRIC_ATTACHED
| ACCELERATOR_ADJACENT | SOFTWARE_DEFINED | SYNTHETIC | UNKNOWN | ProviderKind_raw u8

datatype OriginClass = REAL | SYNTHETIC | UNSUPPORTED | UNKNOWN | OriginClass_raw u8

datatype CapabilityStatus =
  SUPPORTED | UNSUPPORTED | UNKNOWN | REVALIDATION_REQUIRED | CapabilityStatus_raw u8

datatype CapabilityKey =
  CPU_ACCESSIBLE | ACCELERATOR_ACCESSIBLE | PERSISTENT | VOLATILE | BYTE_ADDRESSABLE
| BLOCK_ORIENTED | COHERENT | NON_COHERENT | DIRECT_ACCESS | STAGING_REQUIRED
| HOST_MEDIATION_REQUIRED | MIGRATION_SUPPORTED | DRAIN_SUPPORTED | LIVE_WITHDRAWAL_SUPPORTED
| HOT_ADD_REMOVE_OBSERVABLE | FAILURE_DOMAIN_ISOLATION_KNOWN | PERFORMANCE_EVIDENCE_CURRENT
| CapabilityKey_raw u8

datatype Lifecycle =
  DISCOVERED | REGISTERED | PROBING | ONLINE | DEGRADED | DRAINING | OFFLINE
| REVALIDATION_REQUIRED | FAILED | RETIRED

datatype RegionLifecycle =
  DECLARED | ONLINE | DEGRADED | DRAINING | UNAVAILABLE | REVALIDATION_REQUIRED | RETIRED

datatype ReservationState =
  REQUESTED | EVALUATED | RESERVED | COMMITTED | ACTIVE | RELEASED | REJECTED | EXPIRED | FENCED
| REVALIDATION_REQUIRED | CANCELLED | ReservationState_raw u8

datatype EligibilityReason =
  ELIGIBLE | INSUFFICIENT_CAPACITY | OFFLINE | DEGRADED_NOT_ALLOWED | UNREACHABLE
| CAPABILITY_UNSUPPORTED | CAPABILITY_UNKNOWN | INCOMPATIBLE | TOO_REMOTE
| LATENCY_LIMIT_EXCEEDED | BANDWIDTH_INSUFFICIENT | PERSISTENCE_REQUIRED | STALE_EVIDENCE
| REVALIDATION_REQUIRED | WRONG_GENERATION | WRONG_EPOCH | POLICY_DENIED
| FAILURE_DOMAIN_CONFLICT | NO_ELIGIBLE_CAPACITY | EligibilityReason_raw u8

datatype SelectionOutcome =
  EXPANSION_SELECTED | ALTERNATE_EXPANSION_SELECTED | LOCAL_FALLBACK_SELECTED | STAGING_REQUIRED
| DEFER | REJECT | REVALIDATION_REQUIRED | SelectionOutcome_raw u8

datatype EvidenceStatus = UNKNOWN | CURRENT | REVALIDATION_REQUIRED | STALE | EvidenceStatus_raw u8

datatype HealthState = UNKNOWN | HEALTHY | DEGRADED | FAILED | HealthState_raw u8

datatype AccessKind = DIRECT | STAGED | MEDIATED | UNKNOWN

datatype Locality = UNKNOWN | LOCAL | REMOTE | FABRIC | Locality_raw u8

datatype Addressability = UNKNOWN | BYTE_ADDRESSABLE | BLOCK_ORIENTED | Addressability_raw u8

datatype Persistence = UNKNOWN | VOLATILE | PERSISTENT | Persistence_raw u8

datatype ErrorCode =
  OK | INVALID_ID | DUPLICATE_ID | NOT_FOUND | STALE_AUTHORITY | STALE_EVIDENCE
| REVALIDATION_REQUIRED | WRONG_GENERATION | WRONG_EPOCH | INVALID_STATE_TRANSITION
| INVALID_ARGUMENT | CAPACITY_OVERFLOW | CAPACITY_UNDERFLOW | CAPACITY_INSUFFICIENT
| POOL_OVERCOMMIT | PROVIDER_RETIRED | REGION_RETIRED | POLICY_DENIED | ALREADY_EXISTS
| NOT_SUPPORTED | UNKNOWN | INTERNAL | CORRUPT | IO_ERROR | PROTOCOL_ERROR | FRAME_TOO_LARGE
| FRAME_TRUNCATED | FRAME_BAD_TYPE | FRAME_CHECKSUM | DUPLICATE_CAPACITY | CAPACITY_RESURRECTION

section \<open>Results\<close>

text \<open>
  \<open>Result<T>\<close> (\<open>result.hpp\<close>): an error code with its message, or a value. A mutating operation of
  the fabric returns the result together with the state it leaves, on success and on failure.
\<close>

datatype Error = Error (code: ErrorCode) (message: string)

type_synonym 'a Result = "Error + 'a"

definition ok :: "'a \<Rightarrow> 'a Result" where
  "ok v = Inr v"

definition fail :: "ErrorCode \<Rightarrow> string \<Rightarrow> 'a Result" where
  "fail c m = Inl (Error c m)"

definition is_ok :: "'a Result \<Rightarrow> bool" where
  "is_ok r \<longleftrightarrow> (case r of Inl e \<Rightarrow> False | Inr v \<Rightarrow> True)"

definition fails_with :: "ErrorCode \<Rightarrow> 'a Result \<Rightarrow> bool" where
  "fails_with c r \<longleftrightarrow> (case r of Inl e \<Rightarrow> code e = c | Inr v \<Rightarrow> False)"

lemma is_ok_simps [simp]: "is_ok (ok v)" "\<not> is_ok (fail c m)" "is_ok (Inr v)" "\<not> is_ok (Inl e)"
  by (simp_all add: is_ok_def ok_def fail_def)

lemma fails_with_simps [simp]: "fails_with c (fail c' m) \<longleftrightarrow> c' = c" "\<not> fails_with c (ok v)"
  by (simp_all add: fails_with_def ok_def fail_def)

lemma fail_ok_distinct [simp]: "fail c m \<noteq> ok v" "ok v \<noteq> fail c m" "(ok v = ok w) = (v = w)"
  by (simp_all add: ok_def fail_def)

lemma ok_fail_cases [simp]:
  "fail c m = Inr v \<longleftrightarrow> False" "ok v = Inr w \<longleftrightarrow> v = w" "ok v = Inl e \<longleftrightarrow> False"
  "fail c m = Inl e \<longleftrightarrow> e = Error c m"
  by (auto simp: ok_def fail_def)

end
