(* ===== verification/Capability.thy ===== *)
theory Capability
  imports Enums
begin

text \<open>
  The capability matrix (\<open>include/memory_expansion_fabric/capability.hpp\<close>): \<open>CapabilityModel\<close> is a
  vector of facts; \<open>set\<close> overwrites the first fact with the key or appends one, \<open>get\<close> reads the
  first fact with the key and answers \<open>UNKNOWN\<close> when there is none.
\<close>

record Capability =
  cap_key :: CapabilityKey
  cap_status :: CapabilityStatus
  cap_note :: string

type_synonym CapabilityModel = "Capability list"

fun cap_set :: "CapabilityKey \<Rightarrow> CapabilityStatus \<Rightarrow> string \<Rightarrow> CapabilityModel \<Rightarrow> CapabilityModel" where
  "cap_set k s n [] = [\<lparr>cap_key = k, cap_status = s, cap_note = n\<rparr>]"
| "cap_set k s n (c # cs) =
     (if cap_key c = k then c\<lparr>cap_status := s, cap_note := n\<rparr> # cs else c # cap_set k s n cs)"

fun cap_get :: "CapabilityModel \<Rightarrow> CapabilityKey \<Rightarrow> CapabilityStatus" where
  "cap_get [] k = CapabilityStatus.UNKNOWN"
| "cap_get (c # cs) k = (if cap_key c = k then cap_status c else cap_get cs k)"

text \<open>\<open>capabilityContradiction\<close> of \<open>src/fabric.cpp\<close>: the reason, or nothing.\<close>

definition capabilityContradiction :: "CapabilityModel \<Rightarrow> string option" where
  "capabilityContradiction c =
     (if cap_get c CapabilityKey.PERSISTENT = SUPPORTED \<and> cap_get c CapabilityKey.VOLATILE = SUPPORTED
      then Some ''PERSISTENT and VOLATILE cannot both be SUPPORTED''
      else if cap_get c CapabilityKey.BYTE_ADDRESSABLE = SUPPORTED \<and> cap_get c CapabilityKey.BLOCK_ORIENTED = SUPPORTED
      then Some ''BYTE_ADDRESSABLE and BLOCK_ORIENTED cannot both be SUPPORTED''
      else None)"

lemma cap_get_set: "cap_get (cap_set k s n m) j = (if j = k then s else cap_get m j)"
  by (induction m) auto

lemma cap_set_distinct: "distinct (map cap_key m) \<Longrightarrow> distinct (map cap_key (cap_set k s n m))"
proof (induction m)
  case (Cons c m)
  have "cap_key ` set (cap_set k s n m) \<subseteq> insert k (cap_key ` set m)" for m
    by (induction m) auto
  with Cons show ?case by auto
qed simp

end
