(* ===== verification/Double.thy ===== *)
theory Double
  imports Prelude
begin

text \<open>
  The C++ \<open>double\<close> as the ranking code uses it: IEEE 754 binary64, round to nearest, ties to even.
  A value is its 64-bit pattern (what \<open>std::memcpy\<close> moves in the codecs). The magnitude bits (the
  low 63) order the non-negative values, so rounding a rational is: find by bit descent the largest
  pattern whose value does not exceed it, then take the closer of that pattern and its successor,
  the even one on a tie. Patterns at or above \<open>inf_mag\<close> round to infinity, as the standard says.
  Every operation is exact arithmetic on rationals followed by one rounding; a NaN result is the
  default quiet NaN (payloads are not observable in the program). Contraction into fused
  multiply-add is not modelled (the project builds with MSVC, whose default does not contract).
\<close>

section \<open>Representation\<close>

datatype double = F64 (f64_bits: u64)

definition mag_bits :: "double \<Rightarrow> nat" where
  "mag_bits d = unat (f64_bits d) mod 2 ^ 63"

definition sign_neg :: "double \<Rightarrow> bool" where
  "sign_neg d \<longleftrightarrow> 2 ^ 63 \<le> unat (f64_bits d)"

definition inf_mag :: nat where
  "inf_mag = 2047 * 2 ^ 52"

definition make_double :: "bool \<Rightarrow> nat \<Rightarrow> double" where
  "make_double neg m = F64 (of_nat ((if neg then 2 ^ 63 else 0) + m))"

definition is_nan :: "double \<Rightarrow> bool" where
  "is_nan d \<longleftrightarrow> inf_mag < mag_bits d"

definition is_inf :: "double \<Rightarrow> bool" where
  "is_inf d \<longleftrightarrow> mag_bits d = inf_mag"

definition quiet_nan :: double where
  "quiet_nan = F64 0x7FF8000000000000"

text \<open>The value of a magnitude in units of the smallest subnormal, \<open>2\<close> to the \<open>-1074\<close>.\<close>

definition mag_units :: "nat \<Rightarrow> nat" where
  "mag_units m =
     (let e = m div 2 ^ 52; f = m mod 2 ^ 52 in if e = 0 then f else (2 ^ 52 + f) * 2 ^ (e - 1))"

definition mag_value :: "nat \<Rightarrow> rat" where
  "mag_value m = of_nat (mag_units m) / 2 ^ 1074"

definition double_value :: "double \<Rightarrow> rat" where
  "double_value d = (if sign_neg d then - mag_value (mag_bits d) else mag_value (mag_bits d))"

section \<open>Rounding\<close>

fun floor_mag :: "nat \<Rightarrow> nat \<Rightarrow> rat \<Rightarrow> nat" where
  "floor_mag 0 acc q = acc"
| "floor_mag (Suc i) acc q =
     (if mag_value (acc + 2 ^ i) \<le> q then floor_mag i (acc + 2 ^ i) q else floor_mag i acc q)"

definition round_mag :: "rat \<Rightarrow> nat" where
  "round_mag q =
     (let m = floor_mag 63 0 q; lo = q - mag_value m; hi = mag_value (m + 1) - q in
      min inf_mag (if lo < hi then m else if hi < lo then m + 1 else if even m then m else m + 1))"

definition double_of_rat :: "rat \<Rightarrow> double" where
  "double_of_rat q = (if q < 0 then make_double True (round_mag (- q)) else make_double False (round_mag q))"

definition double_of_u64 :: "u64 \<Rightarrow> double" where
  "double_of_u64 n = double_of_rat (of_nat (unat n))"

section \<open>Arithmetic and comparison\<close>

definition f_neg :: "double \<Rightarrow> double" where
  "f_neg d = make_double (\<not> sign_neg d) (mag_bits d)"

definition f_add :: "double \<Rightarrow> double \<Rightarrow> double" where
  "f_add a b =
     (if is_nan a \<or> is_nan b then quiet_nan
      else if is_inf a then (if is_inf b \<and> sign_neg a \<noteq> sign_neg b then quiet_nan else a)
      else if is_inf b then b
      else let s = double_value a + double_value b in
        if s = 0 then make_double (sign_neg a \<and> sign_neg b) 0 else double_of_rat s)"

definition f_sub :: "double \<Rightarrow> double \<Rightarrow> double" where
  "f_sub a b = (if is_nan b then quiet_nan else f_add a (f_neg b))"

definition f_mul :: "double \<Rightarrow> double \<Rightarrow> double" where
  "f_mul a b =
     (let neg = (sign_neg a \<noteq> sign_neg b) in
      if is_nan a \<or> is_nan b then quiet_nan
      else if is_inf a \<or> is_inf b
      then (if mag_bits a = 0 \<or> mag_bits b = 0 then quiet_nan else make_double neg inf_mag)
      else make_double neg (round_mag (mag_value (mag_bits a) * mag_value (mag_bits b))))"

definition f_div :: "double \<Rightarrow> double \<Rightarrow> double" where
  "f_div a b =
     (let neg = (sign_neg a \<noteq> sign_neg b) in
      if is_nan a \<or> is_nan b then quiet_nan
      else if is_inf a then (if is_inf b then quiet_nan else make_double neg inf_mag)
      else if is_inf b then make_double neg 0
      else if mag_bits b = 0 then (if mag_bits a = 0 then quiet_nan else make_double neg inf_mag)
      else make_double neg (round_mag (mag_value (mag_bits a) / mag_value (mag_bits b))))"

text \<open>
  Comparison: on numbers, the order of the sign-magnitude key (both zeros have key 0); every
  comparison with a NaN is false, so \<open>!=\<close> with a NaN is true.
\<close>

definition order_key :: "double \<Rightarrow> int" where
  "order_key d = (if sign_neg d then - int (mag_bits d) else int (mag_bits d))"

definition f_less :: "double \<Rightarrow> double \<Rightarrow> bool" where
  "f_less a b \<longleftrightarrow> \<not> is_nan a \<and> \<not> is_nan b \<and> order_key a < order_key b"

definition f_eq :: "double \<Rightarrow> double \<Rightarrow> bool" where
  "f_eq a b \<longleftrightarrow> \<not> is_nan a \<and> \<not> is_nan b \<and> order_key a = order_key b"

section \<open>The representation is ordered\<close>

lemma mag_units_Suc: "mag_units m < mag_units (Suc m)"
proof (cases "Suc m mod 2 ^ 52 = 0")
  case True
  then obtain k where k: "Suc m = 2 ^ 52 * k" by (metis mod_0_imp_dvd dvdE)
  then have "k \<noteq> 0" by (cases k) auto
  then obtain j where j: "k = Suc j" by (cases k) auto
  with k have m: "m = (2 ^ 52 - 1) + 2 ^ 52 * j" by simp
  have dm: "m div 2 ^ 52 = j" "m mod 2 ^ 52 = 2 ^ 52 - 1" unfolding m by simp_all
  have ds: "Suc m div 2 ^ 52 = Suc j" "Suc m mod 2 ^ 52 = 0" unfolding k j by simp_all
  show ?thesis
    unfolding mag_units_def Let_def dm ds by (cases j) simp_all
next
  case False
  then have "Suc m mod 2 ^ 52 = Suc (m mod 2 ^ 52)" "Suc m div 2 ^ 52 = m div 2 ^ 52"
    by (simp_all add: mod_Suc div_Suc split: if_splits)
  then show ?thesis by (simp add: mag_units_def Let_def)
qed

lemma mag_units_strict_mono: "strict_mono mag_units"
  by (simp add: strict_mono_Suc_iff mag_units_Suc)

lemma mag_value_less [simp]: "mag_value m < mag_value n \<longleftrightarrow> m < n"
  by (simp add: mag_value_def divide_strict_right_mono strict_mono_less [OF mag_units_strict_mono]
      divide_less_cancel)

lemma mag_value_le [simp]: "mag_value m \<le> mag_value n \<longleftrightarrow> m \<le> n"
  by (meson linorder_not_less mag_value_less)

lemma mag_value_0 [simp]: "mag_value 0 = 0"
  by (simp add: mag_value_def mag_units_def)

lemma floor_mag_bounds:
  assumes "mag_value acc \<le> q" and "q < mag_value (acc + 2 ^ i)"
  shows "mag_value (floor_mag i acc q) \<le> q \<and> q < mag_value (Suc (floor_mag i acc q))"
  using assms
proof (induction i arbitrary: acc)
  case (Suc i)
  then show ?case by (auto simp: not_le add.assoc mult_2 simp flip: mult_2)
qed simp

lemma round_mag_exact: "m \<le> inf_mag \<Longrightarrow> round_mag (mag_value m) = m"
proof -
  assume m: "m \<le> inf_mag"
  then have "m < 2 ^ 63" by (simp add: inf_mag_def)
  then have "mag_value (floor_mag 63 0 (mag_value m)) \<le> mag_value m \<and>
      mag_value m < mag_value (Suc (floor_mag 63 0 (mag_value m)))"
    by (intro floor_mag_bounds) (simp_all del: mag_value_0)
  then have "floor_mag 63 0 (mag_value m) = m" by simp
  with m show ?thesis by (simp add: round_mag_def Let_def)
qed

lemma round_mag_le_inf: "round_mag q \<le> inf_mag"
  by (simp add: round_mag_def Let_def)

lemma unat_make_double:
  "m \<le> inf_mag \<Longrightarrow> unat (f64_bits (make_double neg m)) = (if neg then 2 ^ 63 else 0) + m"
  unfolding make_double_def double.sel unat_of_nat by (rule mod_less) (simp add: inf_mag_def)

lemma mag_bits_make [simp]: "m \<le> inf_mag \<Longrightarrow> mag_bits (make_double neg m) = m"
  by (simp add: mag_bits_def unat_make_double) (simp add: inf_mag_def)

lemma sign_make [simp]: "m \<le> inf_mag \<Longrightarrow> sign_neg (make_double neg m) = neg"
  by (simp add: sign_neg_def unat_make_double) (simp add: inf_mag_def)

lemma make_not_nan [simp]: "m \<le> inf_mag \<Longrightarrow> \<not> is_nan (make_double neg m)"
  by (simp add: is_nan_def)

lemma quiet_nan_is_nan [simp]: "is_nan quiet_nan"
  by (simp add: is_nan_def quiet_nan_def mag_bits_def inf_mag_def)

lemma double_of_rat_not_nan [simp]: "\<not> is_nan (double_of_rat q)"
  by (simp add: double_of_rat_def round_mag_le_inf)

lemma double_of_u64_not_nan [simp]: "\<not> is_nan (double_of_u64 n)"
  by (simp add: double_of_u64_def)

lemma double_of_u64_nonneg [simp]: "\<not> sign_neg (double_of_u64 n)"
  by (simp add: double_of_u64_def double_of_rat_def round_mag_le_inf not_less del: of_nat_unat)

text \<open>Non-negative numbers with equal keys are the same pattern, so a maximum is unique.\<close>

lemma nonneg_key_inject:
  assumes "\<not> sign_neg a" "\<not> sign_neg b" "order_key a = order_key b"
  shows "a = b"
proof -
  have "unat (f64_bits a) = unat (f64_bits b)"
    using assms by (simp add: order_key_def sign_neg_def mag_bits_def not_le del: of_nat_unat)
  then show ?thesis by (auto intro: double.expand simp: word_unat_eq_iff)
qed

text \<open>On finite numbers the key comparison is the comparison of the values.\<close>

lemma mag_value_nonneg: "0 \<le> mag_value m"
  by (simp add: mag_value_def)

lemma f_less_value:
  assumes "\<not> is_nan a" "\<not> is_nan b"
  shows "f_less a b \<longleftrightarrow> double_value a < double_value b"
proof -
  have pos: "mag_value m = 0 \<longleftrightarrow> m = 0" for m
    by (metis mag_value_0 mag_value_le le_0_eq order_refl)
  have "double_value a < double_value b \<longleftrightarrow> order_key a < order_key b"
    using mag_value_nonneg [of "mag_bits a"] mag_value_nonneg [of "mag_bits b"]
      pos [of "mag_bits a"] pos [of "mag_bits b"]
    by (auto simp: double_value_def order_key_def)
  with assms show ?thesis by (simp add: f_less_def)
qed

lemma nan_absorbs:
  "is_nan a \<Longrightarrow> is_nan (f_add a b)" "is_nan b \<Longrightarrow> is_nan (f_add a b)"
  "is_nan b \<Longrightarrow> is_nan (f_mul a b)" "is_nan b \<Longrightarrow> is_nan (f_div a b)"
  by (simp_all add: f_add_def f_mul_def f_div_def Let_def)

lemma one_double: "double_of_rat 1 = F64 0x3FF0000000000000"
proof -
  have "mag_units (1023 * 2 ^ 52) = 2 ^ 52 * 2 ^ 1022"
    unfolding mag_units_def Let_def by simp
  then have "mag_value (1023 * 2 ^ 52) = 1"
    by (simp only: mag_value_def of_nat_mult of_nat_power of_nat_numeral flip: power_add) simp
  then have "round_mag 1 = 1023 * 2 ^ 52"
    using round_mag_exact [of "1023 * 2 ^ 52"] by (simp add: inf_mag_def)
  then show ?thesis by (simp add: double_of_rat_def make_double_def)
qed

section \<open>Bounds\<close>

text \<open>Rounding respects the representable bounds of its argument.\<close>

lemma floor_mag_spec:
  assumes "0 \<le> q" "q \<le> mag_value m" "m \<le> inf_mag"
  shows "mag_value (floor_mag 63 0 q) \<le> q \<and> q < mag_value (Suc (floor_mag 63 0 q))"
proof (rule floor_mag_bounds)
  show "mag_value 0 \<le> q" using assms by simp
  have "m < 0 + 2 ^ 63" using assms(3) by (simp add: inf_mag_def)
  then have "mag_value m < mag_value (0 + 2 ^ 63)" by (simp only: mag_value_less)
  with assms(2) show "q < mag_value (0 + 2 ^ 63)" by linarith
qed

lemma round_mag_upper:
  assumes "0 \<le> q" "q \<le> mag_value m" "m \<le> inf_mag"
  shows "round_mag q \<le> m"
proof -
  let ?f = "floor_mag 63 0 q"
  note f = floor_mag_spec [OF assms]
  then have "mag_value ?f \<le> mag_value m" using assms(2) by linarith
  then have le: "?f \<le> m" by simp
  show ?thesis
  proof (cases "?f = m")
    case True
    then have "q = mag_value m" using f assms(2) by simp
    with assms(3) show ?thesis by (simp add: round_mag_exact)
  next
    case False
    with le have "?f + 1 \<le> m" by simp
    then show ?thesis by (simp add: round_mag_def Let_def min_le_iff_disj)
  qed
qed

lemma round_mag_lower:
  assumes "mag_value m \<le> q" "q \<le> mag_value n" "n \<le> inf_mag"
  shows "m \<le> round_mag q"
proof -
  let ?f = "floor_mag 63 0 q"
  have "0 \<le> q" using assms(1) mag_value_nonneg [of m] by linarith
  note f = floor_mag_spec [OF this assms(2,3)]
  then have "mag_value m < mag_value (Suc ?f)" using assms(1) by linarith
  then have "m \<le> ?f" by simp
  moreover have "mag_value m \<le> mag_value n" using assms by linarith
  then have "m \<le> n" by simp
  ultimately show ?thesis using assms(3) by (simp add: round_mag_def Let_def)
qed

definition pow2_mag :: "nat \<Rightarrow> nat" where
  "pow2_mag k = (1023 + k) * 2 ^ 52"

lemma pow2_mag_value: "mag_value (pow2_mag k) = 2 ^ k"
proof -
  have "mag_units (pow2_mag k) = 2 ^ 52 * 2 ^ (1022 + k)"
    unfolding mag_units_def pow2_mag_def Let_def by simp
  also have "\<dots> = 2 ^ (52 + (1022 + k))" by (simp only: power_add)
  also have "\<dots> = 2 ^ (1074 + k)" by simp
  finally have "mag_value (pow2_mag k) = 2 ^ (1074 + k) / 2 ^ 1074"
    by (simp only: mag_value_def of_nat_power of_nat_numeral)
  then show ?thesis by (simp only: power_add) simp
qed

lemma pow2_mag_less_inf: "k < 1024 \<Longrightarrow> pow2_mag k < inf_mag"
  by (simp add: pow2_mag_def inf_mag_def)

text \<open>Non-negative doubles up to a power of two; \<open>small 0\<close> is the unit interval.\<close>

definition small :: "nat \<Rightarrow> double \<Rightarrow> bool" where
  "small k d \<longleftrightarrow> \<not> sign_neg d \<and> mag_bits d \<le> pow2_mag k"

lemma small_finite:
  assumes "small k d" "k < 1024"
  shows "\<not> is_nan d" "\<not> is_inf d" "double_value d = mag_value (mag_bits d)" "double_value d \<le> 2 ^ k"
    "0 \<le> double_value d"
  using assms pow2_mag_less_inf [OF assms(2)] pow2_mag_value [of k] mag_value_le [of "mag_bits d" "pow2_mag k"]
    mag_value_nonneg [of "mag_bits d"]
  by (auto simp: small_def is_nan_def is_inf_def double_value_def simp del: mag_value_le)

lemma small_of_rat:
  assumes "0 \<le> q" "q \<le> 2 ^ k" "k < 1024"
  shows "small k (double_of_rat q)"
  using assms round_mag_upper [of q "pow2_mag k"] pow2_mag_less_inf [of k]
  by (simp add: small_def double_of_rat_def pow2_mag_value round_mag_le_inf not_less)

lemma small_of_u64: "small 64 (double_of_u64 n)"
proof -
  have "of_nat (unat n) \<le> (of_nat (2 ^ 64) :: rat)"
    unfolding of_nat_le_iff using unat_u64_less [of n] by simp
  then show ?thesis unfolding double_of_u64_def by (intro small_of_rat) (simp_all del: of_nat_unat)
qed

lemma small_add:
  assumes "small j a" "small j b" "j < 1023"
  shows "small (Suc j) (f_add a b)"
proof -
  let ?s = "double_value a + double_value b"
  have fin: "\<not> is_nan a" "\<not> is_inf a" "\<not> is_nan b" "\<not> is_inf b"
    using small_finite [OF assms(1)] small_finite [OF assms(2)] assms(3) by simp_all
  have "0 \<le> ?s" "?s \<le> 2 ^ Suc j"
    using small_finite(4,5) [OF assms(1)] small_finite(4,5) [OF assms(2)] assms(3) by simp_all
  then have "small (Suc j) (double_of_rat ?s)" using assms(3) by (intro small_of_rat) simp_all
  moreover have "small (Suc j) (make_double False 0)" by (simp add: small_def inf_mag_def)
  ultimately show ?thesis using fin assms(1) by (simp add: f_add_def Let_def small_def)
qed

lemma small_mono: "small j a \<Longrightarrow> j \<le> k \<Longrightarrow> small k a"
  by (auto simp: small_def pow2_mag_def)

lemma small_mul:
  assumes "small 0 a" "small 0 b"
  shows "small 0 (f_mul a b)"
proof -
  let ?p = "mag_value (mag_bits a) * mag_value (mag_bits b)"
  have "mag_value (mag_bits a) \<le> 1" "mag_value (mag_bits b) \<le> 1"
    using small_finite [OF assms(1)] small_finite [OF assms(2)] by simp_all
  then have "0 \<le> ?p" "?p \<le> 1" using mag_value_nonneg by (simp_all add: mult_le_one)
  then have "round_mag ?p \<le> pow2_mag 0"
    using pow2_mag_less_inf [of 0] by (intro round_mag_upper) (simp_all add: pow2_mag_value)
  with assms small_finite(1,2) [OF assms(1)] small_finite(1,2) [OF assms(2)] show ?thesis
    by (simp add: f_mul_def Let_def small_def round_mag_le_inf)
qed

lemma mag_value_pos: "0 < mag_value m \<longleftrightarrow> 0 < m"
  using mag_value_less [of 0 m] by (simp del: mag_value_less)

lemma small_div:
  assumes "small k a" "small k b" "k < 1024" "mag_bits a \<le> mag_bits b" "0 < mag_bits b"
  shows "small 0 (f_div a b)"
proof -
  let ?p = "mag_value (mag_bits a) / mag_value (mag_bits b)"
  have "0 < mag_value (mag_bits b)" "mag_value (mag_bits a) \<le> mag_value (mag_bits b)"
    using assms(4,5) mag_value_pos by simp_all
  then have "0 \<le> ?p" "?p \<le> 1" using mag_value_nonneg by (simp_all add: divide_le_eq_1 del: mag_value_le)
  then have "round_mag ?p \<le> pow2_mag 0"
    using pow2_mag_less_inf [of 0] by (intro round_mag_upper) (simp_all add: pow2_mag_value)
  with assms small_finite(1,2) [OF assms(1,3)] small_finite(1,2) [OF assms(2,3)] show ?thesis
    by (simp add: f_div_def Let_def small_def round_mag_le_inf)
qed

lemma f_add_not_nan:
  "\<not> is_nan a \<Longrightarrow> \<not> is_nan b \<Longrightarrow> \<not> is_inf a \<or> \<not> is_inf b \<Longrightarrow> \<not> is_nan (f_add a b)"
  by (auto simp: f_add_def Let_def inf_mag_def)

lemma small_one_minus:
  assumes "small 0 x"
  shows "small 0 (f_sub (double_of_rat 1) x)"
proof -
  have one: "small 0 (double_of_rat 1)" by (rule small_of_rat) simp_all
  have v1: "double_value (double_of_rat 1) = 1"
    using round_mag_exact [of "pow2_mag 0"] pow2_mag_less_inf [of 0]
    by (simp add: pow2_mag_value double_value_def double_of_rat_def round_mag_le_inf)
  have le: "mag_bits x \<le> inf_mag" using assms pow2_mag_less_inf [of 0] by (simp add: small_def)
  have neg: "\<not> is_nan (f_neg x)" "\<not> is_inf (f_neg x)" "double_value (f_neg x) = - double_value x"
    using assms le small_finite(1,2) [OF assms]
    by (simp_all add: f_neg_def is_inf_def double_value_def small_def)
  let ?s = "1 + double_value (f_neg x)"
  have "0 \<le> ?s" "?s \<le> 2 ^ 0" using small_finite(4,5) [OF assms] neg(3) by simp_all
  then have "small 0 (double_of_rat ?s)" by (intro small_of_rat) simp_all
  moreover have "small 0 (make_double False 0)" by (simp add: small_def inf_mag_def)
  ultimately show ?thesis
    using small_finite(1,2) [OF assms] small_finite(1,2) [OF one] neg one v1
    by (simp add: f_sub_def f_add_def Let_def small_def)
qed

end
