(* ===== verification/Types.thy ===== *)
theory Types
  imports Ids Capability Double
begin

text \<open>
  The public value types of \<open>include/memory_expansion_fabric/types.hpp\<close>: one record per struct, one
  field per member in declaration order. Field names carry a prefix for their struct because HOL
  record fields share one name space. The \<open>default_\<dots>\<close> constants are the default-constructed structs
  the code starts from.
\<close>

section \<open>Static structure\<close>

record ProviderDescriptor =
  pd_id :: ProviderId
  pd_generation :: ProviderGeneration
  pd_kind :: ProviderKind
  pd_origin :: OriginClass
  pd_name :: string
  pd_failureDomain :: FailureDomainId
  pd_addressability :: Addressability
  pd_persistence :: Persistence
  pd_totalCapacityBytes :: u64
  pd_alignmentBytes :: u64
  pd_granularityBytes :: u64
  pd_capabilities :: CapabilityModel
  pd_requiresHostCopy :: bool

record RegionDescriptor =
  rd_id :: RegionId
  rd_generation :: RegionGeneration
  rd_provider :: ProviderId
  rd_domain :: ExpansionDomainId
  rd_name :: string
  rd_totalCapacityBytes :: u64
  rd_alignmentBytes :: u64
  rd_granularityBytes :: u64
  rd_origin :: OriginClass
  rd_persistence :: Persistence
  rd_staticCapabilities :: CapabilityModel

record ExpansionDomainDescriptor =
  dd_id :: ExpansionDomainId
  dd_generation :: ExpansionDomainGeneration
  dd_name :: string
  dd_origin :: OriginClass
  dd_failureDomain :: FailureDomainId

record PoolMember =
  pm_region :: RegionId
  pm_generation :: RegionGeneration

record PoolDescriptor =
  pl_id :: PoolId
  pl_generation :: PoolGeneration
  pl_name :: string
  pl_origin :: OriginClass
  pl_members :: "PoolMember list"

record PolicyRule =
  rule_key :: string
  rule_value :: string

record PolicyDescriptor =
  po_id :: PolicyId
  po_generation :: PolicyGeneration
  po_name :: string
  po_allowDegraded :: bool
  po_requireFreshEvidence :: bool
  po_allowLocalFallback :: bool
  po_expansionRequired :: bool
  po_rules :: "PolicyRule list"

section \<open>Dynamic evidence\<close>

record EvidenceHeader =
  eh_id :: EvidenceId
  eh_generation :: EvidenceGeneration
  eh_sourceProvider :: ProviderId
  eh_sourceProviderGeneration :: ProviderGeneration
  eh_region :: RegionId
  eh_regionGeneration :: RegionGeneration
  eh_worker :: WorkerId
  eh_boot :: WorkerBootId
  eh_epoch :: CoordinatorEpoch
  eh_timestampMs :: u64
  eh_sequence :: u64
  eh_provenance :: string
  eh_confidence :: double

record RegionEvidence =
  ev_header :: EvidenceHeader
  ev_health :: HealthState
  ev_reachable :: bool
  ev_onlineCapacityBytes :: u64
  ev_latencyNs :: u64
  ev_bandwidthBytesPerSec :: u64
  ev_locality :: Locality
  ev_nodeId :: u64
  ev_status :: EvidenceStatus

record AttachmentEvidence =
  at_id :: AttachmentId
  at_generation :: AttachmentGeneration
  at_region :: RegionId
  at_regionGeneration :: RegionGeneration
  at_consumer :: ConsumerId
  at_access :: AccessKind
  at_locality :: Locality
  at_reachable :: bool
  at_latencyNs :: u64
  at_bandwidthBytesPerSec :: u64
  at_worker :: WorkerId
  at_boot :: WorkerBootId
  at_epoch :: CoordinatorEpoch
  at_evidence :: EvidenceId
  at_timestampMs :: u64
  at_status :: EvidenceStatus

definition default_EvidenceHeader :: EvidenceHeader where
  "default_EvidenceHeader =
     \<lparr>eh_id = null_id, eh_generation = null_id, eh_sourceProvider = null_id,
      eh_sourceProviderGeneration = null_id, eh_region = null_id, eh_regionGeneration = null_id,
      eh_worker = null_id, eh_boot = null_id, eh_epoch = null_id, eh_timestampMs = 0,
      eh_sequence = 0, eh_provenance = [], eh_confidence = F64 0x3FF0000000000000\<rparr>"

definition default_RegionEvidence :: RegionEvidence where
  "default_RegionEvidence =
     \<lparr>ev_header = default_EvidenceHeader, ev_health = HealthState.UNKNOWN, ev_reachable = False,
      ev_onlineCapacityBytes = 0, ev_latencyNs = 0, ev_bandwidthBytesPerSec = 0,
      ev_locality = Locality.UNKNOWN, ev_nodeId = 0, ev_status = EvidenceStatus.UNKNOWN\<rparr>"

section \<open>Requirements, selection and reservation\<close>

record ConsumerRequirements =
  rq_consumer :: ConsumerId
  rq_consumerGeneration :: ConsumerGeneration
  rq_requiredBytes :: u64
  rq_alignmentBytes :: u64
  rq_cpuAccessible :: bool
  rq_acceleratorAccessible :: bool
  rq_directAccessRequired :: bool
  rq_stagingAcceptable :: bool
  rq_persistent :: bool
  rq_maxLatencyNs :: u64
  rq_minBandwidth :: u64
  rq_localityPreference :: Locality
  rq_allowedKinds :: "ProviderKind list"
  rq_forbiddenKinds :: "ProviderKind list"
  rq_failureDomainIsolationRequired :: bool
  rq_forbiddenFailureDomain :: FailureDomainId
  rq_freshEvidenceRequired :: bool
  rq_allowDegraded :: bool
  rq_allowLocalFallback :: bool
  rq_expansionRequired :: bool
  rq_allowStaging :: bool
  rq_policy :: PolicyId
  rq_preferredPool :: PoolId
  rq_reserveHeadroomFactor :: double

definition default_ConsumerRequirements :: ConsumerRequirements where
  "default_ConsumerRequirements =
     \<lparr>rq_consumer = null_id, rq_consumerGeneration = null_id, rq_requiredBytes = 0,
      rq_alignmentBytes = 1, rq_cpuAccessible = False, rq_acceleratorAccessible = True,
      rq_directAccessRequired = False, rq_stagingAcceptable = True, rq_persistent = False,
      rq_maxLatencyNs = 0, rq_minBandwidth = 0, rq_localityPreference = Locality.UNKNOWN,
      rq_allowedKinds = [], rq_forbiddenKinds = [], rq_failureDomainIsolationRequired = False,
      rq_forbiddenFailureDomain = null_id, rq_freshEvidenceRequired = True,
      rq_allowDegraded = False, rq_allowLocalFallback = False, rq_expansionRequired = True,
      rq_allowStaging = True, rq_policy = null_id, rq_preferredPool = null_id,
      rq_reserveHeadroomFactor = F64 0\<rparr>"

record RankingFactor =
  rf_name :: string
  rf_raw :: double
  rf_normalized :: double
  rf_weight :: double

record RankedCandidate =
  rc_region :: RegionId
  rc_provider :: ProviderId
  rc_pool :: PoolId
  rc_bytes :: u64
  rc_score :: double
  rc_factors :: "RankingFactor list"

record CandidateAssessment =
  ca_region :: RegionId
  ca_provider :: ProviderId
  ca_pool :: PoolId
  ca_reason :: EligibilityReason
  ca_score :: double

record SelectionResult =
  sel_id :: SelectionId
  sel_generation :: SelectionGeneration
  sel_outcome :: SelectionOutcome
  sel_ranked :: "RankedCandidate list"
  sel_rejected :: "CandidateAssessment list"
  sel_tieBreakRule :: string

record Reservation =
  rs_id :: ReservationId
  rs_generation :: ReservationGeneration
  rs_consumer :: ConsumerId
  rs_consumerGeneration :: ConsumerGeneration
  rs_provider :: ProviderId
  rs_providerGeneration :: ProviderGeneration
  rs_region :: RegionId
  rs_regionGeneration :: RegionGeneration
  rs_pool :: PoolId
  rs_poolGeneration :: PoolGeneration
  rs_policy :: PolicyId
  rs_policyGeneration :: PolicyGeneration
  rs_selection :: SelectionId
  rs_selectionGeneration :: SelectionGeneration
  rs_evidenceGeneration :: EvidenceGeneration
  rs_worker :: WorkerId
  rs_boot :: WorkerBootId
  rs_epoch :: CoordinatorEpoch
  rs_bytes :: u64
  rs_state :: ReservationState
  rs_createdAtMs :: u64
  rs_expiresAtMs :: u64
  rs_note :: string

end
