(* ===== verification/Ledger.thy ===== *)
theory Ledger
  imports Prelude
begin

text \<open>
  The capacity ledger (\<open>include/memory_expansion_fabric/capacity.hpp\<close>, class \<open>CapacityLedger\<close>).
  Every byte of a region's governed online capacity is in one of five buckets. An operation returns
  the boolean the method returns and the ledger it leaves behind, in-place updates, the overflow
  roll-back and the final \<open>invariant()\<close> test included.

  Specification: a ledger denotes a function from buckets to byte counts (\<open>bytes_in\<close>); each of the
  eleven transfer methods is, on a ledger that satisfies the invariant, the move of \<open>n\<close> bytes from one bucket to
  another, refused exactly when the source holds fewer than \<open>n\<close> bytes. The locale \<open>ledger_move\<close>
  states that contract, derives what clients use, and is interpreted for all eleven methods.
\<close>

section \<open>The class\<close>

record CapacityLedger =
  total :: u64
  governedOnline :: u64
  free :: u64
  reserved :: u64
  committed :: u64
  draining :: u64
  unavailable :: u64

definition new_ledger :: "u64 \<Rightarrow> CapacityLedger" where
  "new_ledger total_bytes =
     \<lparr>total = total_bytes, governedOnline = 0, free = 0, reserved = 0, committed = 0,
      draining = 0, unavailable = 0\<rparr>"

text \<open>The overflow-checked sum both \<open>invariant\<close> and \<open>setOnline\<close> compute in a loop.\<close>

fun checked_sum :: "u64 \<Rightarrow> u64 list \<Rightarrow> u64 option" where
  "checked_sum acc [] = Some acc"
| "checked_sum acc (v # vs) = (if v > UINT64_MAX - acc then None else checked_sum (acc + v) vs)"

definition invariant :: "CapacityLedger \<Rightarrow> bool" where
  "invariant l =
     (case checked_sum 0 [free l, reserved l, committed l, draining l, unavailable l] of
        None \<Rightarrow> False
      | Some s \<Rightarrow>
          if s \<noteq> governedOnline l then False
          else if governedOnline l > total l then False
          else True)"

definition setOnline :: "u64 \<Rightarrow> CapacityLedger \<Rightarrow> bool \<times> CapacityLedger" where
  "setOnline online_bytes l =
     (if online_bytes > total l then (False, l)
      else case checked_sum 0 [reserved l, committed l, draining l, unavailable l] of
        None \<Rightarrow> (False, l)
      | Some obligations \<Rightarrow>
          if online_bytes < obligations then (False, l)
          else let l' = l\<lparr>governedOnline := online_bytes, free := online_bytes - obligations\<rparr>
               in (invariant l', l'))"

definition reserve :: "u64 \<Rightarrow> CapacityLedger \<Rightarrow> bool \<times> CapacityLedger" where
  "reserve n l =
     (if n > free l then (False, l)
      else let l1 = l\<lparr>free := free l - n\<rparr> in
        if reserved l1 > UINT64_MAX - n then (False, l1\<lparr>free := free l1 + n\<rparr>)
        else let l2 = l1\<lparr>reserved := reserved l1 + n\<rparr> in (invariant l2, l2))"

definition commit :: "u64 \<Rightarrow> CapacityLedger \<Rightarrow> bool \<times> CapacityLedger" where
  "commit n l =
     (if n > reserved l then (False, l)
      else let l1 = l\<lparr>reserved := reserved l - n\<rparr> in
        if committed l1 > UINT64_MAX - n then (False, l1\<lparr>reserved := reserved l1 + n\<rparr>)
        else let l2 = l1\<lparr>committed := committed l1 + n\<rparr> in (invariant l2, l2))"

definition release :: "u64 \<Rightarrow> CapacityLedger \<Rightarrow> bool \<times> CapacityLedger" where
  "release n l =
     (if n > reserved l then (False, l)
      else let l1 = l\<lparr>reserved := reserved l - n\<rparr> in
        if free l1 > UINT64_MAX - n then (False, l1\<lparr>reserved := reserved l1 + n\<rparr>)
        else let l2 = l1\<lparr>free := free l1 + n\<rparr> in (invariant l2, l2))"

definition complete :: "u64 \<Rightarrow> CapacityLedger \<Rightarrow> bool \<times> CapacityLedger" where
  "complete n l =
     (if n > committed l then (False, l)
      else let l1 = l\<lparr>committed := committed l - n\<rparr> in
        if free l1 > UINT64_MAX - n then (False, l1\<lparr>committed := committed l1 + n\<rparr>)
        else let l2 = l1\<lparr>free := free l1 + n\<rparr> in (invariant l2, l2))"

definition ledger_beginDrain :: "u64 \<Rightarrow> CapacityLedger \<Rightarrow> bool \<times> CapacityLedger" where
  "ledger_beginDrain n l =
     (if n > free l then (False, l)
      else let l1 = l\<lparr>free := free l - n\<rparr> in
        if draining l1 > UINT64_MAX - n then (False, l1\<lparr>free := free l1 + n\<rparr>)
        else let l2 = l1\<lparr>draining := draining l1 + n\<rparr> in (invariant l2, l2))"

definition endDrain :: "u64 \<Rightarrow> CapacityLedger \<Rightarrow> bool \<times> CapacityLedger" where
  "endDrain n l =
     (if n > draining l then (False, l)
      else let l1 = l\<lparr>draining := draining l - n\<rparr> in
        if unavailable l1 > UINT64_MAX - n then (False, l1\<lparr>draining := draining l1 + n\<rparr>)
        else let l2 = l1\<lparr>unavailable := unavailable l1 + n\<rparr> in (invariant l2, l2))"

definition ledger_cancelDrain :: "u64 \<Rightarrow> CapacityLedger \<Rightarrow> bool \<times> CapacityLedger" where
  "ledger_cancelDrain n l =
     (if n > draining l then (False, l)
      else let l1 = l\<lparr>draining := draining l - n\<rparr> in
        if free l1 > UINT64_MAX - n then (False, l1\<lparr>draining := draining l1 + n\<rparr>)
        else let l2 = l1\<lparr>free := free l1 + n\<rparr> in (invariant l2, l2))"

definition ledger_markUnavailable :: "u64 \<Rightarrow> CapacityLedger \<Rightarrow> bool \<times> CapacityLedger" where
  "ledger_markUnavailable n l =
     (if n > free l then (False, l)
      else let l1 = l\<lparr>free := free l - n\<rparr> in
        if unavailable l1 > UINT64_MAX - n then (False, l1\<lparr>free := free l1 + n\<rparr>)
        else let l2 = l1\<lparr>unavailable := unavailable l1 + n\<rparr> in (invariant l2, l2))"

definition restore :: "u64 \<Rightarrow> CapacityLedger \<Rightarrow> bool \<times> CapacityLedger" where
  "restore n l =
     (if n > unavailable l then (False, l)
      else let l1 = l\<lparr>unavailable := unavailable l - n\<rparr> in
        if free l1 > UINT64_MAX - n then (False, l1\<lparr>unavailable := unavailable l1 + n\<rparr>)
        else let l2 = l1\<lparr>free := free l1 + n\<rparr> in (invariant l2, l2))"

definition fenceReserved :: "u64 \<Rightarrow> CapacityLedger \<Rightarrow> bool \<times> CapacityLedger" where
  "fenceReserved n l =
     (if n > reserved l then (False, l)
      else let l1 = l\<lparr>reserved := reserved l - n\<rparr> in
        if unavailable l1 > UINT64_MAX - n then (False, l1\<lparr>reserved := reserved l1 + n\<rparr>)
        else let l2 = l1\<lparr>unavailable := unavailable l1 + n\<rparr> in (invariant l2, l2))"

definition fenceCommitted :: "u64 \<Rightarrow> CapacityLedger \<Rightarrow> bool \<times> CapacityLedger" where
  "fenceCommitted n l =
     (if n > committed l then (False, l)
      else let l1 = l\<lparr>committed := committed l - n\<rparr> in
        if unavailable l1 > UINT64_MAX - n then (False, l1\<lparr>committed := committed l1 + n\<rparr>)
        else let l2 = l1\<lparr>unavailable := unavailable l1 + n\<rparr> in (invariant l2, l2))"

section \<open>The specification\<close>

datatype bucket = Free | Reserved | Committed | Draining | Unavailable

fun bytes_in :: "CapacityLedger \<Rightarrow> bucket \<Rightarrow> nat" where
  "bytes_in l Free = unat (free l)"
| "bytes_in l Reserved = unat (reserved l)"
| "bytes_in l Committed = unat (committed l)"
| "bytes_in l Draining = unat (draining l)"
| "bytes_in l Unavailable = unat (unavailable l)"

definition move :: "bucket \<Rightarrow> bucket \<Rightarrow> nat \<Rightarrow> (bucket \<Rightarrow> nat) \<Rightarrow> (bucket \<Rightarrow> nat)" where
  "move s d n f = f(s := f s - n, d := f d + n)"

definition bucket_sum :: "(bucket \<Rightarrow> nat) \<Rightarrow> nat" where
  "bucket_sum f = f Free + f Reserved + f Committed + f Draining + f Unavailable"

text \<open>The eleven transfer methods share one shape; \<open>transfer\<close> is that shape.\<close>

fun word_in :: "CapacityLedger \<Rightarrow> bucket \<Rightarrow> u64" where
  "word_in l Free = free l"
| "word_in l Reserved = reserved l"
| "word_in l Committed = committed l"
| "word_in l Draining = draining l"
| "word_in l Unavailable = unavailable l"

fun set_bucket :: "bucket \<Rightarrow> u64 \<Rightarrow> CapacityLedger \<Rightarrow> CapacityLedger" where
  "set_bucket Free w l = l\<lparr>free := w\<rparr>"
| "set_bucket Reserved w l = l\<lparr>reserved := w\<rparr>"
| "set_bucket Committed w l = l\<lparr>committed := w\<rparr>"
| "set_bucket Draining w l = l\<lparr>draining := w\<rparr>"
| "set_bucket Unavailable w l = l\<lparr>unavailable := w\<rparr>"

definition transfer :: "bucket \<Rightarrow> bucket \<Rightarrow> u64 \<Rightarrow> CapacityLedger \<Rightarrow> bool \<times> CapacityLedger" where
  "transfer s d n l =
     (if n > word_in l s then (False, l)
      else let l1 = set_bucket s (word_in l s - n) l in
        if word_in l1 d > UINT64_MAX - n then (False, set_bucket s (word_in l1 s + n) l1)
        else let l2 = set_bucket d (word_in l1 d + n) l1 in (invariant l2, l2))"

lemma checked_sum_eq:
  "checked_sum s vs =
     (if unat s + sum_list (map unat vs) < 2 ^ 64 then Some (s + sum_list vs) else None)"
proof (induction vs arbitrary: s)
  case Nil
  show ?case using unat_u64_less [of s] by simp
next
  case (Cons v vs)
  show ?case
  proof (cases "unat v + unat s < 2 ^ 64")
    case True
    then have "unat (s + v) = unat s + unat v" by (intro unat_add_u64) simp
    with True show ?thesis by (simp add: Cons overflow_test not_le add.assoc)
  next
    case False
    then show ?thesis by (simp add: overflow_test)
  qed
qed

lemma unat_sum_list_u64:
  "sum_list (map unat vs) < 2 ^ 64 \<Longrightarrow> unat (sum_list vs :: u64) = sum_list (map unat vs)"
  by (induction vs) (auto simp: unat_add_u64)

lemma invariant_iff:
  "invariant l \<longleftrightarrow>
     bucket_sum (bytes_in l) = unat (governedOnline l) \<and> unat (governedOnline l) \<le> unat (total l)"
proof -
  let ?vs = "[free l, reserved l, committed l, draining l, unavailable l]"
  have b: "bucket_sum (bytes_in l) = sum_list (map unat ?vs)"
    by (simp add: bucket_sum_def)
  show ?thesis
  proof (cases "sum_list (map unat ?vs) < 2 ^ 64")
    case True
    then have "(sum_list ?vs = governedOnline l) = (sum_list (map unat ?vs) = unat (governedOnline l))"
      by (metis unat_sum_list_u64 word_unat_eq_iff)
    with True show ?thesis
      by (simp only: invariant_def checked_sum_eq b) (auto simp: word_less_nat_alt)
  next
    case False
    then have "bucket_sum (bytes_in l) \<noteq> unat (governedOnline l)"
      using unat_u64_less [of "governedOnline l"] b by linarith
    with False show ?thesis by (simp only: invariant_def checked_sum_eq) auto
  qed
qed

lemma bytes_in_eq: "bytes_in l b = unat (word_in l b)"
  by (cases b) simp_all

lemma word_in_set: "word_in (set_bucket s w l) b = (if b = s then w else word_in l b)"
  by (cases s; cases b) simp_all

lemma set_bucket_frame [simp]:
  "total (set_bucket s w l) = total l" "governedOnline (set_bucket s w l) = governedOnline l"
  by (cases s; simp)+

lemma bytes_in_bound: "invariant l \<Longrightarrow> s \<noteq> d \<Longrightarrow> bytes_in l s + bytes_in l d < 2 ^ 64"
  unfolding invariant_iff bucket_sum_def using unat_u64_less [of "governedOnline l"]
  by (cases s; cases d) simp_all

lemma invariant_move:
  assumes "invariant l" "bytes_in l' = move s d n (bytes_in l)" "s \<noteq> d" "n \<le> bytes_in l s"
    and "total l' = total l" "governedOnline l' = governedOnline l"
  shows "invariant l'"
  using assms unfolding invariant_iff bucket_sum_def by (cases s; cases d) (simp_all add: move_def)

lemma transfer_moves:
  assumes i: "invariant l" and n: "unat n \<le> bytes_in l s" and sd: "s \<noteq> d"
  shows "\<exists>l'. transfer s d n l = (True, l') \<and> bytes_in l' = move s d (unat n) (bytes_in l) \<and>
    total l' = total l \<and> governedOnline l' = governedOnline l"
proof -
  let ?l1 = "set_bucket s (word_in l s - n) l"
  let ?l2 = "set_bucket d (word_in ?l1 d + n) ?l1"
  have bound: "unat (word_in l d) + unat n < 2 ^ 64"
    using bytes_in_bound [OF i sd] n by (simp add: bytes_in_eq)
  have b: "bytes_in ?l2 = move s d (unat n) (bytes_in l)"
    using n sd bound
    by (auto simp: bytes_in_eq word_in_set move_def unat_sub_u64 unat_add_u64 word_le_nat_alt)
  have "invariant ?l2"
    by (rule invariant_move [OF i b sd n]) simp_all
  moreover have "\<not> word_in ?l1 d > UINT64_MAX - n"
    using bound sd by (simp add: word_in_set overflow_test)
  ultimately show ?thesis
    using n b by (simp add: transfer_def Let_def word_less_nat_alt bytes_in_eq)
qed

lemma transfer_refuses: "bytes_in l s < unat n \<Longrightarrow> transfer s d n l = (False, l)"
  by (simp add: transfer_def word_less_nat_alt bytes_in_eq)

lemma ledger_methods_transfer:
  "reserve = transfer Free Reserved"
  "commit = transfer Reserved Committed"
  "release = transfer Reserved Free"
  "complete = transfer Committed Free"
  "ledger_beginDrain = transfer Free Draining"
  "endDrain = transfer Draining Unavailable"
  "ledger_cancelDrain = transfer Draining Free"
  "ledger_markUnavailable = transfer Free Unavailable"
  "restore = transfer Unavailable Free"
  "fenceReserved = transfer Reserved Unavailable"
  "fenceCommitted = transfer Committed Unavailable"
  by (intro ext; simp add: Let_def transfer_def reserve_def commit_def release_def complete_def
      ledger_beginDrain_def endDrain_def ledger_cancelDrain_def ledger_markUnavailable_def
      restore_def fenceReserved_def fenceCommitted_def)+

locale ledger_move =
  fixes step :: "u64 \<Rightarrow> CapacityLedger \<Rightarrow> bool \<times> CapacityLedger"
    and src :: bucket
    and dst :: bucket
  assumes distinct_buckets: "src \<noteq> dst"
    and step_moves: "invariant l \<Longrightarrow> unat n \<le> bytes_in l src \<Longrightarrow>
      \<exists>l'. step n l = (True, l') \<and> bytes_in l' = move src dst (unat n) (bytes_in l) \<and>
           total l' = total l \<and> governedOnline l' = governedOnline l"
    and step_refuses: "bytes_in l src < unat n \<Longrightarrow> step n l = (False, l)"
begin

lemma step_cases:
  assumes "invariant l"
  obtains (moved) l' where "step n l = (True, l')" "unat n \<le> bytes_in l src"
      "bytes_in l' = move src dst (unat n) (bytes_in l)" "total l' = total l"
      "governedOnline l' = governedOnline l"
    | (refused) "step n l = (False, l)" "bytes_in l src < unat n"
  using step_moves [OF assms] step_refuses not_le by metis

lemma accepts_iff: "invariant l \<Longrightarrow> fst (step n l) \<longleftrightarrow> unat n \<le> bytes_in l src"
  by (erule step_cases [of l n]) auto

lemma keeps_invariant:
  assumes "invariant l"
  shows "invariant (snd (step n l))"
  using assms
proof (cases rule: step_cases [of l n])
  case (moved l')
  then show ?thesis using invariant_move [OF assms moved(3) distinct_buckets moved(2)] by simp
qed (simp add: assms)

lemma failure_unchanged: "invariant l \<Longrightarrow> \<not> fst (step n l) \<Longrightarrow> snd (step n l) = l"
  by (erule step_cases [of l n]) auto

lemma frame [simp]:
  assumes "invariant l"
  shows "total (snd (step n l)) = total l" "governedOnline (snd (step n l)) = governedOnline l"
  using assms by (cases rule: step_cases [of l n]; simp)+

lemma bytes_after:
  "invariant l \<Longrightarrow> unat n \<le> bytes_in l src \<Longrightarrow>
   bytes_in (snd (step n l)) = move src dst (unat n) (bytes_in l)"
  using step_moves by fastforce

end

lemmas transfer_laws = ledger_methods_transfer transfer_moves transfer_refuses

interpretation reserve: ledger_move reserve Free Reserved
  by unfold_locales (simp_all add: transfer_laws)

interpretation commit: ledger_move commit Reserved Committed
  by unfold_locales (simp_all add: transfer_laws)

interpretation release: ledger_move release Reserved Free
  by unfold_locales (simp_all add: transfer_laws)

interpretation complete: ledger_move complete Committed Free
  by unfold_locales (simp_all add: transfer_laws)

interpretation begin_drain: ledger_move ledger_beginDrain Free Draining
  by unfold_locales (simp_all add: transfer_laws)

interpretation end_drain: ledger_move endDrain Draining Unavailable
  by unfold_locales (simp_all add: transfer_laws)

interpretation cancel_drain: ledger_move ledger_cancelDrain Draining Free
  by unfold_locales (simp_all add: transfer_laws)

interpretation mark_unavailable: ledger_move ledger_markUnavailable Free Unavailable
  by unfold_locales (simp_all add: transfer_laws)

interpretation restore: ledger_move restore Unavailable Free
  by unfold_locales (simp_all add: transfer_laws)

interpretation fence_reserved: ledger_move fenceReserved Reserved Unavailable
  by unfold_locales (simp_all add: transfer_laws)

interpretation fence_committed: ledger_move fenceCommitted Committed Unavailable
  by unfold_locales (simp_all add: transfer_laws)


text \<open>The methods as a table, for statements about all of them.\<close>

definition ledger_methods :: "((u64 \<Rightarrow> CapacityLedger \<Rightarrow> bool \<times> CapacityLedger) \<times> bucket \<times> bucket) list" where
  "ledger_methods =
     [(reserve, Free, Reserved),
      (commit, Reserved, Committed),
      (release, Reserved, Free),
      (complete, Committed, Free),
      (ledger_beginDrain, Free, Draining),
      (endDrain, Draining, Unavailable),
      (ledger_cancelDrain, Draining, Free),
      (ledger_markUnavailable, Free, Unavailable),
      (restore, Unavailable, Free),
      (fenceReserved, Reserved, Unavailable),
      (fenceCommitted, Committed, Unavailable)]"

lemma ledger_methods_are_moves: "(f, s, d) \<in> set ledger_methods \<Longrightarrow> ledger_move f s d"
  unfolding ledger_methods_def
  by (auto intro: reserve.ledger_move_axioms commit.ledger_move_axioms release.ledger_move_axioms complete.ledger_move_axioms begin_drain.ledger_move_axioms end_drain.ledger_move_axioms cancel_drain.ledger_move_axioms mark_unavailable.ledger_move_axioms restore.ledger_move_axioms fence_reserved.ledger_move_axioms fence_committed.ledger_move_axioms)

lemma setOnline_eq:
  assumes "invariant l"
  shows "setOnline b l =
    (let need = bytes_in l Reserved + bytes_in l Committed + bytes_in l Draining + bytes_in l Unavailable in
     if b \<le> total l \<and> need \<le> unat b
     then (True, l\<lparr>governedOnline := b, free := b - of_nat need\<rparr>) else (False, l))"
proof -
  let ?vs = "[reserved l, committed l, draining l, unavailable l]"
  let ?need = "sum_list (map unat ?vs)"
  have "?need \<le> unat (governedOnline l)"
    using assms by (simp add: invariant_iff bucket_sum_def)
  then have lt: "?need < 2 ^ 64" using unat_u64_less [of "governedOnline l"] by linarith
  then have s: "unat (sum_list ?vs) = ?need" by (rule unat_sum_list_u64)
  then have w: "sum_list ?vs = of_nat ?need" by (metis of_nat_unat ucast_id)
  have inv: "invariant (l\<lparr>governedOnline := b, free := b - sum_list ?vs\<rparr>)"
    if "b \<le> total l" "?need \<le> unat b"
    using that s unat_sub_u64 [of "sum_list ?vs" b]
    by (simp add: invariant_iff bucket_sum_def word_le_nat_alt)
  have c: "checked_sum 0 ?vs = Some (sum_list ?vs)" using lt by (simp only: checked_sum_eq) simp
  have n: "bytes_in l Reserved + bytes_in l Committed + bytes_in l Draining + bytes_in l Unavailable = ?need"
    by simp
  show ?thesis
    unfolding setOnline_def c n Let_def option.case
    using inv s by (auto simp: w word_less_nat_alt word_le_nat_alt)
qed

lemma setOnline_invariant: "invariant l \<Longrightarrow> invariant (snd (setOnline b l))"
proof -
  assume i: "invariant l"
  have "invariant (snd (setOnline b l)) \<or> snd (setOnline b l) = l"
  proof (cases "fst (setOnline b l)")
    case True
    then show ?thesis by (auto simp: setOnline_def Let_def split: if_splits option.splits)
  next
    case False
    with i show ?thesis by (auto simp: setOnline_eq Let_def split: if_splits)
  qed
  with i show ?thesis by auto
qed

lemma setOnline_frame [simp]:
  "total (snd (setOnline b l)) = total l" "reserved (snd (setOnline b l)) = reserved l"
  "committed (snd (setOnline b l)) = committed l"
  by (simp_all add: setOnline_def Let_def split: option.splits)

lemma new_ledger_invariant [simp]: "invariant (new_ledger t)"
  by (simp add: invariant_iff bucket_sum_def new_ledger_def)

end
