(* ===== verification/FabricState.thy ===== *)
theory FabricState
  imports Types Ledger
begin

text \<open>
  The state of the fabric (\<open>src/fabric_impl.hpp\<close>, \<open>Fabric::Impl\<close>) and the guards and helpers every
  operation shares (\<open>src/fabric.cpp\<close>): the lifecycle tables, the authority check, the fencing of one
  reservation and the loops that fence many.

  The mutex \<open>stateMtx\<close> is not a field: every public method holds it for its whole body, so an
  execution of concurrent callers is a sequence of these operations. A struct with a single member
  (\<open>ReservationRecord\<close>, \<open>PolicyRecord\<close>, \<open>ConsumerRecord\<close>) is that member. The readings of
  \<open>std::chrono::steady_clock\<close> are arguments named \<open>now\<close>.
\<close>

section \<open>State\<close>

record ProviderRecord =
  pr_descriptor :: ProviderDescriptor
  pr_lifecycle :: Lifecycle
  pr_registeredAtMs :: u64

record DomainRecord =
  dr_descriptor :: ExpansionDomainDescriptor
  dr_lifecycle :: Lifecycle

record RegionRecord =
  rr_descriptor :: RegionDescriptor
  rr_lifecycle :: RegionLifecycle
  rr_ledger :: CapacityLedger
  rr_latest :: RegionEvidence
  rr_hasEvidence :: bool
  rr_evidenceStatus :: EvidenceStatus
  rr_health :: HealthState
  rr_reachable :: bool
  rr_latencyNs :: u64
  rr_bandwidthBytesPerSec :: u64
  rr_attachments :: "AttachmentEvidence list"
  rr_poolMemberships :: "(PoolId \<times> PoolGeneration) list"
  rr_evidenceAtMs :: u64

record PoolRecord =
  plr_descriptor :: PoolDescriptor
  plr_registeredAtMs :: u64

type_synonym PolicyRecord = PolicyDescriptor
type_synonym ConsumerRecord = ConsumerGeneration
type_synonym ReservationRecord = Reservation

record WorkerRecord =
  wr_boot :: WorkerBootId
  wr_registeredEpoch :: CoordinatorEpoch
  wr_pid :: u64
  wr_alive :: bool
  wr_holdsHandle :: bool
  wr_lastSeenMs :: u64

type_synonym regions = "(RegionId, RegionRecord) umap"
type_synonym reservations = "(ReservationId, Reservation) umap"

record Impl =
  im_epoch :: CoordinatorEpoch
  im_providers :: "(ProviderId, ProviderRecord) umap"
  im_domains :: "(ExpansionDomainId, DomainRecord) umap"
  im_regions :: regions
  im_pools :: "(PoolId, PoolRecord) umap"
  im_policies :: "(PolicyId, PolicyRecord) umap"
  im_consumers :: "(ConsumerId, ConsumerRecord) umap"
  im_reservations :: reservations
  im_workers :: "(WorkerId, WorkerRecord) umap"
  im_selectionIdAlloc :: u64
  im_selectionGenAlloc :: u64
  im_reservationIdAlloc :: u64
  im_reservationGenAlloc :: u64

text \<open>
  \<open>evidenceIdAlloc\<close>, \<open>evidenceGenAlloc\<close> and the member \<open>nowMs\<close> of \<open>Impl\<close> are never read or written
  by the code and have no field. \<open>new_region\<close> is a default-constructed \<open>RegionRecord\<close> with the
  three members \<open>registerRegion\<close> and \<open>deserializePayload\<close> set.
\<close>

definition new_region :: "RegionDescriptor \<Rightarrow> RegionLifecycle \<Rightarrow> CapacityLedger \<Rightarrow> RegionRecord" where
  "new_region d lc led =
     \<lparr>rr_descriptor = d, rr_lifecycle = lc, rr_ledger = led, rr_latest = default_RegionEvidence,
      rr_hasEvidence = False, rr_evidenceStatus = EvidenceStatus.UNKNOWN,
      rr_health = HealthState.UNKNOWN, rr_reachable = False, rr_latencyNs = 0,
      rr_bandwidthBytesPerSec = 0, rr_attachments = [], rr_poolMemberships = [],
      rr_evidenceAtMs = 0\<rparr>"

definition new_fabric :: "CoordinatorEpoch \<Rightarrow> Impl" where
  "new_fabric e =
     \<lparr>im_epoch = e, im_providers = [], im_domains = [], im_regions = [], im_pools = [],
      im_policies = [], im_consumers = [], im_reservations = [], im_workers = [],
      im_selectionIdAlloc = FirstValidValue, im_selectionGenAlloc = FirstValidValue,
      im_reservationIdAlloc = FirstValidValue, im_reservationGenAlloc = FirstValidValue\<rparr>"

section \<open>Lifecycle guard tables\<close>

definition providerLifecycleAllowed :: "Lifecycle \<Rightarrow> Lifecycle \<Rightarrow> bool" where
  "providerLifecycleAllowed frm to =
     (if frm = to then False
      else case frm of
        Lifecycle.DISCOVERED \<Rightarrow> to \<in> {Lifecycle.REGISTERED, Lifecycle.RETIRED}
      | Lifecycle.REGISTERED \<Rightarrow>
          to \<in> {Lifecycle.PROBING, Lifecycle.ONLINE, Lifecycle.OFFLINE, Lifecycle.RETIRED,
                Lifecycle.REVALIDATION_REQUIRED}
      | Lifecycle.PROBING \<Rightarrow>
          to \<in> {Lifecycle.ONLINE, Lifecycle.DEGRADED, Lifecycle.OFFLINE, Lifecycle.FAILED,
                Lifecycle.REVALIDATION_REQUIRED, Lifecycle.RETIRED}
      | Lifecycle.ONLINE \<Rightarrow>
          to \<in> {Lifecycle.DEGRADED, Lifecycle.DRAINING, Lifecycle.OFFLINE,
                Lifecycle.REVALIDATION_REQUIRED, Lifecycle.RETIRED, Lifecycle.FAILED}
      | Lifecycle.DEGRADED \<Rightarrow>
          to \<in> {Lifecycle.ONLINE, Lifecycle.DRAINING, Lifecycle.OFFLINE,
                Lifecycle.REVALIDATION_REQUIRED, Lifecycle.RETIRED, Lifecycle.FAILED}
      | Lifecycle.DRAINING \<Rightarrow> to \<in> {Lifecycle.OFFLINE, Lifecycle.FAILED, Lifecycle.RETIRED}
      | Lifecycle.OFFLINE \<Rightarrow>
          to \<in> {Lifecycle.REVALIDATION_REQUIRED, Lifecycle.RETIRED, Lifecycle.ONLINE,
                Lifecycle.REGISTERED}
      | Lifecycle.REVALIDATION_REQUIRED \<Rightarrow>
          to \<in> {Lifecycle.ONLINE, Lifecycle.OFFLINE, Lifecycle.RETIRED, Lifecycle.PROBING}
      | Lifecycle.FAILED \<Rightarrow>
          to \<in> {Lifecycle.OFFLINE, Lifecycle.RETIRED, Lifecycle.REVALIDATION_REQUIRED,
                Lifecycle.PROBING}
      | Lifecycle.RETIRED \<Rightarrow> False)"

definition regionLifecycleAllowed :: "RegionLifecycle \<Rightarrow> RegionLifecycle \<Rightarrow> bool" where
  "regionLifecycleAllowed frm to =
     (if frm = to then False
      else case frm of
        RegionLifecycle.DECLARED \<Rightarrow>
          to \<in> {RegionLifecycle.ONLINE, RegionLifecycle.DEGRADED, RegionLifecycle.UNAVAILABLE,
                RegionLifecycle.REVALIDATION_REQUIRED, RegionLifecycle.RETIRED}
      | RegionLifecycle.ONLINE \<Rightarrow>
          to \<in> {RegionLifecycle.DEGRADED, RegionLifecycle.DRAINING, RegionLifecycle.UNAVAILABLE,
                RegionLifecycle.REVALIDATION_REQUIRED, RegionLifecycle.RETIRED}
      | RegionLifecycle.DEGRADED \<Rightarrow>
          to \<in> {RegionLifecycle.ONLINE, RegionLifecycle.DRAINING, RegionLifecycle.UNAVAILABLE,
                RegionLifecycle.REVALIDATION_REQUIRED, RegionLifecycle.RETIRED}
      | RegionLifecycle.DRAINING \<Rightarrow>
          to \<in> {RegionLifecycle.UNAVAILABLE, RegionLifecycle.REVALIDATION_REQUIRED,
                RegionLifecycle.RETIRED}
      | RegionLifecycle.UNAVAILABLE \<Rightarrow>
          to \<in> {RegionLifecycle.ONLINE, RegionLifecycle.REVALIDATION_REQUIRED,
                RegionLifecycle.RETIRED}
      | RegionLifecycle.REVALIDATION_REQUIRED \<Rightarrow>
          to \<in> {RegionLifecycle.ONLINE, RegionLifecycle.UNAVAILABLE, RegionLifecycle.DECLARED,
                RegionLifecycle.RETIRED}
      | RegionLifecycle.RETIRED \<Rightarrow> False)"

definition reservationStateAllowed :: "ReservationState \<Rightarrow> ReservationState \<Rightarrow> bool" where
  "reservationStateAllowed frm to =
     (if frm = to then False
      else case frm of
        ReservationState.REQUESTED \<Rightarrow>
          to \<in> {ReservationState.EVALUATED, ReservationState.REJECTED, ReservationState.CANCELLED,
                ReservationState.EXPIRED, ReservationState.REVALIDATION_REQUIRED,
                ReservationState.RESERVED}
      | ReservationState.EVALUATED \<Rightarrow>
          to \<in> {ReservationState.RESERVED, ReservationState.REJECTED, ReservationState.CANCELLED,
                ReservationState.REVALIDATION_REQUIRED, ReservationState.EXPIRED}
      | ReservationState.RESERVED \<Rightarrow>
          to \<in> {ReservationState.COMMITTED, ReservationState.RELEASED, ReservationState.FENCED,
                ReservationState.REVALIDATION_REQUIRED, ReservationState.EXPIRED,
                ReservationState.CANCELLED}
      | ReservationState.COMMITTED \<Rightarrow>
          to \<in> {ReservationState.ACTIVE, ReservationState.RELEASED, ReservationState.FENCED,
                ReservationState.REVALIDATION_REQUIRED}
      | ReservationState.ACTIVE \<Rightarrow>
          to \<in> {ReservationState.RELEASED, ReservationState.FENCED,
                ReservationState.REVALIDATION_REQUIRED}
      | ReservationState.REVALIDATION_REQUIRED \<Rightarrow>
          to \<in> {ReservationState.RESERVED, ReservationState.COMMITTED, ReservationState.RELEASED,
                ReservationState.FENCED, ReservationState.CANCELLED}
      | _ \<Rightarrow> False)"

section \<open>Authority\<close>

definition authorityAcceptableLocked :: "Impl \<Rightarrow> Authority \<Rightarrow> bool" where
  "authorityAcceptableLocked st a =
     (if au_epoch a \<noteq> im_epoch st then False
      else if null (au_worker a) then True
      else case umap_find (im_workers st) (au_worker a) of
        None \<Rightarrow> False
      | Some w \<Rightarrow>
          if wr_boot w \<noteq> au_boot a then False
          else if wr_alive w = False \<or> wr_registeredEpoch w \<noteq> im_epoch st then False
          else True)"

section \<open>Fencing\<close>

text \<open>
  A mutation of the ledger of the region found under an identifier: the boolean is what the ledger
  method returned. \<open>fence\<close> is \<open>Impl::fence\<close>: it returns the region table, the reservation and its
  boolean result.
\<close>

definition with_ledger :: "RegionId \<Rightarrow> (CapacityLedger \<Rightarrow> CapacityLedger) \<Rightarrow> regions \<Rightarrow> regions" where
  "with_ledger i f rs = umap_modify i (\<lambda>rr. rr\<lparr>rr_ledger := f (rr_ledger rr)\<rparr>) rs"

definition fence :: "string \<Rightarrow> regions \<Rightarrow> Reservation \<Rightarrow> regions \<times> Reservation \<times> bool" where
  "fence reason regs r =
     (case umap_find regs (rs_region r) of
        Some rr \<Rightarrow>
          if rs_state r = ReservationState.RESERVED then
            (let (okay, led) = fenceReserved (rs_bytes r) (rr_ledger rr);
                 regs' = with_ledger (rs_region r) (\<lambda>_. led) regs
             in if \<not> okay then (regs', r, False)
                else (regs', r\<lparr>rs_state := ReservationState.FENCED, rs_note := reason\<rparr>, True))
          else if rs_state r = ReservationState.COMMITTED \<or> rs_state r = ReservationState.ACTIVE then
            (let (okay, led) = fenceCommitted (rs_bytes r) (rr_ledger rr);
                 regs' = with_ledger (rs_region r) (\<lambda>_. led) regs
             in if \<not> okay then (regs', r, False)
                else (regs', r\<lparr>rs_state := ReservationState.REVALIDATION_REQUIRED, rs_note := reason\<rparr>, True))
          else if rs_state r = ReservationState.REQUESTED \<or> rs_state r = ReservationState.EVALUATED then
            (regs, r\<lparr>rs_state := ReservationState.CANCELLED, rs_note := reason\<rparr>, True)
          else (regs, r, True)
      | None \<Rightarrow>
          if rs_state r = ReservationState.RESERVED \<or> rs_state r = ReservationState.COMMITTED \<or>
             rs_state r = ReservationState.ACTIVE
          then (regs, r\<lparr>rs_state := ReservationState.FENCED\<rparr>, True)
          else if rs_state r = ReservationState.REQUESTED \<or> rs_state r = ReservationState.EVALUATED
          then (regs, r\<lparr>rs_state := ReservationState.CANCELLED\<rparr>, True)
          else (regs, r, True))"

text \<open>
  The loop \<open>for (auto& [rid, rrec] : reservations) if (P) Impl::fence(...)\<close>, which several
  operations contain and whose boolean results they ignore.
\<close>

definition fence_if :: "(Reservation \<Rightarrow> bool) \<Rightarrow> string \<Rightarrow> regions \<Rightarrow> Reservation \<Rightarrow> regions \<times> Reservation" where
  "fence_if P reason regs r =
     (if P r then (let (regs', r', b) = fence reason regs r in (regs', r')) else (regs, r))"

definition fence_where :: "(Reservation \<Rightarrow> bool) \<Rightarrow> string \<Rightarrow> Impl \<Rightarrow> Impl" where
  "fence_where P reason st =
     (let (regs, resvs) = umap_sweep (fence_if P reason) (im_regions st) (im_reservations st)
      in st\<lparr>im_regions := regs, im_reservations := resvs\<rparr>)"

end
