(* ===== verification/Registry.thy ===== *)
theory Registry
  imports FabricState
begin

text \<open>
  Epochs and registration of durable structure (\<open>src/fabric.cpp\<close>, \<open>setEpoch\<close> to
  \<open>replacePoolGeneration\<close>). An operation takes the state and returns its result with the state it
  leaves; every early return of the source is a branch, in the source's order.
\<close>

section \<open>Epoch\<close>

text \<open>The loop of \<open>setEpoch\<close> over the reservations: the boolean of the ledger method is ignored.\<close>

definition epoch_fence :: "regions \<Rightarrow> Reservation \<Rightarrow> regions \<times> Reservation" where
  "epoch_fence regs r =
     (if rs_state r = ReservationState.RESERVED then
        (with_ledger (rs_region r) (\<lambda>l. snd (fenceReserved (rs_bytes r) l)) regs,
         r\<lparr>rs_state := ReservationState.REVALIDATION_REQUIRED\<rparr>)
      else if rs_state r = ReservationState.COMMITTED \<or> rs_state r = ReservationState.ACTIVE then
        (with_ledger (rs_region r) (\<lambda>l. snd (fenceCommitted (rs_bytes r) l)) regs,
         r\<lparr>rs_state := ReservationState.REVALIDATION_REQUIRED\<rparr>)
      else if rs_state r = ReservationState.REQUESTED \<or> rs_state r = ReservationState.EVALUATED then
        (regs, r\<lparr>rs_state := ReservationState.CANCELLED\<rparr>)
      else (regs, r))"

definition epoch_region :: "RegionRecord \<Rightarrow> RegionRecord" where
  "epoch_region rr =
     (let rr1 = (if rr_hasEvidence rr
                 then rr\<lparr>rr_evidenceStatus := EvidenceStatus.REVALIDATION_REQUIRED\<rparr> else rr)
      in if rr_lifecycle rr1 \<noteq> RegionLifecycle.RETIRED \<and> rr_lifecycle rr1 \<noteq> RegionLifecycle.DRAINING \<and>
            rr_lifecycle rr1 \<noteq> RegionLifecycle.UNAVAILABLE
         then rr1\<lparr>rr_lifecycle := RegionLifecycle.REVALIDATION_REQUIRED\<rparr> else rr1)"

definition setEpoch :: "CoordinatorEpoch \<Rightarrow> Impl \<Rightarrow> Impl" where
  "setEpoch e st =
     (if id_value e \<le> id_value (im_epoch st) then st
      else let st1 = st\<lparr>im_epoch := e,
                        im_workers := umap_map (\<lambda>w. w\<lparr>wr_alive := False\<rparr>) (im_workers st),
                        im_regions := umap_map epoch_region (im_regions st)\<rparr>;
               (regs, resvs) = umap_sweep epoch_fence (im_regions st1) (im_reservations st1)
           in st1\<lparr>im_regions := regs, im_reservations := resvs\<rparr>)"

section \<open>Consumers\<close>

definition registerConsumer ::
    "ConsumerId \<Rightarrow> ConsumerGeneration \<Rightarrow> Authority \<Rightarrow> Impl \<Rightarrow> unit Result \<times> Impl" where
  "registerConsumer c g a st =
     (if \<not> authorityAcceptableLocked st a then (fail STALE_AUTHORITY ''stale authority'', st)
      else if null c \<or> null g then (fail INVALID_ID ''null consumer/generation'', st)
      else if (case umap_find (im_consumers st) c of
                 Some cur \<Rightarrow> id_value g \<le> id_value cur
               | None \<Rightarrow> False)
      then (fail ErrorCode.WRONG_GENERATION ''consumer generation not newer'', st)
      else (ok (), st\<lparr>im_consumers := umap_put c g (im_consumers st)\<rparr>))"

section \<open>Providers, domains and regions\<close>

text \<open>What a provider's reincarnation does to each region: the body of its second loop.\<close>

definition revalidate_provider_region :: "ProviderId \<Rightarrow> RegionRecord \<Rightarrow> RegionRecord" where
  "revalidate_provider_region p rr =
     (if rd_provider (rr_descriptor rr) = p then
        (let rr1 = (if rr_lifecycle rr \<noteq> RegionLifecycle.RETIRED
                    then rr\<lparr>rr_lifecycle := RegionLifecycle.REVALIDATION_REQUIRED\<rparr> else rr)
         in rr1\<lparr>rr_hasEvidence := False, rr_evidenceStatus := EvidenceStatus.UNKNOWN\<rparr>)
      else rr)"

definition reincarnate_provider :: "ProviderId \<Rightarrow> Impl \<Rightarrow> Impl" where
  "reincarnate_provider p st =
     (let st1 = fence_where (\<lambda>r. rs_provider r = p) ''provider reincarnation'' st
      in st1\<lparr>im_regions := umap_map (revalidate_provider_region p) (im_regions st1)\<rparr>)"

definition registerProvider ::
    "u64 \<Rightarrow> ProviderDescriptor \<Rightarrow> Authority \<Rightarrow> Impl \<Rightarrow> ProviderId Result \<times> Impl" where
  "registerProvider now d a st =
     (if \<not> authorityAcceptableLocked st a then (fail STALE_AUTHORITY ''stale authority'', st)
      else if null (pd_id d) \<or> null (pd_generation d)
      then (fail INVALID_ID ''null provider id/generation'', st)
      else if pd_totalCapacityBytes d = 0 then (fail INVALID_ARGUMENT ''zero total capacity'', st)
      else if pd_alignmentBytes d = 0 \<or> pd_granularityBytes d = 0
      then (fail INVALID_ARGUMENT ''zero alignment/granularity'', st)
      else case capabilityContradiction (pd_capabilities d) of
        Some why \<Rightarrow> (fail INVALID_ARGUMENT why, st)
      | None \<Rightarrow>
          let rec = \<lparr>pr_descriptor = d, pr_lifecycle = Lifecycle.REGISTERED, pr_registeredAtMs = now\<rparr>;
              store = (\<lambda>s. (ok (pd_id d), s\<lparr>im_providers := umap_put (pd_id d) rec (im_providers s)\<rparr>))
          in case umap_find (im_providers st) (pd_id d) of
               None \<Rightarrow> store st
             | Some cur \<Rightarrow>
                 if pd_generation (pr_descriptor cur) = pd_generation d
                 then (fail ALREADY_EXISTS ''provider already registered'', st)
                 else if id_value (pd_generation d) < id_value (pd_generation (pr_descriptor cur))
                 then (fail ErrorCode.WRONG_GENERATION ''stale provider generation'', st)
                 else store (reincarnate_provider (pd_id d) st))"

definition registerDomain ::
    "ExpansionDomainDescriptor \<Rightarrow> Authority \<Rightarrow> Impl \<Rightarrow> ExpansionDomainId Result \<times> Impl" where
  "registerDomain d a st =
     (let store = (ok (dd_id d), st\<lparr>im_domains :=
            umap_put (dd_id d) \<lparr>dr_descriptor = d, dr_lifecycle = Lifecycle.REGISTERED\<rparr> (im_domains st)\<rparr>)
      in if \<not> authorityAcceptableLocked st a then (fail STALE_AUTHORITY ''stale authority'', st)
         else if null (dd_id d) \<or> null (dd_generation d)
         then (fail INVALID_ID ''null domain id/generation'', st)
         else case umap_find (im_domains st) (dd_id d) of
           None \<Rightarrow> store
         | Some cur \<Rightarrow>
             if dd_generation (dr_descriptor cur) = dd_generation d
             then (fail ALREADY_EXISTS ''domain already registered'', st)
             else if id_value (dd_generation d) < id_value (dd_generation (dr_descriptor cur))
             then (fail ErrorCode.WRONG_GENERATION ''stale domain generation'', st)
             else store)"

definition registerRegion :: "RegionDescriptor \<Rightarrow> Authority \<Rightarrow> Impl \<Rightarrow> RegionId Result \<times> Impl" where
  "registerRegion d a st =
     (if \<not> authorityAcceptableLocked st a then (fail STALE_AUTHORITY ''stale authority'', st)
      else if null (rd_id d) \<or> null (rd_generation d)
      then (fail INVALID_ID ''null region id/generation'', st)
      else if null (rd_provider d)
      then (fail INVALID_ARGUMENT ''region needs canonical backing provider'', st)
      else if rd_totalCapacityBytes d = 0 then (fail INVALID_ARGUMENT ''zero total capacity'', st)
      else if rd_alignmentBytes d = 0 \<or> rd_granularityBytes d = 0
      then (fail INVALID_ARGUMENT ''zero alignment/granularity'', st)
      else if umap_find (im_providers st) (rd_provider d) = None
      then (fail NOT_FOUND ''backing provider not registered'', st)
      else case capabilityContradiction (rd_staticCapabilities d) of
        Some why \<Rightarrow> (fail INVALID_ARGUMENT why, st)
      | None \<Rightarrow>
          let rec = new_region d RegionLifecycle.DECLARED (new_ledger (rd_totalCapacityBytes d));
              store = (\<lambda>s. (ok (rd_id d), s\<lparr>im_regions := umap_put (rd_id d) rec (im_regions s)\<rparr>))
          in case umap_find (im_regions st) (rd_id d) of
               None \<Rightarrow> store st
             | Some cur \<Rightarrow>
                 if rd_generation (rr_descriptor cur) = rd_generation d
                 then (fail ALREADY_EXISTS ''region already registered'', st)
                 else if id_value (rd_generation d) < id_value (rd_generation (rr_descriptor cur))
                 then (fail ErrorCode.WRONG_GENERATION ''stale region generation'', st)
                 else store (fence_where (\<lambda>r. rs_region r = rd_id d) ''region reincarnation'' st))"

section \<open>Pools and policies\<close>

definition registerPool ::
    "u64 \<Rightarrow> PoolDescriptor \<Rightarrow> Authority \<Rightarrow> Impl \<Rightarrow> PoolId Result \<times> Impl" where
  "registerPool now d a st =
     (if \<not> authorityAcceptableLocked st a then (fail STALE_AUTHORITY ''stale authority'', st)
      else if null (pl_id d) \<or> null (pl_generation d)
      then (fail INVALID_ID ''null pool id/generation'', st)
      else let rec = \<lparr>plr_descriptor = d, plr_registeredAtMs = now\<rparr>;
               store = (\<lambda>s. (ok (pl_id d), s\<lparr>im_pools := umap_put (pl_id d) rec (im_pools s)\<rparr>))
           in case umap_find (im_pools st) (pl_id d) of
                None \<Rightarrow> store st
              | Some cur \<Rightarrow>
                  if pl_generation (plr_descriptor cur) = pl_generation d
                  then (fail ALREADY_EXISTS ''pool already registered'', st)
                  else if id_value (pl_generation d) < id_value (pl_generation (plr_descriptor cur))
                  then (fail ErrorCode.WRONG_GENERATION ''stale pool generation'', st)
                  else store (fence_where (\<lambda>r. rs_pool r = pl_id d) ''pool reincarnation'' st))"

definition registerPolicy ::
    "PolicyDescriptor \<Rightarrow> Authority \<Rightarrow> Impl \<Rightarrow> PolicyId Result \<times> Impl" where
  "registerPolicy d a st =
     (if \<not> authorityAcceptableLocked st a then (fail STALE_AUTHORITY ''stale authority'', st)
      else if null (po_id d) \<or> null (po_generation d)
      then (fail INVALID_ID ''null policy id/generation'', st)
      else let store = (\<lambda>s. (ok (po_id d), s\<lparr>im_policies := umap_put (po_id d) d (im_policies s)\<rparr>))
           in case umap_find (im_policies st) (po_id d) of
                None \<Rightarrow> store st
              | Some cur \<Rightarrow>
                  if po_generation cur = po_generation d
                  then (fail ALREADY_EXISTS ''policy already registered'', st)
                  else if id_value (po_generation d) < id_value (po_generation cur)
                  then (fail ErrorCode.WRONG_GENERATION ''stale policy generation'', st)
                  else store (fence_where (\<lambda>r. rs_policy r = po_id d) ''policy reincarnation'' st))"

text \<open>
  \<open>addPoolMember\<close>: the loop over the members ends at the first member with the same region. A
  member of the same generation is a duplicate; one of another generation makes the code append the
  new member (the old one stays) and return without recording the membership on the region.
\<close>

definition append_member :: "PoolId \<Rightarrow> PoolMember \<Rightarrow> Impl \<Rightarrow> Impl" where
  "append_member p m st =
     st\<lparr>im_pools := umap_modify p
          (\<lambda>pl. pl\<lparr>plr_descriptor := (plr_descriptor pl)\<lparr>pl_members := pl_members (plr_descriptor pl) @ [m]\<rparr>\<rparr>)
          (im_pools st)\<rparr>"

definition addPoolMember ::
    "PoolId \<Rightarrow> PoolMember \<Rightarrow> Authority \<Rightarrow> Impl \<Rightarrow> unit Result \<times> Impl" where
  "addPoolMember pool m a st =
     (if \<not> authorityAcceptableLocked st a then (fail STALE_AUTHORITY ''stale authority'', st)
      else case umap_find (im_pools st) pool of
        None \<Rightarrow> (fail NOT_FOUND ''pool not found'', st)
      | Some pl \<Rightarrow>
          (case umap_find (im_regions st) (pm_region m) of
             None \<Rightarrow> (fail NOT_FOUND ''member region not found'', st)
           | Some rr \<Rightarrow>
               if null (pm_generation m) then (fail INVALID_ID ''null member generation'', st)
               else if rd_generation (rr_descriptor rr) \<noteq> pm_generation m
               then (fail ErrorCode.WRONG_GENERATION ''member generation mismatch'', st)
               else case filter (\<lambda>mem. pm_region mem = pm_region m) (pl_members (plr_descriptor pl)) of
                 mem # _ \<Rightarrow>
                   if pm_generation mem = pm_generation m
                   then (fail ALREADY_EXISTS ''member already present'', st)
                   else (ok (), append_member pool m st)
               | [] \<Rightarrow>
                   let st1 = append_member pool m st
                   in (ok (), st1\<lparr>im_regions := umap_modify (pm_region m)
                        (\<lambda>rr. rr\<lparr>rr_poolMemberships := rr_poolMemberships rr @
                                   [(pool, pl_generation (plr_descriptor pl))]\<rparr>)
                        (im_regions st1)\<rparr>)))"

definition removePoolMember ::
    "PoolId \<Rightarrow> RegionId \<Rightarrow> Authority \<Rightarrow> Impl \<Rightarrow> unit Result \<times> Impl" where
  "removePoolMember pool region a st =
     (if \<not> authorityAcceptableLocked st a then (fail STALE_AUTHORITY ''stale authority'', st)
      else case umap_find (im_pools st) pool of
        None \<Rightarrow> (fail NOT_FOUND ''pool not found'', st)
      | Some pl \<Rightarrow>
          let members = pl_members (plr_descriptor pl);
              kept = filter (\<lambda>m. pm_region m \<noteq> region) members
          in if length kept = length members then (fail NOT_FOUND ''member not in pool'', st)
             else let st1 = st\<lparr>im_pools := umap_modify pool
                       (\<lambda>p. p\<lparr>plr_descriptor := (plr_descriptor p)\<lparr>pl_members := kept\<rparr>\<rparr>) (im_pools st)\<rparr>
                  in (ok (), st1\<lparr>im_regions := umap_modify region
                       (\<lambda>rr. rr\<lparr>rr_poolMemberships := filter (\<lambda>(p, g). p \<noteq> pool) (rr_poolMemberships rr)\<rparr>)
                       (im_regions st1)\<rparr>))"

definition replacePoolGeneration ::
    "u64 \<Rightarrow> PoolDescriptor \<Rightarrow> Authority \<Rightarrow> Impl \<Rightarrow> unit Result \<times> Impl" where
  "replacePoolGeneration now d a st =
     (let (r, st') = registerPool now d a st
      in (case r of Inl e \<Rightarrow> (Inl e, st') | Inr _ \<Rightarrow> (ok (), st')))"

end
