(* ===== verification/Lifecycles.thy ===== *)
theory Lifecycles
  imports FabricState
begin

text \<open>
  Dynamic evidence, drain and withdrawal, retirement and the worker registry (\<open>src/fabric.cpp\<close>,
  \<open>publishRegionEvidence\<close> to \<open>regionFree\<close>).
\<close>

section \<open>Evidence\<close>

text \<open>The assignments \<open>publishRegionEvidence\<close> makes to the region before it looks at the lifecycle.\<close>

definition record_evidence :: "u64 \<Rightarrow> RegionEvidence \<Rightarrow> CapacityLedger \<Rightarrow> RegionRecord \<Rightarrow> RegionRecord" where
  "record_evidence now e led rr =
     rr\<lparr>rr_ledger := led, rr_latest := e, rr_hasEvidence := True,
        rr_evidenceStatus := EvidenceStatus.CURRENT, rr_evidenceAtMs := now, rr_health := ev_health e,
        rr_reachable := ev_reachable e, rr_latencyNs := ev_latencyNs e,
        rr_bandwidthBytesPerSec := ev_bandwidthBytesPerSec e\<rparr>"

definition evidence_target :: "RegionEvidence \<Rightarrow> RegionLifecycle" where
  "evidence_target e =
     (if ev_health e = HealthState.FAILED then RegionLifecycle.REVALIDATION_REQUIRED
      else if ev_health e = HealthState.DEGRADED then RegionLifecycle.DEGRADED
      else RegionLifecycle.ONLINE)"

text \<open>The provider lifecycle after evidence put a region into lifecycle \<open>rl\<close>.\<close>

definition reflect_provider :: "RegionLifecycle \<Rightarrow> ProviderRecord \<Rightarrow> ProviderRecord" where
  "reflect_provider rl p =
     (let pt = pr_lifecycle p;
          ptTarget = (if rl = RegionLifecycle.ONLINE \<and>
                         (pt = Lifecycle.REGISTERED \<or> pt = Lifecycle.PROBING \<or>
                          pt = Lifecycle.OFFLINE \<or> pt = Lifecycle.REVALIDATION_REQUIRED)
                      then Lifecycle.ONLINE else pt)
      in if ptTarget \<noteq> pt \<and> providerLifecycleAllowed pt ptTarget
         then p\<lparr>pr_lifecycle := ptTarget\<rparr> else p)"

definition publishRegionEvidence ::
    "u64 \<Rightarrow> RegionEvidence \<Rightarrow> Authority \<Rightarrow> Impl \<Rightarrow> unit Result \<times> Impl" where
  "publishRegionEvidence now e a st =
     (let h = ev_header e in
      if \<not> authorityAcceptableLocked st a then (fail STALE_AUTHORITY ''stale authority'', st)
      else if eh_epoch h \<noteq> im_epoch st then (fail ErrorCode.WRONG_EPOCH ''evidence epoch mismatch'', st)
      else case umap_find (im_regions st) (eh_region h) of
        None \<Rightarrow> (fail NOT_FOUND ''region not registered'', st)
      | Some rr \<Rightarrow>
          if eh_regionGeneration h \<noteq> rd_generation (rr_descriptor rr)
          then (fail ErrorCode.WRONG_GENERATION ''evidence region generation mismatch'', st)
          else (case umap_find (im_providers st) (eh_sourceProvider h) of
            None \<Rightarrow> (fail NOT_FOUND ''evidence source provider not registered'', st)
          | Some p \<Rightarrow>
              if eh_sourceProviderGeneration h \<noteq> pd_generation (pr_descriptor p)
              then (fail ErrorCode.WRONG_GENERATION ''evidence provider generation mismatch'', st)
              else if \<not> null (au_worker a) \<and> (eh_worker h \<noteq> au_worker a \<or> eh_boot h \<noteq> au_boot a)
              then (fail STALE_AUTHORITY ''evidence worker mismatch'', st)
              else if ev_onlineCapacityBytes e > rd_totalCapacityBytes (rr_descriptor rr)
              then (fail INVALID_ARGUMENT ''online capacity exceeds region total'', st)
              else if rr_lifecycle rr = RegionLifecycle.DRAINING \<or> rr_lifecycle rr = RegionLifecycle.RETIRED
              then (fail INVALID_STATE_TRANSITION ''cannot publish evidence into DRAINING/RETIRED region'', st)
              else let (okay, led) = setOnline (ev_onlineCapacityBytes e) (rr_ledger rr) in
                if \<not> okay
                then (fail INVALID_ARGUMENT ''evidence online capacity contradicts obligations'',
                      st\<lparr>im_regions := with_ledger (eh_region h) (\<lambda>_. led) (im_regions st)\<rparr>)
                else let st1 = st\<lparr>im_regions :=
                           umap_modify (eh_region h) (record_evidence now e led) (im_regions st)\<rparr>;
                         target = evidence_target e
                  in if target \<noteq> rr_lifecycle rr \<and> \<not> regionLifecycleAllowed (rr_lifecycle rr) target
                     then (fail INVALID_STATE_TRANSITION ''evidence lifecycle transition not allowed'', st1)
                     else (ok (),
                       st1\<lparr>im_regions := umap_modify (eh_region h) (\<lambda>r. r\<lparr>rr_lifecycle := target\<rparr>) (im_regions st1),
                           im_providers := umap_modify (rd_provider (rr_descriptor rr))
                                             (reflect_provider target) (im_providers st1)\<rparr>)))"

fun replace_attachment :: "AttachmentEvidence \<Rightarrow> AttachmentEvidence list \<Rightarrow> AttachmentEvidence list" where
  "replace_attachment e [] = [e]"
| "replace_attachment e (x # xs) = (if at_id x = at_id e then e # xs else x # replace_attachment e xs)"

definition publishAttachment :: "AttachmentEvidence \<Rightarrow> Authority \<Rightarrow> Impl \<Rightarrow> unit Result \<times> Impl" where
  "publishAttachment e a st =
     (if \<not> authorityAcceptableLocked st a then (fail STALE_AUTHORITY ''stale authority'', st)
      else if at_epoch e \<noteq> im_epoch st then (fail ErrorCode.WRONG_EPOCH ''attachment epoch mismatch'', st)
      else if null (at_id e) \<or> null (at_generation e)
      then (fail INVALID_ID ''null attachment id/generation'', st)
      else case umap_find (im_regions st) (at_region e) of
        None \<Rightarrow> (fail NOT_FOUND ''region not registered'', st)
      | Some rr \<Rightarrow>
          if at_regionGeneration e \<noteq> rd_generation (rr_descriptor rr)
          then (fail ErrorCode.WRONG_GENERATION ''attachment region generation mismatch'', st)
          else (ok (), st\<lparr>im_regions := umap_modify (at_region e)
                 (\<lambda>r. r\<lparr>rr_attachments := replace_attachment e (rr_attachments r)\<rparr>) (im_regions st)\<rparr>))"

section \<open>Drain, withdrawal and recovery\<close>

text \<open>
  The loop of \<open>beginDrain\<close>: reserved bytes of the region go back to free and the reservation is
  cancelled. The code holds a reference to the region's record while it runs, so the ledger it
  changes is the one of the region being drained.
\<close>

definition drain_release :: "RegionId \<Rightarrow> regions \<Rightarrow> Reservation \<Rightarrow> regions \<times> Reservation" where
  "drain_release region regs r =
     (if rs_region r = region \<and> rs_state r = ReservationState.RESERVED then
        (case umap_find regs region of
           None \<Rightarrow> (regs, r)
         | Some rr \<Rightarrow>
             (let (okay, led) = release (rs_bytes r) (rr_ledger rr)
              in (with_ledger region (\<lambda>_. led) regs,
                  r\<lparr>rs_state := (if okay then ReservationState.CANCELLED else ReservationState.FENCED)\<rparr>)))
      else (regs, r))"

definition beginDrain :: "RegionId \<Rightarrow> Authority \<Rightarrow> Impl \<Rightarrow> unit Result \<times> Impl" where
  "beginDrain region a st =
     (if \<not> authorityAcceptableLocked st a then (fail STALE_AUTHORITY ''stale authority'', st)
      else case umap_find (im_regions st) region of
        None \<Rightarrow> (fail NOT_FOUND ''region not found'', st)
      | Some rr \<Rightarrow>
          if \<not> regionLifecycleAllowed (rr_lifecycle rr) RegionLifecycle.DRAINING
          then (fail INVALID_STATE_TRANSITION ''cannot begin drain'', st)
          else let (regs, resvs) = umap_sweep (drain_release region) (im_regions st) (im_reservations st);
                   st1 = st\<lparr>im_regions := regs, im_reservations := resvs\<rparr>
            in case umap_find regs region of
                 None \<Rightarrow> (fail NOT_FOUND ''region not found'', st1)
               | Some rr1 \<Rightarrow>
                   (let (okay, led) = ledger_beginDrain (free (rr_ledger rr1)) (rr_ledger rr1);
                        st2 = st1\<lparr>im_regions := with_ledger region (\<lambda>_. led) regs\<rparr>
                    in if \<not> okay then (fail INVALID_ARGUMENT ''drain move failed'', st2)
                       else (ok (),
                         st2\<lparr>im_regions := umap_modify region (\<lambda>r. r\<lparr>rr_lifecycle := RegionLifecycle.DRAINING\<rparr>) (im_regions st2),
                             im_providers := umap_modify (rd_provider (rr_descriptor rr))
                               (\<lambda>p. if pr_lifecycle p = Lifecycle.ONLINE
                                    then p\<lparr>pr_lifecycle := Lifecycle.DRAINING\<rparr> else p)
                               (im_providers st2)\<rparr>)))"

definition completeDrain :: "RegionId \<Rightarrow> Authority \<Rightarrow> Impl \<Rightarrow> unit Result \<times> Impl" where
  "completeDrain region a st =
     (if \<not> authorityAcceptableLocked st a then (fail STALE_AUTHORITY ''stale authority'', st)
      else case umap_find (im_regions st) region of
        None \<Rightarrow> (fail NOT_FOUND ''region not found'', st)
      | Some rr \<Rightarrow>
          if rr_lifecycle rr \<noteq> RegionLifecycle.DRAINING
          then (fail INVALID_STATE_TRANSITION ''region not draining'', st)
          else let (okay, led) = endDrain (draining (rr_ledger rr)) (rr_ledger rr);
                   st1 = st\<lparr>im_regions := with_ledger region (\<lambda>_. led) (im_regions st)\<rparr>
            in if \<not> okay then (fail INVALID_ARGUMENT ''complete drain failed'', st1)
               else (ok (),
                 st1\<lparr>im_regions := umap_modify region (\<lambda>r. r\<lparr>rr_lifecycle := RegionLifecycle.UNAVAILABLE\<rparr>) (im_regions st1),
                     im_providers := umap_modify (rd_provider (rr_descriptor rr))
                       (\<lambda>p. if pr_lifecycle p = Lifecycle.DRAINING
                            then p\<lparr>pr_lifecycle := Lifecycle.OFFLINE\<rparr> else p)
                       (im_providers st1)\<rparr>))"

definition cancelDrain :: "RegionId \<Rightarrow> Authority \<Rightarrow> Impl \<Rightarrow> unit Result \<times> Impl" where
  "cancelDrain region a st =
     (if \<not> authorityAcceptableLocked st a then (fail STALE_AUTHORITY ''stale authority'', st)
      else case umap_find (im_regions st) region of
        None \<Rightarrow> (fail NOT_FOUND ''region not found'', st)
      | Some rr \<Rightarrow>
          if rr_lifecycle rr \<noteq> RegionLifecycle.DRAINING
          then (fail INVALID_STATE_TRANSITION ''region not draining'', st)
          else let (okay, led) = ledger_cancelDrain (draining (rr_ledger rr)) (rr_ledger rr);
                   st1 = st\<lparr>im_regions := with_ledger region (\<lambda>_. led) (im_regions st)\<rparr>
            in if \<not> okay then (fail INVALID_ARGUMENT ''cancel drain failed'', st1)
               else (ok (),
                 st1\<lparr>im_regions := umap_modify region (\<lambda>r. r\<lparr>rr_lifecycle := RegionLifecycle.ONLINE\<rparr>) (im_regions st1)\<rparr>))"

definition markUnavailable :: "RegionId \<Rightarrow> Authority \<Rightarrow> Impl \<Rightarrow> unit Result \<times> Impl" where
  "markUnavailable region a st =
     (if \<not> authorityAcceptableLocked st a then (fail STALE_AUTHORITY ''stale authority'', st)
      else case umap_find (im_regions st) region of
        None \<Rightarrow> (fail NOT_FOUND ''region not found'', st)
      | Some rr \<Rightarrow>
          if \<not> regionLifecycleAllowed (rr_lifecycle rr) RegionLifecycle.UNAVAILABLE
          then (fail INVALID_STATE_TRANSITION ''cannot mark unavailable'', st)
          else let (okay, led) = ledger_markUnavailable (free (rr_ledger rr)) (rr_ledger rr);
                   st1 = st\<lparr>im_regions := with_ledger region (\<lambda>_. led) (im_regions st)\<rparr>
            in if \<not> okay then (fail INVALID_ARGUMENT ''unavailable move failed'', st1)
               else let st2 = fence_where (\<lambda>r. rs_region r = region) ''capacity unavailable'' st1
                    in (ok (), st2\<lparr>im_regions := umap_modify region
                          (\<lambda>r. r\<lparr>rr_lifecycle := RegionLifecycle.UNAVAILABLE\<rparr>) (im_regions st2)\<rparr>))"

definition recoverRegion :: "RegionId \<Rightarrow> Authority \<Rightarrow> Impl \<Rightarrow> unit Result \<times> Impl" where
  "recoverRegion region a st =
     (if \<not> authorityAcceptableLocked st a then (fail STALE_AUTHORITY ''stale authority'', st)
      else case umap_find (im_regions st) region of
        None \<Rightarrow> (fail NOT_FOUND ''region not found'', st)
      | Some rr \<Rightarrow>
          if rr_lifecycle rr \<noteq> RegionLifecycle.UNAVAILABLE \<and>
             rr_lifecycle rr \<noteq> RegionLifecycle.REVALIDATION_REQUIRED \<and>
             rr_lifecycle rr \<noteq> RegionLifecycle.DEGRADED
          then (fail INVALID_STATE_TRANSITION ''region not recoverable'', st)
          else (ok (), st\<lparr>im_regions := umap_modify region
                 (\<lambda>r. r\<lparr>rr_ledger := snd (restore (unavailable (rr_ledger r)) (rr_ledger r)),
                        rr_lifecycle := RegionLifecycle.DECLARED,
                        rr_evidenceStatus := EvidenceStatus.REVALIDATION_REQUIRED\<rparr>)
                 (im_regions st)\<rparr>))"

section \<open>Retirement\<close>

definition retireProvider :: "ProviderId \<Rightarrow> Authority \<Rightarrow> Impl \<Rightarrow> unit Result \<times> Impl" where
  "retireProvider provider a st =
     (if \<not> authorityAcceptableLocked st a then (fail STALE_AUTHORITY ''stale authority'', st)
      else case umap_find (im_providers st) provider of
        None \<Rightarrow> (fail NOT_FOUND ''provider not found'', st)
      | Some p \<Rightarrow>
          if \<not> providerLifecycleAllowed (pr_lifecycle p) Lifecycle.RETIRED
          then (fail INVALID_STATE_TRANSITION ''cannot retire provider'', st)
          else let st1 = fence_where (\<lambda>r. rs_provider r = provider) ''provider retired'' st
               in (ok (), st1\<lparr>
                    im_regions := umap_map (\<lambda>rr. if rd_provider (rr_descriptor rr) = provider \<and>
                                                    rr_lifecycle rr \<noteq> RegionLifecycle.RETIRED
                                                 then rr\<lparr>rr_lifecycle := RegionLifecycle.RETIRED\<rparr> else rr)
                                           (im_regions st1),
                    im_providers := umap_modify provider (\<lambda>p. p\<lparr>pr_lifecycle := Lifecycle.RETIRED\<rparr>)
                                      (im_providers st1)\<rparr>))"

definition retireRegion :: "RegionId \<Rightarrow> Authority \<Rightarrow> Impl \<Rightarrow> unit Result \<times> Impl" where
  "retireRegion region a st =
     (if \<not> authorityAcceptableLocked st a then (fail STALE_AUTHORITY ''stale authority'', st)
      else case umap_find (im_regions st) region of
        None \<Rightarrow> (fail NOT_FOUND ''region not found'', st)
      | Some rr \<Rightarrow>
          if \<not> regionLifecycleAllowed (rr_lifecycle rr) RegionLifecycle.RETIRED
          then (fail INVALID_STATE_TRANSITION ''cannot retire region'', st)
          else let st1 = fence_where (\<lambda>r. rs_region r = region) ''region retired'' st
               in (ok (), st1\<lparr>im_regions := umap_modify region
                      (\<lambda>r. r\<lparr>rr_lifecycle := RegionLifecycle.RETIRED\<rparr>) (im_regions st1)\<rparr>))"

section \<open>Workers\<close>

definition registerWorker ::
    "u64 \<Rightarrow> WorkerId \<Rightarrow> WorkerBootId \<Rightarrow> CoordinatorEpoch \<Rightarrow> u64 \<Rightarrow> Authority \<Rightarrow> Impl \<Rightarrow>
     unit Result \<times> Impl" where
  "registerWorker now w boot epoch pid a st =
     (if null w \<or> null boot then (fail INVALID_ID ''null worker id/boot'', st)
      else if au_epoch a \<noteq> im_epoch st
      then (fail STALE_AUTHORITY ''worker registers under stale epoch'', st)
      else if epoch \<noteq> im_epoch st then (fail STALE_AUTHORITY ''worker epoch mismatch'', st)
      else if \<not> null (au_worker a) \<and> (au_worker a \<noteq> w \<or> au_boot a \<noteq> boot)
      then (fail STALE_AUTHORITY ''worker authority mismatch'', st)
      else if (case umap_find (im_workers st) w of Some cur \<Rightarrow> wr_boot cur = boot | None \<Rightarrow> False)
      then (fail ALREADY_EXISTS ''worker boot already used'', st)
      else (ok (), st\<lparr>im_workers := umap_put w
              \<lparr>wr_boot = boot, wr_registeredEpoch = epoch, wr_pid = pid, wr_alive = True,
               wr_holdsHandle = False, wr_lastSeenMs = now\<rparr> (im_workers st)\<rparr>))"

text \<open>\<open>markWorkerDead\<close>: the regions whose latest evidence came from the dead incarnation.\<close>

definition evidence_from :: "WorkerId \<Rightarrow> WorkerBootId \<Rightarrow> RegionRecord \<Rightarrow> bool" where
  "evidence_from w boot rr \<longleftrightarrow>
     rr_hasEvidence rr \<and> eh_worker (ev_header (rr_latest rr)) = w \<and>
     eh_boot (ev_header (rr_latest rr)) = boot"

definition orphan_region :: "WorkerId \<Rightarrow> WorkerBootId \<Rightarrow> RegionRecord \<Rightarrow> RegionRecord" where
  "orphan_region w boot rr =
     (if evidence_from w boot rr then
        (let rr1 = rr\<lparr>rr_evidenceStatus := EvidenceStatus.REVALIDATION_REQUIRED\<rparr>
         in if rr_lifecycle rr1 \<noteq> RegionLifecycle.RETIRED \<and> rr_lifecycle rr1 \<noteq> RegionLifecycle.DRAINING \<and>
               rr_lifecycle rr1 \<noteq> RegionLifecycle.UNAVAILABLE
            then rr1\<lparr>rr_lifecycle := RegionLifecycle.REVALIDATION_REQUIRED\<rparr> else rr1)
      else rr)"

definition markWorkerDead :: "u64 \<Rightarrow> WorkerId \<Rightarrow> Authority \<Rightarrow> Impl \<Rightarrow> unit Result \<times> Impl" where
  "markWorkerDead now w a st =
     (if \<not> authorityAcceptableLocked st a then (fail STALE_AUTHORITY ''stale authority'', st)
      else case umap_find (im_workers st) w of
        None \<Rightarrow> (fail NOT_FOUND ''worker not registered'', st)
      | Some wr \<Rightarrow>
          let boot = wr_boot wr;
              workerRegions = map fst (filter (\<lambda>(rid, rr). evidence_from w boot rr) (im_regions st));
              st1 = st\<lparr>im_workers := umap_modify w (\<lambda>x. x\<lparr>wr_alive := False, wr_lastSeenMs := now\<rparr>)
                                       (im_workers st),
                       im_regions := umap_map (orphan_region w boot) (im_regions st)\<rparr>
          in (ok (), fence_where (\<lambda>r. rs_worker r = w \<or> rs_region r \<in> set workerRegions)
                       ''worker died'' st1))"

definition workerAlive :: "WorkerId \<Rightarrow> WorkerBootId \<Rightarrow> Impl \<Rightarrow> bool" where
  "workerAlive w boot st =
     (case umap_find (im_workers st) w of
        None \<Rightarrow> False
      | Some wr \<Rightarrow> wr_alive wr \<and> wr_boot wr = boot)"

definition noteWorkerHandle :: "WorkerId \<Rightarrow> bool \<Rightarrow> Impl \<Rightarrow> Impl" where
  "noteWorkerHandle w holdsHandle st =
     st\<lparr>im_workers := umap_modify w (\<lambda>x. x\<lparr>wr_holdsHandle := holdsHandle\<rparr>) (im_workers st)\<rparr>"

definition regionFree :: "RegionId \<Rightarrow> Impl \<Rightarrow> u64" where
  "regionFree region st =
     (case umap_find (im_regions st) region of None \<Rightarrow> 0 | Some rr \<Rightarrow> free (rr_ledger rr))"

end
