(* ===== verification/Selection.thy ===== *)
theory Selection
  imports FabricState
begin

text \<open>
  Eligibility and deterministic ranking (\<open>src/selection.cpp\<close>). \<open>evaluateRegionEligibility\<close> is the
  chain of hard constraints in the source's order; \<open>evaluateLocked\<close> splits the regions into eligible
  candidates and typed rejections, scores the candidates with IEEE doubles and sorts them with
  \<open>std::stable_sort\<close>.
\<close>

section \<open>Hard eligibility\<close>

text \<open>The lambda \<open>cap\<close>: 0 supported, 1 unsupported, 2 unknown or to be revalidated.\<close>

definition cap_class :: "ProviderRecord \<Rightarrow> RegionRecord \<Rightarrow> CapabilityKey \<Rightarrow> nat" where
  "cap_class pr rr key =
     (let s0 = cap_get (pd_capabilities (pr_descriptor pr)) key;
          s = (if s0 = CapabilityStatus.UNKNOWN
               then cap_get (rd_staticCapabilities (rr_descriptor rr)) key else s0)
      in if s = CapabilityStatus.SUPPORTED then 0
         else if s = CapabilityStatus.UNSUPPORTED then 1 else 2)"

definition effective_allowDegraded :: "Impl \<Rightarrow> ConsumerRequirements \<Rightarrow> bool" where
  "effective_allowDegraded st req =
     (if \<not> null (rq_policy req) \<and>
         (case umap_find (im_policies st) (rq_policy req) of
            Some pol \<Rightarrow> po_allowDegraded pol | None \<Rightarrow> False)
      then True else rq_allowDegraded req)"

definition evaluateRegionEligibility ::
    "Impl \<Rightarrow> ConsumerRequirements \<Rightarrow> RegionRecord \<Rightarrow> EligibilityReason" where
  "evaluateRegionEligibility st req rr =
     (case umap_find (im_providers st) (rd_provider (rr_descriptor rr)) of
        None \<Rightarrow> EligibilityReason.OFFLINE
      | Some pr \<Rightarrow>
          let allowDegraded = effective_allowDegraded st req;
              cap = cap_class pr rr;
              l = ev_locality (rr_latest rr);
              gran = rd_granularityBytes (rr_descriptor rr)
          in
          if pr_lifecycle pr = Lifecycle.RETIRED \<or> pr_lifecycle pr = Lifecycle.FAILED
          then EligibilityReason.OFFLINE
          else if rr_lifecycle rr = RegionLifecycle.RETIRED then EligibilityReason.OFFLINE
          else if rr_lifecycle rr = RegionLifecycle.DRAINING then DEGRADED_NOT_ALLOWED
          else if rr_lifecycle rr = RegionLifecycle.DEGRADED \<and> \<not> allowDegraded
          then DEGRADED_NOT_ALLOWED
          else if rr_lifecycle rr \<noteq> RegionLifecycle.ONLINE \<and> rr_lifecycle rr \<noteq> RegionLifecycle.DEGRADED
          then EligibilityReason.REVALIDATION_REQUIRED
          else if \<not> rr_hasEvidence rr then EligibilityReason.STALE_EVIDENCE
          else if rr_evidenceStatus rr \<noteq> EvidenceStatus.CURRENT then EligibilityReason.STALE_EVIDENCE
          else if rr_health rr = HealthState.FAILED then EligibilityReason.REVALIDATION_REQUIRED
          else if rr_health rr = HealthState.DEGRADED \<and> \<not> allowDegraded then DEGRADED_NOT_ALLOWED
          else if \<not> rr_reachable rr then UNREACHABLE
          else if free (rr_ledger rr) < rq_requiredBytes req then INSUFFICIENT_CAPACITY
          else if rq_cpuAccessible req \<and> cap CapabilityKey.CPU_ACCESSIBLE = 1
          then CAPABILITY_UNSUPPORTED
          else if rq_cpuAccessible req \<and> cap CapabilityKey.CPU_ACCESSIBLE = 2
          then CAPABILITY_UNKNOWN
          else if rq_acceleratorAccessible req \<and> cap CapabilityKey.ACCELERATOR_ACCESSIBLE = 1
          then CAPABILITY_UNSUPPORTED
          else if rq_acceleratorAccessible req \<and> cap CapabilityKey.ACCELERATOR_ACCESSIBLE = 2
          then CAPABILITY_UNKNOWN
          else if rq_directAccessRequired req \<and> cap CapabilityKey.DIRECT_ACCESS = 1
          then CAPABILITY_UNSUPPORTED
          else if rq_directAccessRequired req \<and> cap CapabilityKey.DIRECT_ACCESS = 2
          then CAPABILITY_UNKNOWN
          else if rq_persistent req \<and> pd_persistence (pr_descriptor pr) \<noteq> Persistence.PERSISTENT
          then PERSISTENCE_REQUIRED
          else if rq_alignmentBytes req > rd_alignmentBytes (rr_descriptor rr) then INCOMPATIBLE
          else if rq_requiredBytes req \<noteq> 0 \<and> gran \<noteq> 0 \<and> rq_requiredBytes req > gran \<and>
                  rq_requiredBytes req mod gran \<noteq> 0
          then INCOMPATIBLE
          else if rq_maxLatencyNs req > 0 \<and> rr_latencyNs rr = 0 then LATENCY_LIMIT_EXCEEDED
          else if rq_maxLatencyNs req > 0 \<and> rr_latencyNs rr > rq_maxLatencyNs req
          then LATENCY_LIMIT_EXCEEDED
          else if rq_minBandwidth req > 0 \<and> rr_bandwidthBytesPerSec rr = 0
          then BANDWIDTH_INSUFFICIENT
          else if rq_minBandwidth req > 0 \<and> rr_bandwidthBytesPerSec rr < rq_minBandwidth req
          then BANDWIDTH_INSUFFICIENT
          else if rq_allowedKinds req \<noteq> [] \<and> pd_kind (pr_descriptor pr) \<notin> set (rq_allowedKinds req)
          then INCOMPATIBLE
          else if pd_kind (pr_descriptor pr) \<in> set (rq_forbiddenKinds req) then INCOMPATIBLE
          else if rq_localityPreference req = Locality.LOCAL \<and> l \<noteq> Locality.LOCAL then TOO_REMOTE
          else if rq_localityPreference req = Locality.REMOTE \<and>
                  (l = Locality.LOCAL \<or> l = Locality.UNKNOWN)
          then TOO_REMOTE
          else if rq_localityPreference req = Locality.FABRIC \<and> l \<noteq> Locality.FABRIC then TOO_REMOTE
          else if \<not> null (rq_forbiddenFailureDomain req) \<and>
                  pd_failureDomain (pr_descriptor pr) = rq_forbiddenFailureDomain req
          then FAILURE_DOMAIN_CONFLICT
          else if \<not> null (rq_policy req) \<and> umap_find (im_policies st) (rq_policy req) = None
          then EligibilityReason.POLICY_DENIED
          else ELIGIBLE)"

section \<open>Scores\<close>

definition localityScore :: "Locality \<Rightarrow> double" where
  "localityScore l =
     (case l of
        Locality.LOCAL \<Rightarrow> double_of_rat 1
      | Locality.FABRIC \<Rightarrow> double_of_rat (7 / 10)
      | Locality.REMOTE \<Rightarrow> double_of_rat (5 / 10)
      | _ \<Rightarrow> double_of_rat (3 / 10))"

definition healthScore :: "HealthState \<Rightarrow> double" where
  "healthScore h =
     (case h of
        HealthState.HEALTHY \<Rightarrow> double_of_rat 1
      | HealthState.DEGRADED \<Rightarrow> double_of_rat (6 / 10)
      | HealthState.FAILED \<Rightarrow> double_of_rat 0
      | _ \<Rightarrow> double_of_rat (5 / 10))"

definition accessScore :: "AccessKind \<Rightarrow> double" where
  "accessScore k =
     (case k of
        AccessKind.DIRECT \<Rightarrow> double_of_rat 1
      | AccessKind.STAGED \<Rightarrow> double_of_rat (6 / 10)
      | AccessKind.MEDIATED \<Rightarrow> double_of_rat (4 / 10)
      | AccessKind.UNKNOWN \<Rightarrow> double_of_rat (4 / 10))"

text \<open>The loop of \<open>bestAccess\<close>: a direct attachment ends it, the first other known one is kept.\<close>

fun attachment_access :: "ConsumerId \<Rightarrow> AccessKind \<Rightarrow> AttachmentEvidence list \<Rightarrow> AccessKind" where
  "attachment_access c best [] = best"
| "attachment_access c best (att # atts) =
     (if \<not> null (at_consumer att) \<and> at_consumer att \<noteq> c then attachment_access c best atts
      else if at_access att = AccessKind.DIRECT then AccessKind.DIRECT
      else if at_access att \<noteq> AccessKind.UNKNOWN \<and> best = AccessKind.UNKNOWN
      then attachment_access c (at_access att) atts
      else attachment_access c best atts)"

definition bestAccess :: "RegionRecord \<Rightarrow> ConsumerId \<Rightarrow> CapabilityModel \<Rightarrow> AccessKind" where
  "bestAccess rr consumer providerCaps =
     (let best = attachment_access consumer AccessKind.UNKNOWN (rr_attachments rr)
      in if best \<noteq> AccessKind.UNKNOWN then best
         else if cap_get providerCaps CapabilityKey.DIRECT_ACCESS = CapabilityStatus.SUPPORTED
         then AccessKind.DIRECT
         else if cap_get providerCaps CapabilityKey.STAGING_REQUIRED = CapabilityStatus.SUPPORTED
         then AccessKind.STAGED
         else AccessKind.UNKNOWN)"

text \<open>\<open>static_cast<double>\<close> of an enumerator: its position.\<close>

definition access_index :: "AccessKind \<Rightarrow> u64" where
  "access_index k =
     (case k of AccessKind.DIRECT \<Rightarrow> 0 | AccessKind.STAGED \<Rightarrow> 1 | AccessKind.MEDIATED \<Rightarrow> 2
      | AccessKind.UNKNOWN \<Rightarrow> 3)"

definition health_index :: "HealthState \<Rightarrow> u64" where
  "health_index h =
     (case h of HealthState.UNKNOWN \<Rightarrow> 0 | HealthState.HEALTHY \<Rightarrow> 1 | HealthState.DEGRADED \<Rightarrow> 2
      | HealthState.FAILED \<Rightarrow> 3 | HealthState_raw b \<Rightarrow> ucast b)"

section \<open>Candidates\<close>

record Cand =
  c_region :: RegionId
  c_provider :: ProviderId
  c_pool :: PoolId
  c_bytes :: u64
  c_free :: u64
  c_latencyNs :: u64
  c_bandwidth :: u64
  c_locality :: Locality
  c_health :: HealthState
  c_access :: AccessKind
  c_factors :: "RankingFactor list"
  c_score :: double

definition provider_caps :: "Impl \<Rightarrow> RegionRecord \<Rightarrow> CapabilityModel" where
  "provider_caps st rr =
     (case umap_find (im_providers st) (rd_provider (rr_descriptor rr)) of
        Some p \<Rightarrow> pd_capabilities (pr_descriptor p)
      | None \<Rightarrow> [])"

definition pool_admits :: "ConsumerRequirements \<Rightarrow> RegionRecord \<Rightarrow> bool" where
  "pool_admits req rr \<longleftrightarrow>
     null (rq_preferredPool req) \<or> (\<exists>(pid, g) \<in> set (rr_poolMemberships rr). pid = rq_preferredPool req)"

definition make_cand :: "Impl \<Rightarrow> ConsumerRequirements \<Rightarrow> RegionId \<times> RegionRecord \<Rightarrow> Cand" where
  "make_cand st req = (\<lambda>(rid, rr).
     \<lparr>c_region = rid, c_provider = rd_provider (rr_descriptor rr), c_pool = rq_preferredPool req,
      c_bytes = rq_requiredBytes req, c_free = free (rr_ledger rr), c_latencyNs = rr_latencyNs rr,
      c_bandwidth = rr_bandwidthBytesPerSec rr, c_locality = ev_locality (rr_latest rr),
      c_health = rr_health rr, c_access = bestAccess rr (rq_consumer req) (provider_caps st rr),
      c_factors = [], c_score = F64 0\<rparr>)"

definition admitted :: "Impl \<Rightarrow> ConsumerRequirements \<Rightarrow> regions" where
  "admitted st req = filter (\<lambda>(rid, rr). pool_admits req rr) (im_regions st)"

definition eligible_cands :: "Impl \<Rightarrow> ConsumerRequirements \<Rightarrow> Cand list" where
  "eligible_cands st req =
     map (make_cand st req)
       (filter (\<lambda>(rid, rr). evaluateRegionEligibility st req rr = ELIGIBLE) (admitted st req))"

definition rejected_cands :: "Impl \<Rightarrow> ConsumerRequirements \<Rightarrow> CandidateAssessment list" where
  "rejected_cands st req =
     map (\<lambda>(rid, rr). \<lparr>ca_region = rid, ca_provider = rd_provider (rr_descriptor rr),
                         ca_pool = rq_preferredPool req,
                         ca_reason = evaluateRegionEligibility st req rr, ca_score = F64 0\<rparr>)
       (filter (\<lambda>(rid, rr). evaluateRegionEligibility st req rr \<noteq> ELIGIBLE) (admitted st req))"

text \<open>
  The running maximum of a column, \<open>if (v > m) m = static_cast<double>(v)\<close>: the integer is converted
  for the comparison.
\<close>

fun max_double :: "double \<Rightarrow> u64 list \<Rightarrow> double" where
  "max_double m [] = m"
| "max_double m (v # vs) =
     (if f_less m (double_of_u64 v) then max_double (double_of_u64 v) vs else max_double m vs)"

definition kW :: double where "kW = double_of_rat (30 / 100)"
definition kLat :: double where "kLat = double_of_rat (20 / 100)"
definition kBw :: double where "kBw = double_of_rat (20 / 100)"
definition kHead :: double where "kHead = double_of_rat (15 / 100)"
definition kAcc :: double where "kAcc = double_of_rat (15 / 100)"
definition kHealth :: double where "kHealth = double_of_rat (5 / 100)"

definition headroom :: "ConsumerRequirements \<Rightarrow> u64 \<Rightarrow> double" where
  "headroom req fr =
     (let h = (if rq_requiredBytes req > 0
               then f_div (double_of_u64 fr)
                      (f_mul (double_of_u64 (rq_requiredBytes req))
                         (f_add (double_of_rat 1) (rq_reserveHeadroomFactor req)))
               else double_of_rat 1)
      in if f_less (double_of_rat 1) h then double_of_rat 1 else h)"

definition score_cand :: "ConsumerRequirements \<Rightarrow> double \<Rightarrow> double \<Rightarrow> Cand \<Rightarrow> Cand" where
  "score_cand req maxLatency maxBw c =
     (let loc = localityScore (c_locality c);
          lat0 = (if f_less (F64 0) maxLatency
                  then f_sub (double_of_rat 1) (f_div (double_of_u64 (c_latencyNs c)) maxLatency)
                  else double_of_rat 1);
          lat = (if c_latencyNs c = 0 then double_of_rat 0 else lat0);
          bw = (if f_less (F64 0) maxBw then f_div (double_of_u64 (c_bandwidth c)) maxBw
                else double_of_rat 1);
          head = headroom req (c_free c);
          acc = accessScore (c_access c);
          hlth = healthScore (c_health c)
      in c\<lparr>c_factors := c_factors c @
             [\<lparr>rf_name = ''locality'', rf_raw = loc, rf_normalized = loc, rf_weight = kW\<rparr>,
              \<lparr>rf_name = ''latency'', rf_raw = double_of_u64 (c_latencyNs c), rf_normalized = lat, rf_weight = kLat\<rparr>,
              \<lparr>rf_name = ''bandwidth'', rf_raw = double_of_u64 (c_bandwidth c), rf_normalized = bw, rf_weight = kBw\<rparr>,
              \<lparr>rf_name = ''headroom'', rf_raw = double_of_u64 (c_free c), rf_normalized = head, rf_weight = kHead\<rparr>,
              \<lparr>rf_name = ''access'', rf_raw = double_of_u64 (access_index (c_access c)), rf_normalized = acc, rf_weight = kAcc\<rparr>,
              \<lparr>rf_name = ''health'', rf_raw = double_of_u64 (health_index (c_health c)), rf_normalized = hlth, rf_weight = kHealth\<rparr>],
           c_score :=
             f_add (f_add (f_add (f_add (f_add (f_mul kW loc) (f_mul kLat lat)) (f_mul kBw bw))
               (f_mul kHead head)) (f_mul kAcc acc)) (f_mul kHealth hlth)\<rparr>)"

definition score_all :: "ConsumerRequirements \<Rightarrow> Cand list \<Rightarrow> Cand list" where
  "score_all req cs =
     (let maxLatency = max_double (F64 0) (map c_latencyNs cs);
          maxBw = max_double (F64 0) (map c_bandwidth cs)
      in map (score_cand req maxLatency maxBw) cs)"

section \<open>Ranking\<close>

definition cand_before :: "Cand \<Rightarrow> Cand \<Rightarrow> bool" where
  "cand_before x y =
     (if \<not> f_eq (c_score x) (c_score y) then f_less (c_score y) (c_score x)
      else if id_value (c_region x) \<noteq> id_value (c_region y)
      then id_value (c_region x) < id_value (c_region y)
      else if id_value (c_provider x) \<noteq> id_value (c_provider y)
      then id_value (c_provider x) < id_value (c_provider y)
      else id_value (c_pool x) < id_value (c_pool y))"

text \<open>\<open>std::stable_sort\<close> with a strict weak ordering, as stable insertion.\<close>

fun insert_stable :: "('a \<Rightarrow> 'a \<Rightarrow> bool) \<Rightarrow> 'a \<Rightarrow> 'a list \<Rightarrow> 'a list" where
  "insert_stable before x [] = [x]"
| "insert_stable before x (y # ys) =
     (if before y x then y # insert_stable before x ys else x # y # ys)"

fun stable_sort :: "('a \<Rightarrow> 'a \<Rightarrow> bool) \<Rightarrow> 'a list \<Rightarrow> 'a list" where
  "stable_sort before [] = []"
| "stable_sort before (x # xs) = insert_stable before x (stable_sort before xs)"

definition ranked_of_cand :: "Cand \<Rightarrow> RankedCandidate" where
  "ranked_of_cand c =
     \<lparr>rc_region = c_region c, rc_provider = c_provider c, rc_pool = c_pool c, rc_bytes = c_bytes c,
      rc_score = c_score c, rc_factors = c_factors c\<rparr>"

definition selection_outcome ::
    "Impl \<Rightarrow> ConsumerRequirements \<Rightarrow> RankedCandidate list \<Rightarrow> CandidateAssessment list \<Rightarrow> SelectionOutcome" where
  "selection_outcome st req ranked rejected =
     (case ranked of
        first_ranked # _ \<Rightarrow>
          (let topAccess =
                 (case umap_find (im_regions st) (rc_region first_ranked) of
                    Some rr \<Rightarrow> bestAccess rr (rq_consumer req) (provider_caps st rr)
                  | None \<Rightarrow> AccessKind.UNKNOWN)
           in if topAccess = AccessKind.STAGED then SelectionOutcome.STAGING_REQUIRED
              else EXPANSION_SELECTED)
      | [] \<Rightarrow>
          if \<not> rq_expansionRequired req \<and> rq_allowLocalFallback req then LOCAL_FALLBACK_SELECTED
          else if \<exists>c \<in> set rejected. ca_reason c = EligibilityReason.REVALIDATION_REQUIRED \<or>
                                   ca_reason c = EligibilityReason.STALE_EVIDENCE
          then SelectionOutcome.REVALIDATION_REQUIRED
          else REJECT)"

definition ranking :: "Impl \<Rightarrow> ConsumerRequirements \<Rightarrow> RankedCandidate list" where
  "ranking st req =
     map ranked_of_cand (stable_sort cand_before (score_all req (eligible_cands st req)))"

definition evaluateLocked :: "ConsumerRequirements \<Rightarrow> Impl \<Rightarrow> SelectionResult \<times> Impl" where
  "evaluateLocked req st =
     (let (sid, n1) = next_id (im_selectionIdAlloc st);
          (sgen, n2) = next_id (im_selectionGenAlloc st);
          ranked = ranking st req;
          rejected = rejected_cands st req
      in (\<lparr>sel_id = sid, sel_generation = sgen,
           sel_outcome = selection_outcome st req ranked rejected,
           sel_ranked = ranked, sel_rejected = rejected,
           sel_tieBreakRule = ''score desc, then region id, provider id, pool id''\<rparr>,
          st\<lparr>im_selectionIdAlloc := n1, im_selectionGenAlloc := n2\<rparr>))"

definition select :: "ConsumerRequirements \<Rightarrow> Authority \<Rightarrow> Impl \<Rightarrow> SelectionResult Result \<times> Impl" where
  "select req a st =
     (if \<not> authorityAcceptableLocked st a then (fail STALE_AUTHORITY ''stale authority'', st)
      else if rq_requiredBytes req = 0 then (fail INVALID_ARGUMENT ''select requires bytes>0'', st)
      else let (s, st') = evaluateLocked req st in (ok s, st'))"

end
