(* ===== verification/Reserve.thy ===== *)
theory Reserve
  imports Selection
begin

text \<open>
  The reservation lifecycle (\<open>src/reservation.cpp\<close>): request, commit with revalidation of every
  binding, release.
\<close>

definition make_reservation ::
    "u64 \<Rightarrow> ConsumerRequirements \<Rightarrow> Authority \<Rightarrow> Impl \<Rightarrow> SelectionResult \<Rightarrow> RegionId \<Rightarrow> RegionRecord \<Rightarrow>
     ReservationId \<Rightarrow> ReservationGeneration \<Rightarrow> Reservation" where
  "make_reservation now req a st sel best rr rid rgen =
     \<lparr>rs_id = rid, rs_generation = rgen, rs_consumer = rq_consumer req,
      rs_consumerGeneration = rq_consumerGeneration req,
      rs_provider = rd_provider (rr_descriptor rr),
      rs_providerGeneration =
        (case umap_find (im_providers st) (rd_provider (rr_descriptor rr)) of
           Some p \<Rightarrow> pd_generation (pr_descriptor p) | None \<Rightarrow> null_id),
      rs_region = best, rs_regionGeneration = rd_generation (rr_descriptor rr),
      rs_pool = rq_preferredPool req,
      rs_poolGeneration =
        (if null (rq_preferredPool req) then null_id
         else case umap_find (im_pools st) (rq_preferredPool req) of
           Some pl \<Rightarrow> pl_generation (plr_descriptor pl) | None \<Rightarrow> null_id),
      rs_policy = (if null (rq_policy req) then null_id else rq_policy req),
      rs_policyGeneration =
        (if null (rq_policy req) then null_id
         else case umap_find (im_policies st) (rq_policy req) of
           Some pol \<Rightarrow> po_generation pol | None \<Rightarrow> null_id),
      rs_selection = sel_id sel, rs_selectionGeneration = sel_generation sel,
      rs_evidenceGeneration =
        (if rr_hasEvidence rr then eh_generation (ev_header (rr_latest rr)) else null_id),
      rs_worker = au_worker a, rs_boot = au_boot a, rs_epoch = au_epoch a,
      rs_bytes = rq_requiredBytes req, rs_state = ReservationState.RESERVED,
      rs_createdAtMs = now, rs_expiresAtMs = 0, rs_note = []\<rparr>"

definition requestReservation ::
    "u64 \<Rightarrow> ConsumerRequirements \<Rightarrow> Authority \<Rightarrow> Impl \<Rightarrow> ReservationId Result \<times> Impl" where
  "requestReservation now req a st =
     (if \<not> authorityAcceptableLocked st a then (fail STALE_AUTHORITY ''stale authority'', st)
      else if rq_requiredBytes req = 0
      then (fail INVALID_ARGUMENT ''reservation requires bytes>0'', st)
      else if null (rq_consumer req) then (fail INVALID_ID ''reservation needs a consumer'', st)
      else if null (rq_consumerGeneration req)
      then (fail INVALID_ID ''reservation needs a consumer generation'', st)
      else let (sel, st1) = evaluateLocked req st in
        case sel_ranked sel of
          [] \<Rightarrow> (fail CAPACITY_INSUFFICIENT ''no eligible expansion capacity'', st1)
        | best # _ \<Rightarrow>
            (case umap_find (im_regions st1) (rc_region best) of
               None \<Rightarrow> (fail NOT_FOUND ''selected region missing'', st1)
             | Some rr \<Rightarrow>
                 (let (okay, led) = reserve (rq_requiredBytes req) (rr_ledger rr);
                      st2 = st1\<lparr>im_regions := with_ledger (rc_region best) (\<lambda>_. led) (im_regions st1)\<rparr>
                  in if \<not> okay then (fail CAPACITY_INSUFFICIENT ''reserve failed'', st2)
                     else let (rid, n1) = next_id (im_reservationIdAlloc st2);
                              (rgen, n2) = next_id (im_reservationGenAlloc st2);
                              res = make_reservation now req a st2 sel (rc_region best) rr rid rgen
                       in (ok rid,
                           st2\<lparr>im_reservationIdAlloc := n1, im_reservationGenAlloc := n2,
                               im_reservations := umap_put rid res (im_reservations st2)\<rparr>))))"

text \<open>The worker clause of \<open>commitReservation\<close>: the message of the refusal, or nothing.\<close>

definition commit_worker_refusal :: "Impl \<Rightarrow> Authority \<Rightarrow> Reservation \<Rightarrow> string option" where
  "commit_worker_refusal st a res =
     (if \<not> null (rs_worker res) then
        (if (case umap_find (im_workers st) (rs_worker res) of
               None \<Rightarrow> True
             | Some w \<Rightarrow> \<not> wr_alive w \<or> wr_boot w \<noteq> rs_boot res)
         then Some ''worker authority stale / dead''
         else if au_worker a \<noteq> rs_worker res \<or> au_boot a \<noteq> rs_boot res
         then Some ''commit worker mismatch''
         else None)
      else if \<not> null (au_worker a)
      then Some ''operator reservation cannot be committed by worker''
      else None)"

text \<open>
  The revalidation of \<open>commitReservation\<close>, in the source's order: the first binding that no longer
  matches the current state gives the refusal.
\<close>

definition commit_refusal :: "Impl \<Rightarrow> Authority \<Rightarrow> Reservation \<Rightarrow> (ErrorCode \<times> string) option" where
  "commit_refusal st a res =
     (case umap_find (im_regions st) (rs_region res) of
        None \<Rightarrow> Some (ErrorCode.WRONG_GENERATION, ''region gone'')
      | Some rr \<Rightarrow>
          if rd_generation (rr_descriptor rr) \<noteq> rs_regionGeneration res
          then Some (ErrorCode.WRONG_GENERATION, ''region generation changed'')
          else (case umap_find (im_providers st) (rs_provider res) of
            None \<Rightarrow> Some (ErrorCode.WRONG_GENERATION, ''provider gone'')
          | Some p \<Rightarrow>
              if pd_generation (pr_descriptor p) \<noteq> rs_providerGeneration res
              then Some (ErrorCode.WRONG_GENERATION, ''provider generation changed'')
              else if \<not> null (rs_policy res) \<and> umap_find (im_policies st) (rs_policy res) = None
              then Some (ErrorCode.WRONG_GENERATION, ''policy gone'')
              else if \<not> null (rs_policy res) \<and>
                      map_option po_generation (umap_find (im_policies st) (rs_policy res)) \<noteq>
                        Some (rs_policyGeneration res)
              then Some (ErrorCode.WRONG_GENERATION, ''policy generation changed'')
              else if \<not> null (rs_pool res) \<and> umap_find (im_pools st) (rs_pool res) = None
              then Some (ErrorCode.WRONG_GENERATION, ''pool gone'')
              else if \<not> null (rs_pool res) \<and>
                      map_option (pl_generation \<circ> plr_descriptor) (umap_find (im_pools st) (rs_pool res)) \<noteq>
                        Some (rs_poolGeneration res)
              then Some (ErrorCode.WRONG_GENERATION, ''pool generation changed'')
              else if rs_epoch res \<noteq> im_epoch st
              then Some (ErrorCode.WRONG_EPOCH, ''reservation epoch stale'')
              else (case commit_worker_refusal st a res of
                Some m \<Rightarrow> Some (STALE_AUTHORITY, m)
              | None \<Rightarrow>
                  if \<not> null (rs_consumerGeneration res) \<and>
                     (case umap_find (im_consumers st) (rs_consumer res) of
                        None \<Rightarrow> False | Some g \<Rightarrow> g \<noteq> rs_consumerGeneration res)
                  then Some (ErrorCode.WRONG_GENERATION, ''consumer generation changed'')
                  else if rr_evidenceStatus rr \<noteq> EvidenceStatus.CURRENT \<or>
                          rr_hasEvidence rr \<and>
                            eh_generation (ev_header (rr_latest rr)) \<noteq> rs_evidenceGeneration res
                  then Some (ErrorCode.STALE_EVIDENCE, ''evidence no longer current'')
                  else if rr_lifecycle rr = RegionLifecycle.DRAINING \<or>
                          rr_lifecycle rr = RegionLifecycle.UNAVAILABLE \<or>
                          rr_lifecycle rr = RegionLifecycle.REVALIDATION_REQUIRED \<or>
                          rr_lifecycle rr = RegionLifecycle.RETIRED
                  then Some (ErrorCode.REVALIDATION_REQUIRED, ''region no longer committable'')
                  else if reserved (rr_ledger rr) < rs_bytes res
                  then Some (CAPACITY_INSUFFICIENT, ''reserved capacity was revoked'')
                  else None)))"

definition commitReservation ::
    "ReservationId \<Rightarrow> Authority \<Rightarrow> Impl \<Rightarrow> Reservation Result \<times> Impl" where
  "commitReservation i a st =
     (if \<not> authorityAcceptableLocked st a then (fail STALE_AUTHORITY ''stale authority'', st)
      else case umap_find (im_reservations st) i of
        None \<Rightarrow> (fail NOT_FOUND ''reservation not found'', st)
      | Some res \<Rightarrow>
          if rs_state res \<noteq> ReservationState.RESERVED
          then (fail INVALID_STATE_TRANSITION ''only a RESERVED reservation can be committed'', st)
          else if \<not> reservationStateAllowed ReservationState.RESERVED ReservationState.COMMITTED
          then (fail INVALID_STATE_TRANSITION ''illegal commit'', st)
          else (case commit_refusal st a res of
            Some (c, m) \<Rightarrow> (fail c m, st)
          | None \<Rightarrow>
              (case umap_find (im_regions st) (rs_region res) of
                 None \<Rightarrow> (fail ErrorCode.WRONG_GENERATION ''region gone'', st)
               | Some rr \<Rightarrow>
                   (let (okay, led) = commit (rs_bytes res) (rr_ledger rr);
                        st1 = st\<lparr>im_regions := with_ledger (rs_region res) (\<lambda>_. led) (im_regions st)\<rparr>
                    in if \<not> okay then (fail INTERNAL ''commit ledger update failed'', st1)
                       else let res' = res\<lparr>rs_state := ReservationState.COMMITTED\<rparr>
                            in (ok res', st1\<lparr>im_reservations :=
                                  umap_modify i (\<lambda>r. r\<lparr>rs_state := ReservationState.COMMITTED\<rparr>)
                                    (im_reservations st1)\<rparr>)))))"

definition releaseReservation :: "ReservationId \<Rightarrow> Authority \<Rightarrow> Impl \<Rightarrow> unit Result \<times> Impl" where
  "releaseReservation i a st =
     (if \<not> authorityAcceptableLocked st a then (fail STALE_AUTHORITY ''stale authority'', st)
      else case umap_find (im_reservations st) i of
        None \<Rightarrow> (fail NOT_FOUND ''reservation not found'', st)
      | Some res \<Rightarrow>
          if rs_state res \<noteq> ReservationState.RESERVED \<and> rs_state res \<noteq> ReservationState.COMMITTED \<and>
             rs_state res \<noteq> ReservationState.ACTIVE
          then (fail INVALID_STATE_TRANSITION ''not releasable'', st)
          else (case umap_find (im_regions st) (rs_region res) of
            None \<Rightarrow> (fail ErrorCode.WRONG_GENERATION ''region gone'', st)
          | Some rr \<Rightarrow>
              if rd_generation (rr_descriptor rr) \<noteq> rs_regionGeneration res
              then (fail ErrorCode.WRONG_GENERATION ''region generation changed'', st)
              else if rs_epoch res \<noteq> im_epoch st
              then (fail ErrorCode.WRONG_EPOCH ''reservation epoch stale'', st)
              else let (okay, led) =
                         (if rs_state res = ReservationState.RESERVED
                          then release (rs_bytes res) (rr_ledger rr)
                          else complete (rs_bytes res) (rr_ledger rr));
                       st1 = st\<lparr>im_regions := with_ledger (rs_region res) (\<lambda>_. led) (im_regions st)\<rparr>
                   in if \<not> okay then (fail INTERNAL ''release ledger update failed'', st1)
                      else (ok (), st1\<lparr>im_reservations :=
                              umap_modify i (\<lambda>r. r\<lparr>rs_state := ReservationState.RELEASED\<rparr>)
                                (im_reservations st1)\<rparr>)))"

end
