(* ===== verification/Accounting.thy ===== *)
theory Accounting
  imports Registry Lifecycles Reserve
begin

text \<open>
  Exact capacity accounting across the region ledgers and the reservation table. A reservation that
  is \<open>RESERVED\<close>, \<open>COMMITTED\<close> or \<open>ACTIVE\<close> holds bytes of a ledger bucket of its region; the invariant
  \<open>balanced\<close> says that every ledger satisfies its closure invariant and that its reserved and
  committed buckets are exactly the sums over the reservations that hold them.

  The loops over the reservation table (fencing, the epoch fence, the release of a drain) share one
  contract, the locale \<open>reservation_sweep\<close>: one iteration keeps the books balanced whatever precedes
  and follows, leaves every region record alone except for its ledger, and never turns a
  reservation into a holder. The locale proves the loop from the iteration, and is interpreted for
  the three loop bodies of the code.
\<close>

section \<open>What reservations hold\<close>

definition holds :: "Reservation \<Rightarrow> bucket option" where
  "holds r =
     (if rs_state r = ReservationState.RESERVED then Some Reserved
      else if rs_state r = ReservationState.COMMITTED \<or> rs_state r = ReservationState.ACTIVE
      then Some Committed else None)"

definition held :: "bucket \<Rightarrow> RegionId \<Rightarrow> Reservation \<Rightarrow> nat" where
  "held b i r = (if rs_region r = i \<and> holds r = Some b then unat (rs_bytes r) else 0)"

definition held_by_all :: "bucket \<Rightarrow> RegionId \<Rightarrow> reservations \<Rightarrow> nat" where
  "held_by_all b i resvs = sum_list (map (\<lambda>(k, r). held b i r) resvs)"

definition bytes_at :: "regions \<Rightarrow> RegionId \<Rightarrow> bucket \<Rightarrow> nat" where
  "bytes_at regs i b = (case umap_find regs i of None \<Rightarrow> 0 | Some rr \<Rightarrow> bytes_in (rr_ledger rr) b)"

definition ledger_closed :: "RegionRecord \<Rightarrow> bool" where
  "ledger_closed rr \<longleftrightarrow>
     invariant (rr_ledger rr) \<and> total (rr_ledger rr) = rd_totalCapacityBytes (rr_descriptor rr)"

definition ledgers_closed :: "regions \<Rightarrow> bool" where
  "ledgers_closed regs \<longleftrightarrow> (\<forall>i. pred_option ledger_closed (umap_find regs i))"

definition holders_placed :: "regions \<Rightarrow> reservations \<Rightarrow> bool" where
  "holders_placed regs resvs \<longleftrightarrow>
     (\<forall>(k, r) \<in> set resvs. holds r \<noteq> None \<longrightarrow> umap_find regs (rs_region r) \<noteq> None)"

definition balanced :: "regions \<Rightarrow> reservations \<Rightarrow> bool" where
  "balanced regs resvs \<longleftrightarrow>
     umap_wf regs \<and> ledgers_closed regs \<and> holders_placed regs resvs \<and>
     (\<forall>i. \<forall>b \<in> {Reserved, Committed}. bytes_at regs i b = held_by_all b i resvs)"

text \<open>Two region tables that differ in ledgers only; two reservations that differ in state and note.\<close>

definition same_but_ledgers :: "regions \<Rightarrow> regions \<Rightarrow> bool" where
  "same_but_ledgers regs regs' \<longleftrightarrow>
     (\<forall>i. map_option (\<lambda>rr. rr\<lparr>rr_ledger := new_ledger 0\<rparr>) (umap_find regs' i) =
          map_option (\<lambda>rr. rr\<lparr>rr_ledger := new_ledger 0\<rparr>) (umap_find regs i))"

definition same_binding :: "Reservation \<Rightarrow> Reservation \<Rightarrow> bool" where
  "same_binding r r' \<longleftrightarrow> r' = r\<lparr>rs_state := rs_state r', rs_note := rs_note r'\<rparr>"

definition drops :: "Reservation \<Rightarrow> Reservation \<Rightarrow> bool" where
  "drops r r' \<longleftrightarrow> holds r' = None \<or> r' = r"

definition survives :: "ReservationId \<times> Reservation \<Rightarrow> ReservationId \<times> Reservation \<Rightarrow> bool" where
  "survives x y \<longleftrightarrow>
     fst y = fst x \<and> same_binding (snd x) (snd y) \<and> drops (snd x) (snd y)"

section \<open>Sums\<close>

lemma held_by_all_append [simp]:
  "held_by_all b i (xs @ ys) = held_by_all b i xs + held_by_all b i ys"
  "held_by_all b i ((k, r) # ys) = held b i r + held_by_all b i ys"
  "held_by_all b i [] = 0"
  by (simp_all add: held_by_all_def)

lemma umap_modify_split:
  assumes "umap_wf m" "umap_find m k = Some v"
  obtains pre post where "m = pre @ (k, v) # post" "umap_modify k f m = pre @ (k, f v) # post"
proof -
  from assms(2) obtain pre post where m: "m = pre @ (k, v) # post"
    by (meson split_list umap_find_in_set)
  with assms(1) have "k \<notin> fst ` set pre" "k \<notin> fst ` set post"
    by (auto simp: umap_wf_def)
  then have "umap_modify k f pre = pre" "umap_modify k f post = post"
    unfolding umap_modify_def by (force intro: map_idI)+
  with m have "umap_modify k f m = pre @ (k, f v) # post"
    by (simp add: umap_modify_def)
  with m that show ?thesis by blast
qed

lemma held_by_all_modify:
  assumes "umap_wf m" "umap_find m k = Some r"
  shows "held_by_all b i (umap_modify k f m) + held b i r = held_by_all b i m + held b i (f r)"
  using assms by (rule umap_modify_split [where f = f]) simp

lemma held_le_all: "umap_find m k = Some r \<Longrightarrow> held b i r \<le> held_by_all b i m"
  using umap_find_in_set [of m k r]
  by (auto simp: held_by_all_def intro!: member_le_sum_list intro: image_eqI)

section \<open>Changing one ledger\<close>

lemma with_ledger_find:
  "umap_find (with_ledger i f regs) j =
     (if j = i then map_option (\<lambda>rr. rr\<lparr>rr_ledger := f (rr_ledger rr)\<rparr>) (umap_find regs i)
      else umap_find regs j)"
  by (simp add: with_ledger_def)

lemma with_ledger_wf [simp]: "umap_wf regs \<Longrightarrow> umap_wf (with_ledger i f regs)"
  by (simp add: with_ledger_def)

lemma with_ledger_same [simp]: "same_but_ledgers regs (with_ledger i f regs)"
  by (auto simp: same_but_ledgers_def with_ledger_find option.map_comp comp_def)

lemma same_but_ledgers_refl [simp]: "same_but_ledgers regs regs"
  by (simp add: same_but_ledgers_def)

lemma same_but_ledgers_trans:
  "same_but_ledgers a b \<Longrightarrow> same_but_ledgers b c \<Longrightarrow> same_but_ledgers a c"
  by (simp add: same_but_ledgers_def)

lemma same_binding_refl [simp]: "same_binding r r"
  by (simp add: same_binding_def)

lemma balancedD:
  assumes "balanced regs resvs" "umap_find regs i = Some rr"
  shows "invariant (rr_ledger rr)" "total (rr_ledger rr) = rd_totalCapacityBytes (rr_descriptor rr)"
    "bytes_in (rr_ledger rr) Reserved = held_by_all Reserved i resvs"
    "bytes_in (rr_ledger rr) Committed = held_by_all Committed i resvs"
  using assms
  by (auto simp: balanced_def ledgers_closed_def ledger_closed_def bytes_at_def pred_option_def split: option.splits)

lemma drops_simps [simp]: "drops r r" "holds r' = None \<Longrightarrow> drops r r'"
  by (simp_all add: drops_def)

lemma balanced_change:
  assumes bal: "balanced regs resvs" and rr: "umap_find regs i = Some rr"
    and led: "invariant led" "total led = total (rr_ledger rr)"
    and held: "\<And>j b. b \<in> {Reserved, Committed} \<Longrightarrow>
        held_by_all b j resvs' + (if j = i then bytes_in (rr_ledger rr) b else 0) =
        held_by_all b j resvs + (if j = i then bytes_in led b else 0)"
    and placed: "holders_placed regs resvs'"
  shows "balanced (with_ledger i (\<lambda>_. led) regs) resvs'"
proof -
  have "bytes_at (with_ledger i (\<lambda>_. led) regs) j b = held_by_all b j resvs'"
    if b: "b \<in> {Reserved, Committed}" for j b
  proof -
    have "bytes_at regs j b = held_by_all b j resvs" using bal b by (auto simp: balanced_def)
    with held [OF b, of j] rr show ?thesis
      by (auto simp: bytes_at_def with_ledger_find split: if_splits)
  qed
  moreover have "ledgers_closed (with_ledger i (\<lambda>_. led) regs)"
    using bal rr led
    by (auto simp: balanced_def ledgers_closed_def ledger_closed_def with_ledger_find pred_option_def)
  moreover have "holders_placed (with_ledger i (\<lambda>_. led) regs) resvs'"
    using placed rr by (auto simp: holders_placed_def with_ledger_find)
  ultimately show ?thesis using bal by (auto simp: balanced_def)
qed

lemma balanced_map:
  assumes "\<And>rr. rr_ledger (f rr) = rr_ledger rr" "\<And>rr. rr_descriptor (f rr) = rr_descriptor rr"
  shows "balanced (umap_map f regs) resvs = balanced regs resvs"
    and "balanced (umap_modify i f regs) resvs = balanced regs resvs"
proof -
  have find: "map_option rr_ledger (umap_find (umap_map f regs) j) = map_option rr_ledger (umap_find regs j)"
    "map_option rr_ledger (umap_find (umap_modify i f regs) j) = map_option rr_ledger (umap_find regs j)" for j
    using assms by (simp_all add: option.map_comp comp_def)
  have at: "bytes_at regs j b = (case map_option rr_ledger (umap_find regs j) of None \<Rightarrow> 0 | Some l \<Rightarrow> bytes_in l b)"
    for regs j b by (simp add: bytes_at_def split: option.splits)
  have "umap_wf (umap_modify i f regs) = umap_wf regs"
    by (simp add: umap_wf_def umap_modify_def comp_def case_prod_beta)
  moreover have "holders_placed (umap_map f regs) resvs = holders_placed regs resvs"
    "holders_placed (umap_modify i f regs) resvs = holders_placed regs resvs"
    by (auto simp: holders_placed_def)
  moreover have "ledger_closed \<circ> f = ledger_closed"
    using assms by (auto simp: ledger_closed_def)
  then have "ledgers_closed (umap_map f regs) = ledgers_closed regs"
    "ledgers_closed (umap_modify i f regs) = ledgers_closed regs"
    by (auto simp: ledgers_closed_def option.pred_map)
  ultimately show "balanced (umap_map f regs) resvs = balanced regs resvs"
    and "balanced (umap_modify i f regs) resvs = balanced regs resvs"
    by (simp_all only: balanced_def at find umap_wf_map)
qed

lemma holds_bucket: "holds r = Some b \<Longrightarrow> b = Reserved \<or> b = Committed"
  by (auto simp: holds_def split: if_splits)

text \<open>
  The exchange lemma: a ledger method moves the bytes of one reservation out of the bucket it holds,
  and the reservation's new state holds the bucket they went to (or none, when that bucket is not
  one that reservations hold). The method cannot refuse and the books stay balanced. It covers
  commit, release, completion, both fences and the release of a drain.
\<close>

definition holdable :: "bucket \<Rightarrow> bucket option" where
  "holdable b = (if b = Reserved \<or> b = Committed then Some b else None)"

context ledger_move
begin

lemma exchange:
  assumes bal: "balanced regs (pre @ (k, r) # post)" and rr: "umap_find regs (rs_region r) = Some rr"
    and src: "holds r = Some src" and dst: "holds r' = holdable dst"
    and same: "rs_region r' = rs_region r" "rs_bytes r' = rs_bytes r"
  shows "fst (step (rs_bytes r) (rr_ledger rr))"
    and "balanced (with_ledger (rs_region r) (\<lambda>_. snd (step (rs_bytes r) (rr_ledger rr))) regs)
           (pre @ (k, r') # post)"
proof -
  note inv = balancedD(1) [OF bal rr]
  have le: "unat (rs_bytes r) \<le> bytes_in (rr_ledger rr) src"
    using holds_bucket [OF src] balancedD(3,4) [OF bal rr] src by (auto simp: held_def)
  then show acc: "fst (step (rs_bytes r) (rr_ledger rr))" by (simp add: accepts_iff inv)
  show "balanced (with_ledger (rs_region r) (\<lambda>_. snd (step (rs_bytes r) (rr_ledger rr))) regs)
           (pre @ (k, r') # post)"
  proof (rule balanced_change [OF bal rr])
    show "held_by_all b j (pre @ (k, r') # post) +
            (if j = rs_region r then bytes_in (rr_ledger rr) b else 0) =
          held_by_all b j (pre @ (k, r) # post) +
            (if j = rs_region r then bytes_in (snd (step (rs_bytes r) (rr_ledger rr))) b else 0)"
      if "b \<in> {Reserved, Committed}" for j b
      using that le distinct_buckets
      by (auto simp: bytes_after [OF inv le] move_def held_def same src dst holdable_def split: if_splits)
    show "holders_placed regs (pre @ (k, r') # post)"
      using bal rr by (auto simp: balanced_def holders_placed_def same)
  qed (simp_all add: inv keeps_invariant)
qed

end

lemma balanced_keep:
  assumes "balanced regs resvs" "umap_find regs i = Some rr"
    and "invariant led" "total led = total (rr_ledger rr)"
    and "reserved led = reserved (rr_ledger rr)" "committed led = committed (rr_ledger rr)"
  shows "balanced (with_ledger i (\<lambda>_. led) regs) resvs"
  using assms by (intro balanced_change) (auto simp: balanced_def)

section \<open>Loops over the reservations\<close>

locale reservation_sweep =
  fixes body :: "regions \<Rightarrow> Reservation \<Rightarrow> regions \<times> Reservation"
    and settled :: "Reservation \<Rightarrow> bool"
  assumes body_balanced: "balanced regs (pre @ (k, r) # post) \<Longrightarrow> body regs r = (regs', r') \<Longrightarrow>
      balanced regs' (pre @ (k, r') # post)"
    and body_settles: "balanced regs (pre @ (k, r) # post) \<Longrightarrow> body regs r = (regs', r') \<Longrightarrow> settled r'"
    and body_regions: "body regs r = (regs', r') \<Longrightarrow> same_but_ledgers regs regs'"
    and body_wf: "body regs r = (regs', r') \<Longrightarrow> umap_wf regs \<Longrightarrow> umap_wf regs'"
    and body_binding: "body regs r = (regs', r') \<Longrightarrow> same_binding r r'"
    and body_drops: "body regs r = (regs', r') \<Longrightarrow> drops r r'"
begin

lemma sweep_prefix:
  "balanced regs (pre @ resvs) \<Longrightarrow> umap_sweep body regs resvs = (regs', resvs') \<Longrightarrow>
   balanced regs' (pre @ resvs') \<and> (\<forall>(k, r) \<in> set resvs'. settled r)"
proof (induction resvs arbitrary: pre regs resvs')
  case (Cons x resvs)
  obtain k r where x: "x = (k, r)" by (cases x)
  obtain regs1 r1 where b: "body regs r = (regs1, r1)" by (cases "body regs r")
  with Cons.prems x obtain rest where s: "umap_sweep body regs1 resvs = (regs', rest)"
      and eq: "resvs' = (k, r1) # rest"
    by (auto simp: Let_def split: prod.splits)
  from Cons.prems(1) x have "balanced regs1 (pre @ (k, r1) # resvs)"
    by (auto intro: body_balanced b)
  then have "balanced regs1 ((pre @ [(k, r1)]) @ resvs)" by simp
  moreover have "settled r1" using Cons.prems(1) x by (auto intro: body_settles b)
  ultimately show ?case using Cons.IH [of regs1 "pre @ [(k, r1)]" rest] s eq by simp
qed simp

lemma sweep_balanced:
  "balanced regs resvs \<Longrightarrow> umap_sweep body regs resvs = (regs', resvs') \<Longrightarrow> balanced regs' resvs'"
  using sweep_prefix [of regs "[]"] by simp

lemma sweep_settled:
  "balanced regs resvs \<Longrightarrow> umap_sweep body regs resvs = (regs', resvs') \<Longrightarrow> (k, r) \<in> set resvs' \<Longrightarrow> settled r"
  using sweep_prefix [of regs "[]" resvs regs' resvs'] by auto

lemma sweep_regions: "umap_sweep body regs resvs = (regs', resvs') \<Longrightarrow> same_but_ledgers regs regs'"
proof (induction resvs arbitrary: regs resvs')
  case (Cons x resvs)
  then show ?case
    by (cases x) (force simp: Let_def split: prod.splits intro: same_but_ledgers_trans dest: body_regions)
qed simp

lemma sweep_values:
  "umap_sweep body regs resvs = (regs', resvs') \<Longrightarrow> list_all2 survives resvs resvs'"
proof (induction resvs arbitrary: regs resvs')
  case (Cons x resvs)
  obtain k r where x: "x = (k, r)" by (cases x)
  obtain regs1 r1 where b: "body regs r = (regs1, r1)" by (cases "body regs r")
  with Cons.prems x obtain rest where s: "umap_sweep body regs1 resvs = (regs', rest)"
      and eq: "resvs' = (k, r1) # rest"
    by (auto simp: Let_def split: prod.splits)
  have "survives x (k, r1)"
    using body_binding [OF b] body_drops [OF b] by (simp add: survives_def x)
  with Cons.IH [OF s] eq show ?case by simp
qed simp

lemma sweep_survivor:
  fixes resvs :: reservations
  assumes "umap_sweep body regs resvs = (regs', resvs')" "(k, r) \<in> set resvs'" "holds r \<noteq> None"
  shows "(k, r) \<in> set resvs"
proof -
  from assms(2) obtain i where i: "i < length resvs'" "resvs' ! i = (k, r)"
    by (auto simp: in_set_conv_nth)
  with sweep_values [OF assms(1)] have "survives (resvs ! i) (k, r)" "i < length resvs"
    by (auto simp: list_all2_conv_all_nth)
  with assms(3) show ?thesis by (metis survives_def drops_def fst_conv snd_conv nth_mem prod.collapse)
qed

end

text \<open>\<open>Impl::fence\<close> always succeeds on balanced books, and what it fences no longer holds anything.\<close>

lemma holds_simps [simp]:
  "holds (r\<lparr>rs_note := n\<rparr>) = holds r"
  "holds (r\<lparr>rs_state := ReservationState.REQUESTED\<rparr>) = None"
  "holds (r\<lparr>rs_state := ReservationState.FENCED\<rparr>) = None"
  "holds (r\<lparr>rs_state := ReservationState.CANCELLED\<rparr>) = None"
  "holds (r\<lparr>rs_state := ReservationState.RELEASED\<rparr>) = None"
  "holds (r\<lparr>rs_state := ReservationState.REVALIDATION_REQUIRED\<rparr>) = None"
  "holds (r\<lparr>rs_state := ReservationState.RESERVED\<rparr>) = Some Reserved"
  "holds (r\<lparr>rs_state := ReservationState.COMMITTED\<rparr>) = Some Committed"
  by (simp_all add: holds_def)

lemma holds_state:
  "rs_state r = ReservationState.RESERVED \<Longrightarrow> holds r = Some Reserved"
  "rs_state r = ReservationState.COMMITTED \<Longrightarrow> holds r = Some Committed"
  "rs_state r = ReservationState.ACTIVE \<Longrightarrow> holds r = Some Committed"
  by (simp_all add: holds_def)

lemma balanced_idle:
  assumes "balanced regs (pre @ (k, r) # post)" "holds r' = None"
    and "holds r = None"
  shows "balanced regs (pre @ (k, r') # post)"
  using assms by (auto simp: balanced_def holders_placed_def held_def)

lemma placedD:
  assumes "balanced regs (pre @ (k, r) # post)" "umap_find regs (rs_region r) = None"
  shows "holds r = None"
  using assms by (auto simp: balanced_def holders_placed_def)

lemma fence_balanced:
  assumes bal: "balanced regs (pre @ (k, r) # post)" and f: "fence reason regs r = (regs', r', b)"
  shows "b \<and> holds r' = None \<and> balanced regs' (pre @ (k, r') # post)"
proof (cases "umap_find regs (rs_region r)")
  case None
  note idle = placedD [OF bal None]
  with f None have "b \<and> holds r' = None \<and> regs' = regs"
    by (auto simp: fence_def holds_def split: if_splits)
  with idle show ?thesis using balanced_idle [OF bal] by blast
next
  case (Some rr)
  consider (res) "rs_state r = ReservationState.RESERVED"
    | (com) "rs_state r = ReservationState.COMMITTED \<or> rs_state r = ReservationState.ACTIVE"
    | (idle) "holds r = None" by (metis holds_def)
  then show ?thesis
  proof cases
    case res
    let ?r' = "r\<lparr>rs_state := ReservationState.FENCED, rs_note := reason\<rparr>"
    note ex = fence_reserved.exchange [OF bal Some, of ?r']
    from res f ex show ?thesis
      by (cases "fenceReserved (rs_bytes r) (rr_ledger rr)")
        (auto simp: fence_def Some holds_state holdable_def)
  next
    case com
    let ?r' = "r\<lparr>rs_state := ReservationState.REVALIDATION_REQUIRED, rs_note := reason\<rparr>"
    note ex = fence_committed.exchange [OF bal Some, of ?r']
    from com f ex show ?thesis
      by (cases "fenceCommitted (rs_bytes r) (rr_ledger rr)")
        (auto simp: fence_def Some holds_state holdable_def)
  next
    case idle
    with f Some have "b \<and> holds r' = None \<and> regs' = regs"
      by (auto simp: fence_def holds_def split: if_splits)
    then show ?thesis using balanced_idle [OF bal] idle by blast
  qed
qed

lemma same_binding_change [simp]:
  "same_binding r (r\<lparr>rs_state := s\<rparr>)" "same_binding r (r\<lparr>rs_state := s, rs_note := n\<rparr>)"
  by (simp_all add: same_binding_def)

lemma fence_shape:
  shows "same_but_ledgers regs (fst (fence reason regs r))"
    and "umap_wf regs \<Longrightarrow> umap_wf (fst (fence reason regs r))"
    and "same_binding r (fst (snd (fence reason regs r)))"
    and "drops r (fst (snd (fence reason regs r)))"
  by (simp_all add: fence_def Let_def case_prod_beta split: option.splits)

text \<open>The three loop bodies meet the contract.\<close>

locale binding_predicate =
  fixes P :: "Reservation \<Rightarrow> bool"
  assumes ignores_state: "same_binding r r' \<Longrightarrow> P r' = P r"

sublocale binding_predicate \<subseteq> fences: reservation_sweep "fence_if P reason" "\<lambda>r. P r \<longrightarrow> holds r = None"
  for reason
proof unfold_locales
  fix regs pre k r post regs' r'
  assume bal: "balanced regs (pre @ (k, r) # post)" and f: "fence_if P reason regs r = (regs', r')"
  show "balanced regs' (pre @ (k, r') # post)"
    using bal f fence_balanced [OF bal] by (auto simp: fence_if_def split: if_splits prod.splits)
  show "P r' \<longrightarrow> holds r' = None"
  proof (cases "P r")
    case True
    then show ?thesis using f fence_balanced [OF bal] by (auto simp: fence_if_def split: prod.splits)
  qed (use f in \<open>simp add: fence_if_def\<close>)
next
  fix regs r regs' r'
  assume f: "fence_if P reason regs r = (regs', r')"
  then have e: "regs' = fst (fence_if P reason regs r)" "r' = snd (fence_if P reason regs r)"
    by simp_all
  show "same_but_ledgers regs regs'" "umap_wf regs \<Longrightarrow> umap_wf regs'" "same_binding r r'" "drops r r'"
    unfolding e by (simp_all add: fence_if_def Let_def case_prod_beta fence_shape)
qed

lemma umap_modify_at:
  "umap_wf m \<Longrightarrow> umap_find m k = Some v \<Longrightarrow> umap_modify k f m = umap_modify k (\<lambda>_. f v) m"
  unfolding umap_modify_def by (rule map_cong [OF refl]) (fastforce dest: umap_in_set_find)

lemma with_ledger_at:
  assumes "umap_find regs i = Some rr" "umap_wf regs"
  shows "with_ledger i f regs = with_ledger i (\<lambda>_. f (rr_ledger rr)) regs"
  unfolding with_ledger_def
  by (rule trans [OF umap_modify_at [OF assms(2,1)] umap_modify_at [OF assms(2,1), symmetric]])

lemma epoch_fence_idle: "holds (snd (epoch_fence regs r)) = None"
  by (cases "rs_state r") (simp_all add: epoch_fence_def holds_def)

lemma epoch_fence_balanced:
  assumes bal: "balanced regs (pre @ (k, r) # post)"
  shows "balanced (fst (epoch_fence regs r)) (pre @ (k, snd (epoch_fence regs r)) # post)"
    and "holds (snd (epoch_fence regs r)) = None"
proof -
  have wf: "umap_wf regs" using bal by (simp add: balanced_def)
  show idle: "holds (snd (epoch_fence regs r)) = None" by (rule epoch_fence_idle)
  show "balanced (fst (epoch_fence regs r)) (pre @ (k, snd (epoch_fence regs r)) # post)"
  proof (cases "holds r")
    case None
    then have "fst (epoch_fence regs r) = regs"
      by (cases "rs_state r") (simp_all add: epoch_fence_def holds_def)
    with balanced_idle [OF bal _ None] idle show ?thesis by simp
  next
    case (Some b)
    then obtain rr where rr: "umap_find regs (rs_region r) = Some rr"
      using placedD [OF bal] by (cases "umap_find regs (rs_region r)") simp_all
    let ?r' = "r\<lparr>rs_state := ReservationState.REVALIDATION_REQUIRED\<rparr>"
    have "rs_state r = ReservationState.RESERVED \<or> rs_state r = ReservationState.COMMITTED \<or>
        rs_state r = ReservationState.ACTIVE"
      using Some by (cases "rs_state r") (simp_all add: holds_def)
    moreover note at = with_ledger_at [OF rr wf, of "\<lambda>l. snd (fenceReserved (rs_bytes r) l)"]
      with_ledger_at [OF rr wf, of "\<lambda>l. snd (fenceCommitted (rs_bytes r) l)"]
    ultimately show ?thesis
      using fence_reserved.exchange(2) [OF bal rr, of ?r'] fence_committed.exchange(2) [OF bal rr, of ?r']
      by (elim disjE) (simp_all add: epoch_fence_def holds_state holdable_def at)
  qed
qed

lemma epoch_fence_shape:
  "same_but_ledgers regs (fst (epoch_fence regs r))"
  "umap_wf regs \<Longrightarrow> umap_wf (fst (epoch_fence regs r))"
  "same_binding r (snd (epoch_fence regs r))"
  "drops r (snd (epoch_fence regs r))"
  by (simp_all add: epoch_fence_def)

interpretation epoch: reservation_sweep epoch_fence "\<lambda>r. holds r = None"
  by unfold_locales (metis epoch_fence_balanced epoch_fence_shape fst_conv snd_conv)+

lemma drain_release_balanced:
  assumes bal: "balanced regs (pre @ (k, r) # post)"
  shows "balanced (fst (drain_release i regs r)) (pre @ (k, snd (drain_release i regs r)) # post)"
    and "\<not> (rs_region (snd (drain_release i regs r)) = i \<and>
             rs_state (snd (drain_release i regs r)) = ReservationState.RESERVED)"
proof -
  let ?hit = "rs_region r = i \<and> rs_state r = ReservationState.RESERVED"
  have "balanced (fst (drain_release i regs r)) (pre @ (k, snd (drain_release i regs r)) # post) \<and>
    \<not> (rs_region (snd (drain_release i regs r)) = i \<and>
             rs_state (snd (drain_release i regs r)) = ReservationState.RESERVED)"
  proof (cases ?hit)
    case True
    then obtain rr where rr: "umap_find regs (rs_region r) = Some rr"
      using placedD [OF bal] by (auto simp: holds_def)
    let ?r' = "r\<lparr>rs_state := ReservationState.CANCELLED\<rparr>"
    show ?thesis
      using True rr release.exchange [OF bal rr, of ?r']
      by (cases "release (rs_bytes r) (rr_ledger rr)") (auto simp: drain_release_def holds_def holdable_def)
  qed (auto simp: drain_release_def bal)
  then show "balanced (fst (drain_release i regs r)) (pre @ (k, snd (drain_release i regs r)) # post)"
    and "\<not> (rs_region (snd (drain_release i regs r)) = i \<and>
             rs_state (snd (drain_release i regs r)) = ReservationState.RESERVED)"
    by blast+
qed

lemma drain_release_shape:
  "same_but_ledgers regs (fst (drain_release i regs r))"
  "umap_wf regs \<Longrightarrow> umap_wf (fst (drain_release i regs r))"
  "same_binding r (snd (drain_release i regs r))"
  "drops r (snd (drain_release i regs r))"
  by (simp_all add: drain_release_def Let_def case_prod_beta split: option.splits)

interpretation drain: reservation_sweep "drain_release i"
    "\<lambda>r. \<not> (rs_region r = i \<and> rs_state r = ReservationState.RESERVED)" for i
  by unfold_locales (metis drain_release_balanced drain_release_shape fst_conv snd_conv)+

lemma same_bindingD:
  assumes "same_binding r r'"
  shows "rs_provider r' = rs_provider r" "rs_region r' = rs_region r" "rs_pool r' = rs_pool r"
    "rs_policy r' = rs_policy r" "rs_worker r' = rs_worker r" "rs_epoch r' = rs_epoch r"
    "rs_bytes r' = rs_bytes r"
  by (rule trans [OF arg_cong [OF assms [unfolded same_binding_def]]], simp)+

interpretation by_provider: binding_predicate "\<lambda>r. rs_provider r = p" for p
  by unfold_locales (simp add: same_bindingD)

interpretation by_region: binding_predicate "\<lambda>r. rs_region r = i" for i
  by unfold_locales (simp add: same_bindingD)

interpretation by_pool: binding_predicate "\<lambda>r. rs_pool r = p" for p
  by unfold_locales (simp add: same_bindingD)

interpretation by_policy: binding_predicate "\<lambda>r. rs_policy r = p" for p
  by unfold_locales (simp add: same_bindingD)

interpretation by_worker: binding_predicate "\<lambda>r. rs_worker r = w \<or> rs_region r \<in> A" for w A
  by unfold_locales (simp add: same_bindingD)

end
