(* ===== verification/Ranking.thy ===== *)
theory Ranking
  imports Selection "HOL-Library.Product_Lexorder"
begin

text \<open>
  What the selection promises: the ranked regions are exactly the admitted regions that pass every
  hard constraint, each once; they are in the order of the documented tie-break; the result does not
  depend on the iteration order of the region table. The last two need scores that are numbers;
  \<open>score_is_number\<close> shows that a headroom factor other than NaN is enough, and \<open>nan_scores\<close> that a
  NaN factor makes every score NaN, which leaves the iteration order as it is.
\<close>

section \<open>Eligibility\<close>

text \<open>The hard constraints as a conjunction, in the order in which the code tests them.\<close>

definition supports :: "ProviderRecord \<Rightarrow> RegionRecord \<Rightarrow> CapabilityKey \<Rightarrow> bool" where
  "supports pr rr key \<longleftrightarrow>
     cap_get (pd_capabilities (pr_descriptor pr)) key = CapabilityStatus.SUPPORTED \<or>
     cap_get (pd_capabilities (pr_descriptor pr)) key = CapabilityStatus.UNKNOWN \<and>
     cap_get (rd_staticCapabilities (rr_descriptor rr)) key = CapabilityStatus.SUPPORTED"

definition locality_fits :: "Locality \<Rightarrow> Locality \<Rightarrow> bool" where
  "locality_fits pref l \<longleftrightarrow>
     (pref = Locality.LOCAL \<longrightarrow> l = Locality.LOCAL) \<and>
     (pref = Locality.REMOTE \<longrightarrow> l \<noteq> Locality.LOCAL \<and> l \<noteq> Locality.UNKNOWN) \<and>
     (pref = Locality.FABRIC \<longrightarrow> l = Locality.FABRIC)"

definition usable_now :: "Impl \<Rightarrow> ConsumerRequirements \<Rightarrow> ProviderRecord \<Rightarrow> RegionRecord \<Rightarrow> bool" where
  "usable_now st req pr rr \<longleftrightarrow>
     pr_lifecycle pr \<notin> {Lifecycle.RETIRED, Lifecycle.FAILED} \<and>
     (rr_lifecycle rr = RegionLifecycle.ONLINE \<or>
      rr_lifecycle rr = RegionLifecycle.DEGRADED \<and> effective_allowDegraded st req) \<and>
     rr_hasEvidence rr \<and> rr_evidenceStatus rr = EvidenceStatus.CURRENT \<and>
     rr_health rr \<noteq> HealthState.FAILED \<and>
     (rr_health rr = HealthState.DEGRADED \<longrightarrow> effective_allowDegraded st req) \<and>
     rr_reachable rr"

definition meets_requirements :: "Impl \<Rightarrow> ConsumerRequirements \<Rightarrow> ProviderRecord \<Rightarrow> RegionRecord \<Rightarrow> bool" where
  "meets_requirements st req pr rr \<longleftrightarrow>
     rq_requiredBytes req \<le> free (rr_ledger rr) \<and>
     (rq_cpuAccessible req \<longrightarrow> supports pr rr CapabilityKey.CPU_ACCESSIBLE) \<and>
     (rq_acceleratorAccessible req \<longrightarrow> supports pr rr CapabilityKey.ACCELERATOR_ACCESSIBLE) \<and>
     (rq_directAccessRequired req \<longrightarrow> supports pr rr CapabilityKey.DIRECT_ACCESS) \<and>
     (rq_persistent req \<longrightarrow> pd_persistence (pr_descriptor pr) = Persistence.PERSISTENT) \<and>
     rq_alignmentBytes req \<le> rd_alignmentBytes (rr_descriptor rr) \<and>
     (0 < rd_granularityBytes (rr_descriptor rr) \<and> rd_granularityBytes (rr_descriptor rr) < rq_requiredBytes req \<longrightarrow>
        unat (rd_granularityBytes (rr_descriptor rr)) dvd unat (rq_requiredBytes req)) \<and>
     (0 < rq_maxLatencyNs req \<longrightarrow> 0 < rr_latencyNs rr \<and> rr_latencyNs rr \<le> rq_maxLatencyNs req) \<and>
     (0 < rq_minBandwidth req \<longrightarrow> rq_minBandwidth req \<le> rr_bandwidthBytesPerSec rr) \<and>
     (rq_allowedKinds req \<noteq> [] \<longrightarrow> pd_kind (pr_descriptor pr) \<in> set (rq_allowedKinds req)) \<and>
     pd_kind (pr_descriptor pr) \<notin> set (rq_forbiddenKinds req) \<and>
     locality_fits (rq_localityPreference req) (ev_locality (rr_latest rr)) \<and>
     (\<not> null (rq_forbiddenFailureDomain req) \<longrightarrow>
        pd_failureDomain (pr_descriptor pr) \<noteq> rq_forbiddenFailureDomain req) \<and>
     (\<not> null (rq_policy req) \<longrightarrow> umap_find (im_policies st) (rq_policy req) \<noteq> None)"

lemma cap_class_supports:
  "cap_class pr rr key = 0 \<longleftrightarrow> supports pr rr key"
  "cap_class pr rr key \<noteq> 1 \<and> cap_class pr rr key \<noteq> 2 \<longleftrightarrow> supports pr rr key"
  by (auto simp: cap_class_def supports_def Let_def)

lemma u64_mod_dvd: "(a :: u64) mod b = 0 \<longleftrightarrow> unat b dvd unat a"
  by (simp add: word_unat_eq_iff unat_mod dvd_eq_mod_eq_0)

lemma cap_class_split:
  "P (cap_class pr rr key) \<longleftrightarrow>
    (cap_class pr rr key = 0 \<longrightarrow> P 0) \<and> (cap_class pr rr key = 1 \<longrightarrow> P 1) \<and> (cap_class pr rr key = 2 \<longrightarrow> P 2)"
  by (auto simp: cap_class_def Let_def)

lemma if_eligible:
  "x \<noteq> ELIGIBLE \<Longrightarrow> ((if c then x else y) = ELIGIBLE) \<longleftrightarrow> \<not> c \<and> y = ELIGIBLE"
  by simp

text \<open>Consecutive tests of the chain, regrouped into one constraint each.\<close>

lemma chain_regroup:
  fixes m l g n :: u64
  shows "\<not> (lc = RegionLifecycle.RETIRED) \<and> \<not> (lc = RegionLifecycle.DRAINING) \<and>
      \<not> (lc = RegionLifecycle.DEGRADED \<and> \<not> d) \<and> \<not> (lc \<noteq> RegionLifecycle.ONLINE \<and> lc \<noteq> RegionLifecycle.DEGRADED) \<and> R \<longleftrightarrow>
      (lc = RegionLifecycle.ONLINE \<or> lc = RegionLifecycle.DEGRADED \<and> d) \<and> R"
    and "\<not> (q \<and> cap_class pr rr key = 1) \<and> \<not> (q \<and> cap_class pr rr key = 2) \<and> R \<longleftrightarrow>
      (q \<longrightarrow> supports pr rr key) \<and> R"
    and "\<not> (n \<noteq> 0 \<and> g \<noteq> 0 \<and> g < n \<and> n mod g \<noteq> 0) \<longleftrightarrow> (0 < g \<and> g < n \<longrightarrow> unat g dvd unat n)"
    and "\<not> (0 < m \<and> l = 0) \<and> \<not> (0 < m \<and> m < l) \<and> R \<longleftrightarrow> (0 < m \<longrightarrow> 0 < l \<and> l \<le> m) \<and> R"
    and "\<not> (0 < m \<and> l = 0) \<and> \<not> (0 < m \<and> l < m) \<and> R \<longleftrightarrow> (0 < m \<longrightarrow> m \<le> l) \<and> R"
    and "\<not> (p = Locality.LOCAL \<and> loc \<noteq> Locality.LOCAL) \<and>
      \<not> (p = Locality.REMOTE \<and> (loc = Locality.LOCAL \<or> loc = Locality.UNKNOWN)) \<and>
      \<not> (p = Locality.FABRIC \<and> loc \<noteq> Locality.FABRIC) \<and> R \<longleftrightarrow> locality_fits p loc \<and> R"
    and "\<not> (p1 \<or> p2) \<longleftrightarrow> \<not> p1 \<and> \<not> p2"
    and "\<not> (q \<and> \<not> s) \<longleftrightarrow> (q \<longrightarrow> s)" and "\<not> (q \<and> s) \<longleftrightarrow> (q \<longrightarrow> \<not> s)"
  by (auto simp: cap_class_supports [symmetric] locality_fits_def u64_mod_dvd [symmetric] word_neq_0_conv not_less)
    (metis One_nat_def cap_class_supports)

lemma eligible_iff:
  "evaluateRegionEligibility st req rr = ELIGIBLE \<longleftrightarrow>
     (\<exists>pr. umap_find (im_providers st) (rd_provider (rr_descriptor rr)) = Some pr \<and>
        usable_now st req pr rr \<and> meets_requirements st req pr rr)"
proof (cases "umap_find (im_providers st) (rd_provider (rr_descriptor rr))")
  case None
  then show ?thesis by (simp add: evaluateRegionEligibility_def)
next
  case (Some pr)
  have "evaluateRegionEligibility st req rr = ELIGIBLE \<longleftrightarrow>
      usable_now st req pr rr \<and> meets_requirements st req pr rr"
    unfolding evaluateRegionEligibility_def Some Let_def option.case
    by (simp only: if_eligible EligibilityReason.distinct not_False_eq_True simp_thms,
        simp only: chain_regroup(1-6),
        simp only: chain_regroup(7-) usable_now_def meets_requirements_def not_less not_not conj_assoc
          insert_iff empty_iff simp_thms)
  with Some show ?thesis by simp
qed

section \<open>The sort\<close>

lemma mset_stable_sort [simp]: "mset (stable_sort before xs) = mset xs"
proof -
  have "mset (insert_stable before x ys) = add_mset x (mset ys)" for x ys
    by (induction ys) auto
  then show ?thesis by (induction xs) auto
qed

lemma set_stable_sort [simp]: "set (stable_sort before xs) = set xs"
  by (metis mset_stable_sort set_mset_mset)

text \<open>The comparator as a lexicographic key, on candidates whose scores are numbers.\<close>

definition cand_key :: "Cand \<Rightarrow> int \<times> u64 \<times> u64 \<times> u64" where
  "cand_key c = (- order_key (c_score c), id_value (c_region c), id_value (c_provider c), id_value (c_pool c))"

lemma cand_before_key:
  assumes "\<not> is_nan (c_score x)" "\<not> is_nan (c_score y)"
  shows "cand_before x y \<longleftrightarrow> cand_key x < cand_key y"
  using assms by (auto simp: cand_before_def cand_key_def f_eq_def f_less_def)

lemma stable_sort_key:
  assumes "\<And>c. c \<in> set cs \<Longrightarrow> \<not> is_nan (c_score c)"
  shows "stable_sort cand_before cs = sort_key cand_key cs"
  using assms
proof (induction cs)
  case (Cons c cs)
  have "insert_stable cand_before c ys = insort_key cand_key c ys" if "set ys \<subseteq> set cs" for ys
    using that
  proof (induction ys)
    case (Cons y ys)
    then have "cand_before y c \<longleftrightarrow> cand_key y < cand_key c"
      using Cons.prems \<open>\<And>c'. c' \<in> set (c # cs) \<Longrightarrow> _ c'\<close> by (intro cand_before_key) auto
    with Cons show ?case by (auto simp: not_le)
  qed simp
  with Cons show ?case by simp
qed simp

section \<open>Scores are numbers\<close>

lemma max_double_number:
  assumes "\<not> is_nan m" "\<not> sign_neg m"
  shows "\<not> is_nan (max_double m vs) \<and> \<not> sign_neg (max_double m vs) \<and>
    order_key (max_double m vs) = Max (insert (order_key m) (set (map (\<lambda>v. order_key (double_of_u64 v)) vs)))"
  using assms
proof (induction vs arbitrary: m)
  case (Cons v vs)
  let ?k = "\<lambda>v. order_key (double_of_u64 v)"
  have "Max (insert (order_key m) (set (map ?k (v # vs)))) =
      Max (insert (max (order_key m) (?k v)) (set (map ?k vs)))"
    by (cases "vs = []") (simp_all add: max.left_commute max.commute)
  with Cons show ?case by (auto simp: f_less_def max_def)
qed simp

lemma max_double_small: "small 64 m \<Longrightarrow> small 64 (max_double m vs)"
  by (induction vs arbitrary: m) (auto intro: small_of_u64)

lemma zero_number [simp]: "\<not> is_nan (F64 0)" "\<not> sign_neg (F64 0)" "order_key (F64 0) = 0" "small k (F64 0)"
  by (simp_all add: is_nan_def sign_neg_def order_key_def mag_bits_def inf_mag_def small_def)

lemma max_double_upper:
  assumes "v \<in> set vs"
  shows "mag_bits (double_of_u64 v) \<le> mag_bits (max_double (F64 0) vs)"
proof -
  have "order_key (double_of_u64 v) \<le> order_key (max_double (F64 0) vs)"
    using max_double_number [of "F64 0" vs] assms by (auto intro!: Max_ge)
  then show ?thesis
    using max_double_number [of "F64 0" vs] by (simp add: order_key_def)
qed

lemma ratio_small:
  assumes "v \<in> set vs" "f_less (F64 0) (max_double (F64 0) vs)"
  shows "small 0 (f_div (double_of_u64 v) (max_double (F64 0) vs))"
proof (rule small_div [where k = 64])
  show "0 < mag_bits (max_double (F64 0) vs)"
    using assms(2) max_double_number [of "F64 0" vs] by (simp add: f_less_def order_key_def)
qed (simp_all add: small_of_u64 max_double_small max_double_upper assms)

lemma unit_constants:
  "small 0 kW" "small 0 kLat" "small 0 kBw" "small 0 kHead" "small 0 kAcc" "small 0 kHealth"
  "small 0 (localityScore l)" "small 0 (healthScore h)" "small 0 (accessScore k)"
  "small 0 (double_of_rat 1)" "small 0 (double_of_rat 0)"
  unfolding kW_def kLat_def kBw_def kHead_def kAcc_def kHealth_def localityScore_def healthScore_def accessScore_def
  by (auto intro!: small_of_rat split: Locality.split HealthState.split AccessKind.split)

lemma nonzero_of_rat:
  assumes "1 \<le> q * 1000" "q \<le> 2 ^ 64"
  shows "0 < mag_bits (double_of_rat q)"
proof -
  have "mag_value 1 = 1 / 2 ^ 1074" by (simp add: mag_value_def mag_units_def)
  also have "\<dots> \<le> 1 / 2 ^ 10" by (intro divide_left_mono power_increasing) simp_all
  finally have "mag_value 1 \<le> q" using assms(1) by simp
  then have "1 \<le> round_mag q"
    using assms(2) pow2_mag_less_inf [of 64] by (intro round_mag_lower [of _ _ "pow2_mag 64"]) (simp_all add: pow2_mag_value)
  moreover have "\<not> q < 0" using assms(1) by simp
  ultimately show ?thesis by (simp add: double_of_rat_def round_mag_le_inf)
qed

lemma u64_nonzero: "0 < n \<Longrightarrow> 0 < mag_bits (double_of_u64 n)"
proof -
  assume "0 < n"
  then have "1 \<le> unat n" by (simp add: word_less_nat_alt)
  then have "(1 :: rat) \<le> of_nat (unat n)" by (metis of_nat_1 of_nat_le_iff)
  moreover have "of_nat (unat n) \<le> (of_nat (2 ^ 64) :: rat)"
    unfolding of_nat_le_iff using unat_u64_less [of n] by simp
  ultimately show ?thesis
    unfolding double_of_u64_def by (intro nonzero_of_rat) (simp_all del: of_nat_unat)
qed

lemma f_mul_number:
  assumes "small k a" "k < 1024" "0 < mag_bits a" "\<not> is_nan b"
  shows "\<not> is_nan (f_mul a b)"
  using assms small_finite(1,2) [OF assms(1,2)]
  by (auto simp: f_mul_def Let_def round_mag_le_inf is_inf_def) (simp add: inf_mag_def)

lemma f_div_number:
  assumes "small k a" "k < 1024" "0 < mag_bits a" "\<not> is_nan b"
  shows "\<not> is_nan (f_div a b)"
  using assms small_finite(1,2) [OF assms(1,2)]
  by (auto simp: f_div_def Let_def round_mag_le_inf)

lemma headroom_number:
  assumes "\<not> is_nan (rq_reserveHeadroomFactor req)" "rq_requiredBytes req \<le> fr"
  shows "\<not> is_nan (headroom req fr)"
proof (cases "rq_requiredBytes req = 0")
  case True
  then show ?thesis by (simp add: headroom_def Let_def)
next
  case False
  then have pos: "0 < rq_requiredBytes req" "0 < fr" using assms(2) by (auto simp: word_gt_0)
  have "\<not> is_nan (f_add (double_of_rat 1) (rq_reserveHeadroomFactor req))"
    using assms(1) small_finite(1,2) [OF unit_constants(10)] by (intro f_add_not_nan) simp_all
  then have "\<not> is_nan (f_div (double_of_u64 fr) (f_mul (double_of_u64 (rq_requiredBytes req))
      (f_add (double_of_rat 1) (rq_reserveHeadroomFactor req))))"
    using pos by (intro f_div_number [OF small_of_u64] f_mul_number [OF small_of_u64] u64_nonzero) simp_all
  then show ?thesis by (simp add: headroom_def Let_def)
qed

lemma score_is_number:
  assumes h: "\<not> is_nan (rq_reserveHeadroomFactor req)" "rq_requiredBytes req \<le> c_free c"
    and c: "c \<in> set cs"
    and m: "maxLatency = max_double (F64 0) (map c_latencyNs cs)" "maxBw = max_double (F64 0) (map c_bandwidth cs)"
  shows "\<not> is_nan (c_score (score_cand req maxLatency maxBw c))"
proof -
  let ?lat0 = "if f_less (F64 0) maxLatency
      then f_sub (double_of_rat 1) (f_div (double_of_u64 (c_latencyNs c)) maxLatency) else double_of_rat 1"
  let ?lat = "if c_latencyNs c = 0 then double_of_rat 0 else ?lat0"
  let ?bw = "if f_less (F64 0) maxBw then f_div (double_of_u64 (c_bandwidth c)) maxBw else double_of_rat 1"
  have "small 0 ?lat" "small 0 ?bw"
    using c unfolding m by (auto intro!: small_one_minus ratio_small unit_constants)
  then have s2: "small 0 (f_mul kLat ?lat)" "small 0 (f_mul kBw ?bw)" by (auto intro: small_mul unit_constants)
  let ?loc = "f_mul kW (localityScore (c_locality c))"
  have "small 1 (f_add ?loc (f_mul kLat ?lat))"
    unfolding One_nat_def by (rule small_add [OF small_mul s2(1)]) (simp_all add: unit_constants)
  then have "small 2 (f_add (f_add ?loc (f_mul kLat ?lat)) (f_mul kBw ?bw))"
    using small_add [of 1 "f_add ?loc (f_mul kLat ?lat)" "f_mul kBw ?bw"] small_mono [OF s2(2), of 1]
    by (simp add: numeral_2_eq_2)
  then have s3: "\<not> is_nan (f_add (f_add ?loc (f_mul kLat ?lat)) (f_mul kBw ?bw))"
      "\<not> is_inf (f_add (f_add ?loc (f_mul kLat ?lat)) (f_mul kBw ?bw))"
    by (rule small_finite; simp)+
  have "0 < mag_bits kHead" unfolding kHead_def by (rule nonzero_of_rat) simp_all
  then have "\<not> is_nan (f_mul kHead (headroom req (c_free c)))"
    using headroom_number [OF h] by (intro f_mul_number [OF unit_constants(4)]) simp_all
  then have s4: "\<not> is_nan (f_add (f_add (f_add ?loc (f_mul kLat ?lat)) (f_mul kBw ?bw)) (f_mul kHead (headroom req (c_free c))))"
    using s3 by (intro f_add_not_nan [OF s3(1)] disjI1)
  have tail: "small 0 (f_mul kAcc (accessScore (c_access c)))" "small 0 (f_mul kHealth (healthScore (c_health c)))"
    by (intro small_mul unit_constants)+
  have sel: "c_score (c\<lparr>c_factors := fs, c_score := x\<rparr>) = x" for fs x by simp
  show ?thesis
    unfolding score_cand_def Let_def sel
    by (rule f_add_not_nan [OF f_add_not_nan [OF s4]])
      (simp_all add: small_finite(1,2) [OF tail(1)] small_finite(1,2) [OF tail(2)])
qed

section \<open>The ranking\<close>

lemma score_cand_fields [simp]:
  "c_region (score_cand req a b c) = c_region c" "c_provider (score_cand req a b c) = c_provider c"
  "c_pool (score_cand req a b c) = c_pool c" "c_bytes (score_cand req a b c) = c_bytes c"
  "c_free (score_cand req a b c) = c_free c"
  by (simp_all add: score_cand_def Let_def)

lemma ranking_regions:
  "mset (map rc_region (ranking st req)) =
     mset (map fst (filter (\<lambda>(rid, rr). evaluateRegionEligibility st req rr = ELIGIBLE) (admitted st req)))"
proof -
  have "mset (map rc_region (ranking st req)) = mset (map c_region (score_all req (eligible_cands st req)))"
    unfolding ranking_def map_map mset_map mset_stable_sort
    by (simp add: ranked_of_cand_def comp_def)
  also have "map c_region (score_all req (eligible_cands st req)) =
      map fst (filter (\<lambda>(rid, rr). evaluateRegionEligibility st req rr = ELIGIBLE) (admitted st req))"
    by (simp add: score_all_def eligible_cands_def make_cand_def comp_def case_prod_beta Let_def)
  finally show ?thesis .
qed

lemma ranking_distinct: "umap_wf (im_regions st) \<Longrightarrow> distinct (map rc_region (ranking st req))"
  using ranking_regions [of st req]
  by (metis (no_types, lifting) admitted_def distinct_map_filter mset_eq_imp_distinct_iff umap_wf_def)

lemma ranking_member:
  assumes "rc \<in> set (ranking st req)"
  shows "\<exists>rr. (rc_region rc, rr) \<in> set (im_regions st) \<and> pool_admits req rr \<and>
           evaluateRegionEligibility st req rr = ELIGIBLE"
proof -
  have "rc_region rc \<in># mset (map rc_region (ranking st req))" using assms by simp
  then show ?thesis unfolding ranking_regions by (auto simp: admitted_def)
qed

lemma eligible_scores:
  assumes "\<not> is_nan (rq_reserveHeadroomFactor req)" "c \<in> set (score_all req (eligible_cands st req))"
  shows "\<not> is_nan (c_score c)"
proof -
  let ?cs = "eligible_cands st req"
  have le: "\<forall>c \<in> set ?cs. rq_requiredBytes req \<le> c_free c"
    by (auto simp: eligible_cands_def make_cand_def eligible_iff meets_requirements_def)
  from assms(2) have "c \<in> score_cand req (max_double (F64 0) (map c_latencyNs ?cs))
      (max_double (F64 0) (map c_bandwidth ?cs)) ` set ?cs"
    by (simp add: score_all_def Let_def)
  then show ?thesis
  proof (rule imageE)
    fix c0
    assume eq: "c = score_cand req (max_double (F64 0) (map c_latencyNs ?cs))
        (max_double (F64 0) (map c_bandwidth ?cs)) c0" and c0: "c0 \<in> set ?cs"
    show ?thesis
      unfolding eq by (rule score_is_number [OF assms(1) bspec [OF le c0] c0 refl refl])
  qed
qed

lemma ranking_sort:
  assumes "\<not> is_nan (rq_reserveHeadroomFactor req)"
  shows "ranking st req = map ranked_of_cand (sort_key cand_key (score_all req (eligible_cands st req)))"
  unfolding ranking_def using eligible_scores [OF assms] by (simp add: stable_sort_key)

definition ranked_key :: "RankedCandidate \<Rightarrow> int \<times> u64 \<times> u64 \<times> u64" where
  "ranked_key c = (- order_key (rc_score c), id_value (rc_region c), id_value (rc_provider c), id_value (rc_pool c))"

lemma ranked_key_of_cand: "ranked_key \<circ> ranked_of_cand = cand_key"
  by (simp add: fun_eq_iff ranked_key_def ranked_of_cand_def cand_key_def)

lemma ranking_is_sorted:
  assumes "\<not> is_nan (rq_reserveHeadroomFactor req)"
  shows "sorted (map ranked_key (ranking st req))"
  by (simp add: ranking_sort [OF assms] ranked_key_of_cand)

lemma max_double_set:
  assumes "set vs = set ws"
  shows "max_double (F64 0) vs = max_double (F64 0) ws"
  by (rule nonneg_key_inject)
    (use max_double_number [of "F64 0" vs] max_double_number [of "F64 0" ws] assms in simp_all)

lemma score_all_mset:
  assumes "mset cs = mset ds"
  shows "mset (score_all req cs) = mset (score_all req ds)"
proof -
  have "set cs = set ds" using assms by (rule mset_eq_setD)
  then have "set (map c_latencyNs cs) = set (map c_latencyNs ds)" "set (map c_bandwidth cs) = set (map c_bandwidth ds)"
    by simp_all
  note m = this [THEN max_double_set]
  show ?thesis by (simp add: score_all_def Let_def m assms)
qed

lemma eligible_cands_distinct: "umap_wf (im_regions st) \<Longrightarrow> distinct (map c_region (score_all req (eligible_cands st req)))"
  by (simp add: score_all_def eligible_cands_def make_cand_def comp_def case_prod_beta Let_def admitted_def
      umap_wf_def distinct_map_filter)

text \<open>The evaluation of one region reads the providers and the policies only.\<close>

lemma evaluation_frame:
  assumes c: "im_providers st' = im_providers st" "im_policies st' = im_policies st"
  shows "evaluateRegionEligibility st' = evaluateRegionEligibility st" "make_cand st' = make_cand st"
proof -
  have d: "provider_caps st' = provider_caps st" "effective_allowDegraded st' = effective_allowDegraded st"
    by (simp_all only: fun_eq_iff provider_caps_def effective_allowDegraded_def c simp_thms)
  show "evaluateRegionEligibility st' = evaluateRegionEligibility st" "make_cand st' = make_cand st"
    by (simp_all only: fun_eq_iff evaluateRegionEligibility_def make_cand_def c d simp_thms)
qed

lemma ranking_iteration_order:
  assumes n: "\<not> is_nan (rq_reserveHeadroomFactor req)" and wf: "umap_wf (im_regions st)"
    and p: "mset regs = mset (im_regions st)"
  shows "ranking (st\<lparr>im_regions := regs\<rparr>) req = ranking st req"
proof -
  let ?st' = "st\<lparr>im_regions := regs\<rparr>"
  have "im_providers ?st' = im_providers st" "im_policies ?st' = im_policies st" by simp_all
  note e = evaluation_frame [OF this]
  have "mset (eligible_cands ?st' req) = mset (eligible_cands st req)"
    by (simp add: eligible_cands_def admitted_def e p)
  then have m: "mset (score_all req (eligible_cands ?st' req)) = mset (score_all req (eligible_cands st req))"
    by (rule score_all_mset)
  have "inj_on c_region (set (score_all req (eligible_cands st req)))"
    using eligible_cands_distinct [OF wf] by (simp add: distinct_map)
  then have "inj_on cand_key (set (score_all req (eligible_cands st req)))"
    by (auto simp: inj_on_def cand_key_def id_value_eq_iff)
  then have "sort_key cand_key (score_all req (eligible_cands ?st' req)) = sort_key cand_key (score_all req (eligible_cands st req))"
    using m by (metis mset_sort set_mset_mset sort_key_inj_key_eq sorted_sort_key)
  then show ?thesis by (simp only: ranking_sort [OF n])
qed

lemma nan_headroom:
  assumes "is_nan (rq_reserveHeadroomFactor req)" "0 < rq_requiredBytes req"
  shows "is_nan (headroom req fr)"
  using assms nan_absorbs by (simp add: headroom_def Let_def f_less_def)

lemma nan_score:
  assumes "is_nan (rq_reserveHeadroomFactor req)" "0 < rq_requiredBytes req"
  shows "is_nan (c_score (score_cand req a b c))"
  using nan_headroom [OF assms] by (simp add: score_cand_def Let_def nan_absorbs)

lemma nan_ranking:
  assumes "is_nan (rq_reserveHeadroomFactor req)" "0 < rq_requiredBytes req"
  shows "map rc_region (ranking st req) =
     map fst (filter (\<lambda>(rid, rr). evaluateRegionEligibility st req rr = ELIGIBLE) (admitted st req))"
proof -
  have "stable_sort cand_before cs = cs" if "\<forall>c \<in> set cs. is_nan (c_score c)" for cs
    using that
  proof (induction cs)
    case (Cons c cs)
    then show ?case by (cases cs) (auto simp: cand_before_def f_eq_def f_less_def)
  qed simp
  moreover have "\<forall>c \<in> set (score_all req (eligible_cands st req)). is_nan (c_score c)"
    by (simp add: score_all_def Let_def nan_score [OF assms])
  ultimately show ?thesis
    by (simp add: ranking_def ranked_of_cand_def comp_def score_all_def eligible_cands_def make_cand_def
        case_prod_beta Let_def)
qed

lemma ranking_allocators:
  "ranking (st\<lparr>im_selectionIdAlloc := m, im_selectionGenAlloc := n\<rparr>) req = ranking st req"
proof -
  let ?st' = "st\<lparr>im_selectionIdAlloc := m, im_selectionGenAlloc := n\<rparr>"
  have c: "im_providers ?st' = im_providers st" "im_policies ?st' = im_policies st" "im_regions ?st' = im_regions st"
    by simp_all
  show ?thesis by (simp only: ranking_def eligible_cands_def admitted_def c(3) evaluation_frame [OF c(1,2)])
qed

text \<open>Soundness and completeness of the two lists the selection reports.\<close>

lemma ranked_iff:
  assumes "umap_wf (im_regions st)"
  shows "i \<in> rc_region ` set (ranking st req) \<longleftrightarrow>
    (\<exists>rr. umap_find (im_regions st) i = Some rr \<and> pool_admits req rr \<and>
       evaluateRegionEligibility st req rr = ELIGIBLE)"
proof -
  have f: "filter (\<lambda>(rid, rr). evaluateRegionEligibility st req rr = ELIGIBLE) (admitted st req) =
      filter (\<lambda>(rid, rr). pool_admits req rr \<and> evaluateRegionEligibility st req rr = ELIGIBLE) (im_regions st)"
    unfolding admitted_def filter_filter by (rule filter_cong) auto
  have "rc_region ` set (ranking st req) = fst ` set (filter (\<lambda>(rid, rr). pool_admits req rr \<and>
      evaluateRegionEligibility st req rr = ELIGIBLE) (im_regions st))"
    using mset_eq_setD [OF ranking_regions [of st req]] unfolding f set_map .
  then show ?thesis by (simp only: umap_filter_keys [OF assms])
qed

lemma rejected_iff:
  assumes "umap_wf (im_regions st)"
  shows "(\<exists>c \<in> set (rejected_cands st req). ca_region c = i \<and> ca_reason c = why) \<longleftrightarrow>
    (\<exists>rr. umap_find (im_regions st) i = Some rr \<and>
       (pool_admits req rr \<and> evaluateRegionEligibility st req rr \<noteq> ELIGIBLE) \<and>
       evaluateRegionEligibility st req rr = why)"
proof -
  have f: "filter (\<lambda>(rid, rr). evaluateRegionEligibility st req rr \<noteq> ELIGIBLE) (admitted st req) =
      filter (\<lambda>(rid, rr). pool_admits req rr \<and> evaluateRegionEligibility st req rr \<noteq> ELIGIBLE) (im_regions st)"
    unfolding admitted_def filter_filter by (rule filter_cong) auto
  have "(\<exists>c \<in> set (rejected_cands st req). ca_region c = i \<and> ca_reason c = why) \<longleftrightarrow>
      (\<exists>x \<in> set (filter (\<lambda>(rid, rr). pool_admits req rr \<and> evaluateRegionEligibility st req rr \<noteq> ELIGIBLE)
        (im_regions st)). fst x = i \<and> evaluateRegionEligibility st req (snd x) = why)"
    unfolding rejected_cands_def f set_map bex_simps case_prod_beta by simp
  then show ?thesis by (simp only: umap_filter_ex [OF assms])
qed

end
