(* ===== verification/Consistency.thy ===== *)
theory Consistency
  imports Accounting Ranking
begin

text \<open>
  The invariant of the fabric and its preservation, operation by operation.

  \<^item> \<open>accounting\<close>: the books are balanced, reservation keys are distinct and below the allocator.
  \<^item> \<open>bindings\<close>: a reservation that holds bytes is \<open>bound\<close>: its region, provider, policy and pool
    exist with the generations it recorded, the epoch is the one it was made under, its region is
    not retired, and while it is only \<open>RESERVED\<close> its region is neither draining nor unavailable.
  \<^item> \<open>members_known\<close>: pool memberships recorded on regions name registered pools.

  \<open>consistent\<close> is their conjunction. Each operation has a lemma that it keeps \<open>consistent\<close>, on every
  branch, the error branches included.
\<close>

section \<open>The invariant\<close>

definition ids_fresh :: "u64 \<Rightarrow> reservations \<Rightarrow> bool" where
  "ids_fresh n resvs \<longleftrightarrow> n \<noteq> 0 \<and> (\<forall>k \<in> umap_keys resvs. id_value k < n)"

definition accounting :: "Impl \<Rightarrow> bool" where
  "accounting st \<longleftrightarrow>
     balanced (im_regions st) (im_reservations st) \<and> umap_wf (im_reservations st) \<and>
     ids_fresh (im_reservationIdAlloc st) (im_reservations st)"

definition region_view :: "RegionRecord \<Rightarrow> RegionGeneration \<times> ProviderId \<times> RegionLifecycle" where
  "region_view rr = (rd_generation (rr_descriptor rr), rd_provider (rr_descriptor rr), rr_lifecycle rr)"

definition view :: "regions \<Rightarrow> RegionId \<Rightarrow> (RegionGeneration \<times> ProviderId \<times> RegionLifecycle) option" where
  "view regs i = map_option region_view (umap_find regs i)"

definition lifecycle_admits :: "Reservation \<Rightarrow> RegionLifecycle \<Rightarrow> bool" where
  "lifecycle_admits r lc \<longleftrightarrow>
     lc \<noteq> RegionLifecycle.RETIRED \<and>
     (rs_state r = ReservationState.RESERVED \<longrightarrow>
        lc \<noteq> RegionLifecycle.DRAINING \<and> lc \<noteq> RegionLifecycle.UNAVAILABLE)"

definition admits :: "Reservation \<Rightarrow> RegionGeneration \<times> ProviderId \<times> RegionLifecycle \<Rightarrow> bool" where
  "admits r = (\<lambda>(g, p, lc).
     g = rs_regionGeneration r \<and> p = rs_provider r \<and> lifecycle_admits r lc)"

definition provider_gen :: "Impl \<Rightarrow> ProviderId \<Rightarrow> ProviderGeneration option" where
  "provider_gen st p = map_option (pd_generation \<circ> pr_descriptor) (umap_find (im_providers st) p)"

definition policy_gen :: "Impl \<Rightarrow> PolicyId \<Rightarrow> PolicyGeneration option" where
  "policy_gen st p = map_option po_generation (umap_find (im_policies st) p)"

definition pool_gen :: "Impl \<Rightarrow> PoolId \<Rightarrow> PoolGeneration option" where
  "pool_gen st p = map_option (pl_generation \<circ> plr_descriptor) (umap_find (im_pools st) p)"

definition bound :: "Impl \<Rightarrow> Reservation \<Rightarrow> bool" where
  "bound st r \<longleftrightarrow>
     pred_option (admits r) (view (im_regions st) (rs_region r)) \<and>
     view (im_regions st) (rs_region r) \<noteq> None \<and>
     provider_gen st (rs_provider r) = Some (rs_providerGeneration r) \<and>
     (null (rs_policy r) \<or> policy_gen st (rs_policy r) = Some (rs_policyGeneration r)) \<and>
     (null (rs_pool r) \<or> pool_gen st (rs_pool r) = Some (rs_poolGeneration r)) \<and>
     rs_epoch r = im_epoch st"

definition bindings :: "Impl \<Rightarrow> bool" where
  "bindings st \<longleftrightarrow> (\<forall>(k, r) \<in> set (im_reservations st). holds r \<noteq> None \<longrightarrow> bound st r)"

definition memberships :: "regions \<Rightarrow> RegionId \<Rightarrow> (PoolId \<times> PoolGeneration) list" where
  "memberships regs i = (case umap_find regs i of None \<Rightarrow> [] | Some rr \<Rightarrow> rr_poolMemberships rr)"

definition members_known :: "Impl \<Rightarrow> bool" where
  "members_known st \<longleftrightarrow>
     (\<forall>i. fst ` set (memberships (im_regions st) i) \<subseteq> umap_keys (im_pools st))"

definition consistent :: "Impl \<Rightarrow> bool" where
  "consistent st \<longleftrightarrow> accounting st \<and> bindings st \<and> members_known st"

lemma bindingsI:
  "(\<And>k r. (k, r) \<in> set (im_reservations st) \<Longrightarrow> holds r \<noteq> None \<Longrightarrow> bound st r) \<Longrightarrow> bindings st"
  unfolding bindings_def by blast

lemma bindingsD: "bindings st \<Longrightarrow> (k, r) \<in> set (im_reservations st) \<Longrightarrow> holds r \<noteq> None \<Longrightarrow> bound st r"
  unfolding bindings_def by blast

lemmas gen_defs = provider_gen_def policy_gen_def pool_gen_def

section \<open>Views of a changed table\<close>

lemma view_same: "same_but_ledgers regs regs' \<Longrightarrow> view regs' = view regs"
proof (rule ext)
  fix i
  assume "same_but_ledgers regs regs'"
  then have "map_option (region_view \<circ> (\<lambda>rr. rr\<lparr>rr_ledger := new_ledger 0\<rparr>)) (umap_find regs' i) =
      map_option (region_view \<circ> (\<lambda>rr. rr\<lparr>rr_ledger := new_ledger 0\<rparr>)) (umap_find regs i)"
    unfolding same_but_ledgers_def option.map_comp [symmetric] by simp
  moreover have "region_view \<circ> (\<lambda>rr. rr\<lparr>rr_ledger := new_ledger 0\<rparr>) = region_view"
    by (simp add: fun_eq_iff region_view_def)
  ultimately show "view regs' i = view regs i" by (simp add: view_def)
qed

lemma memberships_same: "same_but_ledgers regs regs' \<Longrightarrow> memberships regs' = memberships regs"
proof (rule ext)
  fix i
  assume "same_but_ledgers regs regs'"
  then have "map_option (rr_poolMemberships \<circ> (\<lambda>rr. rr\<lparr>rr_ledger := new_ledger 0\<rparr>)) (umap_find regs' i) =
      map_option (rr_poolMemberships \<circ> (\<lambda>rr. rr\<lparr>rr_ledger := new_ledger 0\<rparr>)) (umap_find regs i)"
    unfolding same_but_ledgers_def option.map_comp [symmetric] by simp
  moreover have "rr_poolMemberships \<circ> (\<lambda>rr. rr\<lparr>rr_ledger := new_ledger 0\<rparr>) = rr_poolMemberships"
    by (simp add: fun_eq_iff)
  ultimately show "memberships regs' i = memberships regs i"
    by (cases "umap_find regs i"; cases "umap_find regs' i") (simp_all add: memberships_def)
qed

lemma view_with_ledger [simp]: "view (with_ledger i f regs) = view regs"
  by (rule view_same) simp

lemma memberships_with_ledger [simp]: "memberships (with_ledger i f regs) = memberships regs"
  by (rule memberships_same) simp

lemma view_put [simp]: "view (umap_put i rr regs) j = (if j = i then Some (region_view rr) else view regs j)"
  by (simp add: view_def)

lemma memberships_put [simp]:
  "memberships (umap_put i rr regs) j = (if j = i then rr_poolMemberships rr else memberships regs j)"
  by (simp add: memberships_def)

text \<open>A change of lifecycle that depends on the provider and the lifecycle only.\<close>

definition relife :: "(ProviderId \<Rightarrow> RegionLifecycle \<Rightarrow> RegionLifecycle) \<Rightarrow>
    RegionGeneration \<times> ProviderId \<times> RegionLifecycle \<Rightarrow> RegionGeneration \<times> ProviderId \<times> RegionLifecycle" where
  "relife h = (\<lambda>(g, p, lc). (g, p, h p lc))"

lemma view_modify:
  "(\<And>rr. region_view (f rr) = relife h (region_view rr)) \<Longrightarrow>
   view (umap_modify i f regs) j = (if j = i then map_option (relife h) (view regs j) else view regs j)"
  by (simp add: view_def option.map_comp comp_def)

lemma view_modify_id:
  "(\<And>rr. region_view (f rr) = region_view rr) \<Longrightarrow> view (umap_modify i f regs) = view regs"
  by (rule ext) (simp add: view_def option.map_comp comp_def)

lemma view_map:
  "(\<And>rr. region_view (f rr) = relife h (region_view rr)) \<Longrightarrow>
   view (umap_map f regs) j = map_option (relife h) (view regs j)"
  by (simp add: view_def option.map_comp comp_def)

lemma admits_relife:
  "x \<noteq> None \<Longrightarrow> pred_option (admits r) x \<Longrightarrow>
   (\<And>lc. lifecycle_admits r lc \<Longrightarrow> lifecycle_admits r (h (rs_provider r) lc)) \<Longrightarrow>
   pred_option (admits r) (map_option (relife h) x)"
  by (cases x) (auto simp: admits_def relife_def)

lemma memberships_modify:
  "(\<And>rr. rr_poolMemberships (f rr) = rr_poolMemberships rr) \<Longrightarrow>
   memberships (umap_modify i f regs) = memberships regs"
  by (rule ext) (simp add: memberships_def split: option.splits)

lemma memberships_map:
  "(\<And>rr. rr_poolMemberships (f rr) = rr_poolMemberships rr) \<Longrightarrow>
   memberships (umap_map f regs) = memberships regs"
  by (rule ext) (simp add: memberships_def split: option.splits)

lemma provider_gen_modify:
  "(\<And>p. pr_descriptor (f p) = pr_descriptor p) \<Longrightarrow>
   provider_gen (st\<lparr>im_providers := umap_modify i f (im_providers st)\<rparr>) = provider_gen st"
  by (rule ext) (simp add: provider_gen_def option.map_comp comp_def)

section \<open>Fencing loops\<close>

lemma ids_fresh_keys: "map fst resvs' = map fst resvs \<Longrightarrow> ids_fresh n resvs' = ids_fresh n resvs"
  unfolding ids_fresh_def umap_keys_def by (metis list.set_map)

lemma fence_where_frame [simp]:
  "im_epoch (fence_where P reason st) = im_epoch st"
  "im_providers (fence_where P reason st) = im_providers st"
  "im_domains (fence_where P reason st) = im_domains st"
  "im_pools (fence_where P reason st) = im_pools st"
  "im_policies (fence_where P reason st) = im_policies st"
  "im_consumers (fence_where P reason st) = im_consumers st"
  "im_workers (fence_where P reason st) = im_workers st"
  "im_reservationIdAlloc (fence_where P reason st) = im_reservationIdAlloc st"
  by (simp_all add: fence_where_def case_prod_beta)

context binding_predicate
begin

lemma fence_where_sweep:
  "umap_sweep (fence_if P reason) (im_regions st) (im_reservations st) =
     (im_regions (fence_where P reason st), im_reservations (fence_where P reason st))"
  by (simp add: fence_where_def case_prod_beta)

lemmas fence_where_regions [simp] =
  view_same [OF fences.sweep_regions [OF fence_where_sweep]]
  memberships_same [OF fences.sweep_regions [OF fence_where_sweep]]

lemma fence_where_accounting:
  assumes "accounting st"
  shows "accounting (fence_where P reason st)"
proof -
  have keys: "map fst (im_reservations (fence_where P reason st)) = map fst (im_reservations st)"
    by (simp add: fence_where_def case_prod_beta)
  have "balanced (im_regions st) (im_reservations st)" using assms by (simp add: accounting_def)
  from fences.sweep_balanced [OF this fence_where_sweep] assms show ?thesis
    by (simp add: accounting_def umap_wf_def keys ids_fresh_keys [OF keys])
qed

lemma fence_where_survivor:
  assumes "accounting st" "(k, r) \<in> set (im_reservations (fence_where P reason st))" "holds r \<noteq> None"
  shows "(k, r) \<in> set (im_reservations st)" and "\<not> P r"
proof -
  show "(k, r) \<in> set (im_reservations st)"
    by (rule fences.sweep_survivor [OF fence_where_sweep assms(2,3)])
  have "balanced (im_regions st) (im_reservations st)" using assms(1) by (simp add: accounting_def)
  from fences.sweep_settled [OF this fence_where_sweep assms(2)] assms(3) show "\<not> P r" by blast
qed

lemma fence_where_bound:
  assumes "accounting st" "bindings st"
    and "(k, r) \<in> set (im_reservations (fence_where P reason st))" "holds r \<noteq> None"
  shows "bound st r"
  by (rule bindingsD [OF assms(2) fence_where_survivor(1) [OF assms(1,3,4)] assms(4)])

lemma fence_where_bindings:
  assumes "accounting st" "bindings st"
  shows "bindings (fence_where P reason st)"
proof (rule bindingsI)
  fix k r
  assume "(k, r) \<in> set (im_reservations (fence_where P reason st))" "holds r \<noteq> None"
  from fence_where_bound [OF assms this] show "bound (fence_where P reason st) r"
    by (simp add: bound_def gen_defs)
qed

lemma fence_where_consistent: "consistent st \<Longrightarrow> consistent (fence_where P reason st)"
  using fence_where_accounting fence_where_bindings
  by (simp add: consistent_def members_known_def)

end

section \<open>Preservation\<close>

lemma consistent_frame [simp]:
  "consistent (st\<lparr>im_domains := a\<rparr>) = consistent st"
  "consistent (st\<lparr>im_consumers := b\<rparr>) = consistent st"
  "consistent (st\<lparr>im_workers := c\<rparr>) = consistent st"
  "consistent (st\<lparr>im_selectionIdAlloc := n, im_selectionGenAlloc := m\<rparr>) = consistent st"
  by (simp_all add: consistent_def accounting_def bindings_def bound_def gen_defs members_known_def)

lemma new_fabric_consistent: "consistent (new_fabric e)"
  by (simp add: consistent_def accounting_def bindings_def members_known_def memberships_def new_fabric_def
      balanced_def ledgers_closed_def holders_placed_def bytes_at_def ids_fresh_def umap_keys_def FirstValidValue_def)

lemma registerConsumer_consistent: "consistent st \<Longrightarrow> consistent (snd (registerConsumer c g a st))"
  by (simp add: registerConsumer_def)

lemma registerDomain_consistent: "consistent st \<Longrightarrow> consistent (snd (registerDomain d a st))"
  by (simp add: registerDomain_def Let_def split: option.splits)

lemma registerWorker_consistent: "consistent st \<Longrightarrow> consistent (snd (registerWorker now w boot e pid a st))"
  by (simp add: registerWorker_def)

lemma noteWorkerHandle_consistent: "consistent st \<Longrightarrow> consistent (noteWorkerHandle w h st)"
  by (simp add: noteWorkerHandle_def)

lemma evaluateLocked_consistent: "consistent st \<Longrightarrow> consistent (snd (evaluateLocked req st))"
  by (simp add: evaluateLocked_def Let_def case_prod_beta)

lemma select_consistent: "consistent st \<Longrightarrow> consistent (snd (select req a st))"
  using evaluateLocked_consistent [of st req] by (simp add: select_def case_prod_beta)

text \<open>Updates that leave ledgers and descriptors alone leave the books alone.\<close>

lemma accounting_map:
  assumes "\<And>rr. rr_ledger (f rr) = rr_ledger rr" "\<And>rr. rr_descriptor (f rr) = rr_descriptor rr"
  shows "accounting (st\<lparr>im_regions := umap_map f (im_regions st)\<rparr>) = accounting st"
    and "accounting (st\<lparr>im_regions := umap_modify i f (im_regions st)\<rparr>) = accounting st"
  by (simp_all add: accounting_def balanced_map [OF assms])

lemma accounting_frame [simp]:
  "accounting (st\<lparr>im_providers := a\<rparr>) = accounting st"
  "accounting (st\<lparr>im_pools := b\<rparr>) = accounting st"
  "accounting (st\<lparr>im_policies := c\<rparr>) = accounting st"
  "accounting (st\<lparr>im_workers := d\<rparr>) = accounting st"
  "accounting (st\<lparr>im_epoch := e\<rparr>) = accounting st"
  by (simp_all add: accounting_def)

lemma revalidate_fields [simp]:
  "rr_ledger (revalidate_provider_region p rr) = rr_ledger rr"
  "rr_descriptor (revalidate_provider_region p rr) = rr_descriptor rr"
  "rr_poolMemberships (revalidate_provider_region p rr) = rr_poolMemberships rr"
  by (simp_all add: revalidate_provider_region_def Let_def)

lemma revalidate_view:
  "region_view (revalidate_provider_region p rr) =
     relife (\<lambda>q lc. if q = p \<and> lc \<noteq> RegionLifecycle.RETIRED
                    then RegionLifecycle.REVALIDATION_REQUIRED else lc) (region_view rr)"
  by (simp add: revalidate_provider_region_def Let_def region_view_def relife_def)

lemma reincarnate_provider_consistent:
  assumes c: "consistent st"
  shows "consistent ((reincarnate_provider p st)\<lparr>im_providers := umap_put p rec (im_providers (reincarnate_provider p st))\<rparr>)"
    (is "consistent ?st'")
proof -
  let ?P = "\<lambda>r. rs_provider r = p" and ?why = "''provider reincarnation''"
  have acc: "accounting st" and bnd: "bindings st" and mem: "members_known st"
    using c by (simp_all add: consistent_def)
  have "accounting ?st'"
    using by_provider.fence_where_accounting [OF acc]
    by (simp add: reincarnate_provider_def Let_def accounting_map)
  moreover have "members_known ?st'"
    using mem by (simp add: members_known_def reincarnate_provider_def Let_def memberships_map)
  moreover have "bindings ?st'"
  proof (rule bindingsI)
    fix k r
    assume "(k, r) \<in> set (im_reservations ?st')" and h: "holds r \<noteq> None"
    then have r: "(k, r) \<in> set (im_reservations (fence_where ?P ?why st))"
      by (simp add: reincarnate_provider_def Let_def)
    have "rs_provider r \<noteq> p" "bound st r"
      using by_provider.fence_where_survivor(2) [OF acc r h] by_provider.fence_where_bound [OF acc bnd r h]
      by simp_all
    then show "bound ?st' r"
      by (auto simp: bound_def gen_defs reincarnate_provider_def Let_def view_map [OF revalidate_view]
          intro!: admits_relife)
  qed
  ultimately show ?thesis by (simp add: consistent_def)
qed

lemma registerProvider_consistent:
  assumes c: "consistent st"
  shows "consistent (snd (registerProvider now d a st))"
proof -
  have "consistent (st\<lparr>im_providers := umap_put (pd_id d) rec (im_providers st)\<rparr>)"
    if "umap_find (im_providers st) (pd_id d) = None" for rec
    using c that unfolding consistent_def
    by (auto simp: members_known_def gen_defs bound_def intro!: bindingsI dest!: bindingsD)
  with c reincarnate_provider_consistent [OF c] show ?thesis
    by (simp add: registerProvider_def Let_def split: option.splits)
qed

lemma held_by_none:
  "(\<And>k r. (k, r) \<in> set resvs \<Longrightarrow> holds r \<noteq> None \<Longrightarrow> rs_region r \<noteq> i) \<Longrightarrow> held_by_all b i resvs = 0"
  unfolding held_by_all_def held_def by (subst sum_list_eq_0_iff) fastforce

lemma balanced_put_region:
  assumes bal: "balanced regs resvs"
    and free: "\<And>k r. (k, r) \<in> set resvs \<Longrightarrow> holds r \<noteq> None \<Longrightarrow> rs_region r \<noteq> i"
  shows "balanced (umap_put i (new_region d lc (new_ledger (rd_totalCapacityBytes d))) regs) resvs"
proof -
  have "bytes_at (umap_put i (new_region d lc (new_ledger (rd_totalCapacityBytes d))) regs) j b =
      held_by_all b j resvs" if "b \<in> {Reserved, Committed}" for j b
    using that bal held_by_none [OF free]
    by (auto simp: bytes_at_def balanced_def new_region_def new_ledger_def)
  with bal show ?thesis
    by (auto simp: balanced_def ledgers_closed_def ledger_closed_def holders_placed_def new_region_def
        new_ledger_def [of "rd_totalCapacityBytes d"] new_ledger_invariant [unfolded new_ledger_def])
qed

lemma put_region_consistent:
  assumes c: "consistent st"
    and free: "\<And>k r. (k, r) \<in> set (im_reservations st) \<Longrightarrow> holds r \<noteq> None \<Longrightarrow> rs_region r \<noteq> i"
  shows "consistent (st\<lparr>im_regions :=
           umap_put i (new_region d lc (new_ledger (rd_totalCapacityBytes d))) (im_regions st)\<rparr>)"
    (is "consistent ?st'")
proof -
  have "accounting ?st'"
    using c balanced_put_region [OF _ free] by (simp add: consistent_def accounting_def)
  moreover have "bindings ?st'"
    using c free by (auto simp: consistent_def bound_def gen_defs intro!: bindingsI dest!: bindingsD)
  moreover have "members_known ?st'"
    using c by (simp add: consistent_def members_known_def new_region_def)
  ultimately show ?thesis by (simp add: consistent_def)
qed

lemma registerRegion_consistent:
  assumes c: "consistent st"
  shows "consistent (snd (registerRegion d a st))"
proof -
  let ?put = "\<lambda>st. st\<lparr>im_regions := umap_put (rd_id d)
      (new_region d RegionLifecycle.DECLARED (new_ledger (rd_totalCapacityBytes d))) (im_regions st)\<rparr>"
  have "consistent (?put st)" if "umap_find (im_regions st) (rd_id d) = None"
    using c that
    by (intro put_region_consistent) (auto simp: consistent_def accounting_def balanced_def holders_placed_def)
  moreover have "consistent (?put (fence_where (\<lambda>r. rs_region r = rd_id d) ''region reincarnation'' st))"
    using c by_region.fence_where_survivor(2)
    by (intro put_region_consistent by_region.fence_where_consistent) (auto simp: consistent_def)
  ultimately show ?thesis
    using c by (simp add: registerRegion_def Let_def split: option.splits)
qed

lemma put_pool_consistent:
  assumes c: "consistent st"
    and free: "\<And>k r. (k, r) \<in> set (im_reservations st) \<Longrightarrow> holds r \<noteq> None \<Longrightarrow> null (rs_pool r) \<or> rs_pool r \<noteq> p"
  shows "consistent (st\<lparr>im_pools := umap_put p rec (im_pools st)\<rparr>)" (is "consistent ?st'")
proof -
  have "bindings ?st'"
  proof (rule bindingsI)
    fix k r
    assume r: "(k, r) \<in> set (im_reservations ?st')" "holds r \<noteq> None"
    then have "bound st r" "null (rs_pool r) \<or> rs_pool r \<noteq> p"
      using c free [of k r] bindingsD [of st k r] by (simp_all add: consistent_def)
    then show "bound ?st' r" by (auto simp: bound_def gen_defs)
  qed
  then show ?thesis using c by (auto simp: consistent_def members_known_def)
qed

lemma put_policy_consistent:
  assumes c: "consistent st"
    and free: "\<And>k r. (k, r) \<in> set (im_reservations st) \<Longrightarrow> holds r \<noteq> None \<Longrightarrow> null (rs_policy r) \<or> rs_policy r \<noteq> p"
  shows "consistent (st\<lparr>im_policies := umap_put p rec (im_policies st)\<rparr>)" (is "consistent ?st'")
proof -
  have "bindings ?st'"
  proof (rule bindingsI)
    fix k r
    assume r: "(k, r) \<in> set (im_reservations ?st')" "holds r \<noteq> None"
    then have "bound st r" "null (rs_policy r) \<or> rs_policy r \<noteq> p"
      using c free [of k r] bindingsD [of st k r] by (simp_all add: consistent_def)
    then show "bound ?st' r" by (auto simp: bound_def gen_defs)
  qed
  then show ?thesis using c by (auto simp: consistent_def members_known_def)
qed

lemma registerPool_consistent:
  assumes c: "consistent st"
  shows "consistent (snd (registerPool now d a st))"
proof -
  let ?put = "\<lambda>st rec. st\<lparr>im_pools := umap_put (pl_id d) rec (im_pools st)\<rparr>"
  have "consistent (?put st rec)" if "umap_find (im_pools st) (pl_id d) = None" for rec
    using c that by (intro put_pool_consistent) (force simp: consistent_def bound_def gen_defs dest!: bindingsD)+
  moreover have "consistent (?put (fence_where (\<lambda>r. rs_pool r = pl_id d) ''pool reincarnation'' st) rec)" for rec
    using c by_pool.fence_where_survivor(2)
    by (intro put_pool_consistent by_pool.fence_where_consistent) (auto simp: consistent_def)
  ultimately show ?thesis
    using c by (simp add: registerPool_def Let_def split: option.splits)
qed

lemma registerPolicy_consistent:
  assumes c: "consistent st"
  shows "consistent (snd (registerPolicy d a st))"
proof -
  let ?put = "\<lambda>st. st\<lparr>im_policies := umap_put (po_id d) d (im_policies st)\<rparr>"
  have "consistent (?put st)" if "umap_find (im_policies st) (po_id d) = None"
    using c that by (intro put_policy_consistent) (force simp: consistent_def bound_def gen_defs dest!: bindingsD)+
  moreover have "consistent (?put (fence_where (\<lambda>r. rs_policy r = po_id d) ''policy reincarnation'' st))"
    using c by_policy.fence_where_survivor(2)
    by (intro put_policy_consistent by_policy.fence_where_consistent) (auto simp: consistent_def)
  ultimately show ?thesis
    using c by (simp add: registerPolicy_def Let_def split: option.splits)
qed

text \<open>A change to a pool that keeps its generation.\<close>

lemma modify_pool_consistent:
  assumes "consistent st" "\<And>pl. pl_generation (plr_descriptor (f pl)) = pl_generation (plr_descriptor pl)"
  shows "consistent (st\<lparr>im_pools := umap_modify p f (im_pools st)\<rparr>)"
proof -
  let ?st' = "st\<lparr>im_pools := umap_modify p f (im_pools st)\<rparr>"
  have g: "pool_gen ?st' = pool_gen st" "provider_gen ?st' = provider_gen st" "policy_gen ?st' = policy_gen st"
    using assms(2) by (auto simp: gen_defs option.map_comp comp_def)
  have "bound ?st' r = bound st r" for r by (simp only: bound_def g) simp
  with assms(1) show ?thesis by (auto simp: consistent_def bindings_def members_known_def)
qed

lemma addPoolMember_consistent:
  assumes c: "consistent st"
  shows "consistent (snd (addPoolMember pool m a st))"
proof -
  have ap: "consistent (append_member pool m st)"
    unfolding append_member_def by (rule modify_pool_consistent [OF c]) simp
  let ?f = "\<lambda>g rr. rr\<lparr>rr_poolMemberships := rr_poolMemberships rr @ [(pool, g)]\<rparr>"
  have "consistent (st'\<lparr>im_regions := umap_modify i (?f g) (im_regions st')\<rparr>)"
    if c': "consistent st'" and "umap_find (im_pools st') pool \<noteq> None" for st' g i
  proof -
    let ?st' = "st'\<lparr>im_regions := umap_modify i (?f g) (im_regions st')\<rparr>"
    have acc: "accounting ?st'" using c' by (simp add: accounting_map consistent_def)
    have "view (im_regions ?st') = view (im_regions st')"
      by (simp add: view_modify_id region_view_def)
    then have bnd: "bound ?st' r = bound st' r" for r by (simp add: bound_def gen_defs)
    have sub: "fst ` set (memberships (im_regions ?st') j) \<subseteq> insert pool (fst ` set (memberships (im_regions st') j))" for j
      by (cases "umap_find (im_regions st') i") (auto simp: memberships_def)
    have "insert pool (fst ` set (memberships (im_regions st') j)) \<subseteq> umap_keys (im_pools st')" for j
      using that by (simp add: consistent_def members_known_def um.keys_find)
    then have "members_known ?st'"
      unfolding members_known_def by (intro allI order_trans [OF sub]) simp
    with acc bnd c' show ?thesis by (simp add: consistent_def bindings_def)
  qed
  note grow = this [OF ap]
  have "umap_find (im_pools (append_member pool m st)) pool \<noteq> None" if "umap_find (im_pools st) pool \<noteq> None"
    using that by (simp add: append_member_def)
  then show ?thesis
    using c ap grow by (simp add: addPoolMember_def Let_def split: option.split list.split)
qed

lemma removePoolMember_consistent:
  assumes c: "consistent st"
  shows "consistent (snd (removePoolMember pool region a st))"
proof -
  let ?f = "\<lambda>rr. rr\<lparr>rr_poolMemberships := filter (\<lambda>(p, g). p \<noteq> pool) (rr_poolMemberships rr)\<rparr>"
  have "consistent (st'\<lparr>im_regions := umap_modify i ?f (im_regions st')\<rparr>)"
    if c': "consistent st'" for st' i
  proof -
    let ?st' = "st'\<lparr>im_regions := umap_modify i ?f (im_regions st')\<rparr>"
    have "accounting ?st'" using c' by (simp add: accounting_map consistent_def)
    moreover have "view (im_regions ?st') = view (im_regions st')"
      by (simp add: view_modify_id region_view_def)
    then have "bound ?st' r = bound st' r" for r by (simp add: bound_def gen_defs)
    moreover have "fst ` set (memberships (im_regions ?st') j) \<subseteq> fst ` set (memberships (im_regions st') j)" for j
      by (cases "umap_find (im_regions st') i") (auto simp: memberships_def)
    then have "members_known ?st'"
      using that by (fastforce simp: consistent_def members_known_def)
    ultimately show ?thesis using c' by (simp add: consistent_def bindings_def)
  qed
  from this [OF modify_pool_consistent [OF c]] c show ?thesis
    by (simp add: removePoolMember_def Let_def split: option.splits)
qed

lemma replacePoolGeneration_consistent:
  "consistent st \<Longrightarrow> consistent (snd (replacePoolGeneration now d a st))"
  using registerPool_consistent [of st now d a]
  by (simp add: replacePoolGeneration_def case_prod_beta split: sum.splits)

section \<open>Changing one region\<close>

lemma bound_regions:
  "view regs = view (im_regions st) \<Longrightarrow> bound (st\<lparr>im_regions := regs\<rparr>) r = bound st r"
  by (simp add: bound_def gen_defs)

lemma keep_ledger_consistent:
  assumes c: "consistent st" and rr: "umap_find (im_regions st) i = Some rr"
    and "invariant led" "total led = total (rr_ledger rr)"
    and "reserved led = reserved (rr_ledger rr)" "committed led = committed (rr_ledger rr)"
  shows "consistent (st\<lparr>im_regions := with_ledger i (\<lambda>_. led) (im_regions st)\<rparr>)"
proof -
  have "balanced (with_ledger i (\<lambda>_. led) (im_regions st)) (im_reservations st)"
    using assms by (intro balanced_keep) (simp_all add: consistent_def accounting_def)
  with c show ?thesis
    by (simp add: consistent_def accounting_def bindings_def bound_regions members_known_def)
qed

context ledger_move
begin

lemma untouched:
  assumes "invariant l" "src \<noteq> b" "dst \<noteq> b"
  shows "bytes_in (snd (step n l)) b = bytes_in l b"
  using assms by (cases rule: step_cases [of l n]) (auto simp: move_def)

lemma move_consistent:
  assumes c: "consistent st" and rr: "umap_find (im_regions st) i = Some rr"
    and "src \<notin> {Reserved, Committed}" "dst \<notin> {Reserved, Committed}"
  shows "consistent (st\<lparr>im_regions := with_ledger i (\<lambda>_. snd (step n (rr_ledger rr))) (im_regions st)\<rparr>)"
proof (rule keep_ledger_consistent [OF c rr])
  have inv: "invariant (rr_ledger rr)"
    using c rr by (auto simp: consistent_def accounting_def dest: balancedD(1))
  then show "invariant (snd (step n (rr_ledger rr)))" "total (snd (step n (rr_ledger rr))) = total (rr_ledger rr)"
    by (simp_all add: keeps_invariant)
  show "reserved (snd (step n (rr_ledger rr))) = reserved (rr_ledger rr)"
    "committed (snd (step n (rr_ledger rr))) = committed (rr_ledger rr)"
    using untouched [OF inv, of Reserved n] untouched [OF inv, of Committed n] assms(3,4)
    by (simp_all add: word_unat_eq_iff)
qed

end

lemma annotate_consistent:
  assumes "\<And>rr. rr_ledger (f rr) = rr_ledger rr" "\<And>rr. rr_descriptor (f rr) = rr_descriptor rr"
    "\<And>rr. rr_poolMemberships (f rr) = rr_poolMemberships rr" "\<And>rr. rr_lifecycle (f rr) = rr_lifecycle rr"
  shows "consistent (st\<lparr>im_regions := umap_modify i f (im_regions st)\<rparr>) = consistent st"
proof -
  have "view (umap_modify i f (im_regions st)) = view (im_regions st)"
    by (rule view_modify_id) (simp add: region_view_def assms)
  then show ?thesis
    by (simp add: consistent_def accounting_map assms bindings_def bound_regions members_known_def
        memberships_modify)
qed

lemma set_lifecycle_consistent:
  assumes c: "consistent st"
    and adm: "\<And>k r. (k, r) \<in> set (im_reservations st) \<Longrightarrow> holds r \<noteq> None \<Longrightarrow> rs_region r = i \<Longrightarrow>
        bound st r \<Longrightarrow> lifecycle_admits r lc"
  shows "consistent (st\<lparr>im_regions := umap_modify i (\<lambda>rr. rr\<lparr>rr_lifecycle := lc\<rparr>) (im_regions st)\<rparr>)"
    (is "consistent ?st'")
proof -
  have v: "view (umap_modify i (\<lambda>rr. rr\<lparr>rr_lifecycle := lc\<rparr>) regs) j =
      (if j = i then map_option (relife (\<lambda>_ _. lc)) (view regs j) else view regs j)" for regs j
    by (rule view_modify) (simp add: region_view_def relife_def)
  have "bindings ?st'"
  proof (rule bindingsI)
    fix k r
    assume "(k, r) \<in> set (im_reservations ?st')" and h: "holds r \<noteq> None"
    then have r: "(k, r) \<in> set (im_reservations st)" by simp
    then have b: "bound st r" using bindingsD [OF _ r h] c by (simp add: consistent_def)
    with adm [OF r h _ b] show "bound ?st' r"
      by (auto simp: bound_def v gen_defs simp del: split_paired_Ex intro!: admits_relife)
  qed
  with c show ?thesis
    by (simp add: consistent_def accounting_map members_known_def memberships_modify)
qed

lemma lifecycle_admits_open:
  "lc \<notin> {RegionLifecycle.RETIRED, RegionLifecycle.DRAINING, RegionLifecycle.UNAVAILABLE} \<Longrightarrow> lifecycle_admits r lc"
  by (simp add: lifecycle_admits_def)

lemma modify_provider_consistent:
  assumes "\<And>p. pr_descriptor (f p) = pr_descriptor p"
  shows "consistent (st\<lparr>im_providers := umap_modify p f (im_providers st)\<rparr>) = consistent st"
proof -
  let ?st' = "st\<lparr>im_providers := umap_modify p f (im_providers st)\<rparr>"
  have "provider_gen ?st' = provider_gen st" "policy_gen ?st' = policy_gen st" "pool_gen ?st' = pool_gen st"
    using assms by (auto simp: gen_defs option.map_comp comp_def)
  then have "bound ?st' r = bound st r" for r by (simp add: bound_def)
  then show ?thesis by (simp add: consistent_def bindings_def members_known_def)
qed

lemma consistent_invariant:
  "consistent st \<Longrightarrow> umap_find (im_regions st) i = Some rr \<Longrightarrow> invariant (rr_ledger rr)"
  by (auto simp: consistent_def accounting_def dest: balancedD(1))

lemma umap_modify_modify: "umap_modify i f (umap_modify i g m) = umap_modify i (\<lambda>v. f (g v)) m"
  by (simp add: umap_modify_def comp_def case_prod_beta)

lemma record_evidence_consistent:
  assumes c: "consistent st" and rr: "umap_find (im_regions st) i = Some rr"
    and s: "setOnline n (rr_ledger rr) = (b, led)"
  shows "consistent (st\<lparr>im_regions := umap_modify i (record_evidence now e led) (im_regions st)\<rparr>)"
    and "consistent (st\<lparr>im_regions := with_ledger i (\<lambda>_. led) (im_regions st)\<rparr>)"
proof -
  have led: "led = snd (setOnline n (rr_ledger rr))" using s by simp
  show 1: "consistent (st\<lparr>im_regions := with_ledger i (\<lambda>_. led) (im_regions st)\<rparr>)"
    unfolding led using consistent_invariant [OF c rr]
    by (intro keep_ledger_consistent [OF c rr]) (simp_all add: setOnline_invariant)
  let ?ann = "\<lambda>rr. record_evidence now e (rr_ledger rr) rr"
  have "umap_modify i (record_evidence now e led) (im_regions st) =
      umap_modify i ?ann (with_ledger i (\<lambda>_. led) (im_regions st))"
    unfolding with_ledger_def umap_modify_modify by (simp add: record_evidence_def [abs_def])
  with 1 annotate_consistent [where f = ?ann and i = i and
      st = "st\<lparr>im_regions := with_ledger i (\<lambda>_. led) (im_regions st)\<rparr>"]
  show "consistent (st\<lparr>im_regions := umap_modify i (record_evidence now e led) (im_regions st)\<rparr>)"
    by (simp add: record_evidence_def)
qed

section \<open>Evidence, drain, withdrawal, retirement\<close>

lemma publishRegionEvidence_consistent:
  assumes c: "consistent st"
  shows "consistent (snd (publishRegionEvidence now e a st))"
proof (cases "umap_find (im_regions st) (eh_region (ev_header e))")
  case None
  with c show ?thesis by (simp add: publishRegionEvidence_def Let_def)
next
  case (Some rr)
  let ?i = "eh_region (ev_header e)"
  obtain b led where s: "setOnline (ev_onlineCapacityBytes e) (rr_ledger rr) = (b, led)" by fastforce
  let ?st1 = "st\<lparr>im_regions := umap_modify ?i (record_evidence now e led) (im_regions st)\<rparr>"
  note rec = record_evidence_consistent [OF c Some s]
  let ?st2 = "?st1\<lparr>im_regions := umap_modify ?i (\<lambda>r. r\<lparr>rr_lifecycle := evidence_target e\<rparr>) (im_regions ?st1)\<rparr>"
  have "consistent ?st2"
    by (rule set_lifecycle_consistent [OF rec(1)], rule lifecycle_admits_open) (simp add: evidence_target_def)
  then have "consistent (?st2\<lparr>im_providers := umap_modify p (reflect_provider (evidence_target e)) (im_providers ?st2)\<rparr>)"
    for p by (subst modify_provider_consistent) (simp_all add: reflect_provider_def Let_def)
  with c rec Some s show ?thesis
    by (simp add: publishRegionEvidence_def Let_def split: option.split)
qed

lemma publishAttachment_consistent: "consistent st \<Longrightarrow> consistent (snd (publishAttachment e a st))"
  by (simp add: publishAttachment_def annotate_consistent split: option.split)

lemma drain_sweep_consistent:
  assumes c: "consistent st"
    and s: "umap_sweep (drain_release i) (im_regions st) (im_reservations st) = (regs, resvs)"
  shows "consistent (st\<lparr>im_regions := regs, im_reservations := resvs\<rparr>)"
    and "(k, r) \<in> set resvs \<Longrightarrow> rs_region r = i \<Longrightarrow> rs_state r \<noteq> ReservationState.RESERVED"
proof -
  let ?st' = "st\<lparr>im_regions := regs, im_reservations := resvs\<rparr>"
  have bal: "balanced (im_regions st) (im_reservations st)" using c by (simp add: consistent_def accounting_def)
  note same = drain.sweep_regions [OF s]
  have keys: "map fst resvs = map fst (im_reservations st)"
    using umap_sweep_keys [of "drain_release i" "im_regions st" "im_reservations st"] s by simp
  have "accounting ?st'"
    using c drain.sweep_balanced [OF bal s]
    by (simp add: consistent_def accounting_def umap_wf_def keys ids_fresh_keys [OF keys])
  moreover have "bindings ?st'"
  proof (rule bindingsI)
    fix k r
    assume "(k, r) \<in> set (im_reservations ?st')" and h: "holds r \<noteq> None"
    then have "bound st r"
      using c drain.sweep_survivor [OF s _ h] bindingsD [OF _ _ h] by (simp add: consistent_def) blast
    then show "bound ?st' r" by (simp add: bound_def gen_defs view_same [OF same])
  qed
  moreover have "members_known ?st'"
    using c by (simp add: consistent_def members_known_def memberships_same [OF same])
  ultimately show "consistent ?st'" by (simp add: consistent_def)
  show "(k, r) \<in> set resvs \<Longrightarrow> rs_region r = i \<Longrightarrow> rs_state r \<noteq> ReservationState.RESERVED"
    using drain.sweep_settled [OF bal s] by blast
qed

lemma begin_drain_move:
  assumes c: "consistent st" and rr: "umap_find (im_regions st) i = Some rr"
    and quiet: "\<And>k r. (k, r) \<in> set (im_reservations st) \<Longrightarrow> rs_region r = i \<Longrightarrow> rs_state r \<noteq> ReservationState.RESERVED"
  shows "consistent (st\<lparr>im_regions := umap_modify i (\<lambda>r. r\<lparr>rr_lifecycle := RegionLifecycle.DRAINING\<rparr>)
           (with_ledger i (\<lambda>_. snd (ledger_beginDrain n (rr_ledger rr))) (im_regions st)),
         im_providers := umap_modify p
          (\<lambda>p. if pr_lifecycle p = Lifecycle.ONLINE then p\<lparr>pr_lifecycle := Lifecycle.DRAINING\<rparr> else p)
          (im_providers st)\<rparr>)"
proof -
  let ?st1 = "st\<lparr>im_regions := with_ledger i (\<lambda>_. snd (ledger_beginDrain n (rr_ledger rr))) (im_regions st)\<rparr>"
  have c1: "consistent ?st1" using begin_drain.move_consistent [OF c rr] by simp
  let ?st2 = "?st1\<lparr>im_regions := umap_modify i (\<lambda>r. r\<lparr>rr_lifecycle := RegionLifecycle.DRAINING\<rparr>) (im_regions ?st1)\<rparr>"
  have "consistent ?st2"
  proof (rule set_lifecycle_consistent [OF c1])
    fix k r
    assume "(k, r) \<in> set (im_reservations ?st1)" "rs_region r = i" "bound ?st1 r"
    with quiet [of k r] show "lifecycle_admits r RegionLifecycle.DRAINING"
      by (simp add: lifecycle_admits_def)
  qed
  then have "consistent (?st2\<lparr>im_providers := umap_modify p
          (\<lambda>p. if pr_lifecycle p = Lifecycle.ONLINE then p\<lparr>pr_lifecycle := Lifecycle.DRAINING\<rparr> else p)
          (im_providers ?st2)\<rparr>)"
    by (subst modify_provider_consistent) simp_all
  then show ?thesis by simp
qed

lemma beginDrain_consistent:
  assumes c: "consistent st"
  shows "consistent (snd (beginDrain i a st))"
proof -
  obtain regs resvs where s: "umap_sweep (drain_release i) (im_regions st) (im_reservations st) = (regs, resvs)"
    by fastforce
  note c1 = drain_sweep_consistent [OF c s]
  show ?thesis
    using c s c1 begin_drain_move [OF c1(1), of i] begin_drain.move_consistent [OF c1(1), of i]
    by (simp add: beginDrain_def Let_def case_prod_beta split: option.split)
qed

lemma completeDrain_consistent:
  assumes c: "consistent st"
  shows "consistent (snd (completeDrain i a st))"
proof (cases "umap_find (im_regions st) i")
  case (Some rr)
  let ?led = "snd (endDrain (draining (rr_ledger rr)) (rr_ledger rr))"
  let ?st1 = "st\<lparr>im_regions := with_ledger i (\<lambda>_. ?led) (im_regions st)\<rparr>"
  let ?st2 = "?st1\<lparr>im_regions := umap_modify i (\<lambda>r. r\<lparr>rr_lifecycle := RegionLifecycle.UNAVAILABLE\<rparr>) (im_regions ?st1)\<rparr>"
  have c1: "consistent ?st1" using end_drain.move_consistent [OF c Some] by simp
  have "consistent ?st2" if lc: "rr_lifecycle rr = RegionLifecycle.DRAINING"
  proof (rule set_lifecycle_consistent [OF c1])
    fix k r
    assume "rs_region r = i" "bound ?st1 r"
    then show "lifecycle_admits r RegionLifecycle.UNAVAILABLE"
      using lc Some by (auto simp: bound_def view_def region_view_def admits_def lifecycle_admits_def)
  qed
  then have "consistent (?st2\<lparr>im_providers := umap_modify p
      (\<lambda>p. if pr_lifecycle p = Lifecycle.DRAINING then p\<lparr>pr_lifecycle := Lifecycle.OFFLINE\<rparr> else p) (im_providers ?st2)\<rparr>)"
    if "rr_lifecycle rr = RegionLifecycle.DRAINING" for p
    using that by (subst modify_provider_consistent) simp_all
  with c c1 Some show ?thesis by (simp add: completeDrain_def Let_def case_prod_beta)
qed (simp add: completeDrain_def c)

lemma cancelDrain_consistent:
  assumes c: "consistent st"
  shows "consistent (snd (cancelDrain i a st))"
proof (cases "umap_find (im_regions st) i")
  case (Some rr)
  let ?led = "snd (ledger_cancelDrain (draining (rr_ledger rr)) (rr_ledger rr))"
  have c1: "consistent (st\<lparr>im_regions := with_ledger i (\<lambda>_. ?led) (im_regions st)\<rparr>)" (is "consistent ?st1")
    using cancel_drain.move_consistent [OF c Some] by simp
  have "consistent (?st1\<lparr>im_regions := umap_modify i (\<lambda>r. r\<lparr>rr_lifecycle := RegionLifecycle.ONLINE\<rparr>) (im_regions ?st1)\<rparr>)"
    by (rule set_lifecycle_consistent [OF c1], rule lifecycle_admits_open) simp
  with c c1 Some show ?thesis by (simp add: cancelDrain_def Let_def case_prod_beta)
qed (simp add: cancelDrain_def c)

lemma retire_lifecycle_consistent:
  assumes c: "consistent st"
  shows "consistent ((fence_where (\<lambda>r. rs_region r = i) why st)\<lparr>im_regions :=
     umap_modify i (\<lambda>r. r\<lparr>rr_lifecycle := lc\<rparr>) (im_regions (fence_where (\<lambda>r. rs_region r = i) why st))\<rparr>)"
proof (rule set_lifecycle_consistent [OF by_region.fence_where_consistent [OF c]])
  fix k r
  assume "(k, r) \<in> set (im_reservations (fence_where (\<lambda>r. rs_region r = i) why st))" "holds r \<noteq> None" "rs_region r = i"
  with by_region.fence_where_survivor(2) [of st k r i why] c show "lifecycle_admits r lc"
    by (simp add: consistent_def)
qed

lemma markUnavailable_consistent:
  assumes c: "consistent st"
  shows "consistent (snd (markUnavailable i a st))"
proof (cases "umap_find (im_regions st) i")
  case (Some rr)
  have c1: "consistent (st\<lparr>im_regions := with_ledger i
      (\<lambda>_. snd (ledger_markUnavailable (free (rr_ledger rr)) (rr_ledger rr))) (im_regions st)\<rparr>)"
    using mark_unavailable.move_consistent [OF c Some] by simp
  with c Some retire_lifecycle_consistent [OF c1] show ?thesis
    by (simp add: markUnavailable_def Let_def case_prod_beta)
qed (simp add: markUnavailable_def c)

lemma recoverRegion_consistent:
  assumes c: "consistent st"
  shows "consistent (snd (recoverRegion i a st))"
proof (cases "umap_find (im_regions st) i")
  case (Some rr)
  have wf: "umap_wf (im_regions st)" using c by (simp add: consistent_def accounting_def balanced_def)
  let ?led = "snd (restore (unavailable (rr_ledger rr)) (rr_ledger rr))"
  have "consistent (st\<lparr>im_regions := with_ledger i (\<lambda>_. ?led) (im_regions st)\<rparr>)"
    using restore.move_consistent [OF c Some] by simp
  moreover have "with_ledger i (\<lambda>l. snd (restore (unavailable l) l)) (im_regions st) =
      with_ledger i (\<lambda>_. ?led) (im_regions st)"
    by (rule with_ledger_at [OF Some wf])
  ultimately have c1: "consistent (st\<lparr>im_regions :=
      with_ledger i (\<lambda>l. snd (restore (unavailable l) l)) (im_regions st)\<rparr>)" (is "consistent ?st1")
    by simp
  have c2: "consistent (?st1\<lparr>im_regions := umap_modify i (\<lambda>r. r\<lparr>rr_lifecycle := RegionLifecycle.DECLARED\<rparr>)
      (im_regions ?st1)\<rparr>)" (is "consistent ?st2")
    by (rule set_lifecycle_consistent [OF c1], rule lifecycle_admits_open) simp
  have "consistent (?st2\<lparr>im_regions := umap_modify i
      (\<lambda>r. r\<lparr>rr_evidenceStatus := EvidenceStatus.REVALIDATION_REQUIRED\<rparr>) (im_regions ?st2)\<rparr>)"
    using c2 by (subst annotate_consistent) simp_all
  then have "consistent (st\<lparr>im_regions := umap_modify i
      (\<lambda>r. r\<lparr>rr_ledger := snd (restore (unavailable (rr_ledger r)) (rr_ledger r)),
            rr_lifecycle := RegionLifecycle.DECLARED,
            rr_evidenceStatus := EvidenceStatus.REVALIDATION_REQUIRED\<rparr>) (im_regions st)\<rparr>)"
    by (simp add: with_ledger_def umap_modify_modify)
  with c Some show ?thesis by (simp add: recoverRegion_def)
qed (simp add: recoverRegion_def c)

lemma retireRegion_consistent:
  assumes c: "consistent st"
  shows "consistent (snd (retireRegion i a st))"
  using c retire_lifecycle_consistent [OF c] by (simp add: retireRegion_def Let_def split: option.split)

lemma map_lifecycle_consistent:
  assumes c: "consistent st"
    and f: "\<And>rr. rr_ledger (f rr) = rr_ledger rr" "\<And>rr. rr_descriptor (f rr) = rr_descriptor rr"
      "\<And>rr. rr_poolMemberships (f rr) = rr_poolMemberships rr"
    and v: "\<And>rr. region_view (f rr) = relife h (region_view rr)"
    and adm: "\<And>k r lc. (k, r) \<in> set (im_reservations st) \<Longrightarrow> holds r \<noteq> None \<Longrightarrow>
        lifecycle_admits r lc \<Longrightarrow> lifecycle_admits r (h (rs_provider r) lc)"
  shows "consistent (st\<lparr>im_regions := umap_map f (im_regions st)\<rparr>)" (is "consistent ?st'")
proof -
  have "bindings ?st'"
  proof (rule bindingsI)
    fix k r
    assume "(k, r) \<in> set (im_reservations ?st')" and h: "holds r \<noteq> None"
    then have r: "(k, r) \<in> set (im_reservations st)" by simp
    then have b: "bound st r" using bindingsD [OF _ r h] c by (simp add: consistent_def)
    with adm [OF r h] show "bound ?st' r"
      by (auto simp: bound_def view_map [OF v] gen_defs simp del: split_paired_Ex intro!: admits_relife)
  qed
  with c show ?thesis
    by (simp add: consistent_def accounting_map f members_known_def memberships_map)
qed

lemma retireProvider_consistent:
  assumes c: "consistent st"
  shows "consistent (snd (retireProvider p a st))"
proof -
  let ?st1 = "fence_where (\<lambda>r. rs_provider r = p) ''provider retired'' st"
  let ?f = "\<lambda>rr. if rd_provider (rr_descriptor rr) = p \<and> rr_lifecycle rr \<noteq> RegionLifecycle.RETIRED
                 then rr\<lparr>rr_lifecycle := RegionLifecycle.RETIRED\<rparr> else rr"
  have acc: "accounting st" using c by (simp add: consistent_def)
  have "consistent (?st1\<lparr>im_regions := umap_map ?f (im_regions ?st1)\<rparr>)" (is "consistent ?st2")
    by (rule map_lifecycle_consistent [OF by_provider.fence_where_consistent [OF c],
          where h = "\<lambda>q lc. if q = p then RegionLifecycle.RETIRED else lc"])
      (use by_provider.fence_where_survivor(2) [OF acc] in \<open>auto simp: region_view_def relife_def\<close>)
  then have "consistent (?st2\<lparr>im_providers := umap_modify p (\<lambda>p. p\<lparr>pr_lifecycle := Lifecycle.RETIRED\<rparr>) (im_providers ?st2)\<rparr>)"
    by (subst modify_provider_consistent) simp_all
  with c show ?thesis by (simp add: retireProvider_def Let_def split: option.split)
qed

text \<open>A loop over the regions that leaves each lifecycle alone or sets one that admits every holder.\<close>

lemma reopen_consistent:
  assumes c: "consistent st"
    and f: "\<And>rr. rr_ledger (f rr) = rr_ledger rr" "\<And>rr. rr_descriptor (f rr) = rr_descriptor rr"
      "\<And>rr. rr_poolMemberships (f rr) = rr_poolMemberships rr"
    and lc: "\<And>rr. rr_lifecycle (f rr) \<in> {rr_lifecycle rr, RegionLifecycle.REVALIDATION_REQUIRED}"
  shows "consistent (st\<lparr>im_regions := umap_map f (im_regions st)\<rparr>)" (is "consistent ?st'")
proof -
  have adm: "admits r (region_view rr) \<Longrightarrow> admits r (region_view (f rr))" for r rr
    using lc [of rr] by (auto simp: admits_def region_view_def lifecycle_admits_def f)
  have "bound ?st' r" if "bound st r" for r
    using that by (auto simp: bound_def gen_defs view_def option.pred_map comp_def simp del: split_paired_Ex
        elim!: option.pred_mono_strong intro: adm)
  then have "bindings ?st'" using c by (simp add: consistent_def bindings_def) blast
  with c show ?thesis
    by (simp add: consistent_def accounting_map f members_known_def memberships_map)
qed

lemma markWorkerDead_consistent:
  assumes c: "consistent st"
  shows "consistent (snd (markWorkerDead now w a st))"
proof -
  have "consistent (st\<lparr>im_workers := ws, im_regions := umap_map (orphan_region w boot) (im_regions (st\<lparr>im_workers := ws\<rparr>))\<rparr>)"
    for boot ws
    by (rule reopen_consistent) (simp_all add: c orphan_region_def Let_def)
  with c show ?thesis
    by (simp add: markWorkerDead_def Let_def by_worker.fence_where_consistent split: option.split)
qed

lemma setEpoch_consistent:
  assumes c: "consistent st"
  shows "consistent (setEpoch e st)"
proof (cases "id_value e \<le> id_value (im_epoch st)")
  case False
  let ?st1 = "st\<lparr>im_epoch := e, im_workers := umap_map (\<lambda>w. w\<lparr>wr_alive := False\<rparr>) (im_workers st),
                 im_regions := umap_map epoch_region (im_regions st)\<rparr>"
  obtain regs resvs where s: "umap_sweep epoch_fence (im_regions ?st1) (im_reservations ?st1) = (regs, resvs)"
    by fastforce
  have bal: "balanced (im_regions ?st1) (im_reservations ?st1)"
    using c by (simp add: consistent_def accounting_def balanced_map epoch_region_def Let_def)
  have keys: "map fst resvs = map fst (im_reservations st)"
    using umap_sweep_keys [of epoch_fence "im_regions ?st1" "im_reservations ?st1"] unfolding s by simp
  let ?st2 = "?st1\<lparr>im_regions := regs, im_reservations := resvs\<rparr>"
  have "accounting ?st2"
    using c epoch.sweep_balanced [OF bal s]
    by (simp add: consistent_def accounting_def umap_wf_def keys ids_fresh_keys [OF keys])
  moreover have "bindings ?st2"
    using epoch.sweep_settled [OF bal s] by (intro bindingsI) simp
  moreover have "members_known ?st2"
    using c memberships_same [OF epoch.sweep_regions [OF s]]
    by (simp add: consistent_def members_known_def memberships_map epoch_region_def Let_def)
  ultimately show ?thesis using False s by (simp add: setEpoch_def consistent_def)
qed (simp add: setEpoch_def c)

section \<open>Commit and release\<close>

lemma exchange_consistent:
  assumes mv: "ledger_move step src dst"
    and c: "consistent st" and i: "umap_find (im_reservations st) i = Some r"
    and rr: "umap_find (im_regions st) (rs_region r) = Some rr"
    and src: "holds r = Some src" and dst: "holds (r\<lparr>rs_state := s\<rparr>) = holdable dst"
    and s: "s \<noteq> ReservationState.RESERVED"
  shows "fst (step (rs_bytes r) (rr_ledger rr))"
    and "consistent (st\<lparr>im_regions :=
           with_ledger (rs_region r) (\<lambda>_. snd (step (rs_bytes r) (rr_ledger rr))) (im_regions st),
         im_reservations := umap_modify i (\<lambda>r. r\<lparr>rs_state := s\<rparr>) (im_reservations st)\<rparr>)"
    (is "consistent ?st'")
proof -
  have wf: "umap_wf (im_reservations st)" and bal: "balanced (im_regions st) (im_reservations st)"
    using c by (simp_all add: consistent_def accounting_def)
  obtain pre post where resvs: "im_reservations st = pre @ (i, r) # post"
      and resvs': "umap_modify i (\<lambda>r. r\<lparr>rs_state := s\<rparr>) (im_reservations st) = pre @ (i, r\<lparr>rs_state := s\<rparr>) # post"
    by (rule umap_modify_split [OF wf i])
  note ex = ledger_move.exchange [OF mv bal [unfolded resvs] rr src dst]
  show "fst (step (rs_bytes r) (rr_ledger rr))" using ex(1) by simp
  have "accounting ?st'"
    using c ex(2) wf by (simp add: consistent_def accounting_def resvs' [symmetric] ids_fresh_def)
  moreover have "bindings ?st'"
  proof (rule bindingsI)
    fix k q
    assume q: "(k, q) \<in> set (im_reservations ?st')" and h: "holds q \<noteq> None"
    have "bound st r" using c i src by (auto simp: consistent_def intro: bindingsD umap_find_in_set)
    then have "bound st (r\<lparr>rs_state := s\<rparr>)"
      using s by (auto simp: bound_def admits_def lifecycle_admits_def)
    moreover have "bound st q" if "(k, q) \<in> set (im_reservations st)"
      using c that h by (auto simp: consistent_def intro: bindingsD)
    moreover have "(k, q) \<in> set (pre @ (i, r\<lparr>rs_state := s\<rparr>) # post)" using q resvs' by simp
    ultimately have "bound st q" by (auto simp: resvs)
    then show "bound ?st' q" by (simp add: bound_def gen_defs)
  qed
  moreover have "members_known ?st'" using c by (simp add: consistent_def members_known_def)
  ultimately show "consistent ?st'" by (simp add: consistent_def)
qed

lemma bound_find:
  "bound st r \<Longrightarrow> \<exists>rr. umap_find (im_regions st) (rs_region r) = Some rr \<and>
     rd_generation (rr_descriptor rr) = rs_regionGeneration r \<and> rd_provider (rr_descriptor rr) = rs_provider r \<and>
     lifecycle_admits r (rr_lifecycle rr)"
  by (auto simp: bound_def view_def region_view_def admits_def)

lemma commitReservation_consistent:
  assumes c: "consistent st"
  shows "consistent (snd (commitReservation i a st))"
proof (cases "\<exists>r. umap_find (im_reservations st) i = Some r \<and> rs_state r = ReservationState.RESERVED")
  case True
  then obtain r where r: "umap_find (im_reservations st) i = Some r" "rs_state r = ReservationState.RESERVED"
    by blast
  then have "bound st r"
    using c by (auto simp: consistent_def holds_def intro: bindingsD umap_find_in_set)
  then obtain rr where rr: "umap_find (im_regions st) (rs_region r) = Some rr" by (auto dest: bound_find)
  note ex = exchange_consistent [OF commit.ledger_move_axioms c r(1) rr, of ReservationState.COMMITTED]
  show ?thesis
    using c r rr ex by (simp add: commitReservation_def holds_state holdable_def Let_def case_prod_beta split: option.split)
next
  case False
  with c show ?thesis by (auto simp: commitReservation_def split: option.split)
qed

lemma releaseReservation_consistent:
  assumes c: "consistent st"
  shows "consistent (snd (releaseReservation i a st))"
proof (cases "\<exists>r. umap_find (im_reservations st) i = Some r \<and> holds r \<noteq> None")
  case True
  then obtain r where r: "umap_find (im_reservations st) i = Some r" "holds r \<noteq> None"
    by blast
  then have "bound st r"
    using c by (auto simp: consistent_def intro: bindingsD umap_find_in_set)
  then obtain rr where rr: "umap_find (im_regions st) (rs_region r) = Some rr" by (auto dest: bound_find)
  note ex = exchange_consistent [OF release.ledger_move_axioms c r(1) rr, of ReservationState.RELEASED]
    exchange_consistent [OF complete.ledger_move_axioms c r(1) rr, of ReservationState.RELEASED]
  show ?thesis
    using c r rr ex
    by (cases "rs_state r") (simp_all add: releaseReservation_def holds_def holdable_def Let_def case_prod_beta)
next
  case False
  with c show ?thesis by (auto simp: releaseReservation_def holds_def split: option.split)
qed

section \<open>Requesting a reservation\<close>

lemma ids_fresh_missing: "ids_fresh n resvs \<Longrightarrow> umap_find resvs (TypedId n) = None"
  using um.keys_find [of "TypedId n" resvs] by (fastforce simp: ids_fresh_def)

lemma ids_fresh_put:
  assumes "ids_fresh n resvs" "n \<noteq> UINT64_MAX"
  shows "ids_fresh (n + 1) (umap_put (TypedId n) r resvs)"
proof -
  have "unat n \<noteq> 2 ^ 64 - 1" using assms(2) by (simp add: word_unat_eq_iff)
  then have "unat n + unat (1 :: u64) < 2 ^ 64" using unat_u64_less [of n] by simp
  then have "unat (n + 1) = unat n + 1" by (simp add: unat_add_u64)
  then show ?thesis
    using assms(1) by (auto simp: ids_fresh_def word_less_nat_alt word_unat_eq_iff intro: less_SucI)
qed

lemma authority_frame:
  "im_epoch st' = im_epoch st \<Longrightarrow> im_workers st' = im_workers st \<Longrightarrow>
   authorityAcceptableLocked st' a = authorityAcceptableLocked st a"
  by (simp only: authorityAcceptableLocked_def)

text \<open>The candidate the code takes is eligible and its ledger can serve the request.\<close>

lemma best_candidate:
  assumes c: "consistent st" and best: "best \<in> set (ranking st req)"
  obtains rr pr where "umap_find (im_regions st) (rc_region best) = Some rr"
      "umap_find (im_providers st) (rd_provider (rr_descriptor rr)) = Some pr"
      "usable_now st req pr rr" "meets_requirements st req pr rr"
      "rq_preferredPool req \<in> fst ` set (rr_poolMemberships rr) \<or> null (rq_preferredPool req)"
proof -
  have wf: "umap_wf (im_regions st)" using c by (simp add: consistent_def accounting_def balanced_def)
  from ranking_member [OF best] obtain rr where
      rr: "(rc_region best, rr) \<in> set (im_regions st)" "pool_admits req rr" "evaluateRegionEligibility st req rr = ELIGIBLE"
    by blast
  then show ?thesis
    using that umap_in_set_find [OF wf rr(1)] by (force simp: eligible_iff pool_admits_def)
qed

lemma new_reservation_bound:
  assumes c: "consistent st" and best: "best \<in> set (ranking st req)"
    and rr: "umap_find (im_regions st) (rc_region best) = Some rr"
    and a: "authorityAcceptableLocked st a"
  shows "bound st (make_reservation now req a st sel (rc_region best) rr rid rgen)"
proof -
  from best_candidate [OF c best] obtain pr where
      pr: "umap_find (im_providers st) (rd_provider (rr_descriptor rr)) = Some pr"
        "usable_now st req pr rr" "meets_requirements st req pr rr"
    and pool: "rq_preferredPool req \<in> fst ` set (rr_poolMemberships rr) \<or> null (rq_preferredPool req)"
    using rr by (metis option.inject)
  have "fst ` set (rr_poolMemberships rr) \<subseteq> umap_keys (im_pools st)"
  proof -
    have "fst ` set (memberships (im_regions st) (rc_region best)) \<subseteq> umap_keys (im_pools st)"
      using c by (simp add: consistent_def members_known_def)
    with rr show ?thesis by (simp add: memberships_def)
  qed
  then have "umap_find (im_pools st) (rq_preferredPool req) \<noteq> None \<or> null (rq_preferredPool req)"
    using pool um.keys_find [of "rq_preferredPool req" "im_pools st"] by blast
  moreover have "au_epoch a = im_epoch st"
    using a by (simp add: authorityAcceptableLocked_def split: if_splits)
  moreover have "umap_find (im_policies st) (rq_policy req) \<noteq> None \<or> null (rq_policy req)"
    using pr(3) by (auto simp: meets_requirements_def)
  moreover have "lifecycle_admits r (rr_lifecycle rr)" for r
    using pr(2) by (auto simp: usable_now_def lifecycle_admits_def)
  ultimately show ?thesis
    unfolding bound_def using rr pr(1)
    by (intro conjI) (auto simp: make_reservation_def view_def region_view_def admits_def gen_defs)
qed

lemma reserve_consistent:
  assumes c: "consistent st" and n: "im_reservationIdAlloc st \<noteq> UINT64_MAX"
    and rr: "umap_find (im_regions st) i = Some rr" and le: "rs_bytes r \<le> free (rr_ledger rr)"
    and r: "rs_region r = i" "rs_state r = ReservationState.RESERVED" "bound st r"
  shows "fst (reserve (rs_bytes r) (rr_ledger rr))"
    and "consistent (st\<lparr>im_regions := with_ledger i (\<lambda>_. snd (reserve (rs_bytes r) (rr_ledger rr))) (im_regions st),
           im_reservationIdAlloc := im_reservationIdAlloc st + 1, im_reservationGenAlloc := m,
           im_reservations := umap_put (TypedId (im_reservationIdAlloc st)) r (im_reservations st)\<rparr>)"
    (is "consistent ?st'")
proof -
  let ?k = "TypedId (im_reservationIdAlloc st) :: ReservationId"
  have bal: "balanced (im_regions st) (im_reservations st)" and wf: "umap_wf (im_reservations st)"
    and fresh: "ids_fresh (im_reservationIdAlloc st) (im_reservations st)"
    using c by (simp_all add: consistent_def accounting_def)
  note put = umap_put_fresh [OF ids_fresh_missing [OF fresh]]
  have inv: "invariant (rr_ledger rr)" by (rule consistent_invariant [OF c rr])
  have le': "unat (rs_bytes r) \<le> bytes_in (rr_ledger rr) Free" using le by (simp add: word_le_nat_alt)
  then show "fst (reserve (rs_bytes r) (rr_ledger rr))" by (simp add: reserve.accepts_iff inv)
  have h: "holds r = Some Reserved" using r(2) by (simp add: holds_def)
  have "balanced (with_ledger i (\<lambda>_. snd (reserve (rs_bytes r) (rr_ledger rr))) (im_regions st))
      (im_reservations st @ [(?k, r)])"
  proof (rule balanced_change [OF bal rr])
    show "holders_placed (im_regions st) (im_reservations st @ [(?k, r)])"
      using bal rr r(1) by (auto simp: balanced_def holders_placed_def)
  qed (auto simp: inv reserve.keeps_invariant reserve.bytes_after [OF inv le'] move_def held_def h r(1))
  then have "accounting ?st'"
    using wf ids_fresh_put [OF fresh n] by (simp add: accounting_def put [symmetric])
  moreover have "bindings ?st'"
  proof (rule bindingsI)
    fix k q
    assume "(k, q) \<in> set (im_reservations ?st')" and hq: "holds q \<noteq> None"
    then have "bound st q"
      using c r(3) bindingsD [OF _ _ hq] by (auto simp: put consistent_def)
    then show "bound ?st' q" by (simp add: bound_def gen_defs)
  qed
  moreover have "members_known ?st'" using c by (simp add: consistent_def members_known_def)
  ultimately show "consistent ?st'" by (simp add: consistent_def)
qed

lemma requestReservation_consistent:
  assumes c: "consistent st" and n: "im_reservationIdAlloc st \<noteq> UINT64_MAX"
  shows "consistent (snd (requestReservation now req a st))"
proof -
  obtain sel st1 where e: "evaluateLocked req st = (sel, st1)" by fastforce
  have c1: "consistent st1" using evaluateLocked_consistent [OF c, of req] e by simp
  have st1: "sel_ranked sel = ranking st1 req" "im_reservationIdAlloc st1 = im_reservationIdAlloc st"
    "im_epoch st1 = im_epoch st" "im_workers st1 = im_workers st"
    using e by (auto simp: evaluateLocked_def Let_def case_prod_beta ranking_allocators)
  have alloc: "im_reservationIdAlloc st \<noteq> 0" using c by (simp add: consistent_def accounting_def ids_fresh_def)
  show ?thesis
  proof (cases "authorityAcceptableLocked st a \<and> sel_ranked sel \<noteq> []")
    case False
    then consider "\<not> authorityAcceptableLocked st a" | "sel_ranked sel = []" by blast
    then show ?thesis using c c1 e by cases (simp_all add: requestReservation_def)
  next
    case True
    then obtain best rest where r: "sel_ranked sel = best # rest" by (cases "sel_ranked sel") auto
    then have best: "best \<in> set (ranking st1 req)" by (simp flip: st1)
    obtain rr pr where rr1: "umap_find (im_regions st1) (rc_region best) = Some rr" "meets_requirements st1 req pr rr"
      by (rule best_candidate [OF c1 best])
    then have rr: "umap_find (im_regions st1) (rc_region best) = Some rr" "rq_requiredBytes req \<le> free (rr_ledger rr)"
      by (simp_all add: meets_requirements_def)
    let ?gen = "fst (next_id (im_reservationGenAlloc st1))"
    let ?res = "make_reservation now req a st1 sel (rc_region best) rr (TypedId (im_reservationIdAlloc st1)) ?gen"
    have "bound st1 ?res" using True by (intro new_reservation_bound [OF c1 best rr(1)]) (simp add: authority_frame [OF st1(3,4)])
    moreover have "rs_bytes ?res = rq_requiredBytes req" "rs_region ?res = rc_region best"
        "rs_state ?res = ReservationState.RESERVED"
      by (simp_all add: make_reservation_def)
    moreover note res = reserve_consistent [OF c1 _ rr(1), of ?res]
    ultimately have acc: "fst (reserve (rq_requiredBytes req) (rr_ledger rr))"
      and fin: "consistent (st1\<lparr>im_regions := with_ledger (rc_region best)
            (\<lambda>_. snd (reserve (rq_requiredBytes req) (rr_ledger rr))) (im_regions st1),
          im_reservationIdAlloc := im_reservationIdAlloc st1 + 1,
          im_reservationGenAlloc := m,
          im_reservations := umap_put (TypedId (im_reservationIdAlloc st1)) ?res (im_reservations st1)\<rparr>)" for m
      using n rr(2) by (simp_all add: st1(2))
    have frame: "make_reservation now req a (st1\<lparr>im_regions := regs\<rparr>) sel = make_reservation now req a st1 sel" for regs
      unfolding make_reservation_def by simp
    have alloc_eq: "next_id (im_reservationIdAlloc st1) = (TypedId (im_reservationIdAlloc st1), im_reservationIdAlloc st1 + 1)"
      using alloc by (simp add: next_id_nonzero st1(2))
    show ?thesis
      using c acc fin by (simp add: requestReservation_def e r rr(1) Let_def case_prod_beta frame alloc_eq)
  qed
qed

end
