(* ===== verification/Bytes.thy ===== *)
theory Bytes
  imports Enums Double
begin

unbundle bit_operations_syntax

text \<open>
  The little-endian byte writer and the bounds-checked reader of \<open>src/protocol.cpp\<close> (\<open>Writer\<close>,
  \<open>Reader\<close>) and, in a second copy with the same bodies, of \<open>src/persistence.cpp\<close> (\<open>ByteWriter\<close>,
  \<open>ByteReader\<close>). A writer is the list of bytes it appends; a reader is a function from the bytes that
  are left to the value and the bytes after it, or \<open>None\<close> where the method returns false.

  The locale \<open>codec\<close> is the contract of a writer and its reader: what was written is read back, and
  only what could have been written is accepted. It is interpreted for the six primitive types. The
  locale \<open>payload\<close> is the contract of the composite decoders, which fail with a label; it gives their
  round trip and the rejection of truncated and padded input once for all of them.
\<close>

section \<open>Writers\<close>

definition kMaxString :: nat where
  "kMaxString = 1024"

definition kMaxCount :: u32 where
  "kMaxCount = 8192"

definition w_u8 :: "u8 \<Rightarrow> u8 list" where
  "w_u8 v = [v]"

definition w_u16 :: "u16 \<Rightarrow> u8 list" where
  "w_u16 v = [ucast (v AND 0xFF), ucast (drop_bit 8 v AND 0xFF)]"

definition w_u32 :: "u32 \<Rightarrow> u8 list" where
  "w_u32 v = [ucast (v AND 0xFF), ucast (drop_bit 8 v AND 0xFF),
              ucast (drop_bit 16 v AND 0xFF), ucast (drop_bit 24 v AND 0xFF)]"

definition w_u64 :: "u64 \<Rightarrow> u8 list" where
  "w_u64 v = w_u32 (ucast v) @ w_u32 (ucast (drop_bit 32 v))"

definition w_f64 :: "double \<Rightarrow> u8 list" where
  "w_f64 v = w_u64 (f64_bits v)"

definition byte_of_char :: "char \<Rightarrow> u8" where
  "byte_of_char c = of_nat (of_char c)"

definition char_of_byte :: "u8 \<Rightarrow> char" where
  "char_of_byte b = char_of (unat b)"

definition w_str :: "string \<Rightarrow> u8 list" where
  "w_str s = w_u32 (of_nat (length s)) @ map byte_of_char s"

definition w_bool :: "bool \<Rightarrow> u8 list" where
  "w_bool b = w_u8 (if b then 1 else 0)"

section \<open>Readers\<close>

type_synonym 'a reader = "u8 list \<Rightarrow> ('a \<times> u8 list) option"

fun r_u8 :: "u8 reader" where
  "r_u8 (b # rest) = Some (b, rest)"
| "r_u8 [] = None"

fun r_u16 :: "u16 reader" where
  "r_u16 (b0 # b1 # rest) = Some (ucast b0 OR push_bit 8 (ucast b1), rest)"
| "r_u16 _ = None"

fun r_u32 :: "u32 reader" where
  "r_u32 (b0 # b1 # b2 # b3 # rest) =
     Some (ucast b0 OR push_bit 8 (ucast b1) OR push_bit 16 (ucast b2) OR push_bit 24 (ucast b3), rest)"
| "r_u32 _ = None"

definition r_u64 :: "u64 reader" where
  "r_u64 bs =
     (case r_u32 bs of
        None \<Rightarrow> None
      | Some (lo, bs') \<Rightarrow>
          (case r_u32 bs' of
             None \<Rightarrow> None
           | Some (hi, rest) \<Rightarrow> Some (ucast lo OR push_bit 32 (ucast hi), rest)))"

definition r_f64 :: "double reader" where
  "r_f64 bs = (case r_u64 bs of None \<Rightarrow> None | Some (u, rest) \<Rightarrow> Some (F64 u, rest))"

definition r_str :: "string reader" where
  "r_str bs =
     (case r_u32 bs of
        None \<Rightarrow> None
      | Some (n, rest) \<Rightarrow>
          if unat n > kMaxString then None
          else if unat n > length rest then None
          else Some (map char_of_byte (take (unat n) rest), drop (unat n) rest))"

text \<open>A count that is read and checked against \<open>kMaxCount\<close> before a loop.\<close>

definition r_count :: "u32 reader" where
  "r_count bs =
     (case r_u32 bs of
        None \<Rightarrow> None
      | Some (n, rest) \<Rightarrow> if n > kMaxCount then None else Some (n, rest))"

section \<open>Labelled decoders\<close>

text \<open>
  A decoder of a composite value fails with the label of the field at which it gave up. \<open>field\<close> is the
  statement \<open>if (!r.read(v)) return fail(what);\<close> followed by the rest of the function, \<open>many\<close> a loop that
  decodes a counted number of elements.
\<close>

type_synonym 'a dec = "u8 list \<Rightarrow> string + 'a \<times> u8 list"

definition decoded :: "'a \<Rightarrow> 'a dec" where
  "decoded v bs = Inr (v, bs)"

definition field :: "string \<Rightarrow> 'a reader \<Rightarrow> ('a \<Rightarrow> 'b dec) \<Rightarrow> 'b dec" where
  "field what rd k bs = (case rd bs of None \<Rightarrow> Inl what | Some (v, rest) \<Rightarrow> k v rest)"

definition andthen :: "'a dec \<Rightarrow> ('a \<Rightarrow> 'b dec) \<Rightarrow> 'b dec" where
  "andthen d k bs = (case d bs of Inl what \<Rightarrow> Inl what | Inr (v, rest) \<Rightarrow> k v rest)"

fun many :: "nat \<Rightarrow> 'a dec \<Rightarrow> 'a list dec" where
  "many 0 d = decoded []"
| "many (Suc n) d = andthen d (\<lambda>x. andthen (many n d) (\<lambda>xs. decoded (x # xs)))"

section \<open>Words and bytes\<close>

lemma bit_255: "bit (0xFF :: 'a::len word) n \<longleftrightarrow> n < 8 \<and> n < LENGTH('a)"
  using bit_mask_iff [of 8 n, where 'a = "'a word"] by (auto simp: mask_eq_exp_minus_1)

lemma ucast_and_255 [simp]: "(ucast (v AND 0xFF) :: u8) = ucast (v :: 'a::len word)"
proof (rule bit_word_eqI)
  fix n assume "n < LENGTH(8)"
  then show "bit (ucast (v AND 0xFF) :: u8) n = bit (ucast v :: u8) n"
    unfolding bit_ucast_iff bit_and_iff bit_255 using bit_imp_le_length [of v n] by auto
qed

lemma u16_bytes: "(ucast (ucast v :: u8) :: u16) OR push_bit 8 (ucast (ucast (drop_bit 8 v) :: u8)) = v"
  by (rule bit_word_eqI) (auto simp: bit_or_iff bit_ucast_iff bit_push_bit_iff bit_drop_bit_eq)

lemma u32_bytes:
  "(ucast (ucast v :: u8) :: u32) OR push_bit 8 (ucast (ucast (drop_bit 8 v) :: u8)) OR
     push_bit 16 (ucast (ucast (drop_bit 16 v) :: u8)) OR push_bit 24 (ucast (ucast (drop_bit 24 v) :: u8)) = v"
proof (rule bit_word_eqI)
  fix n assume "n < LENGTH(32)"
  then consider "n < 8" | "8 \<le> n" "n < 16" | "16 \<le> n" "n < 24" | "24 \<le> n" "n < 32" by fastforce
  then show "bit ((ucast (ucast v :: u8) :: u32) OR push_bit 8 (ucast (ucast (drop_bit 8 v) :: u8)) OR
     push_bit 16 (ucast (ucast (drop_bit 16 v) :: u8)) OR push_bit 24 (ucast (ucast (drop_bit 24 v) :: u8))) n = bit v n"
    by cases (auto simp: bit_or_iff bit_ucast_iff bit_push_bit_iff bit_drop_bit_eq)
qed

lemma u64_words: "(ucast (ucast v :: u32) :: u64) OR push_bit 32 (ucast (ucast (drop_bit 32 v) :: u32)) = v"
  by (rule bit_word_eqI) (auto simp: bit_or_iff bit_ucast_iff bit_push_bit_iff bit_drop_bit_eq)

lemma byte_char [simp]: "char_of_byte (byte_of_char c) = c" "byte_of_char (char_of_byte b) = b"
proof -
  have "of_char c < (256 :: nat)" using nat_of_char_less_256 [of c] by simp
  then show "char_of_byte (byte_of_char c) = c"
    by (simp add: char_of_byte_def byte_of_char_def unat_of_nat take_bit_nat_eq_self)
  have "unat b < 256" using unsigned_less [of b, where 'a = nat] by simp
  then show "byte_of_char (char_of_byte b) = b" by (simp add: char_of_byte_def byte_of_char_def)
qed

section \<open>The contract of a writer and its reader\<close>

locale codec =
  fixes put :: "'a \<Rightarrow> u8 list" and get :: "'a reader" and fits :: "'a \<Rightarrow> bool"
  assumes get_put: "fits v \<Longrightarrow> get (put v @ rest) = Some (v, rest)"
    and get_exact: "get bs = Some (v, rest) \<Longrightarrow> bs = put v @ rest \<and> fits v"
begin

lemma get_extend: "get bs = Some (v, rest) \<Longrightarrow> get (bs @ x) = Some (v, rest @ x)"
  using get_exact [of bs v rest] get_put [of v "rest @ x"] by simp

lemma field_put [simp]: "fits v \<Longrightarrow> field what get k (put v @ rest) = k v rest"
  by (simp add: field_def get_put)

lemma put_inj: "fits v \<Longrightarrow> fits w \<Longrightarrow> put v = put w \<Longrightarrow> v = w"
  using get_put [of v "[]"] get_put [of w "[]"] by simp

end

lemma u32_word_bytes:
  fixes b0 b1 b2 b3 :: u8
  shows "w_u32 (ucast b0 OR push_bit 8 (ucast b1) OR push_bit 16 (ucast b2) OR push_bit 24 (ucast b3)) = [b0, b1, b2, b3]"
proof -
  have "(ucast (ucast b0 OR push_bit 8 (ucast b1) OR push_bit 16 (ucast b2) OR push_bit 24 (ucast b3) :: u32) :: u8) = b0"
    "(ucast (drop_bit 8 (ucast b0 OR push_bit 8 (ucast b1) OR push_bit 16 (ucast b2) OR push_bit 24 (ucast b3) :: u32)) :: u8) = b1"
    "(ucast (drop_bit 16 (ucast b0 OR push_bit 8 (ucast b1) OR push_bit 16 (ucast b2) OR push_bit 24 (ucast b3) :: u32)) :: u8) = b2"
    "(ucast (drop_bit 24 (ucast b0 OR push_bit 8 (ucast b1) OR push_bit 16 (ucast b2) OR push_bit 24 (ucast b3) :: u32)) :: u8) = b3"
    by (rule bit_word_eqI,
        auto simp: bit_or_iff bit_ucast_iff bit_push_bit_iff bit_drop_bit_eq dest: bit_imp_le_length)+
  then show ?thesis by (simp only: w_u32_def ucast_and_255)
qed

lemma u16_word_bytes: "w_u16 (ucast (b0 :: u8) OR push_bit 8 (ucast (b1 :: u8))) = [b0, b1]"
proof -
  have "(ucast (ucast b0 OR push_bit 8 (ucast b1) :: u16) :: u8) = b0"
    "(ucast (drop_bit 8 (ucast b0 OR push_bit 8 (ucast b1) :: u16)) :: u8) = b1"
    by (rule bit_word_eqI,
        auto simp: bit_or_iff bit_ucast_iff bit_push_bit_iff bit_drop_bit_eq dest: bit_imp_le_length)+
  then show ?thesis by (simp only: w_u16_def ucast_and_255)
qed

lemma u64_halves:
  "(ucast (ucast lo OR push_bit 32 (ucast hi) :: u64) :: u32) = lo"
  "(ucast (drop_bit 32 (ucast lo OR push_bit 32 (ucast hi) :: u64)) :: u32) = hi"
  for lo hi :: u32
  by (rule bit_word_eqI,
      auto simp: bit_or_iff bit_ucast_iff bit_push_bit_iff bit_drop_bit_eq dest: bit_imp_le_length)+

interpretation u8: codec w_u8 r_u8 "\<lambda>_. True"
proof unfold_locales
  show "r_u8 (w_u8 v @ rest) = Some (v, rest)" for v rest by (simp add: w_u8_def)
  show "bs = w_u8 v @ rest \<and> True" if "r_u8 bs = Some (v, rest)" for bs v rest
    using that by (cases bs) (auto simp: w_u8_def)
qed

interpretation u16: codec w_u16 r_u16 "\<lambda>_. True"
proof unfold_locales
  show "r_u16 (w_u16 v @ rest) = Some (v, rest)" for v rest by (simp add: w_u16_def u16_bytes)
  show "bs = w_u16 v @ rest \<and> True" if "r_u16 bs = Some (v, rest)" for bs v rest
    using that by (cases bs rule: r_u16.cases) (auto simp: u16_word_bytes)
qed

interpretation u32: codec w_u32 r_u32 "\<lambda>_. True"
proof unfold_locales
  show "r_u32 (w_u32 v @ rest) = Some (v, rest)" for v rest by (simp add: w_u32_def u32_bytes)
  show "bs = w_u32 v @ rest \<and> True" if "r_u32 bs = Some (v, rest)" for bs v rest
    using that by (cases bs rule: r_u32.cases) (auto simp: u32_word_bytes)
qed

interpretation u64: codec w_u64 r_u64 "\<lambda>_. True"
proof unfold_locales
  show "r_u64 (w_u64 v @ rest) = Some (v, rest)" for v rest
    by (simp add: r_u64_def w_u64_def u32.get_put u64_words)
  show "bs = w_u64 v @ rest \<and> True" if "r_u64 bs = Some (v, rest)" for bs v rest
    using that by (auto simp: r_u64_def w_u64_def u64_halves simp del: drop_bit_or split: option.splits
        dest!: u32.get_exact)
qed

interpretation f64: codec w_f64 r_f64 "\<lambda>_. True"
proof unfold_locales
  show "r_f64 (w_f64 v @ rest) = Some (v, rest)" for v rest
    by (simp add: r_f64_def w_f64_def u64.get_put)
  show "bs = w_f64 v @ rest \<and> True" if "r_f64 bs = Some (v, rest)" for bs v rest
    using that by (auto simp: r_f64_def w_f64_def split: option.splits dest!: u64.get_exact)
qed

interpretation str: codec w_str r_str "\<lambda>s. length s \<le> kMaxString"
proof unfold_locales
  show "r_str (w_str s @ rest) = Some (s, rest)" if "length s \<le> kMaxString" for s rest
    using that by (simp add: r_str_def w_str_def u32.get_put kMaxString_def unat_of_nat take_bit_nat_eq_self
        comp_def)
  show "bs = w_str v @ rest \<and> length v \<le> kMaxString" if "r_str bs = Some (v, rest)" for bs v rest
    using that by (auto simp: r_str_def w_str_def comp_def split: option.splits if_splits dest!: u32.get_exact)
qed

interpretation count: codec w_u32 r_count "\<lambda>n. n \<le> kMaxCount"
proof unfold_locales
  show "r_count (w_u32 n @ rest) = Some (n, rest)" if "n \<le> kMaxCount" for n rest
    using that by (simp add: r_count_def u32.get_put)
  show "bs = w_u32 v @ rest \<and> v \<le> kMaxCount" if "r_count bs = Some (v, rest)" for bs v rest
    using that by (auto simp: r_count_def split: option.splits if_splits dest!: u32.get_exact)
qed

section \<open>The contract of a composite decoder\<close>

definition failCodec :: "string \<Rightarrow> 'a Result" where
  "failCodec what = fail ErrorCode.CORRUPT (''decode: '' @ what)"

text \<open>The end of every codec: the whole buffer must have been consumed.\<close>

definition decode_all :: "'a dec \<Rightarrow> u8 list \<Rightarrow> 'a Result" where
  "decode_all d bs =
     (case d bs of
        Inl what \<Rightarrow> failCodec what
      | Inr (v, rest) \<Rightarrow> if rest = [] then ok v else failCodec ''trailing'')"

text \<open>More input never changes what a successful decoder returns.\<close>

definition extends :: "'a dec \<Rightarrow> bool" where
  "extends d \<longleftrightarrow> (\<forall>bs v rest x. d bs = Inr (v, rest) \<longrightarrow> d (bs @ x) = Inr (v, rest @ x))"

definition reader_extends :: "'a reader \<Rightarrow> bool" where
  "reader_extends rd \<longleftrightarrow> (\<forall>bs v rest x. rd bs = Some (v, rest) \<longrightarrow> rd (bs @ x) = Some (v, rest @ x))"

named_theorems extending

lemma reader_extends_primitives [extending]:
  "reader_extends r_u8" "reader_extends r_u16" "reader_extends r_u32" "reader_extends r_u64"
  "reader_extends r_f64" "reader_extends r_str" "reader_extends r_count"
  by (simp_all add: reader_extends_def u8.get_extend u16.get_extend u32.get_extend u64.get_extend
      f64.get_extend str.get_extend count.get_extend)

lemma extends_decoded [extending]: "extends (decoded v)"
  by (simp add: extends_def decoded_def)

lemma extends_field [extending]: "reader_extends rd \<Longrightarrow> (\<And>v. extends (k v)) \<Longrightarrow> extends (field what rd k)"
  unfolding extends_def reader_extends_def field_def by (fastforce split: option.splits)

lemma extends_andthen [extending]: "extends d \<Longrightarrow> (\<And>v. extends (k v)) \<Longrightarrow> extends (andthen d k)"
  unfolding extends_def andthen_def by (fastforce split: sum.splits)

lemma extends_many [extending]: "extends d \<Longrightarrow> extends (many n d)"
  by (induction n) (auto intro: extending)

lemma many_map:
  "(\<And>x rest. x \<in> set xs \<Longrightarrow> d (put x @ rest) = Inr (f x, rest)) \<Longrightarrow>
     many (length xs) d (concat (map put xs) @ rest) = Inr (map f xs, rest)"
  by (induction xs arbitrary: rest) (simp_all add: andthen_def decoded_def)

locale payload =
  fixes enc :: "'a \<Rightarrow> u8 list" and dec :: "'a dec" and fits :: "'a \<Rightarrow> bool"
  assumes dec_enc: "fits v \<Longrightarrow> dec (enc v @ rest) = Inr (v, rest)"
    and dec_extends: "extends dec"
begin

lemma dec_enc_end: "fits v \<Longrightarrow> dec (enc v) = Inr (v, [])"
  using dec_enc [of v "[]"] by simp

lemma roundtrip: "fits v \<Longrightarrow> decode_all dec (enc v) = ok v"
  by (simp add: decode_all_def dec_enc_end)

lemma padded: "fits v \<Longrightarrow> x \<noteq> [] \<Longrightarrow> decode_all dec (enc v @ x) = failCodec ''trailing''"
  by (simp add: decode_all_def dec_enc)

lemma truncated:
  assumes "fits v" "n < length (enc v)"
  shows "\<exists>what. decode_all dec (take n (enc v)) = failCodec what"
proof (cases "dec (take n (enc v))")
  case (Inr y)
  then have "dec (take n (enc v) @ drop n (enc v)) = Inr (fst y, snd y @ drop n (enc v))"
    using dec_extends unfolding extends_def by (metis prod.collapse)
  with dec_enc_end [OF assms(1)] assms(2) show ?thesis by simp
qed (auto simp: decode_all_def)

lemma many_enc: "list_all fits vs \<Longrightarrow> many (length vs) dec (concat (map enc vs) @ rest) = Inr (vs, rest)"
  using many_map [of vs dec enc id rest] by (simp add: dec_enc list_all_iff)

lemma andthen_enc [simp]: "fits v \<Longrightarrow> andthen dec k (enc v @ rest) = k v rest"
  by (simp add: andthen_def dec_enc)

lemma andthen_many [simp]:
  "list_all fits vs \<Longrightarrow> n = length vs \<Longrightarrow>
     andthen (many n dec) k (concat (map enc vs) @ rest) = k vs rest"
  by (simp add: andthen_def many_enc)

end

lemma field_bool [simp]: "field what r_u8 k (w_bool b @ rest) = k (if b then 1 else 0) rest"
  by (simp add: w_bool_def)

lemma bool_byte [simp]: "((if b then 1 else 0 :: u8) \<noteq> 0) = b"
  by simp

lemma count_fits [simp]: "n \<le> unat kMaxCount \<Longrightarrow> of_nat n \<le> kMaxCount" "n \<le> unat kMaxCount \<Longrightarrow> unat (of_nat n :: u32) = n"
proof -
  assume n: "n \<le> unat kMaxCount"
  then show "unat (of_nat n :: u32) = n" by (simp add: kMaxCount_def unat_of_nat take_bit_nat_eq_self)
  with n show "of_nat n \<le> kMaxCount" by (simp add: word_le_nat_alt)
qed

section \<open>Enumerations as bytes\<close>

text \<open>
  \<open>static_cast<std::uint8_t>(e)\<close> is the position of the enumerator in its declaration;
  \<open>static_cast<E>(b)\<close> accepts every byte. A value is in normal form (\<open>\<dots>_ok\<close>) when its extra constructor
  carries only bytes that name no enumerator: these are the values of the C++ type, each once.
\<close>

fun index_byte :: "'e list \<Rightarrow> 'e \<Rightarrow> u8" where
  "index_byte [] e = 0"
| "index_byte (t # ts) e = (if e = t then 0 else 1 + index_byte ts e)"

definition enum_of_byte :: "'e list \<Rightarrow> (u8 \<Rightarrow> 'e) \<Rightarrow> u8 \<Rightarrow> 'e" where
  "enum_of_byte table raw b = (if unat b < length table then table ! unat b else raw b)"

locale byte_enum =
  fixes to_byte :: "'e \<Rightarrow> u8" and of_byte :: "u8 \<Rightarrow> 'e" and fits :: "'e \<Rightarrow> bool"
  assumes of_to: "fits e \<Longrightarrow> of_byte (to_byte e) = e"
    and to_of: "to_byte (of_byte b) = b"
    and of_fits: "fits (of_byte b)"
begin

lemma to_byte_inj: "fits e \<Longrightarrow> fits f \<Longrightarrow> to_byte e = to_byte f \<Longrightarrow> e = f"
  using of_to by metis

lemma enum_of_byte_bij: "bij_betw of_byte UNIV (Collect fits)"
  by (rule bij_betw_byWitness [where f' = to_byte]) (auto simp: of_to to_of of_fits)

end

lemma index_byte_nth: "distinct t \<Longrightarrow> i < length t \<Longrightarrow> index_byte t (t ! i) = of_nat i"
proof (induction t arbitrary: i)
  case (Cons x t)
  then show ?case by (cases i) auto
qed simp

lemma byte_enumI:
  assumes "distinct table" "length table \<le> 256"
    and "\<And>e. e \<in> set table \<Longrightarrow> to_byte e = index_byte table e" "\<And>b. to_byte (raw b) = b"
    and "\<And>e. fits e \<longleftrightarrow> e \<in> set table \<or> (\<exists>b. e = raw b \<and> length table \<le> unat b)"
  shows "byte_enum to_byte (enum_of_byte table raw) fits"
proof
  fix e b
  show "enum_of_byte table raw (to_byte e) = e" if fits: "fits e"
  proof -
    consider i where "e = table ! i" "i < length table" | c where "e = raw c" "length table \<le> unat c"
      using fits unfolding assms(5) in_set_conv_nth by metis
    then show ?thesis
    proof cases
      case (1 i)
      then have "to_byte e = of_nat i" using assms(1,3) by (simp add: index_byte_nth)
      moreover have "unat (of_nat i :: u8) = i" using 1 assms(2) by (simp add: unat_of_nat take_bit_nat_eq_self)
      ultimately show ?thesis using 1 by (simp add: enum_of_byte_def)
    qed (simp add: enum_of_byte_def assms(4))
  qed
  show "to_byte (enum_of_byte table raw b) = b"
    using assms(1,3,4) by (simp add: enum_of_byte_def index_byte_nth)
  show "fits (enum_of_byte table raw b)"
    unfolding assms(5) by (auto simp: enum_of_byte_def)
qed

end
