(* ===== verification/EnumBytes.thy ===== *)
theory EnumBytes
  imports Bytes
begin

text \<open>
  The byte of every enumeration that crosses the wire or the file, by its declaration in
  \<open>include/memory_expansion_fabric/enums.hpp\<close>: the table of its enumerators in order, the conversion
  \<open>static_cast<std::uint8_t>\<close>, the conversion back and the normal form, with an interpretation of
  \<open>byte_enum\<close> for each.
\<close>

section \<open>ProviderKind\<close>

definition ProviderKind_table :: "ProviderKind list" where
  "ProviderKind_table =
     [ProviderKind.SYSTEM_MEMORY, ProviderKind.HOST_EXPANSION, ProviderKind.CXL_CLASS,
      ProviderKind.REMOTE_MEMORY, ProviderKind.FABRIC_ATTACHED,
      ProviderKind.ACCELERATOR_ADJACENT, ProviderKind.SOFTWARE_DEFINED,
      ProviderKind.SYNTHETIC, ProviderKind.UNKNOWN]"

definition ProviderKind_byte :: "ProviderKind \<Rightarrow> u8" where
  "ProviderKind_byte e = (case e of ProviderKind_raw b \<Rightarrow> b | _ \<Rightarrow> index_byte ProviderKind_table e)"

definition ProviderKind_of_byte :: "u8 \<Rightarrow> ProviderKind" where
  "ProviderKind_of_byte = enum_of_byte ProviderKind_table ProviderKind_raw"

definition ProviderKind_ok :: "ProviderKind \<Rightarrow> bool" where
  "ProviderKind_ok e = (case e of ProviderKind_raw b \<Rightarrow> 9 \<le> unat b | _ \<Rightarrow> True)"

interpretation kind: byte_enum ProviderKind_byte ProviderKind_of_byte ProviderKind_ok
  unfolding ProviderKind_of_byte_def
proof (rule byte_enumI)
  show "ProviderKind_byte e = index_byte ProviderKind_table e" if "e \<in> set ProviderKind_table" for e
    by (insert that, cases e) (simp_all add: ProviderKind_byte_def ProviderKind_table_def)
  show "ProviderKind_ok e \<longleftrightarrow> e \<in> set ProviderKind_table \<or> (\<exists>b. e = ProviderKind_raw b \<and> length ProviderKind_table \<le> unat b)" for e
    by (cases e) (simp_all add: eval_nat_numeral ProviderKind_ok_def ProviderKind_table_def)
qed (simp_all add: ProviderKind_byte_def ProviderKind_table_def)

section \<open>OriginClass\<close>

definition OriginClass_table :: "OriginClass list" where
  "OriginClass_table =
     [OriginClass.REAL, OriginClass.SYNTHETIC, OriginClass.UNSUPPORTED, OriginClass.UNKNOWN]"

definition OriginClass_byte :: "OriginClass \<Rightarrow> u8" where
  "OriginClass_byte e = (case e of OriginClass_raw b \<Rightarrow> b | _ \<Rightarrow> index_byte OriginClass_table e)"

definition OriginClass_of_byte :: "u8 \<Rightarrow> OriginClass" where
  "OriginClass_of_byte = enum_of_byte OriginClass_table OriginClass_raw"

definition OriginClass_ok :: "OriginClass \<Rightarrow> bool" where
  "OriginClass_ok e = (case e of OriginClass_raw b \<Rightarrow> 4 \<le> unat b | _ \<Rightarrow> True)"

interpretation origin: byte_enum OriginClass_byte OriginClass_of_byte OriginClass_ok
  unfolding OriginClass_of_byte_def
proof (rule byte_enumI)
  show "OriginClass_byte e = index_byte OriginClass_table e" if "e \<in> set OriginClass_table" for e
    by (insert that, cases e) (simp_all add: OriginClass_byte_def OriginClass_table_def)
  show "OriginClass_ok e \<longleftrightarrow> e \<in> set OriginClass_table \<or> (\<exists>b. e = OriginClass_raw b \<and> length OriginClass_table \<le> unat b)" for e
    by (cases e) (simp_all add: eval_nat_numeral OriginClass_ok_def OriginClass_table_def)
qed (simp_all add: OriginClass_byte_def OriginClass_table_def)

section \<open>CapabilityStatus\<close>

definition CapabilityStatus_table :: "CapabilityStatus list" where
  "CapabilityStatus_table =
     [CapabilityStatus.SUPPORTED, CapabilityStatus.UNSUPPORTED, CapabilityStatus.UNKNOWN,
      CapabilityStatus.REVALIDATION_REQUIRED]"

definition CapabilityStatus_byte :: "CapabilityStatus \<Rightarrow> u8" where
  "CapabilityStatus_byte e = (case e of CapabilityStatus_raw b \<Rightarrow> b | _ \<Rightarrow> index_byte CapabilityStatus_table e)"

definition CapabilityStatus_of_byte :: "u8 \<Rightarrow> CapabilityStatus" where
  "CapabilityStatus_of_byte = enum_of_byte CapabilityStatus_table CapabilityStatus_raw"

definition CapabilityStatus_ok :: "CapabilityStatus \<Rightarrow> bool" where
  "CapabilityStatus_ok e = (case e of CapabilityStatus_raw b \<Rightarrow> 4 \<le> unat b | _ \<Rightarrow> True)"

interpretation capstat: byte_enum CapabilityStatus_byte CapabilityStatus_of_byte CapabilityStatus_ok
  unfolding CapabilityStatus_of_byte_def
proof (rule byte_enumI)
  show "CapabilityStatus_byte e = index_byte CapabilityStatus_table e" if "e \<in> set CapabilityStatus_table" for e
    by (insert that, cases e) (simp_all add: CapabilityStatus_byte_def CapabilityStatus_table_def)
  show "CapabilityStatus_ok e \<longleftrightarrow> e \<in> set CapabilityStatus_table \<or> (\<exists>b. e = CapabilityStatus_raw b \<and> length CapabilityStatus_table \<le> unat b)" for e
    by (cases e) (simp_all add: eval_nat_numeral CapabilityStatus_ok_def CapabilityStatus_table_def)
qed (simp_all add: CapabilityStatus_byte_def CapabilityStatus_table_def)

section \<open>CapabilityKey\<close>

definition CapabilityKey_table :: "CapabilityKey list" where
  "CapabilityKey_table =
     [CapabilityKey.CPU_ACCESSIBLE, CapabilityKey.ACCELERATOR_ACCESSIBLE,
      CapabilityKey.PERSISTENT, CapabilityKey.VOLATILE, CapabilityKey.BYTE_ADDRESSABLE,
      CapabilityKey.BLOCK_ORIENTED, CapabilityKey.COHERENT, CapabilityKey.NON_COHERENT,
      CapabilityKey.DIRECT_ACCESS, CapabilityKey.STAGING_REQUIRED,
      CapabilityKey.HOST_MEDIATION_REQUIRED, CapabilityKey.MIGRATION_SUPPORTED,
      CapabilityKey.DRAIN_SUPPORTED, CapabilityKey.LIVE_WITHDRAWAL_SUPPORTED,
      CapabilityKey.HOT_ADD_REMOVE_OBSERVABLE, CapabilityKey.FAILURE_DOMAIN_ISOLATION_KNOWN,
      CapabilityKey.PERFORMANCE_EVIDENCE_CURRENT]"

definition CapabilityKey_byte :: "CapabilityKey \<Rightarrow> u8" where
  "CapabilityKey_byte e = (case e of CapabilityKey_raw b \<Rightarrow> b | _ \<Rightarrow> index_byte CapabilityKey_table e)"

definition CapabilityKey_of_byte :: "u8 \<Rightarrow> CapabilityKey" where
  "CapabilityKey_of_byte = enum_of_byte CapabilityKey_table CapabilityKey_raw"

definition CapabilityKey_ok :: "CapabilityKey \<Rightarrow> bool" where
  "CapabilityKey_ok e = (case e of CapabilityKey_raw b \<Rightarrow> 17 \<le> unat b | _ \<Rightarrow> True)"

interpretation capkey: byte_enum CapabilityKey_byte CapabilityKey_of_byte CapabilityKey_ok
  unfolding CapabilityKey_of_byte_def
proof (rule byte_enumI)
  show "CapabilityKey_byte e = index_byte CapabilityKey_table e" if "e \<in> set CapabilityKey_table" for e
    by (insert that, cases e) (simp_all add: CapabilityKey_byte_def CapabilityKey_table_def)
  show "CapabilityKey_ok e \<longleftrightarrow> e \<in> set CapabilityKey_table \<or> (\<exists>b. e = CapabilityKey_raw b \<and> length CapabilityKey_table \<le> unat b)" for e
    by (cases e) (simp_all add: eval_nat_numeral CapabilityKey_ok_def CapabilityKey_table_def)
qed (simp_all add: CapabilityKey_byte_def CapabilityKey_table_def)

section \<open>ReservationState\<close>

definition ReservationState_table :: "ReservationState list" where
  "ReservationState_table =
     [ReservationState.REQUESTED, ReservationState.EVALUATED, ReservationState.RESERVED,
      ReservationState.COMMITTED, ReservationState.ACTIVE, ReservationState.RELEASED,
      ReservationState.REJECTED, ReservationState.EXPIRED, ReservationState.FENCED,
      ReservationState.REVALIDATION_REQUIRED, ReservationState.CANCELLED]"

definition ReservationState_byte :: "ReservationState \<Rightarrow> u8" where
  "ReservationState_byte e = (case e of ReservationState_raw b \<Rightarrow> b | _ \<Rightarrow> index_byte ReservationState_table e)"

definition ReservationState_of_byte :: "u8 \<Rightarrow> ReservationState" where
  "ReservationState_of_byte = enum_of_byte ReservationState_table ReservationState_raw"

definition ReservationState_ok :: "ReservationState \<Rightarrow> bool" where
  "ReservationState_ok e = (case e of ReservationState_raw b \<Rightarrow> 11 \<le> unat b | _ \<Rightarrow> True)"

interpretation rstate: byte_enum ReservationState_byte ReservationState_of_byte ReservationState_ok
  unfolding ReservationState_of_byte_def
proof (rule byte_enumI)
  show "ReservationState_byte e = index_byte ReservationState_table e" if "e \<in> set ReservationState_table" for e
    by (insert that, cases e) (simp_all add: ReservationState_byte_def ReservationState_table_def)
  show "ReservationState_ok e \<longleftrightarrow> e \<in> set ReservationState_table \<or> (\<exists>b. e = ReservationState_raw b \<and> length ReservationState_table \<le> unat b)" for e
    by (cases e) (simp_all add: eval_nat_numeral ReservationState_ok_def ReservationState_table_def)
qed (simp_all add: ReservationState_byte_def ReservationState_table_def)

section \<open>EligibilityReason\<close>

definition EligibilityReason_table :: "EligibilityReason list" where
  "EligibilityReason_table =
     [EligibilityReason.ELIGIBLE, EligibilityReason.INSUFFICIENT_CAPACITY,
      EligibilityReason.OFFLINE, EligibilityReason.DEGRADED_NOT_ALLOWED,
      EligibilityReason.UNREACHABLE, EligibilityReason.CAPABILITY_UNSUPPORTED,
      EligibilityReason.CAPABILITY_UNKNOWN, EligibilityReason.INCOMPATIBLE,
      EligibilityReason.TOO_REMOTE, EligibilityReason.LATENCY_LIMIT_EXCEEDED,
      EligibilityReason.BANDWIDTH_INSUFFICIENT, EligibilityReason.PERSISTENCE_REQUIRED,
      EligibilityReason.STALE_EVIDENCE, EligibilityReason.REVALIDATION_REQUIRED,
      EligibilityReason.WRONG_GENERATION, EligibilityReason.WRONG_EPOCH,
      EligibilityReason.POLICY_DENIED, EligibilityReason.FAILURE_DOMAIN_CONFLICT,
      EligibilityReason.NO_ELIGIBLE_CAPACITY]"

definition EligibilityReason_byte :: "EligibilityReason \<Rightarrow> u8" where
  "EligibilityReason_byte e = (case e of EligibilityReason_raw b \<Rightarrow> b | _ \<Rightarrow> index_byte EligibilityReason_table e)"

definition EligibilityReason_of_byte :: "u8 \<Rightarrow> EligibilityReason" where
  "EligibilityReason_of_byte = enum_of_byte EligibilityReason_table EligibilityReason_raw"

definition EligibilityReason_ok :: "EligibilityReason \<Rightarrow> bool" where
  "EligibilityReason_ok e = (case e of EligibilityReason_raw b \<Rightarrow> 19 \<le> unat b | _ \<Rightarrow> True)"

interpretation reason: byte_enum EligibilityReason_byte EligibilityReason_of_byte EligibilityReason_ok
  unfolding EligibilityReason_of_byte_def
proof (rule byte_enumI)
  show "EligibilityReason_byte e = index_byte EligibilityReason_table e" if "e \<in> set EligibilityReason_table" for e
    by (insert that, cases e) (simp_all add: EligibilityReason_byte_def EligibilityReason_table_def)
  show "EligibilityReason_ok e \<longleftrightarrow> e \<in> set EligibilityReason_table \<or> (\<exists>b. e = EligibilityReason_raw b \<and> length EligibilityReason_table \<le> unat b)" for e
    by (cases e) (simp_all add: eval_nat_numeral EligibilityReason_ok_def EligibilityReason_table_def)
qed (simp_all add: EligibilityReason_byte_def EligibilityReason_table_def)

section \<open>SelectionOutcome\<close>

definition SelectionOutcome_table :: "SelectionOutcome list" where
  "SelectionOutcome_table =
     [SelectionOutcome.EXPANSION_SELECTED, SelectionOutcome.ALTERNATE_EXPANSION_SELECTED,
      SelectionOutcome.LOCAL_FALLBACK_SELECTED, SelectionOutcome.STAGING_REQUIRED,
      SelectionOutcome.DEFER, SelectionOutcome.REJECT,
      SelectionOutcome.REVALIDATION_REQUIRED]"

definition SelectionOutcome_byte :: "SelectionOutcome \<Rightarrow> u8" where
  "SelectionOutcome_byte e = (case e of SelectionOutcome_raw b \<Rightarrow> b | _ \<Rightarrow> index_byte SelectionOutcome_table e)"

definition SelectionOutcome_of_byte :: "u8 \<Rightarrow> SelectionOutcome" where
  "SelectionOutcome_of_byte = enum_of_byte SelectionOutcome_table SelectionOutcome_raw"

definition SelectionOutcome_ok :: "SelectionOutcome \<Rightarrow> bool" where
  "SelectionOutcome_ok e = (case e of SelectionOutcome_raw b \<Rightarrow> 7 \<le> unat b | _ \<Rightarrow> True)"

interpretation outcome_byte: byte_enum SelectionOutcome_byte SelectionOutcome_of_byte SelectionOutcome_ok
  unfolding SelectionOutcome_of_byte_def
proof (rule byte_enumI)
  show "SelectionOutcome_byte e = index_byte SelectionOutcome_table e" if "e \<in> set SelectionOutcome_table" for e
    by (insert that, cases e) (simp_all add: SelectionOutcome_byte_def SelectionOutcome_table_def)
  show "SelectionOutcome_ok e \<longleftrightarrow> e \<in> set SelectionOutcome_table \<or> (\<exists>b. e = SelectionOutcome_raw b \<and> length SelectionOutcome_table \<le> unat b)" for e
    by (cases e) (simp_all add: eval_nat_numeral SelectionOutcome_ok_def SelectionOutcome_table_def)
qed (simp_all add: SelectionOutcome_byte_def SelectionOutcome_table_def)

section \<open>EvidenceStatus\<close>

definition EvidenceStatus_table :: "EvidenceStatus list" where
  "EvidenceStatus_table =
     [EvidenceStatus.UNKNOWN, EvidenceStatus.CURRENT, EvidenceStatus.REVALIDATION_REQUIRED,
      EvidenceStatus.STALE]"

definition EvidenceStatus_byte :: "EvidenceStatus \<Rightarrow> u8" where
  "EvidenceStatus_byte e = (case e of EvidenceStatus_raw b \<Rightarrow> b | _ \<Rightarrow> index_byte EvidenceStatus_table e)"

definition EvidenceStatus_of_byte :: "u8 \<Rightarrow> EvidenceStatus" where
  "EvidenceStatus_of_byte = enum_of_byte EvidenceStatus_table EvidenceStatus_raw"

definition EvidenceStatus_ok :: "EvidenceStatus \<Rightarrow> bool" where
  "EvidenceStatus_ok e = (case e of EvidenceStatus_raw b \<Rightarrow> 4 \<le> unat b | _ \<Rightarrow> True)"

interpretation estatus: byte_enum EvidenceStatus_byte EvidenceStatus_of_byte EvidenceStatus_ok
  unfolding EvidenceStatus_of_byte_def
proof (rule byte_enumI)
  show "EvidenceStatus_byte e = index_byte EvidenceStatus_table e" if "e \<in> set EvidenceStatus_table" for e
    by (insert that, cases e) (simp_all add: EvidenceStatus_byte_def EvidenceStatus_table_def)
  show "EvidenceStatus_ok e \<longleftrightarrow> e \<in> set EvidenceStatus_table \<or> (\<exists>b. e = EvidenceStatus_raw b \<and> length EvidenceStatus_table \<le> unat b)" for e
    by (cases e) (simp_all add: eval_nat_numeral EvidenceStatus_ok_def EvidenceStatus_table_def)
qed (simp_all add: EvidenceStatus_byte_def EvidenceStatus_table_def)

section \<open>HealthState\<close>

definition HealthState_table :: "HealthState list" where
  "HealthState_table =
     [HealthState.UNKNOWN, HealthState.HEALTHY, HealthState.DEGRADED, HealthState.FAILED]"

definition HealthState_byte :: "HealthState \<Rightarrow> u8" where
  "HealthState_byte e = (case e of HealthState_raw b \<Rightarrow> b | _ \<Rightarrow> index_byte HealthState_table e)"

definition HealthState_of_byte :: "u8 \<Rightarrow> HealthState" where
  "HealthState_of_byte = enum_of_byte HealthState_table HealthState_raw"

definition HealthState_ok :: "HealthState \<Rightarrow> bool" where
  "HealthState_ok e = (case e of HealthState_raw b \<Rightarrow> 4 \<le> unat b | _ \<Rightarrow> True)"

interpretation health: byte_enum HealthState_byte HealthState_of_byte HealthState_ok
  unfolding HealthState_of_byte_def
proof (rule byte_enumI)
  show "HealthState_byte e = index_byte HealthState_table e" if "e \<in> set HealthState_table" for e
    by (insert that, cases e) (simp_all add: HealthState_byte_def HealthState_table_def)
  show "HealthState_ok e \<longleftrightarrow> e \<in> set HealthState_table \<or> (\<exists>b. e = HealthState_raw b \<and> length HealthState_table \<le> unat b)" for e
    by (cases e) (simp_all add: eval_nat_numeral HealthState_ok_def HealthState_table_def)
qed (simp_all add: HealthState_byte_def HealthState_table_def)

section \<open>Locality\<close>

definition Locality_table :: "Locality list" where
  "Locality_table =
     [Locality.UNKNOWN, Locality.LOCAL, Locality.REMOTE, Locality.FABRIC]"

definition Locality_byte :: "Locality \<Rightarrow> u8" where
  "Locality_byte e = (case e of Locality_raw b \<Rightarrow> b | _ \<Rightarrow> index_byte Locality_table e)"

definition Locality_of_byte :: "u8 \<Rightarrow> Locality" where
  "Locality_of_byte = enum_of_byte Locality_table Locality_raw"

definition Locality_ok :: "Locality \<Rightarrow> bool" where
  "Locality_ok e = (case e of Locality_raw b \<Rightarrow> 4 \<le> unat b | _ \<Rightarrow> True)"

interpretation locality: byte_enum Locality_byte Locality_of_byte Locality_ok
  unfolding Locality_of_byte_def
proof (rule byte_enumI)
  show "Locality_byte e = index_byte Locality_table e" if "e \<in> set Locality_table" for e
    by (insert that, cases e) (simp_all add: Locality_byte_def Locality_table_def)
  show "Locality_ok e \<longleftrightarrow> e \<in> set Locality_table \<or> (\<exists>b. e = Locality_raw b \<and> length Locality_table \<le> unat b)" for e
    by (cases e) (simp_all add: eval_nat_numeral Locality_ok_def Locality_table_def)
qed (simp_all add: Locality_byte_def Locality_table_def)

section \<open>Addressability\<close>

definition Addressability_table :: "Addressability list" where
  "Addressability_table =
     [Addressability.UNKNOWN, Addressability.BYTE_ADDRESSABLE,
      Addressability.BLOCK_ORIENTED]"

definition Addressability_byte :: "Addressability \<Rightarrow> u8" where
  "Addressability_byte e = (case e of Addressability_raw b \<Rightarrow> b | _ \<Rightarrow> index_byte Addressability_table e)"

definition Addressability_of_byte :: "u8 \<Rightarrow> Addressability" where
  "Addressability_of_byte = enum_of_byte Addressability_table Addressability_raw"

definition Addressability_ok :: "Addressability \<Rightarrow> bool" where
  "Addressability_ok e = (case e of Addressability_raw b \<Rightarrow> 3 \<le> unat b | _ \<Rightarrow> True)"

interpretation addressability: byte_enum Addressability_byte Addressability_of_byte Addressability_ok
  unfolding Addressability_of_byte_def
proof (rule byte_enumI)
  show "Addressability_byte e = index_byte Addressability_table e" if "e \<in> set Addressability_table" for e
    by (insert that, cases e) (simp_all add: Addressability_byte_def Addressability_table_def)
  show "Addressability_ok e \<longleftrightarrow> e \<in> set Addressability_table \<or> (\<exists>b. e = Addressability_raw b \<and> length Addressability_table \<le> unat b)" for e
    by (cases e) (simp_all add: eval_nat_numeral Addressability_ok_def Addressability_table_def)
qed (simp_all add: Addressability_byte_def Addressability_table_def)

section \<open>Persistence\<close>

definition Persistence_table :: "Persistence list" where
  "Persistence_table =
     [Persistence.UNKNOWN, Persistence.VOLATILE, Persistence.PERSISTENT]"

definition Persistence_byte :: "Persistence \<Rightarrow> u8" where
  "Persistence_byte e = (case e of Persistence_raw b \<Rightarrow> b | _ \<Rightarrow> index_byte Persistence_table e)"

definition Persistence_of_byte :: "u8 \<Rightarrow> Persistence" where
  "Persistence_of_byte = enum_of_byte Persistence_table Persistence_raw"

definition Persistence_ok :: "Persistence \<Rightarrow> bool" where
  "Persistence_ok e = (case e of Persistence_raw b \<Rightarrow> 3 \<le> unat b | _ \<Rightarrow> True)"

interpretation persistence: byte_enum Persistence_byte Persistence_of_byte Persistence_ok
  unfolding Persistence_of_byte_def
proof (rule byte_enumI)
  show "Persistence_byte e = index_byte Persistence_table e" if "e \<in> set Persistence_table" for e
    by (insert that, cases e) (simp_all add: Persistence_byte_def Persistence_table_def)
  show "Persistence_ok e \<longleftrightarrow> e \<in> set Persistence_table \<or> (\<exists>b. e = Persistence_raw b \<and> length Persistence_table \<le> unat b)" for e
    by (cases e) (simp_all add: eval_nat_numeral Persistence_ok_def Persistence_table_def)
qed (simp_all add: Persistence_byte_def Persistence_table_def)

lemmas enum_of_to [simp] =
  kind.of_to origin.of_to capstat.of_to capkey.of_to rstate.of_to reason.of_to outcome_byte.of_to estatus.of_to health.of_to locality.of_to addressability.of_to persistence.of_to

lemmas enum_fits [simp] =
  kind.of_fits origin.of_fits capstat.of_fits capkey.of_fits rstate.of_fits reason.of_fits outcome_byte.of_fits estatus.of_fits health.of_fits locality.of_fits addressability.of_fits persistence.of_fits

end
