(* ===== verification/Crc.thy ===== *)
theory Crc
  imports Prelude
begin

unbundle bit_operations_syntax

text \<open>
  The CRC-32 of \<open>src/protocol.cpp\<close> and, in a second textual copy, of \<open>src/persistence.cpp\<close>: a table of
  256 entries and one lookup per byte. The file proves the table-driven loop equal to the bit-serial
  division it optimises, and that the checksum detects every change that is confined to four
  consecutive bytes.
\<close>

section \<open>The code\<close>

text \<open>One step of the inner loop that fills the table.\<close>

definition crc_bit :: "u32 \<Rightarrow> u32" where
  "crc_bit c = (if c AND 1 \<noteq> 0 then 0xEDB88320 XOR drop_bit 1 c else drop_bit 1 c)"

definition crc_table :: "u32 list" where
  "crc_table = map (\<lambda>i. (crc_bit ^^ 8) (of_nat i)) [0..<256]"

definition crc_step :: "u32 \<Rightarrow> u8 \<Rightarrow> u32" where
  "crc_step crc b = crc_table ! unat ((crc XOR ucast b) AND 0xFF) XOR drop_bit 8 crc"

definition crc32 :: "u8 list \<Rightarrow> u32" where
  "crc32 data = foldl crc_step 0xFFFFFFFF data XOR 0xFFFFFFFF"

section \<open>The bit-serial reference\<close>

text \<open>
  The division register takes a byte into its low bits and is shifted eight times, subtracting the
  reflected polynomial whenever a one falls out.
\<close>

definition ref_step :: "u32 \<Rightarrow> u8 \<Rightarrow> u32" where
  "ref_step crc b = (crc_bit ^^ 8) (crc XOR ucast b)"

definition crc32_ref :: "u8 list \<Rightarrow> u32" where
  "crc32_ref data = foldl ref_step 0xFFFFFFFF data XOR 0xFFFFFFFF"

lemma crc_bit_bit:
  "bit (crc_bit c) n \<longleftrightarrow> (bit c 0 \<and> bit (0xEDB88320 :: u32) n) \<noteq> bit c (Suc n)"
  by (auto simp: crc_bit_def bit_simps and_one_eq one_and_eq even_iff_mod_2_eq_zero bit_0)

lemma crc_bit_xor: "crc_bit (x XOR y) = crc_bit x XOR crc_bit y"
  by (rule bit_word_eqI) (auto simp: crc_bit_bit bit_xor_iff)

lemma crc_bits_xor: "(crc_bit ^^ n) (x XOR y) = (crc_bit ^^ n) x XOR (crc_bit ^^ n) y"
  by (induction n) (simp_all add: crc_bit_xor)

text \<open>Shifting out zeros is a plain shift.\<close>

lemma crc_bits_zeros:
  assumes "\<And>i. i < n \<Longrightarrow> \<not> bit x i"
  shows "(crc_bit ^^ n) x = drop_bit n x"
  using assms
proof (induction n arbitrary: x)
  case (Suc n)
  have b: "bit (crc_bit x) i \<longleftrightarrow> bit x (Suc i)" for i
    using Suc.prems [of 0] by (auto simp: crc_bit_bit)
  have "(crc_bit ^^ n) (crc_bit x) = drop_bit n (crc_bit x)"
    using Suc.prems by (intro Suc.IH) (simp add: b)
  also have "\<dots> = drop_bit (Suc n) x"
    by (rule bit_word_eqI) (simp add: bit_drop_bit_eq b)
  finally show ?case by (simp only: funpow_Suc_right comp_def)
qed simp

lemma low_byte_index: "unat ((x :: u32) AND 0xFF) < 256"
proof -
  have "x AND 0xFF = take_bit 8 x"
    by (simp add: take_bit_eq_mask mask_eq_exp_minus_1)
  then have "unat (x AND 0xFF) = take_bit 8 (unat x)" by (simp only: unsigned_take_bit_eq)
  then show ?thesis using take_bit_nat_less_exp [of 8 "unat x"] by simp
qed

lemma table_entry: "crc_table ! unat (x AND 0xFF) = (crc_bit ^^ 8) (x AND 0xFF)"
  using low_byte_index [of x] by (simp add: crc_table_def)

lemma split_low_byte: "(x :: u32) = (x AND 0xFF) XOR push_bit 8 (drop_bit 8 x)"
proof (rule bit_word_eqI)
  fix n assume "n < LENGTH(32)"
  have "bit (0xFF :: u32) n \<longleftrightarrow> n < 8"
    using bit_mask_iff [of 8 n, where 'a = u32] \<open>n < LENGTH(32)\<close> by (simp add: mask_eq_exp_minus_1)
  then show "bit x n = bit ((x AND 0xFF) XOR push_bit 8 (drop_bit 8 x)) n"
    using \<open>n < LENGTH(32)\<close> by (auto simp: bit_xor_iff bit_and_iff bit_push_bit_iff bit_drop_bit_eq)
qed

lemma drop_byte: "drop_bit 8 (crc XOR ucast (b :: u8)) = drop_bit 8 (crc :: u32)"
  by (rule bit_word_eqI) (auto simp: bit_drop_bit_eq bit_xor_iff bit_ucast_iff dest: bit_imp_le_length)

lemma crc_bits_push: "(crc_bit ^^ 8) (push_bit 8 (drop_bit 8 x)) = drop_bit 8 x"
proof -
  have "drop_bit 8 (push_bit 8 (drop_bit 8 x)) = drop_bit 8 x"
  proof (rule bit_word_eqI)
    fix n
    have "8 + n < 32" if "bit x (8 + n)" using bit_imp_le_length [OF that] by simp
    then show "bit (drop_bit 8 (push_bit 8 (drop_bit 8 x))) n = bit (drop_bit 8 x) n"
      by (auto simp: bit_push_bit_iff bit_drop_bit_eq)
  qed
  then show ?thesis by (subst crc_bits_zeros) (simp_all add: bit_push_bit_iff)
qed

lemma crc_step_ref: "crc_step crc b = ref_step crc b"
proof -
  let ?x = "crc XOR ucast b"
  have "ref_step crc b = (crc_bit ^^ 8) (?x AND 0xFF) XOR (crc_bit ^^ 8) (push_bit 8 (drop_bit 8 ?x))"
    unfolding ref_step_def crc_bits_xor [symmetric] split_low_byte [symmetric] ..
  then show ?thesis by (simp only: crc_step_def table_entry crc_bits_push drop_byte)
qed

lemma crc32_is_ref: "crc32 data = crc32_ref data"
  unfolding crc32_def crc32_ref_def by (simp add: crc_step_ref [abs_def])

section \<open>Detection\<close>

text \<open>
  The register transition is invertible: the polynomial has its top bit set, so whether a one fell out
  can be read off the result.
\<close>

lemma crc_bit_inj: "crc_bit x = crc_bit y \<Longrightarrow> x = y"
proof (rule bit_word_eqI)
  fix n assume eq: "crc_bit x = crc_bit y" and n: "n < LENGTH(32)"
  have hi: "bit (0xEDB88320 :: u32) 31" by simp
  have nb: "\<not> bit x 32" "\<not> bit y 32" using bit_imp_le_length [of x 32] bit_imp_le_length [of y 32] by auto
  from eq have at: "bit (crc_bit x) i = bit (crc_bit y) i" for i by simp
  have z: "bit x 0 = bit y 0" using at [of 31] hi nb by (simp add: crc_bit_bit)
  show "bit x n = bit y n"
  proof (cases n)
    case (Suc m)
    from at [of m] z show ?thesis unfolding Suc crc_bit_bit by auto
  qed (simp add: z)
qed

lemma crc_bits_inj: "(crc_bit ^^ n) x = (crc_bit ^^ n) y \<Longrightarrow> x = y"
  by (induction n) (auto dest: crc_bit_inj)

text \<open>Up to four bytes enter the register as one little-endian word.\<close>

fun le_word :: "u8 list \<Rightarrow> u32" where
  "le_word [] = 0"
| "le_word (b # bs) = ucast b XOR push_bit 8 (le_word bs)"

lemma le_word_bits: "bit (le_word bs) n \<Longrightarrow> n < 8 * length bs"
proof (induction bs arbitrary: n)
  case (Cons b bs)
  then show ?case
    by (cases "n < 8") (auto simp: bit_xor_iff bit_ucast_iff bit_push_bit_iff dest: bit_imp_le_length Cons.IH)
qed simp

lemma le_word_low: "bit (le_word (b # bs)) n = bit b n" if "n < 8"
  using that by (auto simp: bit_xor_iff bit_ucast_iff bit_push_bit_iff)

lemma le_word_drop:
  assumes "length bs \<le> 3"
  shows "drop_bit 8 (le_word (b # bs)) = le_word bs"
proof (rule bit_word_eqI)
  fix n assume "n < LENGTH(32)"
  have "n + 8 < 32" if "bit (le_word bs) n" using le_word_bits [OF that] assms by simp
  then show "bit (drop_bit 8 (le_word (b # bs))) n = bit (le_word bs) n"
    by (auto simp: bit_drop_bit_eq bit_xor_iff bit_ucast_iff bit_push_bit_iff add.commute dest: bit_imp_le_length)
qed

lemma le_word_inj: "length bs = length cs \<Longrightarrow> length bs \<le> 4 \<Longrightarrow> le_word bs = le_word cs \<Longrightarrow> bs = cs"
proof (induction bs cs rule: list_induct2)
  case (Cons b bs c cs)
  have "b = c"
    using Cons.prems(2) le_word_low [of _ b bs] le_word_low [of _ c cs] by (intro bit_word_eqI) auto
  moreover have "le_word bs = le_word cs"
    using Cons.prems Cons.hyps le_word_drop [of bs b] le_word_drop [of cs c] by simp
  ultimately show ?case using Cons by simp
qed simp

lemma ref_run_word: "length bs \<le> 4 \<Longrightarrow> foldl ref_step c bs = (crc_bit ^^ (8 * length bs)) (c XOR le_word bs)"
proof (induction bs arbitrary: c)
  case (Cons b bs)
  have "push_bit 8 (drop_bit 8 (push_bit 8 (le_word bs))) = push_bit 8 (le_word bs)"
    by (rule bit_word_eqI) (auto simp: bit_push_bit_iff bit_drop_bit_eq)
  moreover have "drop_bit 8 (push_bit 8 (le_word bs)) = le_word bs"
    using le_word_drop [of bs 0] Cons.prems by simp
  ultimately have p: "(crc_bit ^^ 8) (push_bit 8 (le_word bs)) = le_word bs"
    using crc_bits_push [of "push_bit 8 (le_word bs)"] by simp
  have "foldl ref_step c (b # bs) = (crc_bit ^^ (8 * length bs)) ((crc_bit ^^ 8) (c XOR ucast b) XOR le_word bs)"
    using Cons.IH [of "(crc_bit ^^ 8) (c XOR ucast b)"] Cons.prems by (simp only: foldl_Cons ref_step_def [of c b]) simp
  also have "(crc_bit ^^ 8) (c XOR ucast b) XOR le_word bs =
      (crc_bit ^^ 8) ((c XOR ucast b) XOR push_bit 8 (le_word bs))"
    unfolding crc_bits_xor p ..
  finally show ?case by (simp only: length_Cons mult_Suc_right add.commute [of 8] funpow_add comp_apply xor.assoc le_word.simps)
qed simp

lemma ref_step_inj: "ref_step x b = ref_step y b \<Longrightarrow> x = y"
proof -
  assume "ref_step x b = ref_step y b"
  then have "x XOR ucast b = y XOR ucast b" unfolding ref_step_def by (rule crc_bits_inj)
  then have "(x XOR ucast b) XOR ucast b = (y XOR ucast b) XOR ucast b" by simp
  then show "x = y" by (simp add: xor.assoc)
qed

lemma ref_run_inj: "foldl ref_step x bs = foldl ref_step y bs \<Longrightarrow> x = y"
  by (induction bs arbitrary: x y) (auto dest: ref_step_inj)

lemma crc32_burst:
  assumes "length ws = length ws'" "length ws \<le> 4" "crc32 (xs @ ws @ ys) = crc32 (xs @ ws' @ ys)"
  shows "ws = ws'"
proof -
  let ?c = "foldl ref_step 0xFFFFFFFF xs"
  from assms(3) have "(foldl ref_step (foldl ref_step ?c ws) ys XOR 0xFFFFFFFF) XOR 0xFFFFFFFF =
      (foldl ref_step (foldl ref_step ?c ws') ys XOR 0xFFFFFFFF) XOR 0xFFFFFFFF"
    by (simp add: crc32_is_ref crc32_ref_def)
  then have "foldl ref_step ?c ws = foldl ref_step ?c ws'"
    by (simp add: xor.assoc) (rule ref_run_inj)
  then have "?c XOR le_word ws = ?c XOR le_word ws'"
    using assms(1,2) by (simp add: ref_run_word) (drule crc_bits_inj)
  then have "?c XOR (?c XOR le_word ws) = ?c XOR (?c XOR le_word ws')" by simp
  then have "le_word ws = le_word ws'" by (simp add: xor.assoc [symmetric])
  then show ?thesis using le_word_inj assms(1,2) by blast
qed

section \<open>The polynomial\<close>

text \<open>
  The published check value of CRC-32 (reflected 0x04C11DB7, initial value and final complement all ones) is
  the checksum of the nine digits. It fixes the polynomial, which code and reference share.
\<close>

lemma crc_bit8: "(crc_bit ^^ 8) x = crc_bit (crc_bit (crc_bit (crc_bit (crc_bit (crc_bit (crc_bit (crc_bit x)))))))"
  by (simp add: numeral_eq_Suc)

lemma check_steps:
  "ref_step 0xFFFFFFFF 0x31 = 0x7C231048"
  "ref_step 0x7C231048 0x32 = 0xB0ACBB32"
  "ref_step 0xB0ACBB32 0x33 = 0x77B79C2D"
  "ref_step 0x77B79C2D 0x34 = 0x641C1F5C"
  "ref_step 0x641C1F5C 0x35 = 0x340AC5E3"
  "ref_step 0x340AC5E3 0x36 = 0xF68D2C9E"
  "ref_step 0xF68D2C9E 0x37 = 0xAFFC9660"
  "ref_step 0xAFFC9660 0x38 = 0x651F2550"
  "ref_step 0x651F2550 0x39 = 0x340BC6D9"
  by (simp_all add: ref_step_def crc_bit8, simp_all add: crc_bit_def)

lemma check_value: "crc32_ref [0x31, 0x32, 0x33, 0x34, 0x35, 0x36, 0x37, 0x38, 0x39] = 0xCBF43926"
  by (simp add: crc32_ref_def check_steps)
section \<open>Equivalence\<close>

text \<open>
  C27. The table-driven checksum is the bit-serial division by the reflected IEEE 802.3 polynomial, on
  every input, and its checksum of the digits from 1 to 9 is the check value 0xCBF43926 of that standard.
\<close>
theorem crc32_table_is_division:
  "crc32 data = crc32_ref data \<and> crc32 [0x31, 0x32, 0x33, 0x34, 0x35, 0x36, 0x37, 0x38, 0x39] = 0xCBF43926"
  by (simp add: crc32_is_ref check_value)

end
