(* ===== verification/Storage.thy ===== *)
theory Storage
  imports FabricState EnumBytes Crc
begin

unbundle bit_operations_syntax

text \<open>
  Saving and loading the durable structure (\<open>src/persistence.cpp\<close>): the payload codec over the tables
  of \<open>Impl\<close>, the file format with its checksum, and the file operations. The byte reader and writer and
  the checksum are textual copies of those of \<open>src/protocol.cpp\<close> and share their definitions.

  Reservations, workers, evidence, ledgers, attachments and allocators are not saved. The loop bodies
  that insert a decoded entry into a table are a decoder of the entry (\<open>get_\<dots>\<close>) followed by the
  insertion of all of them in order; on a failure the partly filled object is discarded by the caller.
\<close>

section \<open>Capabilities\<close>

definition put_cap :: "Capability \<Rightarrow> u8 list" where
  "put_cap c = w_u8 (CapabilityKey_byte (cap_key c)) @ w_u8 (CapabilityStatus_byte (cap_status c)) @ w_str (cap_note c)"

definition writeCaps :: "CapabilityModel \<Rightarrow> u8 list" where
  "writeCaps m = w_u32 (of_nat (length m)) @ concat (map put_cap m)"

fun read_caps :: "nat \<Rightarrow> CapabilityModel \<Rightarrow> CapabilityModel reader" where
  "read_caps 0 m bs = Some (m, bs)"
| "read_caps (Suc n) m bs =
     (case r_u8 bs of
        None \<Rightarrow> None
      | Some (k, bs1) \<Rightarrow>
          (case r_u8 bs1 of
             None \<Rightarrow> None
           | Some (s, bs2) \<Rightarrow>
               (case r_str bs2 of
                  None \<Rightarrow> None
                | Some (note, rest) \<Rightarrow>
                    read_caps n (cap_set (CapabilityKey_of_byte k) (CapabilityStatus_of_byte s) note m) rest)))"

definition readCaps :: "CapabilityModel reader" where
  "readCaps bs = (case r_count bs of None \<Rightarrow> None | Some (n, rest) \<Rightarrow> read_caps (unat n) [] rest)"

section \<open>Table entries\<close>

definition put_provider :: "ProviderId \<times> ProviderRecord \<Rightarrow> u8 list" where
  "put_provider = (\<lambda>(i, p). let d = pr_descriptor p in
     w_u64 (id_value i) @ w_u64 (id_value (pd_generation d)) @ w_u8 (ProviderKind_byte (pd_kind d)) @
     w_u8 (OriginClass_byte (pd_origin d)) @ w_str (pd_name d) @ w_u64 (id_value (pd_failureDomain d)) @
     w_u8 (Addressability_byte (pd_addressability d)) @ w_u8 (Persistence_byte (pd_persistence d)) @
     w_u64 (pd_totalCapacityBytes d) @ w_u64 (pd_alignmentBytes d) @ w_u64 (pd_granularityBytes d) @
     w_bool (pd_requiresHostCopy d) @ writeCaps (pd_capabilities d))"

definition put_domain :: "ExpansionDomainId \<times> DomainRecord \<Rightarrow> u8 list" where
  "put_domain = (\<lambda>(i, r). let d = dr_descriptor r in
     w_u64 (id_value i) @ w_u64 (id_value (dd_generation d)) @ w_str (dd_name d) @
     w_u8 (OriginClass_byte (dd_origin d)) @ w_u64 (id_value (dd_failureDomain d)))"

definition put_region :: "RegionId \<times> RegionRecord \<Rightarrow> u8 list" where
  "put_region = (\<lambda>(i, r). let d = rr_descriptor r in
     w_u64 (id_value i) @ w_u64 (id_value (rd_generation d)) @ w_u64 (id_value (rd_provider d)) @
     w_u64 (id_value (rd_domain d)) @ w_str (rd_name d) @ w_u64 (rd_totalCapacityBytes d) @
     w_u64 (rd_alignmentBytes d) @ w_u64 (rd_granularityBytes d) @ w_u8 (OriginClass_byte (rd_origin d)) @
     w_u8 (Persistence_byte (rd_persistence d)) @ writeCaps (rd_staticCapabilities d))"

definition put_member :: "PoolMember \<Rightarrow> u8 list" where
  "put_member m = w_u64 (id_value (pm_region m)) @ w_u64 (id_value (pm_generation m))"

definition put_pool :: "PoolId \<times> PoolRecord \<Rightarrow> u8 list" where
  "put_pool = (\<lambda>(i, r). let d = plr_descriptor r in
     w_u64 (id_value i) @ w_u64 (id_value (pl_generation d)) @ w_str (pl_name d) @
     w_u8 (OriginClass_byte (pl_origin d)) @ w_u32 (of_nat (length (pl_members d))) @
     concat (map put_member (pl_members d)))"

definition put_rule :: "PolicyRule \<Rightarrow> u8 list" where
  "put_rule r = w_str (rule_key r) @ w_str (rule_value r)"

definition put_policy :: "PolicyId \<times> PolicyRecord \<Rightarrow> u8 list" where
  "put_policy = (\<lambda>(i, d).
     w_u64 (id_value i) @ w_u64 (id_value (po_generation d)) @ w_str (po_name d) @
     w_bool (po_allowDegraded d) @ w_bool (po_requireFreshEvidence d) @ w_bool (po_allowLocalFallback d) @
     w_bool (po_expansionRequired d) @ w_u32 (of_nat (length (po_rules d))) @ concat (map put_rule (po_rules d)))"

definition put_consumer :: "ConsumerId \<times> ConsumerRecord \<Rightarrow> u8 list" where
  "put_consumer = (\<lambda>(i, g). w_u64 (id_value i) @ w_u64 (id_value g))"

text \<open>A decoded entry is the record the loop body inserts, with the lifecycle of a recovered object.\<close>

definition get_provider :: "(ProviderId \<times> ProviderRecord) dec" where
  "get_provider =
     (let what = ''provider field'' in
      field what r_u64 (\<lambda>i. field what r_u64 (\<lambda>gen. field what r_u8 (\<lambda>kind. field what r_u8 (\<lambda>origin.
      field what r_str (\<lambda>name. field what r_u64 (\<lambda>fd. field what r_u8 (\<lambda>addr. field what r_u8 (\<lambda>persist.
      field what r_u64 (\<lambda>tot. field what r_u64 (\<lambda>al. field what r_u64 (\<lambda>gr. field what r_u8 (\<lambda>copy.
      field ''provider caps'' readCaps (\<lambda>caps.
      decoded (TypedId i,
        \<lparr>pr_descriptor =
           \<lparr>pd_id = TypedId i, pd_generation = TypedId gen, pd_kind = ProviderKind_of_byte kind,
            pd_origin = OriginClass_of_byte origin, pd_name = name, pd_failureDomain = TypedId fd,
            pd_addressability = Addressability_of_byte addr, pd_persistence = Persistence_of_byte persist,
            pd_totalCapacityBytes = tot, pd_alignmentBytes = al, pd_granularityBytes = gr,
            pd_capabilities = caps, pd_requiresHostCopy = (copy \<noteq> 0)\<rparr>,
         pr_lifecycle = Lifecycle.REVALIDATION_REQUIRED, pr_registeredAtMs = 0\<rparr>)))))))))))))))"

definition get_domain :: "(ExpansionDomainId \<times> DomainRecord) dec" where
  "get_domain =
     (let what = ''domain field'' in
      field what r_u64 (\<lambda>i. field what r_u64 (\<lambda>gen. field what r_str (\<lambda>name. field what r_u8 (\<lambda>origin.
      field what r_u64 (\<lambda>fd.
      decoded (TypedId i,
        \<lparr>dr_descriptor =
           \<lparr>dd_id = TypedId i, dd_generation = TypedId gen, dd_name = name,
            dd_origin = OriginClass_of_byte origin, dd_failureDomain = TypedId fd\<rparr>,
         dr_lifecycle = Lifecycle.REVALIDATION_REQUIRED\<rparr>)))))))"

definition get_region :: "(RegionId \<times> RegionRecord) dec" where
  "get_region =
     (let what = ''region field'' in
      field what r_u64 (\<lambda>i. field what r_u64 (\<lambda>gen. field what r_u64 (\<lambda>prov. field what r_u64 (\<lambda>dom.
      field what r_str (\<lambda>name. field what r_u64 (\<lambda>tot. field what r_u64 (\<lambda>al. field what r_u64 (\<lambda>gr.
      field what r_u8 (\<lambda>origin. field what r_u8 (\<lambda>persist.
      field ''region caps'' readCaps (\<lambda>caps.
      decoded (TypedId i,
        new_region
          \<lparr>rd_id = TypedId i, rd_generation = TypedId gen, rd_provider = TypedId prov, rd_domain = TypedId dom,
           rd_name = name, rd_totalCapacityBytes = tot, rd_alignmentBytes = al, rd_granularityBytes = gr,
           rd_origin = OriginClass_of_byte origin, rd_persistence = Persistence_of_byte persist,
           rd_staticCapabilities = caps\<rparr>
          RegionLifecycle.REVALIDATION_REQUIRED (new_ledger tot))))))))))))))"

definition get_member :: "PoolMember dec" where
  "get_member =
     field ''pool member'' r_u64 (\<lambda>rid. field ''pool member'' r_u64 (\<lambda>rgen.
     decoded \<lparr>pm_region = TypedId rid, pm_generation = TypedId rgen\<rparr>))"

definition get_pool :: "(PoolId \<times> PoolRecord) dec" where
  "get_pool =
     (let what = ''pool field'' in
      field what r_u64 (\<lambda>i. field what r_u64 (\<lambda>gen. field what r_str (\<lambda>name. field what r_u8 (\<lambda>origin.
      field what r_count (\<lambda>mc. andthen (many (unat mc) get_member) (\<lambda>members.
      decoded (TypedId i,
        \<lparr>plr_descriptor =
           \<lparr>pl_id = TypedId i, pl_generation = TypedId gen, pl_name = name,
            pl_origin = OriginClass_of_byte origin, pl_members = members\<rparr>,
         plr_registeredAtMs = 0\<rparr>))))))))"

definition get_rule :: "PolicyRule dec" where
  "get_rule =
     field ''policy rule'' r_str (\<lambda>k. field ''policy rule'' r_str (\<lambda>v.
     decoded \<lparr>rule_key = k, rule_value = v\<rparr>))"

definition get_policy :: "(PolicyId \<times> PolicyRecord) dec" where
  "get_policy =
     (let what = ''policy field'' in
      field what r_u64 (\<lambda>i. field what r_u64 (\<lambda>gen. field what r_str (\<lambda>name. field what r_u8 (\<lambda>ad.
      field what r_u8 (\<lambda>fe. field what r_u8 (\<lambda>af. field what r_u8 (\<lambda>er.
      field what r_count (\<lambda>rc. andthen (many (unat rc) get_rule) (\<lambda>rules.
      decoded (TypedId i,
        \<lparr>po_id = TypedId i, po_generation = TypedId gen, po_name = name, po_allowDegraded = (ad \<noteq> 0),
         po_requireFreshEvidence = (fe \<noteq> 0), po_allowLocalFallback = (af \<noteq> 0),
         po_expansionRequired = (er \<noteq> 0), po_rules = rules\<rparr>)))))))))))"

definition get_consumer :: "(ConsumerId \<times> ConsumerRecord) dec" where
  "get_consumer =
     field ''consumer field'' r_u64 (\<lambda>i. field ''consumer field'' r_u64 (\<lambda>gen.
     decoded (TypedId i, TypedId gen)))"

section \<open>The payload\<close>

definition kMaxFile :: nat where
  "kMaxFile = 64 * 1024 * 1024"

definition put_table :: "('a \<Rightarrow> u8 list) \<Rightarrow> 'a list \<Rightarrow> u8 list" where
  "put_table put xs = w_u32 (of_nat (length xs)) @ concat (map put xs)"

definition put_state :: "Impl \<Rightarrow> u8 list" where
  "put_state s =
     w_u64 (id_value (im_epoch s)) @ put_table put_provider (im_providers s) @
     put_table put_domain (im_domains s) @ put_table put_region (im_regions s) @
     put_table put_pool (im_pools s) @ put_table put_policy (im_policies s) @
     put_table put_consumer (im_consumers s)"

definition serializePayload :: "Impl \<Rightarrow> string + u8 list" where
  "serializePayload s =
     (if length (put_state s) > kMaxFile then Inl ''payload too large'' else Inr (put_state s))"

text \<open>\<open>m[k] = v\<close> for the decoded entries in order; a repeated key keeps the last value.\<close>

definition insert_all :: "('k \<times> 'v) list \<Rightarrow> ('k, 'v) umap \<Rightarrow> ('k, 'v) umap" where
  "insert_all kvs m = fold (\<lambda>(k, v). umap_put k v) kvs m"

definition get_table :: "string \<Rightarrow> ('k \<times> 'v) dec \<Rightarrow> (('k, 'v) umap \<Rightarrow> 'b dec) \<Rightarrow> 'b dec" where
  "get_table what d k = field what r_count (\<lambda>n. andthen (many (unat n) d) (\<lambda>kvs. k (insert_all kvs [])))"

definition deserializePayload :: "u8 list \<Rightarrow> string + Impl" where
  "deserializePayload bs =
     (case field ''bad epoch'' r_u64 (\<lambda>ep.
        if ep = 0 then (\<lambda>_. Inl ''epoch zero'')
        else
          get_table ''provider count'' get_provider (\<lambda>providers.
          get_table ''domain count'' get_domain (\<lambda>domains.
          get_table ''region count'' get_region (\<lambda>regions.
          get_table ''pool count'' get_pool (\<lambda>pools.
          get_table ''policy count'' get_policy (\<lambda>policies.
          get_table ''consumer count'' get_consumer (\<lambda>consumers.
          decoded ((new_fabric (TypedId 1))\<lparr>im_epoch := TypedId ep, im_providers := providers,
            im_domains := domains, im_regions := regions, im_pools := pools, im_policies := policies,
            im_consumers := consumers\<rparr>))))))))  bs of
        Inl err \<Rightarrow> Inl err
      | Inr (s, rest) \<Rightarrow> if rest = [] then Inr s else Inl ''trailing bytes'')"

section \<open>The file\<close>

definition file_magic :: "u8 list" where
  "file_magic = [0x4D, 0x45, 0x46, 0x50]"

definition kVersion :: u16 where
  "kVersion = 1"

definition file_of_payload :: "u8 list \<Rightarrow> u8 list" where
  "file_of_payload p =
     concat (map w_u8 file_magic) @ w_u16 kVersion @ w_u32 (of_nat (length p)) @ w_u32 (crc32 p) @ p"

text \<open>The nested loop that rebuilds the reverse index of pool members on the regions.\<close>

definition index_member :: "PoolId \<Rightarrow> PoolGeneration \<Rightarrow> PoolMember \<Rightarrow> regions \<Rightarrow> regions" where
  "index_member pid gen m regs =
     umap_modify (pm_region m) (\<lambda>rr. rr\<lparr>rr_poolMemberships := rr_poolMemberships rr @ [(pid, gen)]\<rparr>) regs"

definition rebuild_memberships :: "Impl \<Rightarrow> Impl" where
  "rebuild_memberships s =
     s\<lparr>im_regions :=
         fold (\<lambda>(pid, pl). fold (index_member pid (pl_generation (plr_descriptor pl))) (pl_members (plr_descriptor pl)))
           (im_pools s) (im_regions s)\<rparr>"

definition load_bytes :: "u8 list \<Rightarrow> Impl Result" where
  "load_bytes bytes =
     (if length bytes < 14 then fail ErrorCode.CORRUPT ''header short''
      else if take 4 bytes \<noteq> file_magic then fail ErrorCode.CORRUPT ''magic''
      else if ucast (bytes ! 4) OR push_bit 8 (ucast (bytes ! 5)) \<noteq> kVersion then fail ErrorCode.CORRUPT ''version''
      else let plen = unat (ucast (bytes ! 6) OR push_bit 8 (ucast (bytes ! 7)) OR
                            push_bit 16 (ucast (bytes ! 8)) OR push_bit 24 (ucast (bytes ! 9)) :: u32);
               crc = ucast (bytes ! 10) OR push_bit 8 (ucast (bytes ! 11)) OR
                     push_bit 16 (ucast (bytes ! 12)) OR push_bit 24 (ucast (bytes ! 13))
        in if plen > kMaxFile then fail FRAME_TOO_LARGE ''payload too large''
           else if length bytes \<noteq> 14 + plen then
             (if length bytes < 14 + plen then fail FRAME_TRUNCATED ''truncated''
              else fail ErrorCode.CORRUPT ''trailing garbage'')
           else if crc32 (drop 14 bytes) \<noteq> crc then fail ErrorCode.CORRUPT ''checksum''
           else (case deserializePayload (drop 14 bytes) of
               Inl err \<Rightarrow> fail ErrorCode.CORRUPT (''payload: '' @ err)
             | Inr s \<Rightarrow> ok (rebuild_memberships (s\<lparr>im_epoch := TypedId (id_value (im_epoch s) + 1)\<rparr>))))"

section \<open>Files\<close>

text \<open>
  A file system is a map from paths to contents. What the operating system answers is an argument: for
  a write, whether the temporary file opens, takes all the bytes, is renamed and can be removed, and
  what a failed write leaves in it; for a read, whether the file opens, has a size and is read.
\<close>

type_synonym files = "string \<Rightarrow> u8 list option"

record write_io =
  io_opens :: bool
  io_writes :: bool
  io_renames :: bool
  io_removes :: bool
  io_partial :: "u8 list"

record read_io =
  io_readable :: bool
  io_sized :: bool
  io_reads :: bool

definition atomicWrite :: "write_io \<Rightarrow> string \<Rightarrow> u8 list \<Rightarrow> files \<Rightarrow> bool \<times> files" where
  "atomicWrite io path bytes fs =
     (let tmp = path @ ''.tmp'';
          drop_tmp = (\<lambda>fs'. if io_removes io then fs'(tmp := None) else fs')
      in if \<not> io_opens io then (False, fs)
         else if \<not> io_writes io then (False, drop_tmp (fs(tmp \<mapsto> io_partial io)))
         else if \<not> io_renames io then (False, drop_tmp (fs(tmp \<mapsto> bytes)))
         else (True, fs(tmp := None, path \<mapsto> bytes)))"

definition readFile :: "read_io \<Rightarrow> string \<Rightarrow> files \<Rightarrow> string + u8 list" where
  "readFile io path fs =
     (case fs path of
        None \<Rightarrow> Inl ''cannot open''
      | Some bytes \<Rightarrow>
          if \<not> io_readable io then Inl ''cannot open''
          else if \<not> io_sized io then Inl ''bad size''
          else if \<not> io_reads io \<and> length bytes > 0 then Inl ''read failed''
          else Inr bytes)"

definition save :: "write_io \<Rightarrow> string \<Rightarrow> Impl \<Rightarrow> files \<Rightarrow> unit Result \<times> files" where
  "save io path s fs =
     (case serializePayload s of
        Inl err \<Rightarrow> (fail ErrorCode.INTERNAL (''serialize failed: '' @ err), fs)
      | Inr p \<Rightarrow>
          let (okay, fs') = atomicWrite io path (file_of_payload p) fs
          in if \<not> okay then (fail IO_ERROR ''atomic write failed'', fs') else (ok (), fs'))"

definition load :: "read_io \<Rightarrow> string \<Rightarrow> files \<Rightarrow> Impl Result" where
  "load io path fs =
     (case readFile io path fs of
        Inl err \<Rightarrow> fail IO_ERROR (''read failed: '' @ err)
      | Inr bytes \<Rightarrow> load_bytes bytes)"

section \<open>What fits into a file\<close>

definition cap_fits :: "Capability \<Rightarrow> bool" where
  "cap_fits c \<longleftrightarrow> CapabilityKey_ok (cap_key c) \<and> CapabilityStatus_ok (cap_status c) \<and> length (cap_note c) \<le> kMaxString"

definition caps_fit :: "CapabilityModel \<Rightarrow> bool" where
  "caps_fit m \<longleftrightarrow> length m \<le> unat kMaxCount \<and> distinct (map cap_key m) \<and> list_all cap_fits m"

definition provider_fits :: "ProviderId \<times> ProviderRecord \<Rightarrow> bool" where
  "provider_fits = (\<lambda>(i, p). let d = pr_descriptor p in
     ProviderKind_ok (pd_kind d) \<and> OriginClass_ok (pd_origin d) \<and> length (pd_name d) \<le> kMaxString \<and>
     Addressability_ok (pd_addressability d) \<and> Persistence_ok (pd_persistence d) \<and> caps_fit (pd_capabilities d))"

definition domain_fits :: "ExpansionDomainId \<times> DomainRecord \<Rightarrow> bool" where
  "domain_fits = (\<lambda>(i, r). length (dd_name (dr_descriptor r)) \<le> kMaxString \<and> OriginClass_ok (dd_origin (dr_descriptor r)))"

definition region_fits :: "RegionId \<times> RegionRecord \<Rightarrow> bool" where
  "region_fits = (\<lambda>(i, r). let d = rr_descriptor r in
     length (rd_name d) \<le> kMaxString \<and> OriginClass_ok (rd_origin d) \<and> Persistence_ok (rd_persistence d) \<and>
     caps_fit (rd_staticCapabilities d))"

definition pool_fits :: "PoolId \<times> PoolRecord \<Rightarrow> bool" where
  "pool_fits = (\<lambda>(i, r). let d = plr_descriptor r in
     length (pl_name d) \<le> kMaxString \<and> OriginClass_ok (pl_origin d) \<and> length (pl_members d) \<le> unat kMaxCount)"

definition rule_fits :: "PolicyRule \<Rightarrow> bool" where
  "rule_fits r \<longleftrightarrow> length (rule_key r) \<le> kMaxString \<and> length (rule_value r) \<le> kMaxString"

definition policy_fits :: "PolicyId \<times> PolicyRecord \<Rightarrow> bool" where
  "policy_fits = (\<lambda>(i, d).
     length (po_name d) \<le> kMaxString \<and> length (po_rules d) \<le> unat kMaxCount \<and> list_all rule_fits (po_rules d))"

definition table_fits :: "('k \<times> 'v \<Rightarrow> bool) \<Rightarrow> ('k, 'v) umap \<Rightarrow> bool" where
  "table_fits P m \<longleftrightarrow> length m \<le> unat kMaxCount \<and> list_all P m"

definition persistable :: "Impl \<Rightarrow> bool" where
  "persistable s \<longleftrightarrow>
     \<not> null (im_epoch s) \<and> table_fits provider_fits (im_providers s) \<and> table_fits domain_fits (im_domains s) \<and>
     table_fits region_fits (im_regions s) \<and> table_fits pool_fits (im_pools s) \<and>
     table_fits policy_fits (im_policies s) \<and> table_fits (\<lambda>_. True) (im_consumers s) \<and>
     length (put_state s) \<le> kMaxFile"

section \<open>What a file gives back\<close>

definition recover_provider :: "ProviderId \<times> ProviderRecord \<Rightarrow> ProviderId \<times> ProviderRecord" where
  "recover_provider = (\<lambda>(i, p). (i, \<lparr>pr_descriptor = (pr_descriptor p)\<lparr>pd_id := i\<rparr>,
     pr_lifecycle = Lifecycle.REVALIDATION_REQUIRED, pr_registeredAtMs = 0\<rparr>))"

definition recover_domain :: "ExpansionDomainId \<times> DomainRecord \<Rightarrow> ExpansionDomainId \<times> DomainRecord" where
  "recover_domain = (\<lambda>(i, r). (i, \<lparr>dr_descriptor = (dr_descriptor r)\<lparr>dd_id := i\<rparr>,
     dr_lifecycle = Lifecycle.REVALIDATION_REQUIRED\<rparr>))"

definition recover_region :: "RegionId \<times> RegionRecord \<Rightarrow> RegionId \<times> RegionRecord" where
  "recover_region = (\<lambda>(i, r). (i, new_region ((rr_descriptor r)\<lparr>rd_id := i\<rparr>)
     RegionLifecycle.REVALIDATION_REQUIRED (new_ledger (rd_totalCapacityBytes (rr_descriptor r)))))"

definition recover_pool :: "PoolId \<times> PoolRecord \<Rightarrow> PoolId \<times> PoolRecord" where
  "recover_pool = (\<lambda>(i, r). (i, \<lparr>plr_descriptor = (plr_descriptor r)\<lparr>pl_id := i\<rparr>, plr_registeredAtMs = 0\<rparr>))"

definition recover_policy :: "PolicyId \<times> PolicyRecord \<Rightarrow> PolicyId \<times> PolicyRecord" where
  "recover_policy = (\<lambda>(i, d). (i, d\<lparr>po_id := i\<rparr>))"

definition recover_tables :: "CoordinatorEpoch \<Rightarrow> Impl \<Rightarrow> Impl" where
  "recover_tables e s = (new_fabric (TypedId 1))\<lparr>im_epoch := e,
     im_providers := map recover_provider (im_providers s), im_domains := map recover_domain (im_domains s),
     im_regions := map recover_region (im_regions s), im_pools := map recover_pool (im_pools s),
     im_policies := map recover_policy (im_policies s), im_consumers := im_consumers s\<rparr>"

section \<open>Round trips of the entries\<close>

lemma cap_set_new: "k \<notin> cap_key ` set m \<Longrightarrow> cap_set k s n m = m @ [\<lparr>cap_key = k, cap_status = s, cap_note = n\<rparr>]"
  by (induction m) auto

lemma read_caps_put:
  "distinct (map cap_key (m @ cs)) \<Longrightarrow> list_all cap_fits cs \<Longrightarrow>
     read_caps (length cs) m (concat (map put_cap cs) @ rest) = Some (m @ cs, rest)"
proof (induction cs arbitrary: m)
  case (Cons c cs)
  then have "cap_set (cap_key c) (cap_status c) (cap_note c) m = m @ [c]" by (subst cap_set_new) auto
  with Cons show ?case by (simp add: put_cap_def cap_fits_def u8.get_put str.get_put)
qed simp

lemma readCaps_put [simp]: "caps_fit m \<Longrightarrow> field what readCaps k (writeCaps m @ rest) = k m rest"
  using read_caps_put [of "[]" m rest] by (simp add: field_def readCaps_def writeCaps_def caps_fit_def count.get_put)

lemma read_caps_extends: "read_caps n m bs = Some (v, rest) \<Longrightarrow> read_caps n m (bs @ x) = Some (v, rest @ x)"
proof (induction n arbitrary: m bs)
  case (Suc n)
  then obtain k b1 s b2 nt b3 where "r_u8 bs = Some (k, b1)" "r_u8 b1 = Some (s, b2)" "r_str b2 = Some (nt, b3)"
      "read_caps n (cap_set (CapabilityKey_of_byte k) (CapabilityStatus_of_byte s) nt m) b3 = Some (v, rest)"
    by (auto split: option.splits)
  with Suc.IH [OF this(4)] show ?case by (simp add: u8.get_extend str.get_extend)
qed simp

interpretation member: payload put_member get_member "\<lambda>_. True"
proof unfold_locales
  show "get_member (put_member m @ rest) = Inr (m, rest)" for m rest
    by (cases m) (simp add: get_member_def put_member_def decoded_def)
  show "extends get_member" unfolding get_member_def by (intro extending)
qed

interpretation rule: payload put_rule get_rule rule_fits
proof unfold_locales
  show "get_rule (put_rule r @ rest) = Inr (r, rest)" if "rule_fits r" for r rest
    using that by (cases r) (simp add: get_rule_def put_rule_def rule_fits_def decoded_def)
  show "extends get_rule" unfolding get_rule_def by (intro extending)
qed

lemma get_put_provider: "provider_fits x \<Longrightarrow> get_provider (put_provider x @ rest) = Inr (recover_provider x, rest)"
proof -
  assume fits: "provider_fits x"
  obtain i p where x: "x = (i, p)" by (cases x)
  obtain d lc now where p: "p = \<lparr>pr_descriptor = d, pr_lifecycle = lc, pr_registeredAtMs = now\<rparr>" by (cases p)
  show ?thesis using fits unfolding x p
    by (cases d) (simp add: provider_fits_def get_provider_def put_provider_def recover_provider_def decoded_def Let_def)
qed

lemma get_put_domain: "domain_fits x \<Longrightarrow> get_domain (put_domain x @ rest) = Inr (recover_domain x, rest)"
proof -
  assume fits: "domain_fits x"
  obtain i r where x: "x = (i, r)" by (cases x)
  obtain d lc where r: "r = \<lparr>dr_descriptor = d, dr_lifecycle = lc\<rparr>" by (cases r)
  show ?thesis using fits unfolding x r
    by (cases d) (simp add: domain_fits_def get_domain_def put_domain_def recover_domain_def decoded_def Let_def)
qed

lemma get_put_region: "region_fits x \<Longrightarrow> get_region (put_region x @ rest) = Inr (recover_region x, rest)"
proof -
  assume fits: "region_fits x"
  obtain i r where x: "x = (i, r)" by (cases x)
  show ?thesis using fits unfolding x
    by (cases "rr_descriptor r")
      (simp add: region_fits_def get_region_def put_region_def recover_region_def decoded_def Let_def)
qed

lemma get_put_pool: "pool_fits x \<Longrightarrow> get_pool (put_pool x @ rest) = Inr (recover_pool x, rest)"
proof -
  assume fits: "pool_fits x"
  obtain i r where x: "x = (i, r)" by (cases x)
  show ?thesis using fits unfolding x
    by (cases "plr_descriptor r")
      (simp add: list.pred_True pool_fits_def get_pool_def put_pool_def recover_pool_def decoded_def Let_def)
qed

lemma get_put_policy: "policy_fits x \<Longrightarrow> get_policy (put_policy x @ rest) = Inr (recover_policy x, rest)"
proof -
  assume fits: "policy_fits x"
  obtain i d where x: "x = (i, d)" by (cases x)
  show ?thesis using fits unfolding x
    by (cases d) (simp add: policy_fits_def get_policy_def put_policy_def recover_policy_def decoded_def Let_def)
qed

lemma get_put_consumer: "get_consumer (put_consumer x @ rest) = Inr (x, rest)"
  by (cases x) (simp add: get_consumer_def put_consumer_def decoded_def)

section \<open>Round trip of the payload\<close>

lemma insert_all_fresh: "distinct (map fst (m @ kvs)) \<Longrightarrow> insert_all kvs m = m @ kvs"
proof (induction kvs arbitrary: m)
  case (Cons kv kvs)
  obtain k v where kv: "kv = (k, v)" by (cases kv)
  have "umap_find m k = None" using Cons.prems by (auto simp: kv umap_find_def map_of_eq_None_iff)
  then have "insert_all (kv # kvs) m = insert_all kvs (m @ [kv])"
    by (simp add: insert_all_def kv umap_put_fresh)
  also have "\<dots> = (m @ [kv]) @ kvs" using Cons.prems by (intro Cons.IH) simp
  finally show ?case by simp
qed (simp add: insert_all_def)

lemma get_put_table:
  assumes "table_fits P xs" "umap_wf xs" "\<And>x. fst (f x) = fst x"
    and "\<And>x rest. P x \<Longrightarrow> d (put x @ rest) = Inr (f x, rest)"
  shows "get_table what d k (put_table put xs @ rest) = k (map f xs) rest"
proof -
  have "distinct (map fst (map f xs))" using assms(2,3) by (simp add: umap_wf_def comp_def)
  then have i: "insert_all (map f xs) [] = map f xs" using insert_all_fresh [of "[]" "map f xs"] by simp
  have m: "many (length xs) d (concat (map put xs) @ rest) = Inr (map f xs, rest)"
    using assms(1,4) by (intro many_map) (auto simp: table_fits_def list_all_iff)
  show ?thesis
    using assms(1) by (simp add: get_table_def put_table_def table_fits_def andthen_def m i)
qed

definition tables_wf :: "Impl \<Rightarrow> bool" where
  "tables_wf s \<longleftrightarrow>
     umap_wf (im_providers s) \<and> umap_wf (im_domains s) \<and> umap_wf (im_regions s) \<and> umap_wf (im_pools s) \<and>
     umap_wf (im_policies s) \<and> umap_wf (im_consumers s)"

lemma deserialize_serialize:
  assumes "persistable s" "tables_wf s"
  shows "deserializePayload (put_state s) = Inr (recover_tables (im_epoch s) s)"
proof -
  note p = assms(1) [unfolded persistable_def] and w = assms(2) [unfolded tables_wf_def]
  have ep: "id_value (im_epoch s) \<noteq> 0" using p by (simp add: null_def)
  have t: "get_table what get_provider k (put_table put_provider (im_providers s) @ rest) = k (map recover_provider (im_providers s)) rest"
      for what rest and k :: "_ \<Rightarrow> Impl dec"
    using p w by (intro get_put_table [where P = provider_fits])
      (simp_all add: get_put_provider recover_provider_def case_prod_beta)
  have "get_table what get_domain k (put_table put_domain (im_domains s) @ rest) = k (map recover_domain (im_domains s)) rest"
      for what rest and k :: "_ \<Rightarrow> Impl dec"
    using p w by (intro get_put_table [where P = domain_fits])
      (simp_all add: get_put_domain recover_domain_def case_prod_beta)
  note t = t this
  have "get_table what get_region k (put_table put_region (im_regions s) @ rest) = k (map recover_region (im_regions s)) rest"
      for what rest and k :: "_ \<Rightarrow> Impl dec"
    using p w by (intro get_put_table [where P = region_fits])
      (simp_all add: get_put_region recover_region_def case_prod_beta)
  note t = t this
  have "get_table what get_pool k (put_table put_pool (im_pools s) @ rest) = k (map recover_pool (im_pools s)) rest"
      for what rest and k :: "_ \<Rightarrow> Impl dec"
    using p w by (intro get_put_table [where P = pool_fits])
      (simp_all add: get_put_pool recover_pool_def case_prod_beta)
  note t = t this
  have "get_table what get_policy k (put_table put_policy (im_policies s) @ rest) = k (map recover_policy (im_policies s)) rest"
      for what rest and k :: "_ \<Rightarrow> Impl dec"
    using p w by (intro get_put_table [where P = policy_fits])
      (simp_all add: get_put_policy recover_policy_def case_prod_beta)
  note t = t this
  have "get_table what get_consumer k (put_table put_consumer (im_consumers s) @ rest) = k (im_consumers s) rest"
      for what rest and k :: "_ \<Rightarrow> Impl dec"
    using p w get_put_table [where P = "\<lambda>_. True" and f = id and d = get_consumer and put = put_consumer and
        xs = "im_consumers s" and k = k and what = what and rest = rest]
    by (simp add: get_put_consumer)
  note t = t this t(1-5) [where rest = "[]", simplified] this [where rest = "[]", simplified]
  show ?thesis
    unfolding deserializePayload_def put_state_def
    by (simp add: ep t decoded_def recover_tables_def)
qed

section \<open>The file format\<close>

lemma file_fields:
  assumes "length m = 4"
  shows "length (m @ w_u16 v @ w_u32 n @ w_u32 c @ rest) = 14 + length rest"
    "take 4 (m @ w_u16 v @ w_u32 n @ w_u32 c @ rest) = m"
    "drop 14 (m @ w_u16 v @ w_u32 n @ w_u32 c @ rest) = rest"
    "ucast ((m @ w_u16 v @ w_u32 n @ w_u32 c @ rest) ! 4) OR push_bit 8 (ucast ((m @ w_u16 v @ w_u32 n @ w_u32 c @ rest) ! 5)) = v"
    "ucast ((m @ w_u16 v @ w_u32 n @ w_u32 c @ rest) ! 6) OR push_bit 8 (ucast ((m @ w_u16 v @ w_u32 n @ w_u32 c @ rest) ! 7)) OR
       push_bit 16 (ucast ((m @ w_u16 v @ w_u32 n @ w_u32 c @ rest) ! 8)) OR
       push_bit 24 (ucast ((m @ w_u16 v @ w_u32 n @ w_u32 c @ rest) ! 9)) = n"
    "ucast ((m @ w_u16 v @ w_u32 n @ w_u32 c @ rest) ! 10) OR push_bit 8 (ucast ((m @ w_u16 v @ w_u32 n @ w_u32 c @ rest) ! 11)) OR
       push_bit 16 (ucast ((m @ w_u16 v @ w_u32 n @ w_u32 c @ rest) ! 12)) OR
       push_bit 24 (ucast ((m @ w_u16 v @ w_u32 n @ w_u32 c @ rest) ! 13)) = c"
  using assms by (simp_all add: w_u16_def w_u32_def nth_append u16_bytes u32_bytes)

lemma load_bytes_header:
  "load_bytes (file_magic @ w_u16 kVersion @ w_u32 n @ w_u32 c @ rest) =
     (if unat n > kMaxFile then fail FRAME_TOO_LARGE ''payload too large''
      else if length rest \<noteq> unat n then
        (if length rest < unat n then fail FRAME_TRUNCATED ''truncated'' else fail ErrorCode.CORRUPT ''trailing garbage'')
      else if crc32 rest \<noteq> c then fail ErrorCode.CORRUPT ''checksum''
      else (case deserializePayload rest of
          Inl err \<Rightarrow> fail ErrorCode.CORRUPT (''payload: '' @ err)
        | Inr s \<Rightarrow> ok (rebuild_memberships (s\<lparr>im_epoch := TypedId (id_value (im_epoch s) + 1)\<rparr>))))"
proof -
  have m: "length file_magic = 4" by (simp add: file_magic_def)
  show ?thesis unfolding load_bytes_def file_fields [OF m] Let_def by simp
qed

lemma file_of_payload_eq: "file_of_payload p = file_magic @ w_u16 kVersion @ w_u32 (of_nat (length p)) @ w_u32 (crc32 p) @ p"
  by (simp add: file_of_payload_def file_magic_def w_u8_def)

lemma file_length [simp]: "n \<le> kMaxFile \<Longrightarrow> unat (of_nat n :: u32) = n"
  by (simp add: kMaxFile_def unat_of_nat take_bit_nat_eq_self)

lemma load_saved:
  assumes "length p \<le> kMaxFile" "deserializePayload p = Inr s"
  shows "load_bytes (file_of_payload p) = ok (rebuild_memberships (s\<lparr>im_epoch := TypedId (id_value (im_epoch s) + 1)\<rparr>))"
  using assms by (simp add: file_of_payload_eq load_bytes_header)

lemma load_truncated:
  assumes "length p \<le> kMaxFile" "n < length (file_of_payload p)"
  shows "\<not> is_ok (load_bytes (take n (file_of_payload p)))"
proof (cases "n < 14")
  case True
  then have "length (take n (file_of_payload p)) < 14" by simp
  then show ?thesis by (simp only: load_bytes_def if_True) simp
next
  case False
  define h where "h = file_magic @ w_u16 kVersion @ w_u32 (of_nat (length p)) @ w_u32 (crc32 p)"
  have h: "length h = 14" "file_of_payload p = h @ p"
    by (simp_all add: h_def file_of_payload_eq file_magic_def w_u16_def w_u32_def)
  then have "take n (file_of_payload p) = h @ take (n - 14) p" using False by simp
  moreover have "n - 14 < length p" using assms(2) h False by simp
  ultimately show ?thesis using assms(1) by (simp add: h_def load_bytes_header)
qed

lemma load_corrupted:
  assumes "length (xs @ ws @ ys) \<le> kMaxFile" "length ws' = length ws" "length ws \<le> 4" "ws' \<noteq> ws"
  shows "load_bytes (take 14 (file_of_payload (xs @ ws @ ys)) @ xs @ ws' @ ys) = fail ErrorCode.CORRUPT ''checksum''"
proof -
  let ?p = "xs @ ws @ ys"
  define h where "h = file_magic @ w_u16 kVersion @ w_u32 (of_nat (length ?p)) @ w_u32 (crc32 ?p)"
  have h: "length h = 14" "file_of_payload ?p = h @ ?p"
    by (simp_all add: h_def file_of_payload_eq file_magic_def w_u16_def w_u32_def)
  have "crc32 (xs @ ws' @ ys) \<noteq> crc32 ?p" using crc32_burst [OF assms(2)] assms(2-4) by force
  moreover have "unat (of_nat (length ?p) :: u32) = length (xs @ ws' @ ys)"
    using assms(1,2) by (simp only: file_length) simp
  ultimately have "load_bytes (h @ xs @ ws' @ ys) = fail ErrorCode.CORRUPT ''checksum''"
    unfolding h_def append_assoc load_bytes_header using assms(1,2) by simp
  then show ?thesis using h by simp
qed

section \<open>Whatever a file holds\<close>

text \<open>
  The state that a successful load returns, for every content of the file: nothing dynamic, every
  ledger empty, every object waiting for revalidation, and pool memberships that name loaded pools.
\<close>

definition recovered_region :: "PoolId set \<Rightarrow> RegionRecord \<Rightarrow> bool" where
  "recovered_region K rr \<longleftrightarrow>
     rr_lifecycle rr = RegionLifecycle.REVALIDATION_REQUIRED \<and>
     rr_ledger rr = new_ledger (rd_totalCapacityBytes (rr_descriptor rr)) \<and>
     \<not> rr_hasEvidence rr \<and> rr_evidenceStatus rr = EvidenceStatus.UNKNOWN \<and> \<not> rr_reachable rr \<and>
     rr_attachments rr = [] \<and> fst ` set (rr_poolMemberships rr) \<subseteq> K"

definition values_are :: "('v \<Rightarrow> bool) \<Rightarrow> ('k, 'v) umap \<Rightarrow> bool" where
  "values_are P m \<longleftrightarrow> list_all (\<lambda>(k, v). P v) m"

definition recovered :: "Impl \<Rightarrow> bool" where
  "recovered st \<longleftrightarrow>
     tables_wf st \<and> im_reservations st = [] \<and> im_workers st = [] \<and>
     im_reservationIdAlloc st = FirstValidValue \<and>
     values_are (recovered_region (umap_keys (im_pools st))) (im_regions st) \<and>
     values_are (\<lambda>p. pr_lifecycle p = Lifecycle.REVALIDATION_REQUIRED) (im_providers st)"

lemma fieldE:
  assumes "field what rd k bs = Inr r"
  obtains v rest where "rd bs = Some (v, rest)" "k v rest = Inr r"
  using assms by (auto simp: field_def split: option.splits)

lemma andthenE:
  assumes "andthen d k bs = Inr r"
  obtains v rest where "d bs = Inr (v, rest)" "k v rest = Inr r"
  using assms by (auto simp: andthen_def split: sum.splits)

lemma many_results:
  assumes "\<And>bs v rest. d bs = Inr (v, rest) \<Longrightarrow> Q v"
  shows "many n d bs = Inr (vs, rest) \<Longrightarrow> list_all Q vs"
proof (induction n arbitrary: bs vs rest)
  case (Suc n)
  then obtain v b1 ws b2 where "d bs = Inr (v, b1)" "many n d b1 = Inr (ws, b2)" "vs = v # ws"
    by (auto simp: decoded_def elim!: andthenE)
  with assms Suc.IH show ?case by auto
qed (auto simp: decoded_def)

lemma values_put: "values_are P m \<Longrightarrow> P v \<Longrightarrow> values_are P (umap_put k v m)"
  by (induction m) (auto simp: values_are_def umap_put_def)

lemma insert_all_values:
  "list_all (\<lambda>(k, v). P v) kvs \<Longrightarrow> values_are P m \<Longrightarrow> values_are P (insert_all kvs m)"
  by (induction kvs arbitrary: m) (auto simp: insert_all_def values_put)

lemma insert_all_wf: "umap_wf m \<Longrightarrow> umap_wf (insert_all kvs m)"
  by (induction kvs arbitrary: m) (auto simp: insert_all_def)

lemma get_tableE:
  assumes "get_table what d k bs = Inr r" "\<And>bs x rest. d bs = Inr (x, rest) \<Longrightarrow> P (snd x)"
  obtains m rest where "umap_wf m" "values_are P m" "k m rest = Inr r"
proof -
  from assms(1) obtain n :: u32 and b1 kvs b2 where many: "many (unat n) d b1 = Inr (kvs, b2)" and k: "k (insert_all kvs []) b2 = Inr r"
    unfolding get_table_def by (elim fieldE andthenE) blast
  have "list_all (\<lambda>x. P (snd x)) kvs" using many_results [OF _ many, of "\<lambda>x. P (snd x)"] assms(2) by blast
  then have "values_are P (insert_all kvs [])"
    by (intro insert_all_values) (simp_all add: list_all_iff case_prod_beta values_are_def)
  moreover have "umap_wf (insert_all kvs [])" by (simp add: insert_all_wf)
  ultimately show ?thesis using k that by blast
qed

lemma get_region_recovered: "get_region bs = Inr (x, rest) \<Longrightarrow> recovered_region {} (snd x)"
  unfolding get_region_def Let_def
  by (elim fieldE) (auto simp: decoded_def recovered_region_def new_region_def)

lemma get_provider_recovered: "get_provider bs = Inr (x, rest) \<Longrightarrow> pr_lifecycle (snd x) = Lifecycle.REVALIDATION_REQUIRED"
  unfolding get_provider_def Let_def by (elim fieldE) (auto simp: decoded_def)

lemma deserialize_recovered:
  assumes "deserializePayload bs = Inr s"
  shows "recovered s"
proof -
  let ?fab = "\<lambda>ep providers domains regions pools policies consumers.
    (new_fabric (TypedId 1))\<lparr>im_epoch := TypedId ep, im_providers := providers, im_domains := domains,
       im_regions := regions, im_pools := pools, im_policies := policies, im_consumers := consumers\<rparr>"
  from assms obtain ep providers domains regions pools policies consumers where
      s: "s = ?fab ep providers domains regions pools policies consumers"
      and w: "umap_wf providers" "umap_wf domains" "umap_wf regions" "umap_wf pools" "umap_wf policies" "umap_wf consumers"
      and r: "values_are (recovered_region {}) regions"
      and p: "values_are (\<lambda>p. pr_lifecycle p = Lifecycle.REVALIDATION_REQUIRED) providers"
    unfolding deserializePayload_def
    apply (clarsimp split: sum.splits if_splits elim!: fieldE)
    apply (erule get_tableE [where P = "\<lambda>p. pr_lifecycle p = Lifecycle.REVALIDATION_REQUIRED"], erule get_provider_recovered)
    apply (erule get_tableE [where P = "\<lambda>_. True"], rule TrueI)
    apply (erule get_tableE [where P = "recovered_region {}"], erule get_region_recovered)
    apply (erule get_tableE [where P = "\<lambda>_. True"], rule TrueI)
    apply (erule get_tableE [where P = "\<lambda>_. True"], rule TrueI)
    apply (erule get_tableE [where P = "\<lambda>_. True"], rule TrueI)
    apply (auto simp: decoded_def)
    done
  have "values_are (recovered_region (umap_keys pools)) regions"
    using r by (auto simp: values_are_def recovered_region_def list_all_iff)
  then show ?thesis unfolding s recovered_def using w p by (simp add: tables_wf_def new_fabric_def)
qed

section \<open>The reverse index\<close>

definition pool_entries :: "RegionId \<Rightarrow> PoolId \<times> PoolRecord \<Rightarrow> (PoolId \<times> PoolGeneration) list" where
  "pool_entries i = (\<lambda>(pid, pl).
     map (\<lambda>m. (pid, pl_generation (plr_descriptor pl)))
       (filter (\<lambda>m. pm_region m = i) (pl_members (plr_descriptor pl))))"

definition add_entries :: "(PoolId \<times> PoolGeneration) list \<Rightarrow> RegionRecord \<Rightarrow> RegionRecord" where
  "add_entries es rr = rr\<lparr>rr_poolMemberships := rr_poolMemberships rr @ es\<rparr>"

lemma add_entries_add [simp]: "add_entries es2 (add_entries es1 rr) = add_entries (es1 @ es2) rr" "add_entries [] rr = rr"
  by (simp_all add: add_entries_def)

lemma add_no_entries [simp]: "map_option (add_entries []) x = x"
  by (cases x) simp_all

lemma index_member_find:
  "umap_find (index_member pid gen m regs) i =
     map_option (add_entries (if pm_region m = i then [(pid, gen)] else [])) (umap_find regs i)"
  by (simp add: index_member_def) (simp add: add_entries_def [abs_def] option.map_ident)

lemma index_members_find:
  "umap_find (fold (index_member pid gen) ms regs) i =
     map_option (add_entries (map (\<lambda>m. (pid, gen)) (filter (\<lambda>m. pm_region m = i) ms))) (umap_find regs i)"
  by (induction ms arbitrary: regs) (simp_all add: index_member_find option.map_comp comp_def)

lemma index_pools_find:
  "umap_find (fold (\<lambda>(pid, pl). fold (index_member pid (pl_generation (plr_descriptor pl))) (pl_members (plr_descriptor pl))) pools regs) i =
     map_option (add_entries (concat (map (pool_entries i) pools))) (umap_find regs i)"
  by (induction pools arbitrary: regs)
    (auto simp: index_members_find option.map_comp comp_def pool_entries_def)

lemma index_pools_wf:
  "umap_wf regs \<Longrightarrow>
     umap_wf (fold (\<lambda>(pid, pl). fold (index_member pid (pl_generation (plr_descriptor pl))) (pl_members (plr_descriptor pl))) pools regs)"
proof (induction pools arbitrary: regs)
  case (Cons x pools)
  have "umap_wf (fold (index_member pid gen) ms regs)" if "umap_wf regs" for pid gen ms regs
    using that by (induction ms arbitrary: regs) (simp_all add: index_member_def)
  with Cons show ?case by (simp add: case_prod_beta)
qed simp

lemma rebuild_find:
  "umap_find (im_regions (rebuild_memberships s)) i =
     map_option (add_entries (concat (map (pool_entries i) (im_pools s)))) (umap_find (im_regions s) i)"
  using index_pools_find [of "im_pools s" "im_regions s" i] by (simp add: rebuild_memberships_def)

lemma values_are_find: "umap_wf m \<Longrightarrow> values_are P m \<longleftrightarrow> (\<forall>k v. umap_find m k = Some v \<longrightarrow> P v)"
  unfolding values_are_def list_all_iff by (fastforce dest: umap_find_in_set umap_in_set_find)

lemma rebuild_recovered:
  assumes "recovered s"
  shows "recovered (rebuild_memberships (s\<lparr>im_epoch := e\<rparr>))"
proof -
  let ?s = "s\<lparr>im_epoch := e\<rparr>"
  have w: "umap_wf (im_regions s)" "umap_wf (im_regions (rebuild_memberships ?s))"
    using assms index_pools_wf [of "im_regions s" "im_pools s"]
    by (simp_all add: recovered_def tables_wf_def rebuild_memberships_def)
  have "fst ` set (concat (map (pool_entries i) (im_pools s))) \<subseteq> umap_keys (im_pools s)" for i
    by (force simp: pool_entries_def umap_keys_def)
  then have "recovered_region (umap_keys (im_pools s)) (add_entries (concat (map (pool_entries i) (im_pools s))) rr)"
    if "recovered_region (umap_keys (im_pools s)) rr" for i rr
    using that by (simp add: recovered_region_def add_entries_def image_Un)
  then have "values_are (recovered_region (umap_keys (im_pools s))) (im_regions (rebuild_memberships ?s))"
    using assms unfolding values_are_find [OF w(2)] rebuild_find recovered_def values_are_find [OF w(1)]
    by auto
  then show ?thesis
    using assms w(2) by (simp add: recovered_def tables_wf_def) (simp add: rebuild_memberships_def)
qed

lemma load_recovered: "load_bytes bs = ok st \<Longrightarrow> recovered st"
  by (auto simp: load_bytes_def Let_def deserialize_recovered intro!: rebuild_recovered
      split: if_splits sum.splits)

section \<open>Atomic replacement\<close>

lemma atomicWrite_cases:
  assumes "atomicWrite io path bytes fs = (okay, fs')"
  shows "okay \<longrightarrow> fs' path = Some bytes" "\<not> okay \<longrightarrow> fs' path = fs path"
    "q \<noteq> path \<Longrightarrow> q \<noteq> path @ ''.tmp'' \<Longrightarrow> fs' q = fs q"
  using assms by (auto simp: atomicWrite_def Let_def split: if_splits)

end
