(* ===== verification/Execution.thy ===== *)
theory Execution
  imports Consistency Storage
begin

text \<open>
  Executions of the fabric. \<open>op\<close> is a call of a public method of \<open>Fabric\<close> that can change its state,
  with the arguments the caller passes and the clock reading the body takes; \<open>run_op\<close> performs it and
  erases the value of a success. \<open>fabric_reach n st\<close> holds for the states that \<open>n\<close> calls can lead to
  from a fabric created at any epoch or loaded from a file of any content: the callers, their order and
  their arguments are arbitrary, so it covers every interleaving of concurrent clients of the mutex.
\<close>

datatype op =
    SetEpoch CoordinatorEpoch
  | RegisterConsumer ConsumerId ConsumerGeneration Authority
  | RegisterProvider u64 ProviderDescriptor Authority
  | RegisterDomain ExpansionDomainDescriptor Authority
  | RegisterRegion RegionDescriptor Authority
  | RegisterPool u64 PoolDescriptor Authority
  | RegisterPolicy PolicyDescriptor Authority
  | AddPoolMember PoolId PoolMember Authority
  | RemovePoolMember PoolId RegionId Authority
  | ReplacePoolGeneration u64 PoolDescriptor Authority
  | PublishRegionEvidence u64 RegionEvidence Authority
  | PublishAttachment AttachmentEvidence Authority
  | BeginDrain RegionId Authority
  | CompleteDrain RegionId Authority
  | CancelDrain RegionId Authority
  | MarkUnavailable RegionId Authority
  | RecoverRegion RegionId Authority
  | RetireProvider ProviderId Authority
  | RetireRegion RegionId Authority
  | RegisterWorker u64 WorkerId WorkerBootId CoordinatorEpoch u64 Authority
  | MarkWorkerDead u64 WorkerId Authority
  | NoteWorkerHandle WorkerId bool
  | Select ConsumerRequirements Authority
  | RequestReservation u64 ConsumerRequirements Authority
  | CommitReservation ReservationId Authority
  | ReleaseReservation ReservationId Authority

definition outcome :: "'a Result \<times> Impl \<Rightarrow> Error option \<times> Impl" where
  "outcome x = (case fst x of Inl e \<Rightarrow> (Some e, snd x) | Inr _ \<Rightarrow> (None, snd x))"

fun run_op :: "op \<Rightarrow> Impl \<Rightarrow> Error option \<times> Impl" where
  "run_op (SetEpoch e) st = (None, setEpoch e st)"
| "run_op (RegisterConsumer c g a) st = outcome (registerConsumer c g a st)"
| "run_op (RegisterProvider now d a) st = outcome (registerProvider now d a st)"
| "run_op (RegisterDomain d a) st = outcome (registerDomain d a st)"
| "run_op (RegisterRegion d a) st = outcome (registerRegion d a st)"
| "run_op (RegisterPool now d a) st = outcome (registerPool now d a st)"
| "run_op (RegisterPolicy d a) st = outcome (registerPolicy d a st)"
| "run_op (AddPoolMember p m a) st = outcome (addPoolMember p m a st)"
| "run_op (RemovePoolMember p i a) st = outcome (removePoolMember p i a st)"
| "run_op (ReplacePoolGeneration now d a) st = outcome (replacePoolGeneration now d a st)"
| "run_op (PublishRegionEvidence now e a) st = outcome (publishRegionEvidence now e a st)"
| "run_op (PublishAttachment e a) st = outcome (publishAttachment e a st)"
| "run_op (BeginDrain i a) st = outcome (beginDrain i a st)"
| "run_op (CompleteDrain i a) st = outcome (completeDrain i a st)"
| "run_op (CancelDrain i a) st = outcome (cancelDrain i a st)"
| "run_op (MarkUnavailable i a) st = outcome (markUnavailable i a st)"
| "run_op (RecoverRegion i a) st = outcome (recoverRegion i a st)"
| "run_op (RetireProvider p a) st = outcome (retireProvider p a st)"
| "run_op (RetireRegion i a) st = outcome (retireRegion i a st)"
| "run_op (RegisterWorker now w b e pid a) st = outcome (registerWorker now w b e pid a st)"
| "run_op (MarkWorkerDead now w a) st = outcome (markWorkerDead now w a st)"
| "run_op (NoteWorkerHandle w h) st = (None, noteWorkerHandle w h st)"
| "run_op (Select req a) st = outcome (select req a st)"
| "run_op (RequestReservation now req a) st = outcome (requestReservation now req a st)"
| "run_op (CommitReservation i a) st = outcome (commitReservation i a st)"
| "run_op (ReleaseReservation i a) st = outcome (releaseReservation i a st)"

fun run_ops :: "op list \<Rightarrow> Impl \<Rightarrow> Impl" where
  "run_ops [] st = st"
| "run_ops (o1 # os) st = run_ops os (snd (run_op o1 st))"

inductive fabric_reach :: "nat \<Rightarrow> Impl \<Rightarrow> bool" where
  start: "fabric_reach 0 (new_fabric e)"
| loaded: "load_bytes bytes = ok st \<Longrightarrow> fabric_reach 0 st"
| step: "fabric_reach n st \<Longrightarrow> fabric_reach (Suc n) (snd (run_op o1 st))"

lemma outcome_snd [simp]: "snd (outcome x) = snd x"
  by (simp add: outcome_def split: sum.split)

lemmas op_consistent =
  setEpoch_consistent registerConsumer_consistent registerProvider_consistent registerDomain_consistent
  registerRegion_consistent registerPool_consistent registerPolicy_consistent addPoolMember_consistent
  removePoolMember_consistent replacePoolGeneration_consistent publishRegionEvidence_consistent
  publishAttachment_consistent beginDrain_consistent completeDrain_consistent cancelDrain_consistent
  markUnavailable_consistent recoverRegion_consistent retireProvider_consistent retireRegion_consistent
  registerWorker_consistent markWorkerDead_consistent noteWorkerHandle_consistent select_consistent
  requestReservation_consistent commitReservation_consistent releaseReservation_consistent

lemma run_op_consistent:
  "consistent st \<Longrightarrow> im_reservationIdAlloc st \<noteq> UINT64_MAX \<Longrightarrow> consistent (snd (run_op o1 st))"
  by (cases o1) (simp_all add: op_consistent)

text \<open>Only a request moves the identifier allocator, and by one.\<close>

lemmas registry_defs =
  registerConsumer_def registerProvider_def registerDomain_def registerRegion_def registerPool_def
  registerPolicy_def addPoolMember_def removePoolMember_def replacePoolGeneration_def
  reincarnate_provider_def append_member_def

lemma reservation_alloc_others:
  "im_reservationIdAlloc (setEpoch e st) = im_reservationIdAlloc st"
  "im_reservationIdAlloc (snd (registerConsumer c g a st)) = im_reservationIdAlloc st"
  "im_reservationIdAlloc (snd (registerProvider now pd a st)) = im_reservationIdAlloc st"
  "im_reservationIdAlloc (snd (registerDomain dd a st)) = im_reservationIdAlloc st"
  "im_reservationIdAlloc (snd (registerRegion rd a st)) = im_reservationIdAlloc st"
  "im_reservationIdAlloc (snd (registerPool now pl a st)) = im_reservationIdAlloc st"
  "im_reservationIdAlloc (snd (registerPolicy po a st)) = im_reservationIdAlloc st"
  "im_reservationIdAlloc (snd (addPoolMember p m a st)) = im_reservationIdAlloc st"
  "im_reservationIdAlloc (snd (removePoolMember p i a st)) = im_reservationIdAlloc st"
  "im_reservationIdAlloc (snd (replacePoolGeneration now pl a st)) = im_reservationIdAlloc st"
  "im_reservationIdAlloc (snd (publishRegionEvidence now ev a st)) = im_reservationIdAlloc st"
  "im_reservationIdAlloc (snd (publishAttachment att a st)) = im_reservationIdAlloc st"
  "im_reservationIdAlloc (snd (beginDrain i a st)) = im_reservationIdAlloc st"
  "im_reservationIdAlloc (snd (completeDrain i a st)) = im_reservationIdAlloc st"
  "im_reservationIdAlloc (snd (cancelDrain i a st)) = im_reservationIdAlloc st"
  "im_reservationIdAlloc (snd (markUnavailable i a st)) = im_reservationIdAlloc st"
  "im_reservationIdAlloc (snd (recoverRegion i a st)) = im_reservationIdAlloc st"
  "im_reservationIdAlloc (snd (retireProvider q a st)) = im_reservationIdAlloc st"
  "im_reservationIdAlloc (snd (retireRegion i a st)) = im_reservationIdAlloc st"
  "im_reservationIdAlloc (snd (registerWorker now w b e pid a st)) = im_reservationIdAlloc st"
  "im_reservationIdAlloc (snd (markWorkerDead now w a st)) = im_reservationIdAlloc st"
  "im_reservationIdAlloc (noteWorkerHandle w h st) = im_reservationIdAlloc st"
  "im_reservationIdAlloc (snd (select req a st)) = im_reservationIdAlloc st"
  "im_reservationIdAlloc (snd (commitReservation k a st)) = im_reservationIdAlloc st"
  "im_reservationIdAlloc (snd (releaseReservation k a st)) = im_reservationIdAlloc st"
  by (simp_all add: registry_defs setEpoch_def publishRegionEvidence_def publishAttachment_def beginDrain_def
      completeDrain_def cancelDrain_def markUnavailable_def recoverRegion_def retireProvider_def retireRegion_def
      registerWorker_def markWorkerDead_def noteWorkerHandle_def select_def evaluateLocked_def
      commitReservation_def releaseReservation_def Let_def case_prod_beta
      split: option.split list.split sum.split)

lemma reservation_alloc_request:
  assumes "im_reservationIdAlloc st \<noteq> 0"
  shows "im_reservationIdAlloc (snd (requestReservation now req a st)) \<in>
    {im_reservationIdAlloc st, im_reservationIdAlloc st + 1}"
  using assms
  by (simp add: requestReservation_def evaluateLocked_def Let_def case_prod_beta next_id_nonzero
      split: list.split option.split)

lemma run_op_alloc:
  assumes "im_reservationIdAlloc st \<noteq> 0"
  shows "im_reservationIdAlloc (snd (run_op o1 st)) \<in> {im_reservationIdAlloc st, im_reservationIdAlloc st + 1}"
  using reservation_alloc_request [OF assms] by (cases o1) (simp_all add: reservation_alloc_others)

lemma recovered_consistent:
  assumes "recovered st"
  shows "consistent st"
proof -
  have r: "im_reservations st = []" "umap_wf (im_regions st)" "im_reservationIdAlloc st = FirstValidValue"
    using assms by (simp_all add: recovered_def tables_wf_def)
  have reg: "recovered_region (umap_keys (im_pools st)) rr" if "umap_find (im_regions st) i = Some rr" for i rr
    using assms that unfolding recovered_def values_are_find [OF r(2)] by blast
  have "ledgers_closed (im_regions st)"
    using reg by (auto simp: ledgers_closed_def ledger_closed_def recovered_region_def new_ledger_def invariant_def
        option.pred_set)
  moreover have "bytes_at (im_regions st) i b = 0" if "b \<in> {Reserved, Committed}" for i b
    using reg [of i] that by (auto simp: bytes_at_def recovered_region_def new_ledger_def split: option.split)
  ultimately have "balanced (im_regions st) (im_reservations st)"
    using r by (simp add: balanced_def holders_placed_def)
  moreover have "fst ` set (memberships (im_regions st) i) \<subseteq> umap_keys (im_pools st)" for i
    using reg [of i] by (cases "umap_find (im_regions st) i") (simp_all add: memberships_def recovered_region_def)
  ultimately show ?thesis
    using r by (simp add: consistent_def accounting_def bindings_def members_known_def ids_fresh_def
      umap_keys_def [of "[]"] FirstValidValue_def)
qed

lemma reach_consistent:
  assumes "fabric_reach n st" "n < 2 ^ 64 - 1"
  shows "consistent st \<and> unat (im_reservationIdAlloc st) \<le> Suc n"
  using assms
proof (induction rule: fabric_reach.induct)
  case (start e)
  show ?case by (simp add: new_fabric_consistent) (simp add: new_fabric_def FirstValidValue_def)
next
  case (loaded bytes st)
  then have "recovered st" by (simp add: load_recovered)
  then show ?case by (simp add: recovered_consistent) (simp add: recovered_def FirstValidValue_def)
next
  case (step n st o1)
  then have c: "consistent st" and le: "unat (im_reservationIdAlloc st) \<le> Suc n" by simp_all
  then have nz: "im_reservationIdAlloc st \<noteq> 0" by (simp add: consistent_def accounting_def ids_fresh_def)
  have "unat (im_reservationIdAlloc st) \<noteq> unat UINT64_MAX" using le step.prems by simp
  then have "im_reservationIdAlloc st \<noteq> UINT64_MAX" by metis
  from run_op_consistent [OF c this] have "consistent (snd (run_op o1 st))" .
  moreover have "unat (im_reservationIdAlloc st + 1) = unat (im_reservationIdAlloc st) + 1"
    using le step.prems unat_add_u64 [of "im_reservationIdAlloc st" 1] by simp
  then have "unat (im_reservationIdAlloc (snd (run_op o1 st))) \<le> Suc (Suc n)"
    using run_op_alloc [OF nz, of o1] le by auto
  ultimately show ?case by simp
qed

text \<open>Every table keeps one entry per key.\<close>

definition registries_wf :: "Impl \<Rightarrow> bool" where
  "registries_wf st \<longleftrightarrow>
     umap_wf (im_providers st) \<and> umap_wf (im_domains st) \<and> umap_wf (im_pools st) \<and>
     umap_wf (im_policies st) \<and> umap_wf (im_consumers st)"

lemma run_op_registries: "registries_wf st \<Longrightarrow> registries_wf (snd (run_op o1 st))"
  by (cases o1)
    (simp_all add: registries_wf_def registry_defs setEpoch_def publishRegionEvidence_def publishAttachment_def beginDrain_def
      completeDrain_def cancelDrain_def markUnavailable_def recoverRegion_def retireProvider_def retireRegion_def
      registerWorker_def markWorkerDead_def noteWorkerHandle_def select_def evaluateLocked_def
      requestReservation_def commitReservation_def releaseReservation_def Let_def case_prod_beta
      split: option.split list.split sum.split)

lemma reach_registries: "fabric_reach n st \<Longrightarrow> registries_wf st"
proof (induction rule: fabric_reach.induct)
  case (loaded bytes st)
  then show ?case using load_recovered [of bytes st] by (simp add: recovered_def tables_wf_def registries_wf_def)
qed (simp add: registries_wf_def new_fabric_def, rule run_op_registries)

lemma reach_tables_wf:
  assumes "fabric_reach n st" "n < 2 ^ 64 - 1"
  shows "tables_wf st"
  using reach_registries [OF assms(1)] reach_consistent [OF assms]
  by (simp add: registries_wf_def tables_wf_def consistent_def accounting_def balanced_def)

section \<open>The epoch\<close>

lemma run_op_epoch:
  "(\<forall>e. o1 \<noteq> SetEpoch e) \<Longrightarrow> im_epoch (snd (run_op o1 st)) = im_epoch st"
  by (cases o1)
    (simp_all add: registry_defs publishRegionEvidence_def publishAttachment_def beginDrain_def
      completeDrain_def cancelDrain_def markUnavailable_def recoverRegion_def retireProvider_def retireRegion_def
      registerWorker_def markWorkerDead_def noteWorkerHandle_def select_def evaluateLocked_def
      requestReservation_def commitReservation_def releaseReservation_def Let_def case_prod_beta
      split: option.split list.split sum.split)

section \<open>Stale authority\<close>

fun op_authority :: "op \<Rightarrow> Authority option" where
  "op_authority (SetEpoch e) = None"
| "op_authority (RegisterConsumer c g a) = Some a"
| "op_authority (RegisterProvider now d a) = Some a"
| "op_authority (RegisterDomain d a) = Some a"
| "op_authority (RegisterRegion d a) = Some a"
| "op_authority (RegisterPool now d a) = Some a"
| "op_authority (RegisterPolicy d a) = Some a"
| "op_authority (AddPoolMember p m a) = Some a"
| "op_authority (RemovePoolMember p i a) = Some a"
| "op_authority (ReplacePoolGeneration now d a) = Some a"
| "op_authority (PublishRegionEvidence now e a) = Some a"
| "op_authority (PublishAttachment e a) = Some a"
| "op_authority (BeginDrain i a) = Some a"
| "op_authority (CompleteDrain i a) = Some a"
| "op_authority (CancelDrain i a) = Some a"
| "op_authority (MarkUnavailable i a) = Some a"
| "op_authority (RecoverRegion i a) = Some a"
| "op_authority (RetireProvider p a) = Some a"
| "op_authority (RetireRegion i a) = Some a"
| "op_authority (RegisterWorker now w b e pid a) = None"
| "op_authority (MarkWorkerDead now w a) = Some a"
| "op_authority (NoteWorkerHandle w h) = None"
| "op_authority (Select req a) = Some a"
| "op_authority (RequestReservation now req a) = Some a"
| "op_authority (CommitReservation i a) = Some a"
| "op_authority (ReleaseReservation i a) = Some a"

lemma outcome_fail [simp]: "outcome (fail c m, st) = (Some (Error c m), st)"
  by (simp add: outcome_def fail_def)

lemma outcome_ok [simp]: "outcome (ok v, st) = (None, st)"
  by (simp add: outcome_def ok_def)

lemma stale_refused:
  assumes "op_authority o1 = Some a" "\<not> authorityAcceptableLocked st a"
  shows "run_op o1 st = (Some (Error STALE_AUTHORITY ''stale authority''), st)"
  using assms
  by (cases o1) (simp_all add: registry_defs publishRegionEvidence_def publishAttachment_def beginDrain_def
      completeDrain_def cancelDrain_def markUnavailable_def recoverRegion_def retireProvider_def retireRegion_def
      markWorkerDead_def select_def requestReservation_def commitReservation_def releaseReservation_def Let_def
      fail_def outcome_def)

end
