(* ===== verification/Behaviour.thy ===== *)
theory Behaviour
  imports Execution
begin

text \<open>
  What the operations of the reservation lifecycle and the fencing operations do in a consistent
  state: which refusals are possible, which defensive branches of the code are dead, where the bytes
  go, and what is left of the other regions and reservations.
\<close>

section \<open>Bytes after a ledger method\<close>

lemma bytes_at_with_ledger:
  "umap_find regs i = Some rr \<Longrightarrow>
   bytes_at (with_ledger i (\<lambda>_. led) regs) j = (if j = i then bytes_in led else bytes_at regs j)"
  by (rule ext) (simp add: bytes_at_def with_ledger_find)

lemma bytes_at_find: "umap_find regs i = Some rr \<Longrightarrow> bytes_at regs i = bytes_in (rr_ledger rr)"
  by (rule ext) (simp add: bytes_at_def)

section \<open>Commit\<close>

definition consumer_moved :: "Impl \<Rightarrow> Reservation \<Rightarrow> bool" where
  "consumer_moved st r \<longleftrightarrow>
     \<not> null (rs_consumerGeneration r) \<and>
     (case umap_find (im_consumers st) (rs_consumer r) of None \<Rightarrow> False | Some g \<Rightarrow> g \<noteq> rs_consumerGeneration r)"

definition evidence_moved :: "RegionRecord \<Rightarrow> Reservation \<Rightarrow> bool" where
  "evidence_moved rr r \<longleftrightarrow>
     rr_evidenceStatus rr \<noteq> EvidenceStatus.CURRENT \<or>
     rr_hasEvidence rr \<and> eh_generation (ev_header (rr_latest rr)) \<noteq> rs_evidenceGeneration r"

lemma holder_bound:
  assumes "consistent st" "umap_find (im_reservations st) i = Some r" "holds r \<noteq> None"
  shows "bound st r"
  using assms by (auto simp: consistent_def intro: bindingsD umap_find_in_set)

lemma reserved_covers:
  assumes c: "consistent st" and i: "umap_find (im_reservations st) i = Some r"
    and s: "rs_state r = ReservationState.RESERVED" and rr: "umap_find (im_regions st) (rs_region r) = Some rr"
  shows "rs_bytes r \<le> reserved (rr_ledger rr)"
proof -
  have bal: "balanced (im_regions st) (im_reservations st)" using c by (simp add: consistent_def accounting_def)
  have "held Reserved (rs_region r) r \<le> bytes_in (rr_ledger rr) Reserved"
    using held_le_all [OF i] balancedD(3) [OF bal rr] by simp
  with s show ?thesis by (simp add: held_def holds_def word_le_nat_alt)
qed

lemma commit_refusal_live:
  assumes c: "consistent st" and i: "umap_find (im_reservations st) i = Some r"
    and s: "rs_state r = ReservationState.RESERVED" and rr: "umap_find (im_regions st) (rs_region r) = Some rr"
  shows "commit_refusal st a r =
    (case commit_worker_refusal st a r of
       Some m \<Rightarrow> Some (STALE_AUTHORITY, m)
     | None \<Rightarrow>
         if consumer_moved st r then Some (ErrorCode.WRONG_GENERATION, ''consumer generation changed'')
         else if evidence_moved rr r then Some (ErrorCode.STALE_EVIDENCE, ''evidence no longer current'')
         else if rr_lifecycle rr = RegionLifecycle.REVALIDATION_REQUIRED
         then Some (ErrorCode.REVALIDATION_REQUIRED, ''region no longer committable'')
         else None)"
proof -
  have b: "bound st r" using holder_bound [OF c i] s by (simp add: holds_def)
  have g: "rd_generation (rr_descriptor rr) = rs_regionGeneration r" and lc: "lifecycle_admits r (rr_lifecycle rr)"
    using bound_find [OF b] rr by auto
  obtain p where p: "umap_find (im_providers st) (rs_provider r) = Some p" "pd_generation (pr_descriptor p) = rs_providerGeneration r"
    using b by (auto simp: bound_def provider_gen_def)
  have pol: "null (rs_policy r) \<or> map_option po_generation (umap_find (im_policies st) (rs_policy r)) = Some (rs_policyGeneration r)"
    and pool: "null (rs_pool r) \<or> map_option (pl_generation \<circ> plr_descriptor) (umap_find (im_pools st) (rs_pool r)) = Some (rs_poolGeneration r)"
    and e: "rs_epoch r = im_epoch st"
    using b by (simp_all add: bound_def policy_gen_def pool_gen_def)
  have "\<not> (\<not> null (rs_policy r) \<and> umap_find (im_policies st) (rs_policy r) = None)"
    "\<not> (\<not> null (rs_pool r) \<and> umap_find (im_pools st) (rs_pool r) = None)"
    using pol pool by auto
  moreover have "\<not> reserved (rr_ledger rr) < rs_bytes r" using reserved_covers [OF assms] by simp
  moreover have "rr_lifecycle rr \<notin> {RegionLifecycle.DRAINING, RegionLifecycle.UNAVAILABLE, RegionLifecycle.RETIRED}"
    using lc s by (simp add: lifecycle_admits_def)
  ultimately show ?thesis
    unfolding commit_refusal_def rr p option.case g e consumer_moved_def evidence_moved_def
    using pol pool p(2) by (simp split: option.split) blast
qed

lemma exchange_bytes:
  assumes mv: "ledger_move step src dst" and c: "consistent st"
    and i: "umap_find (im_reservations st) i = Some r"
    and rr: "umap_find (im_regions st) (rs_region r) = Some rr" and src: "holds r = Some src"
  shows "bytes_in (snd (step (rs_bytes r) (rr_ledger rr))) =
    move src dst (unat (rs_bytes r)) (bytes_in (rr_ledger rr))"
proof -
  have bal: "balanced (im_regions st) (im_reservations st)" using c by (simp add: consistent_def accounting_def)
  have "held src (rs_region r) r \<le> bytes_in (rr_ledger rr) src"
    using held_le_all [OF i, of src "rs_region r"] balancedD(3,4) [OF bal rr] holds_bucket [OF src] by auto
  then have "unat (rs_bytes r) \<le> bytes_in (rr_ledger rr) src" using src by (simp add: held_def)
  from ledger_move.bytes_after [OF mv consistent_invariant [OF c rr] this] show ?thesis .
qed

lemma commit_accepts:
  assumes c: "consistent st" and a: "authorityAcceptableLocked st a"
    and i: "umap_find (im_reservations st) i = Some r"
    and s: "rs_state r = ReservationState.RESERVED" and n: "commit_refusal st a r = None"
  shows "\<exists>st'. commitReservation i a st = (ok (r\<lparr>rs_state := ReservationState.COMMITTED\<rparr>), st') \<and>
     (\<forall>j. bytes_at (im_regions st') j =
        (if j = rs_region r then move Reserved Committed (unat (rs_bytes r)) (bytes_at (im_regions st) j)
         else bytes_at (im_regions st) j)) \<and>
     (\<forall>k. umap_find (im_reservations st') k =
        (if k = i then Some (r\<lparr>rs_state := ReservationState.COMMITTED\<rparr>) else umap_find (im_reservations st) k))"
proof -
  have h: "holds r = Some Reserved" using s by (simp add: holds_def)
  obtain rr where rr: "umap_find (im_regions st) (rs_region r) = Some rr"
    using bound_find [OF holder_bound [OF c i]] h by auto
  note ex = exchange_consistent(1) [OF commit.ledger_move_axioms c i rr h, of ReservationState.COMMITTED]
  note bytes = exchange_bytes [OF commit.ledger_move_axioms c i rr h]
  have "reservationStateAllowed ReservationState.RESERVED ReservationState.COMMITTED"
    by (simp add: reservationStateAllowed_def)
  with ex bytes a i s n rr show ?thesis
    by (simp add: commitReservation_def Let_def case_prod_beta holdable_def bytes_at_with_ledger bytes_at_find)
qed

section \<open>Release\<close>

lemma release_succeeds:
  assumes c: "consistent st" and a: "authorityAcceptableLocked st a"
    and i: "umap_find (im_reservations st) i = Some r" and h: "holds r = Some b"
  shows "\<exists>st'. releaseReservation i a st = (ok (), st') \<and>
     (\<forall>j. bytes_at (im_regions st') j =
        (if j = rs_region r then move b Free (unat (rs_bytes r)) (bytes_at (im_regions st) j)
         else bytes_at (im_regions st) j)) \<and>
     (\<forall>k. umap_find (im_reservations st') k =
        (if k = i then Some (r\<lparr>rs_state := ReservationState.RELEASED\<rparr>) else umap_find (im_reservations st) k))"
proof -
  have bnd: "bound st r" using holder_bound [OF c i] h by simp
  obtain rr where rr: "umap_find (im_regions st) (rs_region r) = Some rr"
      and g: "rd_generation (rr_descriptor rr) = rs_regionGeneration r"
    using bound_find [OF bnd] by auto
  have e: "rs_epoch r = im_epoch st" using bnd by (simp add: bound_def)
  note ex = exchange_consistent(1) [OF _ c i rr h, of _ _ ReservationState.RELEASED]
  note bytes = exchange_bytes [OF _ c i rr h]
  from h consider "rs_state r = ReservationState.RESERVED" "b = Reserved"
    | "rs_state r = ReservationState.COMMITTED \<or> rs_state r = ReservationState.ACTIVE" "b = Committed"
    by (cases "rs_state r") (simp_all add: holds_def)
  then show ?thesis
  proof cases
    case 1
    with a i rr g e ex [of release Free] bytes [of release Free] release.ledger_move_axioms show ?thesis
      by (simp add: releaseReservation_def Let_def case_prod_beta holdable_def bytes_at_with_ledger bytes_at_find)
  next
    case 2
    with a i rr g e ex [of complete Free] bytes [of complete Free] complete.ledger_move_axioms show ?thesis
      by (elim disjE) (simp_all add: releaseReservation_def Let_def case_prod_beta holdable_def bytes_at_with_ledger
          bytes_at_find)
  qed
qed

lemma release_idle:
  assumes "authorityAcceptableLocked st a" "umap_find (im_reservations st) i = Some r" "holds r = None"
  shows "releaseReservation i a st = (fail INVALID_STATE_TRANSITION ''not releasable'', st)"
  using assms by (cases "rs_state r") (simp_all add: releaseReservation_def holds_def)

section \<open>Request\<close>

definition valid_request :: "ConsumerRequirements \<Rightarrow> bool" where
  "valid_request req \<longleftrightarrow>
     rq_requiredBytes req \<noteq> 0 \<and> \<not> null (rq_consumer req) \<and> \<not> null (rq_consumerGeneration req)"

lemma evaluate_parts:
  "sel_ranked (fst (evaluateLocked req st)) = ranking st req"
  "\<exists>m n. snd (evaluateLocked req st) = st\<lparr>im_selectionIdAlloc := m, im_selectionGenAlloc := n\<rparr>"
  by (auto simp: evaluateLocked_def Let_def case_prod_beta)

lemma request_nothing_eligible:
  assumes "authorityAcceptableLocked st a" "valid_request req" "ranking st req = []"
  shows "requestReservation now req a st =
    (fail CAPACITY_INSUFFICIENT ''no eligible expansion capacity'', snd (evaluateLocked req st))"
  using assms evaluate_parts(1) [of req st]
  by (simp add: requestReservation_def valid_request_def case_prod_beta)

lemma request_grants:
  assumes c: "consistent st" and a: "authorityAcceptableLocked st a" and v: "valid_request req"
    and best: "ranking st req = best # rest"
  shows "\<exists>st' r. requestReservation now req a st = (ok (TypedId (im_reservationIdAlloc st)), st') \<and>
     umap_find (im_reservations st') (TypedId (im_reservationIdAlloc st)) = Some r \<and>
     rs_state r = ReservationState.RESERVED \<and> rs_region r = rc_region best \<and>
     rs_bytes r = rq_requiredBytes req \<and> rs_consumer r = rq_consumer req \<and>
     rs_worker r = au_worker a \<and> rs_boot r = au_boot a \<and> rs_epoch r = im_epoch st \<and> bound st' r \<and>
     umap_find (im_reservations st) (TypedId (im_reservationIdAlloc st)) = None \<and>
     (\<forall>k. k \<noteq> TypedId (im_reservationIdAlloc st) \<longrightarrow>
        umap_find (im_reservations st') k = umap_find (im_reservations st) k) \<and>
     (\<forall>j. bytes_at (im_regions st') j =
        (if j = rc_region best
         then move Free Reserved (unat (rq_requiredBytes req)) (bytes_at (im_regions st) j)
         else bytes_at (im_regions st) j))"
proof -
  let ?k = "TypedId (im_reservationIdAlloc st) :: ReservationId"
  obtain sel st1 where e: "evaluateLocked req st = (sel, st1)" by fastforce
  obtain m n where st1: "st1 = st\<lparr>im_selectionIdAlloc := m, im_selectionGenAlloc := n\<rparr>"
    using evaluate_parts(2) [of req st] e by auto
  have sel: "sel_ranked sel = best # rest" using evaluate_parts(1) [of req st] e best by simp
  have in_rank: "best \<in> set (ranking st1 req)" by (simp add: st1 ranking_allocators best)
  have c1: "consistent st1" using c by (simp add: st1)
  have a1: "authorityAcceptableLocked st1 a" using a authority_frame [of st1 st a] by (simp add: st1)
  obtain rr pr where rr1: "umap_find (im_regions st1) (rc_region best) = Some rr" "meets_requirements st1 req pr rr"
    by (rule best_candidate [OF c1 in_rank])
  let ?res = "\<lambda>g. make_reservation now req a st1 sel (rc_region best) rr ?k g"
  have bnd: "bound st1 (?res g)" for g by (rule new_reservation_bound [OF c1 in_rank rr1(1) a1])
  have le: "unat (rq_requiredBytes req) \<le> bytes_in (rr_ledger rr) Free"
    using rr1(2) by (simp add: meets_requirements_def word_le_nat_alt)
  have inv: "invariant (rr_ledger rr)" by (rule consistent_invariant [OF c1 rr1(1)])
  have acc: "fst (reserve (rq_requiredBytes req) (rr_ledger rr))" using le by (simp add: reserve.accepts_iff inv)
  note moved = reserve.bytes_after [OF inv le]
  have fresh: "umap_find (im_reservations st) ?k = None" "im_reservationIdAlloc st \<noteq> 0"
    using c ids_fresh_missing by (auto simp: consistent_def accounting_def ids_fresh_def)
  have frame: "make_reservation now req a (st1\<lparr>im_regions := regs\<rparr>) sel = make_reservation now req a st1 sel" for regs
    unfolding make_reservation_def by simp
  have parts: "rs_state (?res g) = ReservationState.RESERVED" "rs_region (?res g) = rc_region best"
    "rs_bytes (?res g) = rq_requiredBytes req" "rs_consumer (?res g) = rq_consumer req"
    "rs_worker (?res g) = au_worker a" "rs_boot (?res g) = au_boot a" "rs_epoch (?res g) = au_epoch a" for g
    by (simp_all add: make_reservation_def)
  have ep: "au_epoch a = im_epoch st" using a by (simp add: authorityAcceptableLocked_def split: if_splits)
  have keep: "bound (st1\<lparr>im_regions := with_ledger i f (im_regions st1), im_reservationIdAlloc := x,
      im_reservationGenAlloc := y, im_reservations := z\<rparr>) r = bound st1 r" for i f x y z r
    by (simp add: bound_def gen_defs)
  have alloc: "next_id (im_reservationIdAlloc st1) = (?k, im_reservationIdAlloc st + 1)"
    using fresh(2) by (simp add: next_id_nonzero st1)
  have rr: "umap_find (im_regions st) (rc_region best) = Some rr" using rr1(1) by (simp add: st1)
  let ?g = "fst (next_id (im_reservationGenAlloc st1))"
  let ?regs = "with_ledger (rc_region best) (\<lambda>_. snd (reserve (rq_requiredBytes req) (rr_ledger rr))) (im_regions st1)"
  obtain y where run: "requestReservation now req a st = (ok ?k, st1\<lparr>im_regions := ?regs,
      im_reservationIdAlloc := im_reservationIdAlloc st + 1, im_reservationGenAlloc := y,
      im_reservations := umap_put ?k (?res ?g) (im_reservations st1)\<rparr>)"
    using a v acc by (simp add: requestReservation_def valid_request_def e sel rr1(1) Let_def case_prod_beta frame alloc)
  have "bytes_at ?regs j = (if j = rc_region best
         then move Free Reserved (unat (rq_requiredBytes req)) (bytes_at (im_regions st) j)
         else bytes_at (im_regions st) j)" for j
    unfolding bytes_at_with_ledger [OF rr1(1)] moved by (simp add: bytes_at_find [OF rr] st1)
  moreover have "im_reservations st1 = im_reservations st" by (simp add: st1)
  ultimately show ?thesis
    unfolding run using bnd [of ?g] fresh(1) by (simp add: keep parts ep)
qed

section \<open>Fencing by epoch, by worker and by reincarnation\<close>

text \<open>After a fence, the ledgers of a region that no reservation holds have nothing reserved or committed.\<close>

lemma no_holder_no_bytes:
  assumes "consistent st" "\<And>k r. umap_find (im_reservations st) k = Some r \<Longrightarrow> holds r \<noteq> None \<Longrightarrow> rs_region r \<noteq> i"
    and "b \<in> {Reserved, Committed}"
  shows "bytes_at (im_regions st) i b = 0"
proof -
  have wf: "umap_wf (im_reservations st)" and bal: "balanced (im_regions st) (im_reservations st)"
    using assms(1) by (simp_all add: consistent_def accounting_def)
  have "held_by_all b i (im_reservations st) = 0"
    by (rule held_by_none) (use assms(2) umap_in_set_find [OF wf] in blast)
  with bal assms(3) show ?thesis unfolding balanced_def by metis
qed

lemma setEpoch_fences:
  assumes c: "consistent st" and newer: "id_value (im_epoch st) < id_value e"
  shows "im_epoch (setEpoch e st) = e"
    and "umap_find (im_reservations (setEpoch e st)) k = Some r \<Longrightarrow> holds r = None"
    and "umap_find (im_workers (setEpoch e st)) w = Some wr \<Longrightarrow> \<not> wr_alive wr"
    and "umap_find (im_regions (setEpoch e st)) i = Some rr \<Longrightarrow>
           (rr_hasEvidence rr \<longrightarrow> rr_evidenceStatus rr = EvidenceStatus.REVALIDATION_REQUIRED) \<and>
           rr_lifecycle rr \<in> {RegionLifecycle.REVALIDATION_REQUIRED, RegionLifecycle.RETIRED,
                               RegionLifecycle.DRAINING, RegionLifecycle.UNAVAILABLE}"
proof -
  let ?regs1 = "umap_map epoch_region (im_regions st)"
  obtain regs resvs where s: "umap_sweep epoch_fence ?regs1 (im_reservations st) = (regs, resvs)"
    by fastforce
  then have st': "setEpoch e st = st\<lparr>im_epoch := e,
      im_workers := umap_map (\<lambda>w. w\<lparr>wr_alive := False\<rparr>) (im_workers st),
      im_regions := regs, im_reservations := resvs\<rparr>"
    using newer by (simp add: setEpoch_def)
  have bal: "balanced ?regs1 (im_reservations st)"
    using c by (simp add: consistent_def accounting_def balanced_map epoch_region_def Let_def)
  show "im_epoch (setEpoch e st) = e" by (simp add: st')
  show "umap_find (im_reservations (setEpoch e st)) k = Some r \<Longrightarrow> holds r = None"
    using epoch.sweep_settled [OF bal s] umap_find_in_set by (fastforce simp: st')
  show "umap_find (im_workers (setEpoch e st)) w = Some wr \<Longrightarrow> \<not> wr_alive wr"
    by (auto simp: st')
  assume "umap_find (im_regions (setEpoch e st)) i = Some rr"
  then have rr: "umap_find regs i = Some rr" by (simp add: st')
  let ?wipe = "\<lambda>rr. rr\<lparr>rr_ledger := new_ledger 0\<rparr>"
  have "map_option ?wipe (umap_find regs i) = map_option ?wipe (umap_find ?regs1 i)"
    using epoch.sweep_regions [OF s] by (simp add: same_but_ledgers_def)
  then obtain r0 where r0: "?wipe rr = ?wipe (epoch_region r0)"
    unfolding rr umap_find_map by (cases "umap_find (im_regions st) i") simp_all
  have "rr_hasEvidence rr = rr_hasEvidence (epoch_region r0)"
    "rr_evidenceStatus rr = rr_evidenceStatus (epoch_region r0)"
    "rr_lifecycle rr = rr_lifecycle (epoch_region r0)"
    using arg_cong [OF r0, of rr_hasEvidence] arg_cong [OF r0, of rr_evidenceStatus] arg_cong [OF r0, of rr_lifecycle]
    by simp_all
  then show "(rr_hasEvidence rr \<longrightarrow> rr_evidenceStatus rr = EvidenceStatus.REVALIDATION_REQUIRED) \<and>
           rr_lifecycle rr \<in> {RegionLifecycle.REVALIDATION_REQUIRED, RegionLifecycle.RETIRED,
                               RegionLifecycle.DRAINING, RegionLifecycle.UNAVAILABLE}"
    by (simp add: epoch_region_def Let_def)
qed

lemma markWorkerDead_fences:
  assumes c: "consistent st" and a: "authorityAcceptableLocked st a"
    and w: "umap_find (im_workers st) w = Some wr"
  shows "fst (markWorkerDead now w a st) = ok ()"
    and "\<not> workerAlive w b (snd (markWorkerDead now w a st))"
    and "umap_find (im_reservations (snd (markWorkerDead now w a st))) k = Some r \<Longrightarrow> holds r \<noteq> None \<Longrightarrow>
           rs_worker r \<noteq> w \<and>
           \<not> pred_option (evidence_from w (wr_boot wr)) (umap_find (im_regions st) (rs_region r))"
proof -
  let ?A = "set (map fst (filter (\<lambda>(rid, rr). evidence_from w (wr_boot wr) rr) (im_regions st)))"
  let ?st1 = "st\<lparr>im_workers := umap_modify w (\<lambda>x. x\<lparr>wr_alive := False, wr_lastSeenMs := now\<rparr>) (im_workers st),
                 im_regions := umap_map (orphan_region w (wr_boot wr)) (im_regions st)\<rparr>"
  have run: "markWorkerDead now w a st = (ok (), fence_where (\<lambda>r. rs_worker r = w \<or> rs_region r \<in> ?A) ''worker died'' ?st1)"
    using a w by (simp add: markWorkerDead_def Let_def)
  show "fst (markWorkerDead now w a st) = ok ()" by (simp add: run)
  show "\<not> workerAlive w b (snd (markWorkerDead now w a st))" by (simp add: run workerAlive_def w)
  assume r: "umap_find (im_reservations (snd (markWorkerDead now w a st))) k = Some r" and h: "holds r \<noteq> None"
  have "accounting ?st1"
    using c accounting_map(1) [of "orphan_region w (wr_boot wr)" "?st1\<lparr>im_regions := im_regions st\<rparr>"]
    by (simp add: consistent_def accounting_def orphan_region_def Let_def)
  from by_worker.fence_where_survivor [OF this umap_find_in_set h] r
  have nw: "rs_worker r \<noteq> w" and out: "rs_region r \<notin> ?A" by (auto simp: run)
  have "consistent (snd (markWorkerDead now w a st))" by (rule markWorkerDead_consistent [OF c])
  from bound_find [OF holder_bound [OF this r h]] obtain rr' where
    "umap_find (im_regions (snd (markWorkerDead now w a st))) (rs_region r) = Some rr'" by auto
  then have "view (im_regions (snd (markWorkerDead now w a st))) (rs_region r) \<noteq> None" by (simp add: view_def)
  then have "umap_find (im_regions st) (rs_region r) \<noteq> None" by (simp add: run view_def)
  then obtain rr where rr: "umap_find (im_regions st) (rs_region r) = Some rr" by auto
  then have "\<not> evidence_from w (wr_boot wr) rr" using out umap_find_in_set [OF rr] by force
  with nw rr show "rs_worker r \<noteq> w \<and>
           \<not> pred_option (evidence_from w (wr_boot wr)) (umap_find (im_regions st) (rs_region r))" by simp
qed

end
