(* ===== verification/Progress.thy ===== *)
theory Progress
  imports Behaviour
begin

text \<open>
  What one call can do to the stored objects: a reservation keeps its bindings and moves along the
  edges of \<open>reservationStateAllowed\<close>; generations and the epoch never go back; a failed call leaves
  the state as it was.
\<close>

section \<open>Reservations move along the table\<close>

definition resv_step :: "Reservation \<Rightarrow> Reservation \<Rightarrow> bool" where
  "resv_step r r' \<longleftrightarrow>
     same_binding r r' \<and> (rs_state r' = rs_state r \<or> reservationStateAllowed (rs_state r) (rs_state r'))"

definition table_step :: "reservations \<Rightarrow> reservations \<Rightarrow> bool" where
  "table_step m m' \<longleftrightarrow>
     (\<forall>k r. umap_find m k = Some r \<longrightarrow> (\<exists>r'. umap_find m' k = Some r' \<and> resv_step r r'))"

lemma resv_step_refl [simp]: "resv_step r r"
  by (simp add: resv_step_def)

lemma table_step_refl [simp]: "table_step m m"
  by (simp add: table_step_def)

lemma table_step_sweep:
  assumes "\<And>regs r. resv_step r (snd (body regs r))"
  shows "table_step m (snd (umap_sweep body regs m))"
proof -
  have "\<exists>r'. umap_find (snd (umap_sweep body regs m)) k = Some r' \<and> resv_step r r'"
    if "umap_find m k = Some r" for k r
    using that
  proof (induction m arbitrary: regs)
    case (Cons x m)
    obtain j q where x: "x = (j, q)" by (cases x)
    show ?case
    proof (cases "j = k")
      case True
      with Cons.prems x show ?thesis using assms [of q regs] by (auto simp: umap_find_def Let_def case_prod_beta)
    next
      case False
      with Cons.prems x have "umap_find m k = Some r" by (simp add: umap_find_def)
      from Cons.IH [OF this, of "fst (body regs q)"] False x show ?thesis
        by (auto simp: umap_find_def Let_def case_prod_beta)
    qed
  qed simp
  then show ?thesis by (simp add: table_step_def)
qed

lemma resv_step_state:
  "reservationStateAllowed (rs_state r) s \<Longrightarrow> resv_step r (r\<lparr>rs_state := s\<rparr>)"
  "reservationStateAllowed (rs_state r) s \<Longrightarrow> resv_step r (r\<lparr>rs_state := s, rs_note := n\<rparr>)"
  by (simp_all add: resv_step_def)

lemma table_step_modify:
  "umap_find m k = Some r \<Longrightarrow> resv_step r (f r) \<Longrightarrow> table_step m (umap_modify k f m)"
  by (auto simp: table_step_def)

lemma fence_if_step: "resv_step r (snd (fence_if P reason regs r))"
  by (cases "rs_state r")
    (simp_all add: fence_if_def fence_def Let_def case_prod_beta resv_step_state reservationStateAllowed_def
      split: option.split)

lemma epoch_fence_step: "resv_step r (snd (epoch_fence regs r))"
  by (cases "rs_state r") (simp_all add: epoch_fence_def resv_step_state reservationStateAllowed_def)

lemma drain_release_step: "resv_step r (snd (drain_release i regs r))"
  by (cases "rs_state r")
    (simp_all add: drain_release_def Let_def case_prod_beta resv_step_state reservationStateAllowed_def
      split: option.split)

lemma fence_where_step [simp]: "table_step (im_reservations st) (im_reservations (fence_where P reason st))"
  unfolding fence_where_def by (simp add: case_prod_beta table_step_sweep fence_if_step)

lemma reservations_untouched:
  "im_reservations (snd (registerConsumer c g a st)) = im_reservations st"
  "im_reservations (snd (registerDomain dd a st)) = im_reservations st"
  "im_reservations (snd (addPoolMember p m a st)) = im_reservations st"
  "im_reservations (snd (removePoolMember p i a st)) = im_reservations st"
  "im_reservations (snd (publishRegionEvidence now ev a st)) = im_reservations st"
  "im_reservations (snd (publishAttachment att a st)) = im_reservations st"
  "im_reservations (snd (completeDrain i a st)) = im_reservations st"
  "im_reservations (snd (cancelDrain i a st)) = im_reservations st"
  "im_reservations (snd (recoverRegion i a st)) = im_reservations st"
  "im_reservations (snd (registerWorker now w b e pid a st)) = im_reservations st"
  "im_reservations (noteWorkerHandle w h st) = im_reservations st"
  "im_reservations (snd (evaluateLocked req st)) = im_reservations st"
  "im_reservations (snd (select req a st)) = im_reservations st"
  by (simp_all add: registry_defs publishRegionEvidence_def publishAttachment_def completeDrain_def
      cancelDrain_def recoverRegion_def registerWorker_def noteWorkerHandle_def select_def evaluateLocked_def
      Let_def case_prod_beta split: option.split list.split)

lemma fencing_ops_step:
  "table_step (im_reservations st) (im_reservations (setEpoch e st))"
  "table_step (im_reservations st) (im_reservations (snd (registerProvider now pd a st)))"
  "table_step (im_reservations st) (im_reservations (snd (registerRegion rd a st)))"
  "table_step (im_reservations st) (im_reservations (snd (registerPool now pl a st)))"
  "table_step (im_reservations st) (im_reservations (snd (registerPolicy po a st)))"
  "table_step (im_reservations st) (im_reservations (snd (replacePoolGeneration now pl a st)))"
  "table_step (im_reservations st) (im_reservations (snd (beginDrain i a st)))"
  "table_step (im_reservations st) (im_reservations (snd (retireProvider q a st)))"
  "table_step (im_reservations st) (im_reservations (snd (retireRegion i a st)))"
  by (simp_all add: setEpoch_def registerProvider_def reincarnate_provider_def registerRegion_def registerPool_def
      registerPolicy_def replacePoolGeneration_def beginDrain_def retireProvider_def retireRegion_def
      Let_def case_prod_beta table_step_sweep epoch_fence_step drain_release_step split: option.split sum.split)

lemma fencing_ops_step':
  "table_step (im_reservations st) (im_reservations (snd (markUnavailable i a st)))"
  "table_step (im_reservations st) (im_reservations (snd (markWorkerDead now w a st)))"
  by (simp_all add: markUnavailable_def markWorkerDead_def fence_where_def
      Let_def case_prod_beta table_step_sweep fence_if_step split: option.split)

lemma commit_step: "table_step (im_reservations st) (im_reservations (snd (commitReservation i a st)))"
proof (cases "umap_find (im_reservations st) i")
  case (Some r)
  show ?thesis
  proof (cases "rs_state r = ReservationState.RESERVED")
    case True
    then have "table_step (im_reservations st)
        (umap_modify i (\<lambda>r. r\<lparr>rs_state := ReservationState.COMMITTED\<rparr>) (im_reservations st))"
      by (intro table_step_modify [OF Some] resv_step_state) (simp add: reservationStateAllowed_def)
    with Some show ?thesis by (simp add: commitReservation_def Let_def case_prod_beta split: option.split)
  qed (simp add: commitReservation_def Some)
qed (simp add: commitReservation_def)

lemma release_step: "table_step (im_reservations st) (im_reservations (snd (releaseReservation i a st)))"
proof (cases "umap_find (im_reservations st) i")
  case (Some r)
  show ?thesis
  proof (cases "holds r = None")
    case False
    then have "reservationStateAllowed (rs_state r) ReservationState.RELEASED"
      by (cases "rs_state r") (simp_all add: reservationStateAllowed_def holds_def)
    then have "table_step (im_reservations st)
        (umap_modify i (\<lambda>r. r\<lparr>rs_state := ReservationState.RELEASED\<rparr>) (im_reservations st))"
      by (intro table_step_modify [OF Some] resv_step_state)
    with Some show ?thesis by (simp add: releaseReservation_def Let_def case_prod_beta split: option.split)
  next
    case True
    then show ?thesis by (cases "rs_state r") (simp_all add: releaseReservation_def Some holds_def)
  qed
qed (simp add: releaseReservation_def)

lemma request_step:
  assumes "consistent st"
  shows "table_step (im_reservations st) (im_reservations (snd (requestReservation now req a st)))"
proof -
  let ?n = "im_reservationIdAlloc st"
  have f: "ids_fresh ?n (im_reservations st)" using assms by (simp add: consistent_def accounting_def)
  have "table_step (im_reservations st) (umap_put (TypedId ?n) r (im_reservations st))" for r
    using ids_fresh_missing [OF f] by (auto simp: table_step_def)
  moreover have "?n \<noteq> 0" using f by (simp add: ids_fresh_def)
  ultimately show ?thesis
    by (simp add: requestReservation_def evaluateLocked_def Let_def case_prod_beta next_id_nonzero
        split: list.split option.split)
qed

lemma run_op_table_step:
  "consistent st \<Longrightarrow> table_step (im_reservations st) (im_reservations (snd (run_op o1 st)))"
  by (cases o1) (simp_all add: reservations_untouched fencing_ops_step fencing_ops_step' commit_step release_step
      request_step)

section \<open>A failed call changes nothing\<close>

definition unchanged_on_failure :: "'a Result \<times> Impl \<Rightarrow> Impl \<Rightarrow> bool" where
  "unchanged_on_failure x st \<longleftrightarrow> (is_ok (fst x) \<or> snd x = st)"

lemma unchanged_simps [simp]:
  "unchanged_on_failure (fail c m, st) st" "unchanged_on_failure (ok v, st') st"
  by (simp_all add: unchanged_on_failure_def)

lemma registry_unchanged:
  "unchanged_on_failure (registerConsumer c g a st) st"
  "unchanged_on_failure (registerProvider now pd a st) st"
  "unchanged_on_failure (registerDomain dd a st) st"
  "unchanged_on_failure (registerRegion rd a st) st"
  "unchanged_on_failure (registerPool now pl a st) st"
  "unchanged_on_failure (registerPolicy po a st) st"
  "unchanged_on_failure (addPoolMember p m a st) st"
  "unchanged_on_failure (removePoolMember p i a st) st"
  "unchanged_on_failure (publishAttachment att a st) st"
  "unchanged_on_failure (recoverRegion i a st) st"
  "unchanged_on_failure (retireProvider q a st) st"
  "unchanged_on_failure (retireRegion i a st) st"
  "unchanged_on_failure (registerWorker now w b e pid a st) st"
  "unchanged_on_failure (markWorkerDead now w a st) st"
  "unchanged_on_failure (select req a st) st"
  by (simp_all add: registerConsumer_def registerProvider_def registerDomain_def registerRegion_def registerPool_def
      registerPolicy_def addPoolMember_def removePoolMember_def publishAttachment_def recoverRegion_def
      retireProvider_def retireRegion_def registerWorker_def markWorkerDead_def select_def
      Let_def case_prod_beta split: option.split list.split)

lemma replacePool_unchanged: "unchanged_on_failure (replacePoolGeneration now pl a st) st"
  using registry_unchanged(5) [of now pl a st]
  by (auto simp: replacePoolGeneration_def case_prod_beta unchanged_on_failure_def split: sum.split)

lemma drain_unchanged:
  assumes c: "consistent st"
  shows "unchanged_on_failure (completeDrain i a st) st" "unchanged_on_failure (cancelDrain i a st) st"
    "unchanged_on_failure (markUnavailable i a st) st"
  using consistent_invariant [OF c, of i]
  by (simp_all add: completeDrain_def cancelDrain_def markUnavailable_def Let_def case_prod_beta
      end_drain.accepts_iff cancel_drain.accepts_iff mark_unavailable.accepts_iff split: option.split)

lemma beginDrain_unchanged:
  assumes c: "consistent st"
  shows "unchanged_on_failure (beginDrain i a st) st"
proof -
  obtain regs resvs where s: "umap_sweep (drain_release i) (im_regions st) (im_reservations st) = (regs, resvs)"
    by fastforce
  have "consistent (st\<lparr>im_regions := regs, im_reservations := resvs\<rparr>)" by (rule drain_sweep_consistent(1) [OF c s])
  then have inv: "umap_find regs i = Some rr \<Longrightarrow> invariant (rr_ledger rr)" for rr
    using consistent_invariant [of "st\<lparr>im_regions := regs, im_reservations := resvs\<rparr>" i rr] by simp
  have "umap_find regs i = None \<longleftrightarrow> umap_find (im_regions st) i = None"
    using fun_cong [OF view_same [OF drain.sweep_regions [OF s]], of i] by (simp add: view_def)
      (metis option.map_disc_iff)
  with inv s show ?thesis
    by (simp add: beginDrain_def Let_def case_prod_beta begin_drain.accepts_iff split: option.split)
qed

lemma commit_release_unchanged:
  assumes c: "consistent st"
  shows "unchanged_on_failure (commitReservation k a st) st" "unchanged_on_failure (releaseReservation k a st) st"
proof -
  show "unchanged_on_failure (commitReservation k a st) st"
  proof (cases "umap_find (im_reservations st) k")
    case (Some r)
    show ?thesis
    proof (cases "authorityAcceptableLocked st a \<and> rs_state r = ReservationState.RESERVED \<and> commit_refusal st a r = None")
      case True
      with commit_accepts [OF c _ Some, of a] show ?thesis by auto
    next
      case False
      then show ?thesis by (auto simp: commitReservation_def Some split: option.split)
    qed
  qed (simp add: commitReservation_def)
  show "unchanged_on_failure (releaseReservation k a st) st"
  proof (cases "umap_find (im_reservations st) k")
    case (Some r)
    show ?thesis
    proof (cases "authorityAcceptableLocked st a")
      case True
      with release_succeeds [OF c True Some] release_idle [OF True Some] show ?thesis
        by (cases "holds r") auto
    qed (simp add: releaseReservation_def)
  qed (simp add: releaseReservation_def)
qed

text \<open>The two operations that can fail after a change, and what they change.\<close>

definition forget_selection :: "Impl \<Rightarrow> Impl" where
  "forget_selection st = st\<lparr>im_selectionIdAlloc := 0, im_selectionGenAlloc := 0\<rparr>"

lemma request_failure:
  assumes c: "consistent st" and f: "\<not> is_ok (fst (requestReservation now req a st))"
  shows "forget_selection (snd (requestReservation now req a st)) = forget_selection st"
proof (cases "authorityAcceptableLocked st a \<and> valid_request req")
  case True
  then have a: "authorityAcceptableLocked st a" and v: "valid_request req" by simp_all
  show ?thesis
  proof (cases "ranking st req")
    case Nil
    then show ?thesis
      using request_nothing_eligible [OF a v Nil] evaluate_parts(2) [of req st] by (auto simp: forget_selection_def)
  next
    case (Cons best rest)
    from request_grants [OF c a v Cons, of now] f show ?thesis by auto
  qed
next
  case False
  then show ?thesis by (auto simp: requestReservation_def valid_request_def)
qed

lemma publish_failure:
  assumes c: "consistent st" and f: "\<not> is_ok (fst (publishRegionEvidence now e a st))"
    and legal: "\<And>rr. umap_find (im_regions st) (eh_region (ev_header e)) = Some rr \<Longrightarrow>
        evidence_target e = rr_lifecycle rr \<or> regionLifecycleAllowed (rr_lifecycle rr) (evidence_target e)"
  shows "snd (publishRegionEvidence now e a st) = st"
proof (cases "umap_find (im_regions st) (eh_region (ev_header e))")
  case None
  then show ?thesis by (simp add: publishRegionEvidence_def Let_def)
next
  case (Some rr)
  let ?i = "eh_region (ev_header e)"
  obtain b led where s: "setOnline (ev_onlineCapacityBytes e) (rr_ledger rr) = (b, led)" by fastforce
  have wf: "umap_wf (im_regions st)" using c by (simp add: consistent_def accounting_def balanced_def)
  have "led = rr_ledger rr" if "\<not> b"
    using that s setOnline_eq [OF consistent_invariant [OF c Some], of "ev_onlineCapacityBytes e"]
    by (auto simp: Let_def split: if_splits)
  then have "with_ledger ?i (\<lambda>_. led) (im_regions st) = im_regions st" if "\<not> b"
    using with_ledger_at [OF Some wf, of "\<lambda>l. l"] that
    by (simp add: with_ledger_def umap_modify_def case_prod_beta)
  with f legal [OF Some] s show ?thesis
    by (auto simp: publishRegionEvidence_def Let_def Some split: option.splits if_splits)
qed

lemma outcome_failure: "unchanged_on_failure x st \<Longrightarrow> fst (outcome x) \<noteq> None \<Longrightarrow> snd x = st"
  by (cases "fst x") (auto simp: outcome_def unchanged_on_failure_def)

fun fails_early :: "op \<Rightarrow> bool" where
  "fails_early (RequestReservation now req a) = False"
| "fails_early (PublishRegionEvidence now e a) = False"
| "fails_early o1 = True"

lemma run_op_failure:
  assumes "consistent st" "fst (run_op o1 st) \<noteq> None" "fails_early o1"
  shows "snd (run_op o1 st) = st"
  using assms
  by (cases o1) (simp_all add: registry_unchanged [THEN outcome_failure] replacePool_unchanged [THEN outcome_failure]
      drain_unchanged [THEN outcome_failure] beginDrain_unchanged [THEN outcome_failure]
      commit_release_unchanged [THEN outcome_failure])

lemma run_op_failure_exact:
  assumes "consistent st" "fst (run_op o1 st) \<noteq> None" "\<forall>now req a. o1 \<noteq> RequestReservation now req a"
    and "\<forall>now e a rr. o1 = PublishRegionEvidence now e a \<longrightarrow> umap_find (im_regions st) (eh_region (ev_header e)) = Some rr \<longrightarrow>
        evidence_target e = rr_lifecycle rr \<or> regionLifecycleAllowed (rr_lifecycle rr) (evidence_target e)"
  shows "snd (run_op o1 st) = st"
proof (cases "\<exists>now e a. o1 = PublishRegionEvidence now e a")
  case True
  then obtain now e a where o1: "o1 = PublishRegionEvidence now e a" by blast
  have "\<not> is_ok (fst (publishRegionEvidence now e a st))"
    using assms(2) by (auto simp: o1 outcome_def split: sum.splits prod.splits)
  moreover have "evidence_target e = rr_lifecycle rr \<or> regionLifecycleAllowed (rr_lifecycle rr) (evidence_target e)"
    if "umap_find (im_regions st) (eh_region (ev_header e)) = Some rr" for rr
    using assms(4) that o1 by blast
  ultimately show ?thesis using publish_failure [OF assms(1)] by (simp add: o1 outcome_snd)
next
  case False
  then have "fails_early o1" using assms(3) by (cases o1) auto
  then show ?thesis by (rule run_op_failure [OF assms(1,2)])
qed

section \<open>Generations and the epoch never go back\<close>

definition advances :: "('k \<Rightarrow> 'g TypedId option) \<Rightarrow> ('k \<Rightarrow> 'g TypedId option) \<Rightarrow> bool" where
  "advances m m' \<longleftrightarrow> (\<forall>k g. m k = Some g \<longrightarrow> (\<exists>g'. m' k = Some g' \<and> g \<le> g'))"

definition region_gen :: "Impl \<Rightarrow> RegionId \<Rightarrow> RegionGeneration option" where
  "region_gen st i = map_option fst (view (im_regions st) i)"

definition domain_gen :: "Impl \<Rightarrow> ExpansionDomainId \<Rightarrow> ExpansionDomainGeneration option" where
  "domain_gen st i = map_option (dd_generation \<circ> dr_descriptor) (umap_find (im_domains st) i)"

definition consumer_gen :: "Impl \<Rightarrow> ConsumerId \<Rightarrow> ConsumerGeneration option" where
  "consumer_gen st i = umap_find (im_consumers st) i"

definition generations_advance :: "Impl \<Rightarrow> Impl \<Rightarrow> bool" where
  "generations_advance st st' \<longleftrightarrow>
     im_epoch st \<le> im_epoch st' \<and> advances (provider_gen st) (provider_gen st') \<and>
     advances (region_gen st) (region_gen st') \<and> advances (domain_gen st) (domain_gen st') \<and>
     advances (pool_gen st) (pool_gen st') \<and> advances (policy_gen st) (policy_gen st') \<and>
     advances (consumer_gen st) (consumer_gen st')"

lemma advances_refl [simp]: "advances m m"
  by (simp add: advances_def)

lemma generations_advance_refl [simp]: "generations_advance st st"
  by (simp add: generations_advance_def)

lemmas all_gen_defs = gen_defs region_gen_def domain_gen_def consumer_gen_def

lemma gen_of_modify [simp]:
  "(\<And>rr. rr_descriptor (f rr) = rr_descriptor rr) \<Longrightarrow>
     map_option fst (view (umap_modify i f regs) j) = map_option fst (view regs j)"
  "(\<And>rr. rr_descriptor (f rr) = rr_descriptor rr) \<Longrightarrow>
     map_option fst (view (umap_map f regs) j) = map_option fst (view regs j)"
  by (simp_all add: view_def option.map_comp comp_def region_view_def)

lemma descriptor_kept [simp]:
  "pr_descriptor (reflect_provider t p) = pr_descriptor p"
  "pr_descriptor (if c then p\<lparr>pr_lifecycle := x\<rparr> else p) = pr_descriptor p"
  "rr_descriptor (record_evidence now e led rr) = rr_descriptor rr"
  "rr_descriptor (orphan_region w boot rr) = rr_descriptor rr"
  "rr_descriptor (epoch_region rr) = rr_descriptor rr"
  by (simp_all add: reflect_provider_def record_evidence_def orphan_region_def epoch_region_def Let_def)

lemma advances_put:
  "(\<And>v. umap_find m k = Some v \<Longrightarrow> g v \<le> g v') \<Longrightarrow>
   advances (\<lambda>i. map_option g (umap_find m i)) (\<lambda>i. map_option g (umap_find (umap_put k v' m) i))"
  by (auto simp: advances_def)

lemma advance_unchanged:
  assumes "im_epoch st' = im_epoch st" "provider_gen st' = provider_gen st" "region_gen st' = region_gen st"
    "domain_gen st' = domain_gen st" "pool_gen st' = pool_gen st" "policy_gen st' = policy_gen st"
    "consumer_gen st' = consumer_gen st"
  shows "generations_advance st st'"
  using assms by (simp add: generations_advance_def)

lemma other_ops_advance:
  "generations_advance st (snd (addPoolMember p m a st))"
  "generations_advance st (snd (removePoolMember p i a st))"
  "generations_advance st (snd (publishRegionEvidence now ev a st))"
  "generations_advance st (snd (publishAttachment att a st))"
  "generations_advance st (snd (completeDrain i a st))"
  "generations_advance st (snd (cancelDrain i a st))"
  "generations_advance st (snd (markUnavailable i a st))"
  "generations_advance st (snd (recoverRegion i a st))"
  "generations_advance st (snd (retireProvider q a st))"
  "generations_advance st (snd (retireRegion i a st))"
  "generations_advance st (snd (registerWorker now w b e pid a st))"
  "generations_advance st (snd (markWorkerDead now w a st))"
  "generations_advance st (noteWorkerHandle w h st)"
  "generations_advance st (snd (select req a st))"
  "generations_advance st (snd (requestReservation now req a st))"
  "generations_advance st (snd (commitReservation k a st))"
  "generations_advance st (snd (releaseReservation k a st))"
  by (rule advance_unchanged;
      simp add: addPoolMember_def append_member_def removePoolMember_def publishRegionEvidence_def publishAttachment_def
        completeDrain_def cancelDrain_def markUnavailable_def recoverRegion_def retireProvider_def retireRegion_def
        registerWorker_def markWorkerDead_def noteWorkerHandle_def select_def requestReservation_def
        commitReservation_def releaseReservation_def evaluateLocked_def
        Let_def case_prod_beta all_gen_defs fun_eq_iff option.map_comp comp_def
        split: option.split list.split)+

lemma beginDrain_advance: "generations_advance st (snd (beginDrain i a st))"
proof -
  obtain regs resvs where s: "umap_sweep (drain_release i) (im_regions st) (im_reservations st) = (regs, resvs)"
    by fastforce
  show ?thesis
    by (rule advance_unchanged;
        simp add: beginDrain_def s view_same [OF drain.sweep_regions [OF s]] Let_def case_prod_beta all_gen_defs
          fun_eq_iff option.map_comp comp_def split: option.split)
qed

lemma setEpoch_advance: "generations_advance st (setEpoch e st)"
proof -
  obtain regs resvs where s: "umap_sweep epoch_fence (umap_map epoch_region (im_regions st)) (im_reservations st) = (regs, resvs)"
    by fastforce
  have "region_gen (setEpoch e st) = region_gen st"
    using view_same [OF epoch.sweep_regions [OF s]]
    by (simp add: setEpoch_def s region_gen_def fun_eq_iff Let_def)
  moreover have "provider_gen (setEpoch e st) = provider_gen st" "domain_gen (setEpoch e st) = domain_gen st"
    "pool_gen (setEpoch e st) = pool_gen st" "policy_gen (setEpoch e st) = policy_gen st"
    "consumer_gen (setEpoch e st) = consumer_gen st"
    by (simp_all add: setEpoch_def s Let_def all_gen_defs fun_eq_iff)
  moreover have "im_epoch st \<le> im_epoch (setEpoch e st)"
    by (auto simp: setEpoch_def s Let_def less_eq_TypedId_def)
  ultimately show ?thesis by (simp add: generations_advance_def)
qed

text \<open>Storing a record whose generation is not below the stored one, in a state with the generations of \<open>st\<close>.\<close>

definition same_gens :: "Impl \<Rightarrow> Impl \<Rightarrow> bool" where
  "same_gens st s \<longleftrightarrow>
     im_epoch s = im_epoch st \<and> im_providers s = im_providers st \<and> region_gen s = region_gen st \<and>
     im_domains s = im_domains st \<and> im_pools s = im_pools st \<and> im_policies s = im_policies st \<and>
     im_consumers s = im_consumers st"

lemma advance_put:
  assumes "same_gens st s"
  shows "(\<And>v. umap_find (im_policies st) (po_id po) = Some v \<Longrightarrow> po_generation v \<le> po_generation po) \<Longrightarrow>
      generations_advance st (s\<lparr>im_policies := umap_put (po_id po) po (im_policies st)\<rparr>)"
    and "(\<And>v. umap_find (im_pools st) k = Some v \<Longrightarrow>
        pl_generation (plr_descriptor v) \<le> pl_generation (plr_descriptor pl)) \<Longrightarrow>
      generations_advance st (s\<lparr>im_pools := umap_put k pl (im_pools st)\<rparr>)"
    and "(\<And>v. umap_find (im_providers st) q = Some v \<Longrightarrow>
        pd_generation (pr_descriptor v) \<le> pd_generation (pr_descriptor pr)) \<Longrightarrow>
      generations_advance st (s\<lparr>im_providers := umap_put q pr (im_providers st)\<rparr>)"
    and "(\<And>g. region_gen st i = Some g \<Longrightarrow> g \<le> rd_generation (rr_descriptor rr)) \<Longrightarrow>
      generations_advance st (s\<lparr>im_regions := umap_put i rr (im_regions s)\<rparr>)"
proof -
  have r: "map_option fst (view (im_regions s) j) = region_gen st j" for j
    using assms by (metis same_gens_def region_gen_def)
  show "(\<And>v. umap_find (im_policies st) (po_id po) = Some v \<Longrightarrow> po_generation v \<le> po_generation po) \<Longrightarrow>
      generations_advance st (s\<lparr>im_policies := umap_put (po_id po) po (im_policies st)\<rparr>)"
    "(\<And>v. umap_find (im_pools st) k = Some v \<Longrightarrow>
        pl_generation (plr_descriptor v) \<le> pl_generation (plr_descriptor pl)) \<Longrightarrow>
      generations_advance st (s\<lparr>im_pools := umap_put k pl (im_pools st)\<rparr>)"
    "(\<And>v. umap_find (im_providers st) q = Some v \<Longrightarrow>
        pd_generation (pr_descriptor v) \<le> pd_generation (pr_descriptor pr)) \<Longrightarrow>
      generations_advance st (s\<lparr>im_providers := umap_put q pr (im_providers st)\<rparr>)"
    using assms by (auto simp: generations_advance_def same_gens_def all_gen_defs advances_def r [unfolded region_gen_def])
  let ?s' = "s\<lparr>im_regions := umap_put i rr (im_regions s)\<rparr>"
  have rg: "region_gen ?s' = (\<lambda>j. if j = i then Some (rd_generation (rr_descriptor rr)) else region_gen st j)"
    using r by (auto simp: fun_eq_iff region_gen_def region_view_def)
  assume "\<And>g. region_gen st i = Some g \<Longrightarrow> g \<le> rd_generation (rr_descriptor rr)"
  then have "advances (region_gen st) (region_gen ?s')" by (auto simp: rg advances_def)
  with assms show "generations_advance st ?s'"
    by (simp add: generations_advance_def same_gens_def gen_defs [abs_def] domain_gen_def [abs_def] consumer_gen_def [abs_def])
qed

lemma same_gens_simps [simp]:
  "same_gens st st"
  "same_gens st (fence_where (\<lambda>r. rs_region r = i) why st)"
  "same_gens st (fence_where (\<lambda>r. rs_pool r = p) why st)"
  "same_gens st (fence_where (\<lambda>r. rs_policy r = q) why st)"
  "same_gens st (reincarnate_provider v st)"
  by (simp_all add: same_gens_def region_gen_def [abs_def] reincarnate_provider_def Let_def)

lemma reincarnate_providers [simp]: "im_providers (reincarnate_provider p st) = im_providers st"
  by (simp add: reincarnate_provider_def Let_def)

lemma registry_advance:
  "generations_advance st (snd (registerConsumer c g a st))"
  "generations_advance st (snd (registerDomain dd a st))"
  "generations_advance st (snd (registerProvider now pd a st))"
  "generations_advance st (snd (registerRegion rd a st))"
  "generations_advance st (snd (registerPool now pl a st))"
  "generations_advance st (snd (registerPolicy po a st))"
proof -
  show "generations_advance st (snd (registerConsumer c g a st))"
    by (auto simp: generations_advance_def registerConsumer_def all_gen_defs advances_def less_eq_TypedId_def
        not_le split: option.splits)
  show "generations_advance st (snd (registerDomain dd a st))"
    by (auto simp: generations_advance_def registerDomain_def all_gen_defs advances_def less_eq_TypedId_def
        not_less Let_def split: option.splits)
  show "generations_advance st (snd (registerPolicy po a st))"
    by (auto simp: registerPolicy_def less_eq_TypedId_def not_less Let_def split: option.splits intro!: advance_put)
  show "generations_advance st (snd (registerPool now pl a st))"
    by (auto simp: registerPool_def less_eq_TypedId_def not_less Let_def split: option.splits intro!: advance_put)
  show "generations_advance st (snd (registerProvider now pd a st))"
    by (auto simp: registerProvider_def less_eq_TypedId_def not_less Let_def split: option.splits intro!: advance_put)
  show "generations_advance st (snd (registerRegion rd a st))"
    by (auto simp: registerRegion_def less_eq_TypedId_def not_less Let_def new_region_def region_gen_def
        view_def region_view_def split: option.splits intro!: advance_put)
qed

lemma run_op_advances: "generations_advance st (snd (run_op o1 st))"
proof (cases o1)
  case (ReplacePoolGeneration now d a)
  with registry_advance(5) [of st now d a] show ?thesis
    by (simp add: replacePoolGeneration_def case_prod_beta split: sum.split)
qed (simp_all add: registry_advance other_ops_advance beginDrain_advance setEpoch_advance)

end
