(* ===== verification/Scenario.thy ===== *)
theory Scenario
  imports Behaviour
begin

text \<open>
  A concrete run: an operator registers a provider and a region of 4096 bytes, a worker registers and
  publishes evidence that 2048 of them are online, and asks for 512. The states on the way are
  reachable, so the general theorems apply to them.
\<close>

definition sc_epoch :: CoordinatorEpoch where
  "sc_epoch = TypedId 1"

definition sc_operator :: Authority where
  "sc_operator = operator_authority sc_epoch"

definition sc_worker :: Authority where
  "sc_worker = worker_authority sc_epoch (TypedId 7) (TypedId 9)"

definition sc_provider :: ProviderDescriptor where
  "sc_provider =
     \<lparr>pd_id = TypedId 1, pd_generation = TypedId 1, pd_kind = SYSTEM_MEMORY,
      pd_origin = OriginClass.SYNTHETIC, pd_name = ''dram'', pd_failureDomain = TypedId 1,
      pd_addressability = Addressability.BYTE_ADDRESSABLE, pd_persistence = Persistence.VOLATILE,
      pd_totalCapacityBytes = 4096, pd_alignmentBytes = 64, pd_granularityBytes = 64,
      pd_capabilities = [], pd_requiresHostCopy = False\<rparr>"

definition sc_region :: RegionDescriptor where
  "sc_region =
     \<lparr>rd_id = TypedId 5, rd_generation = TypedId 1, rd_provider = TypedId 1, rd_domain = null_id,
      rd_name = ''r'', rd_totalCapacityBytes = 4096, rd_alignmentBytes = 64, rd_granularityBytes = 64,
      rd_origin = OriginClass.SYNTHETIC, rd_persistence = Persistence.VOLATILE, rd_staticCapabilities = []\<rparr>"

definition sc_evidence :: RegionEvidence where
  "sc_evidence = default_RegionEvidence\<lparr>
     ev_header := default_EvidenceHeader\<lparr>
       eh_id := TypedId 1, eh_generation := TypedId 3, eh_sourceProvider := TypedId 1,
       eh_sourceProviderGeneration := TypedId 1, eh_region := TypedId 5, eh_regionGeneration := TypedId 1,
       eh_worker := TypedId 7, eh_boot := TypedId 9, eh_epoch := sc_epoch\<rparr>,
     ev_health := HealthState.HEALTHY, ev_reachable := True, ev_onlineCapacityBytes := 2048,
     ev_latencyNs := 100, ev_bandwidthBytesPerSec := 1000, ev_locality := Locality.LOCAL\<rparr>"

definition sc_request :: ConsumerRequirements where
  "sc_request = default_ConsumerRequirements\<lparr>
     rq_consumer := TypedId 2, rq_consumerGeneration := TypedId 1, rq_requiredBytes := 512,
     rq_acceleratorAccessible := False\<rparr>"

text \<open>Evidence that would take the online capacity below the reserved bytes; degraded evidence of the next epoch.\<close>

definition sc_shrunk :: RegionEvidence where
  "sc_shrunk = sc_evidence\<lparr>ev_onlineCapacityBytes := 256\<rparr>"

definition sc_degraded :: RegionEvidence where
  "sc_degraded = sc_evidence\<lparr>ev_header := (ev_header sc_evidence)\<lparr>eh_epoch := TypedId 2\<rparr>, ev_health := HealthState.DEGRADED\<rparr>"

definition sc_setup :: "op list" where
  "sc_setup =
     [RegisterProvider 10 sc_provider sc_operator, RegisterRegion sc_region sc_operator,
      RegisterWorker 11 (TypedId 7) (TypedId 9) sc_epoch 42 sc_operator,
      PublishRegionEvidence 12 sc_evidence sc_worker]"

definition sc_ready :: Impl where
  "sc_ready = run_ops sc_setup (new_fabric sc_epoch)"

definition sc_held :: Impl where
  "sc_held = snd (run_op (RequestReservation 13 sc_request sc_worker) sc_ready)"

lemma run_ops_reach: "fabric_reach n st \<Longrightarrow> fabric_reach (n + length os) (run_ops os st)"
proof (induction os arbitrary: n st)
  case (Cons o1 os)
  from Cons.IH [OF fabric_reach.step [OF Cons.prems]] show ?case by simp
qed simp

lemma run_ops_append: "run_ops (xs @ ys) st = run_ops ys (run_ops xs st)"
  by (induction xs arbitrary: st) simp_all

lemma sc_ready_reach: "fabric_reach 4 sc_ready"
proof -
  have "length sc_setup = 4" by (simp add: sc_setup_def)
  with run_ops_reach [OF fabric_reach.start [of sc_epoch], of sc_setup] show ?thesis
    by (simp add: sc_ready_def)
qed

lemma sc_held_reach: "fabric_reach 5 sc_held"
  using fabric_reach.step [OF sc_ready_reach, of "RequestReservation 13 sc_request sc_worker"]
  by (simp add: sc_held_def del: run_op.simps)

lemmas sc_consistent = reach_consistent [OF sc_ready_reach, THEN conjunct1, simplified]
  reach_consistent [OF sc_held_reach, THEN conjunct1, simplified]

definition sc_region_record :: RegionRecord where
  "sc_region_record =
     \<lparr>rr_descriptor = sc_region, rr_lifecycle = RegionLifecycle.ONLINE,
      rr_ledger = \<lparr>total = 4096, governedOnline = 2048, free = 2048, reserved = 0, committed = 0,
                   draining = 0, unavailable = 0\<rparr>,
      rr_latest = sc_evidence, rr_hasEvidence = True, rr_evidenceStatus = EvidenceStatus.CURRENT,
      rr_health = HealthState.HEALTHY, rr_reachable = True, rr_latencyNs = 100,
      rr_bandwidthBytesPerSec = 1000, rr_attachments = [], rr_poolMemberships = [], rr_evidenceAtMs = 12\<rparr>"

lemmas sc_defs = sc_epoch_def sc_operator_def sc_worker_def sc_provider_def sc_region_def sc_evidence_def
  sc_request_def operator_authority_def worker_authority_def

text \<open>The same with a second region of the same content, listed first.\<close>

definition sc_two :: Impl where
  "sc_two = sc_ready\<lparr>im_regions := [(TypedId 6, sc_region_record), (TypedId 5, sc_region_record)]\<rparr>"

lemma sc_ready_eq:
  "sc_ready = (new_fabric sc_epoch)\<lparr>
     im_providers := [(TypedId 1, \<lparr>pr_descriptor = sc_provider, pr_lifecycle = Lifecycle.ONLINE, pr_registeredAtMs = 10\<rparr>)],
     im_regions := [(TypedId 5, sc_region_record)],
     im_workers := [(TypedId 7, \<lparr>wr_boot = TypedId 9, wr_registeredEpoch = sc_epoch, wr_pid = 42,
                      wr_alive = True, wr_holdsHandle = False, wr_lastSeenMs = 11\<rparr>)]\<rparr>"
  unfolding sc_ready_def sc_setup_def
  by (simp add: sc_defs registerProvider_def registerRegion_def registerWorker_def publishRegionEvidence_def
      new_fabric_def authorityAcceptableLocked_def capabilityContradiction_def umap_put_def umap_find_def
      umap_modify_def Let_def new_region_def new_ledger_def setOnline_def invariant_def
      record_evidence_def evidence_target_def regionLifecycleAllowed_def reflect_provider_def
      providerLifecycleAllowed_def default_RegionEvidence_def default_EvidenceHeader_def sc_region_record_def
      null_id_def)

lemma sc_eligible:
  "evaluateRegionEligibility sc_ready sc_request sc_region_record = ELIGIBLE"
  "evaluateRegionEligibility sc_ready (sc_request\<lparr>rq_reserveHeadroomFactor := h\<rparr>) sc_region_record = ELIGIBLE"
  by (simp_all add: sc_ready_eq new_fabric_def sc_region_record_def sc_defs evaluateRegionEligibility_def
      umap_find_def effective_allowDegraded_def default_ConsumerRequirements_def default_RegionEvidence_def
      null_id_def Let_def)

lemma sc_ranking: "\<exists>best. ranking sc_ready sc_request = [best] \<and> rc_region best = TypedId 5"
proof -
  have "im_regions sc_ready = [(TypedId 5, sc_region_record)]" by (simp add: sc_ready_eq)
  moreover have "pool_admits sc_request sc_region_record"
    by (simp add: pool_admits_def sc_request_def default_ConsumerRequirements_def)
  ultimately have "mset (map rc_region (ranking sc_ready sc_request)) = {#TypedId 5#}"
    unfolding ranking_regions by (simp add: admitted_def sc_eligible)
  then have "map rc_region (ranking sc_ready sc_request) = [TypedId 5]" by (simp only: mset_single_iff)
  then show ?thesis by (cases "ranking sc_ready sc_request") auto
qed

definition sc_reservation :: Reservation where
  "sc_reservation = make_reservation 13 sc_request sc_worker sc_ready (fst (evaluateLocked sc_request sc_ready))
     (TypedId 5) sc_region_record (TypedId 1) (TypedId 1)"

definition sc_reserved_ledger :: CapacityLedger where
  "sc_reserved_ledger =
     \<lparr>total = 4096, governedOnline = 2048, free = 1536, reserved = 512, committed = 0, draining = 0,
      unavailable = 0\<rparr>"

lemma sc_held_eq:
  "sc_held = sc_ready\<lparr>im_regions := [(TypedId 5, sc_region_record\<lparr>rr_ledger := sc_reserved_ledger\<rparr>)],
     im_selectionIdAlloc := 2, im_selectionGenAlloc := 2, im_reservationIdAlloc := 2,
     im_reservationGenAlloc := 2, im_reservations := [(TypedId 1, sc_reservation)]\<rparr>"
proof -
  obtain best where best: "ranking sc_ready sc_request = [best]" "rc_region best = TypedId 5"
    using sc_ranking by blast
  have regs: "im_regions sc_ready = [(TypedId 5, sc_region_record)]" by (simp add: sc_ready_eq)
  have led: "reserve 512 (rr_ledger sc_region_record) = (True, sc_reserved_ledger)"
    by (simp add: reserve_def sc_region_record_def sc_reserved_ledger_def invariant_def Let_def)
  have acc: "authorityAcceptableLocked sc_ready sc_worker"
    by (simp add: authorityAcceptableLocked_def sc_ready_eq new_fabric_def sc_defs umap_find_def)
  have req: "rq_requiredBytes sc_request = 512" "\<not> null (rq_consumer sc_request)" "\<not> null (rq_consumerGeneration sc_request)"
    by (simp_all add: sc_request_def)
  obtain sel st1 where e: "evaluateLocked sc_request sc_ready = (sel, st1)" by fastforce
  have st1: "st1 = sc_ready\<lparr>im_selectionIdAlloc := 2, im_selectionGenAlloc := 2\<rparr>" and sel: "sel_ranked sel = [best]"
    using e best by (auto simp: evaluateLocked_def Let_def next_id_def nextValue_eval sc_ready_eq new_fabric_def FirstValidValue_def)
  have frame: "make_reservation 13 sc_request sc_worker (sc_ready\<lparr>im_selectionIdAlloc := a, im_selectionGenAlloc := b, im_regions := c\<rparr>)
      = make_reservation 13 sc_request sc_worker sc_ready" for a b c
    by (simp add: fun_eq_iff make_reservation_def)
  have allocs: "im_reservationIdAlloc sc_ready = 1" "im_reservationGenAlloc sc_ready = 1" "im_reservations sc_ready = []"
    by (simp_all add: sc_ready_eq new_fabric_def FirstValidValue_def)
  show ?thesis
    unfolding sc_held_def sc_reservation_def
    by (simp add: requestReservation_def acc req e sel st1 best(2) regs led allocs frame umap_find_def with_ledger_def
        umap_modify_def umap_put_def next_id_def nextValue_eval Let_def)
qed

lemma sc_reservation_fields:
  "rs_state sc_reservation = ReservationState.RESERVED" "rs_region sc_reservation = TypedId 5"
  "rs_worker sc_reservation = TypedId 7" "rs_boot sc_reservation = TypedId 9" "rs_bytes sc_reservation = 512"
  "rs_consumer sc_reservation = TypedId 2" "rs_evidenceGeneration sc_reservation = TypedId 3"
  "holds sc_reservation = Some Reserved"
  by (simp_all add: sc_reservation_def make_reservation_def sc_defs sc_region_record_def holds_def)

lemma sc_held_lookups:
  "umap_find (im_reservations sc_held) (TypedId 1) = Some sc_reservation"
  "umap_find (im_regions sc_held) (TypedId 5) = Some (sc_region_record\<lparr>rr_ledger := sc_reserved_ledger\<rparr>)"
  "authorityAcceptableLocked sc_held sc_worker" "commit_worker_refusal sc_held sc_worker sc_reservation = None"
  "\<not> consumer_moved sc_held sc_reservation"
  by (simp_all add: authorityAcceptableLocked_def commit_worker_refusal_def consumer_moved_def sc_reservation_fields
      sc_held_eq sc_ready_eq new_fabric_def sc_defs umap_find_def)

lemma sc_commit_allowed: "commit_refusal sc_held sc_worker sc_reservation = None"
  using commit_refusal_live [OF sc_consistent(2) sc_held_lookups(1) sc_reservation_fields(1)]
    sc_held_lookups sc_reservation_fields
  by (simp add: evidence_moved_def) (simp add: sc_region_record_def sc_evidence_def)

end
