(* ===== verification/Recovery.thy ===== *)
theory Recovery
  imports Scenario
begin

text \<open>
  Consequences of the persistence model for the running fabric: what a successful save leaves in the
  file, what a recovered state can grant, and that the concrete run of \<open>Scenario\<close> fits into a file.
\<close>

section \<open>Saving\<close>

lemma save_cases:
  assumes "save io path st fs = (res, fs')"
  obtains (refused) "\<not> is_ok res" "fs' = fs"
  | (written) okay where "atomicWrite io path (file_of_payload (put_state st)) fs = (okay, fs')" "is_ok res = okay"
proof (cases "length (put_state st) > kMaxFile")
  case True
  then show ?thesis using assms refused by (auto simp: save_def serializePayload_def)
next
  case False
  obtain okay fs1 where a: "atomicWrite io path (file_of_payload (put_state st)) fs = (okay, fs1)" by fastforce
  then have "fs1 = fs'" "is_ok res = okay"
    using assms False by (auto simp: save_def serializePayload_def split: if_splits)
  then show ?thesis using a written by simp
qed

lemma save_ok_content:
  assumes "save io path st fs = (ok (), fs')"
  shows "fs' path = Some (file_of_payload (put_state st))"
  using assms by (rule save_cases) (auto dest: atomicWrite_cases)

section \<open>Recovered states\<close>

lemma recover_tables_epoch [simp]:
  "(recover_tables e st)\<lparr>im_epoch := e'\<rparr> = recover_tables e' st" "im_epoch (recover_tables e st) = e"
  by (simp_all add: recover_tables_def new_fabric_def)

lemma recovered_memberships:
  "map_option rr_poolMemberships (umap_find (im_regions (rebuild_memberships (recover_tables e st))) i) =
     map_option (\<lambda>_. concat (map (pool_entries i) (im_pools st))) (umap_find (im_regions st) i)"
proof -
  have "umap_find (map recover_region regs) i = map_option (\<lambda>rr. snd (recover_region (i, rr))) (umap_find regs i)" for regs
    by (induction regs) (auto simp: umap_find_def recover_region_def)
  moreover have "pool_entries i (recover_pool x) = pool_entries i x" for x
    by (simp add: pool_entries_def recover_pool_def case_prod_beta)
  ultimately show ?thesis
    by (simp add: rebuild_find recover_tables_def option.map_comp comp_def add_entries_def recover_region_def new_region_def)
qed

lemma next_epoch_greater:
  assumes "e \<noteq> TypedId UINT64_MAX"
  shows "e < TypedId (id_value e + 1)"
proof -
  have "id_value e \<noteq> UINT64_MAX" using assms by (cases e) simp
  then have "unat (id_value e) \<noteq> unat UINT64_MAX" by (metis word_unat_eq_iff)
  then have "unat (id_value e) + 1 < 2 ^ 64" using unat_u64_less [of "id_value e"] by simp
  then have "unat (id_value e + 1) = unat (id_value e) + 1" using unat_add_u64 [of "id_value e" 1] by simp
  then show ?thesis by (simp add: less_TypedId_def word_less_nat_alt)
qed

lemma recovered_ranking:
  assumes "recovered st"
  shows "ranking st req = []"
proof -
  have "evaluateRegionEligibility st req rr \<noteq> ELIGIBLE" if "(i, rr) \<in> set (admitted st req)" for i rr
  proof -
    have "rr_lifecycle rr = RegionLifecycle.REVALIDATION_REQUIRED"
      using that assms by (auto simp: admitted_def recovered_def values_are_def list_all_iff recovered_region_def)
    then show ?thesis by (simp add: evaluateRegionEligibility_def Let_def split: option.split)
  qed
  then have "filter (\<lambda>(rid, rr). evaluateRegionEligibility st req rr = ELIGIBLE) (admitted st req) = []"
    by (auto simp: filter_empty_conv)
  then show ?thesis using ranking_regions [of st req] by simp
qed

section \<open>Sizes\<close>

lemma writer_lengths [simp]:
  "length (w_u8 b) = 1" "length (w_u32 w) = 4" "length (w_u64 v) = 8" "length (w_str s) = 4 + length s"
  "length (w_bool t) = 1"
  by (simp_all add: w_u8_def w_u32_def w_u64_def w_str_def w_bool_def)

lemma sc_persistable: "persistable sc_held"
  by (simp add: persistable_def sc_held_eq sc_ready_eq new_fabric_def sc_epoch_def table_fits_def provider_fits_def
      region_fits_def sc_provider_def sc_region_record_def sc_region_def caps_fit_def put_state_def put_table_def
      put_provider_def put_region_def writeCaps_def kMaxString_def kMaxCount_def kMaxFile_def
      ProviderKind_ok_def OriginClass_ok_def Addressability_ok_def Persistence_ok_def)

text \<open>The same fabric with 8193 providers.\<close>

definition sc_crowded :: Impl where
  "sc_crowded = (new_fabric sc_epoch)\<lparr>im_providers := map (\<lambda>i. (TypedId (of_nat i),
     \<lparr>pr_descriptor = sc_provider, pr_lifecycle = Lifecycle.REGISTERED, pr_registeredAtMs = 0\<rparr>)) [0..<8193]\<rparr>"

lemma sc_crowded_size: "length (put_state sc_crowded) \<le> kMaxFile"
proof -
  have "length (concat (map (\<lambda>i. put_provider (TypedId (of_nat i), \<lparr>pr_descriptor = sc_provider,
      pr_lifecycle = Lifecycle.REGISTERED, pr_registeredAtMs = 0\<rparr>)) xs)) = length xs * 65" for xs
    by (induction xs) (simp_all add: put_provider_def sc_provider_def writeCaps_def)
  then show ?thesis
    by (simp add: put_state_def put_table_def sc_crowded_def new_fabric_def kMaxFile_def comp_def del: upt_rec_numeral)
qed

end
