(* ===== verification/Keys.thy ===== *)
theory Keys
  imports Progress Recovery
begin

text \<open>
  The tables of the fabric are keyed by the identity of what they hold: a record is found under the
  identifier in its own descriptor, a reservation under its own identifier, and the evidence kept for a
  region is evidence about that region. The type of a hash table does not say so; every call keeps it,
  and so does loading a file, whatever the file holds. It is what makes saving and loading give back the
  very descriptors that were registered.
\<close>

section \<open>Entries of a table\<close>

definition each :: "('k \<Rightarrow> 'v \<Rightarrow> bool) \<Rightarrow> ('k, 'v) umap \<Rightarrow> bool" where
  "each P m \<longleftrightarrow> list_all (\<lambda>(k, v). P k v) m"

lemma each_nil [simp]: "each P []"
  by (simp add: each_def)

lemma each_put: "each P m \<Longrightarrow> P k v \<Longrightarrow> each P (umap_put k v m)"
  by (induction m) (auto simp: each_def umap_put_def)

lemma each_modify: "each P m \<Longrightarrow> (\<And>v. P k v \<Longrightarrow> P k (g v)) \<Longrightarrow> each P (umap_modify k g m)"
  by (induction m) (auto simp: each_def umap_modify_def)

lemma each_map: "each P m \<Longrightarrow> (\<And>k v. P k v \<Longrightarrow> P k (g v)) \<Longrightarrow> each P (umap_map g m)"
  by (induction m) (auto simp: each_def umap_map_def)

lemma each_find: "each P m \<Longrightarrow> umap_find m k = Some v \<Longrightarrow> P k v"
  by (induction m) (auto simp: each_def umap_find_def split: if_splits)

lemma each_insert_all: "list_all (\<lambda>(k, v). P k v) kvs \<Longrightarrow> each P m \<Longrightarrow> each P (insert_all kvs m)"
  by (induction kvs arbitrary: m) (auto simp: insert_all_def intro: each_put)

lemma each_sweep:
  assumes "\<And>regs r. each P regs \<Longrightarrow> each P (fst (body regs r))" "\<And>regs k r. Q k r \<Longrightarrow> Q k (snd (body regs r))"
  shows "each P regs \<Longrightarrow> each Q m \<Longrightarrow> each P (fst (umap_sweep body regs m)) \<and> each Q (snd (umap_sweep body regs m))"
proof (induction m arbitrary: regs)
  case (Cons x m)
  then show ?case using assms(1) [of regs "snd x"] assms(2) [of "fst x" "snd x" regs]
    by (cases x) (simp add: each_def Let_def case_prod_beta)
qed simp

section \<open>Keyed tables\<close>

definition region_keyed :: "RegionId \<Rightarrow> RegionRecord \<Rightarrow> bool" where
  "region_keyed i rr \<longleftrightarrow> rd_id (rr_descriptor rr) = i \<and> (rr_hasEvidence rr \<longrightarrow> eh_region (ev_header (rr_latest rr)) = i)"

definition well_keyed :: "Impl \<Rightarrow> bool" where
  "well_keyed st \<longleftrightarrow>
     each (\<lambda>i p. pd_id (pr_descriptor p) = i) (im_providers st) \<and>
     each (\<lambda>i d. dd_id (dr_descriptor d) = i) (im_domains st) \<and>
     each region_keyed (im_regions st) \<and>
     each (\<lambda>i p. pl_id (plr_descriptor p) = i) (im_pools st) \<and>
     each (\<lambda>i p. po_id p = i) (im_policies st) \<and>
     each (\<lambda>i r. rs_id r = i) (im_reservations st)"

lemma region_keyed_simps [simp]:
  "region_keyed i (rr\<lparr>rr_ledger := l\<rparr>) = region_keyed i rr"
  "region_keyed i (rr\<lparr>rr_lifecycle := lc\<rparr>) = region_keyed i rr"
  "region_keyed i (rr\<lparr>rr_evidenceStatus := s\<rparr>) = region_keyed i rr"
  "region_keyed i (rr\<lparr>rr_reachable := b\<rparr>) = region_keyed i rr"
  "region_keyed i (rr\<lparr>rr_health := hs\<rparr>) = region_keyed i rr"
  "region_keyed i (rr\<lparr>rr_attachments := as\<rparr>) = region_keyed i rr"
  "region_keyed i (rr\<lparr>rr_poolMemberships := ms\<rparr>) = region_keyed i rr"
  by (simp_all add: region_keyed_def)

lemma with_ledger_keyed: "each region_keyed regs \<Longrightarrow> each region_keyed (with_ledger i f regs)"
  by (auto simp: with_ledger_def intro: each_modify)

lemma fence_keyed:
  "each region_keyed regs \<Longrightarrow> each region_keyed (fst (fence_if P reason regs r))"
  "each region_keyed regs \<Longrightarrow> each region_keyed (fst (epoch_fence regs r))"
  "each region_keyed regs \<Longrightarrow> each region_keyed (fst (drain_release i regs r))"
  by (simp_all add: fence_if_def fence_def epoch_fence_def drain_release_def Let_def case_prod_beta with_ledger_keyed
      split: option.split)

lemma fence_id:
  "rs_id (snd (fence_if P reason regs r)) = rs_id r" "rs_id (snd (epoch_fence regs r)) = rs_id r"
  "rs_id (snd (drain_release i regs r)) = rs_id r"
  by (simp_all add: fence_if_def fence_def epoch_fence_def drain_release_def Let_def case_prod_beta split: option.split)

lemma sweeps_keyed:
  assumes "each region_keyed regs" "each (\<lambda>i r. rs_id r = i) m"
  shows "each region_keyed (fst (umap_sweep (fence_if F why) regs m)) \<and>
      each (\<lambda>i r. rs_id r = i) (snd (umap_sweep (fence_if F why) regs m))"
    "each region_keyed (fst (umap_sweep epoch_fence regs m)) \<and> each (\<lambda>i r. rs_id r = i) (snd (umap_sweep epoch_fence regs m))"
    "each region_keyed (fst (umap_sweep (drain_release k) regs m)) \<and>
      each (\<lambda>i r. rs_id r = i) (snd (umap_sweep (drain_release k) regs m))"
  using assms by (intro each_sweep; simp add: fence_keyed fence_id)+

lemma fence_where_keyed: "well_keyed st \<Longrightarrow> well_keyed (fence_where F why st)"
  using sweeps_keyed(1) [of "im_regions st" "im_reservations st" F why]
  by (simp add: well_keyed_def fence_where_def case_prod_beta)

lemma keyed_fields [simp]:
  "well_keyed (st\<lparr>im_epoch := e\<rparr>) = well_keyed st" "well_keyed (st\<lparr>im_workers := ws\<rparr>) = well_keyed st"
  "well_keyed (st\<lparr>im_consumers := cs\<rparr>) = well_keyed st" "well_keyed (st\<lparr>im_selectionIdAlloc := n\<rparr>) = well_keyed st"
  "well_keyed (st\<lparr>im_selectionGenAlloc := n\<rparr>) = well_keyed st" "well_keyed (st\<lparr>im_reservationIdAlloc := n\<rparr>) = well_keyed st"
  "well_keyed (st\<lparr>im_reservationGenAlloc := n\<rparr>) = well_keyed st"
  by (simp_all add: well_keyed_def)

lemma keyed_tables:
  "well_keyed st \<Longrightarrow> each (\<lambda>i p. pd_id (pr_descriptor p) = i) ps \<Longrightarrow> well_keyed (st\<lparr>im_providers := ps\<rparr>)"
  "well_keyed st \<Longrightarrow> each (\<lambda>i d. dd_id (dr_descriptor d) = i) ds \<Longrightarrow> well_keyed (st\<lparr>im_domains := ds\<rparr>)"
  "well_keyed st \<Longrightarrow> each region_keyed rs \<Longrightarrow> well_keyed (st\<lparr>im_regions := rs\<rparr>)"
  "well_keyed st \<Longrightarrow> each (\<lambda>i p. pl_id (plr_descriptor p) = i) pls \<Longrightarrow> well_keyed (st\<lparr>im_pools := pls\<rparr>)"
  "well_keyed st \<Longrightarrow> each (\<lambda>i p. po_id p = i) pos \<Longrightarrow> well_keyed (st\<lparr>im_policies := pos\<rparr>)"
  "well_keyed st \<Longrightarrow> each (\<lambda>i r. rs_id r = i) rvs \<Longrightarrow> well_keyed (st\<lparr>im_reservations := rvs\<rparr>)"
  by (simp_all add: well_keyed_def)

lemma keyed_parts:
  "well_keyed st \<Longrightarrow> each (\<lambda>i p. pd_id (pr_descriptor p) = i) (im_providers st)"
  "well_keyed st \<Longrightarrow> each (\<lambda>i d. dd_id (dr_descriptor d) = i) (im_domains st)"
  "well_keyed st \<Longrightarrow> each region_keyed (im_regions st)"
  "well_keyed st \<Longrightarrow> each (\<lambda>i p. pl_id (plr_descriptor p) = i) (im_pools st)"
  "well_keyed st \<Longrightarrow> each (\<lambda>i p. po_id p = i) (im_policies st)"
  "well_keyed st \<Longrightarrow> each (\<lambda>i r. rs_id r = i) (im_reservations st)"
  by (simp_all add: well_keyed_def)

lemma region_updates [simp]:
  "region_keyed i (epoch_region rr) = region_keyed i rr"
  "region_keyed i (orphan_region w b rr) = region_keyed i rr"
  "region_keyed (eh_region (ev_header e)) rr \<Longrightarrow> region_keyed (eh_region (ev_header e)) (record_evidence now e led rr)"
  "region_keyed (rd_id d) (new_region d lc led)"
  "region_keyed i rr \<Longrightarrow> region_keyed i (revalidate_provider_region p rr)"
  by (auto simp: region_keyed_def revalidate_provider_region_def epoch_region_def orphan_region_def record_evidence_def
      new_region_def Let_def)

lemmas keyed_intros = keyed_tables each_put each_modify each_map with_ledger_keyed fence_where_keyed keyed_parts
  sweeps_keyed [THEN conjunct1] sweeps_keyed [THEN conjunct2]

section \<open>Every call keeps the tables keyed\<close>

lemma append_member_keyed: "well_keyed st \<Longrightarrow> well_keyed (append_member p m st)"
  by (auto simp: append_member_def intro!: keyed_intros)

lemma registry_keyed:
  assumes "well_keyed st"
  shows "well_keyed (snd (registerConsumer c g a st))" "well_keyed (snd (registerDomain dd a st))"
    "well_keyed (snd (registerProvider now pd a st))" "well_keyed (snd (registerRegion rd a st))"
    "well_keyed (snd (registerPool now pl a st))" "well_keyed (snd (registerPolicy po a st))"
    "well_keyed (snd (addPoolMember p m a st))" "well_keyed (snd (removePoolMember p i a st))"
  using assms
  by (auto simp: registry_defs Let_def append_member_keyed [unfolded append_member_def] split: option.split list.split
      intro!: keyed_intros)

lemma replacePool_keyed: "well_keyed st \<Longrightarrow> well_keyed (snd (replacePoolGeneration now pl a st))"
  using registry_keyed(5) [of st now pl a] by (simp add: replacePoolGeneration_def case_prod_beta split: sum.split)

lemma lifecycle_keyed:
  assumes "well_keyed st"
  shows "well_keyed (snd (publishRegionEvidence now ev a st))" "well_keyed (snd (publishAttachment att a st))"
    "well_keyed (snd (completeDrain i a st))" "well_keyed (snd (cancelDrain i a st))"
    "well_keyed (snd (markUnavailable i a st))" "well_keyed (snd (recoverRegion i a st))"
    "well_keyed (snd (retireProvider q a st))" "well_keyed (snd (retireRegion i a st))"
  using assms
  by (auto simp: publishRegionEvidence_def publishAttachment_def completeDrain_def cancelDrain_def markUnavailable_def
      recoverRegion_def retireProvider_def retireRegion_def Let_def case_prod_beta split: option.split
      intro!: keyed_intros)

lemma worker_keyed:
  assumes "well_keyed st"
  shows "well_keyed (snd (registerWorker now w b e pid a st))" "well_keyed (snd (markWorkerDead now w a st))"
    "well_keyed (noteWorkerHandle w h st)" "well_keyed (snd (select req a st))"
  using assms
  by (auto simp: registerWorker_def markWorkerDead_def noteWorkerHandle_def select_def evaluateLocked_def Let_def
      case_prod_beta split: option.split intro!: keyed_intros)

lemma reservation_keyed:
  assumes "well_keyed st"
  shows "well_keyed (snd (requestReservation now req a st))" "well_keyed (snd (commitReservation i a st))"
    "well_keyed (snd (releaseReservation i a st))"
  using assms
  by (auto simp: requestReservation_def commitReservation_def releaseReservation_def evaluateLocked_def
      make_reservation_def Let_def case_prod_beta split: option.split list.split intro!: keyed_intros)

lemma beginDrain_keyed: "well_keyed st \<Longrightarrow> well_keyed (snd (beginDrain i a st))"
  by (auto simp: beginDrain_def Let_def case_prod_beta split: option.split intro!: keyed_intros)

lemma setEpoch_keyed: "well_keyed st \<Longrightarrow> well_keyed (setEpoch e st)"
  by (auto simp: setEpoch_def Let_def case_prod_beta intro!: keyed_intros)

lemma run_op_keyed: "well_keyed st \<Longrightarrow> well_keyed (snd (run_op o1 st))"
  by (cases o1) (simp_all add: registry_keyed replacePool_keyed lifecycle_keyed worker_keyed reservation_keyed
      beginDrain_keyed setEpoch_keyed)

section \<open>Whatever a file holds\<close>

lemma get_table_eachE:
  assumes "get_table what d k bs = Inr r" "\<And>bs x rest. d bs = Inr (x, rest) \<Longrightarrow> P (fst x) (snd x)"
  obtains m rest where "each P m" "k m rest = Inr r"
proof -
  from assms(1) obtain n :: u32 and b1 kvs b2 where many: "many (unat n) d b1 = Inr (kvs, b2)" and k: "k (insert_all kvs []) b2 = Inr r"
    unfolding get_table_def by (elim fieldE andthenE) blast
  have "list_all (\<lambda>x. P (fst x) (snd x)) kvs" using many_results [OF _ many, of "\<lambda>x. P (fst x) (snd x)"] assms(2) by blast
  then have "each P (insert_all kvs [])" by (intro each_insert_all) (simp_all add: list_all_iff case_prod_beta)
  then show ?thesis using k that by blast
qed

lemma decoded_keys:
  "get_provider bs = Inr (x, rest) \<Longrightarrow> pd_id (pr_descriptor (snd x)) = fst x"
  "get_domain bs = Inr (y, rest) \<Longrightarrow> dd_id (dr_descriptor (snd y)) = fst y"
  "get_region bs = Inr (z, rest) \<Longrightarrow> region_keyed (fst z) (snd z)"
  "get_pool bs = Inr (u, rest) \<Longrightarrow> pl_id (plr_descriptor (snd u)) = fst u"
  "get_policy bs = Inr (v, rest) \<Longrightarrow> po_id (snd v) = fst v"
  unfolding get_provider_def get_domain_def get_region_def get_pool_def get_policy_def Let_def
  by (elim fieldE andthenE; auto simp: decoded_def region_keyed_def new_region_def elim!: fieldE andthenE)+

lemma deserialize_keyed: "deserializePayload bs = Inr s \<Longrightarrow> well_keyed s"
  unfolding deserializePayload_def
  apply (clarsimp split: sum.splits if_splits elim!: fieldE)
  apply (erule get_table_eachE [where P = "\<lambda>i p. pd_id (pr_descriptor p) = i"], erule decoded_keys(1))
  apply (erule get_table_eachE [where P = "\<lambda>i d. dd_id (dr_descriptor d) = i"], erule decoded_keys(2))
  apply (erule get_table_eachE [where P = region_keyed], erule decoded_keys(3))
  apply (erule get_table_eachE [where P = "\<lambda>i p. pl_id (plr_descriptor p) = i"], erule decoded_keys(4))
  apply (erule get_table_eachE [where P = "\<lambda>i p. po_id p = i"], erule decoded_keys(5))
  apply (erule get_table_eachE [where P = "\<lambda>_ _. True"], rule TrueI)
  apply (auto simp: decoded_def well_keyed_def new_fabric_def)
  done

lemma rebuild_keyed: "well_keyed s \<Longrightarrow> well_keyed (rebuild_memberships s)"
proof -
  have i: "each region_keyed (index_member pid gen m regs)" if "each region_keyed regs" for pid gen m regs
    using that by (auto simp: index_member_def region_keyed_def intro!: each_modify split: option.splits)
  have m: "each region_keyed (fold (index_member pid gen) ms regs)" if "each region_keyed regs" for pid gen ms regs
    using that by (induction ms arbitrary: regs) (simp_all add: i)
  have "each region_keyed (fold (\<lambda>(pid, pl). fold (index_member pid (pl_generation (plr_descriptor pl)))
      (pl_members (plr_descriptor pl))) pools regs)" if "each region_keyed regs" for pools :: "(PoolId, PoolRecord) umap" and regs
    using that by (induction pools arbitrary: regs) (auto simp: m)
  then show "well_keyed s \<Longrightarrow> well_keyed (rebuild_memberships s)"
    by (simp add: rebuild_memberships_def well_keyed_def)
qed

lemma load_keyed: "load_bytes bs = ok st \<Longrightarrow> well_keyed st"
  by (auto simp: load_bytes_def Let_def deserialize_keyed intro!: rebuild_keyed split: if_splits sum.splits)

lemma reach_keyed: "fabric_reach n st \<Longrightarrow> well_keyed st"
proof (induction rule: fabric_reach.induct)
  case (start e)
  show ?case by (simp add: well_keyed_def new_fabric_def)
next
  case (loaded bytes st)
  then show ?case by (rule load_keyed)
next
  case (step n st o1)
  from step(2) show ?case by (rule run_op_keyed)
qed

section \<open>Saving and loading keeps the descriptors\<close>

definition descriptors :: "('v \<Rightarrow> 'd) \<Rightarrow> ('k, 'v) umap \<Rightarrow> ('k \<times> 'd) list" where
  "descriptors f m = map (\<lambda>(k, v). (k, f v)) m"

lemma descriptors_map:
  "each P m \<Longrightarrow> (\<And>k v. P k v \<Longrightarrow> fst (g (k, v)) = k \<and> f (snd (g (k, v))) = f v) \<Longrightarrow> descriptors f (map g m) = descriptors f m"
  by (induction m) (auto simp: descriptors_def each_def case_prod_beta)

lemma recover_descriptors:
  assumes "well_keyed st"
  shows "descriptors pr_descriptor (im_providers (recover_tables e st)) = descriptors pr_descriptor (im_providers st)"
    and "descriptors dr_descriptor (im_domains (recover_tables e st)) = descriptors dr_descriptor (im_domains st)"
    and "descriptors rr_descriptor (im_regions (recover_tables e st)) = descriptors rr_descriptor (im_regions st)"
    and "descriptors plr_descriptor (im_pools (recover_tables e st)) = descriptors plr_descriptor (im_pools st)"
    and "im_policies (recover_tables e st) = im_policies st"
    and "im_consumers (recover_tables e st) = im_consumers st"
proof -
  note maps = descriptors_map [OF keyed_parts(1) [OF assms], of recover_provider]
    descriptors_map [OF keyed_parts(2) [OF assms], of recover_domain]
    descriptors_map [OF keyed_parts(3) [OF assms], of recover_region]
    descriptors_map [OF keyed_parts(4) [OF assms], of recover_pool]
    descriptors_map [OF keyed_parts(5) [OF assms], of recover_policy id]
  show "descriptors pr_descriptor (im_providers (recover_tables e st)) = descriptors pr_descriptor (im_providers st)"
    by (simp add: recover_tables_def, rule maps(1)) (auto simp: recover_provider_def)
  show "descriptors dr_descriptor (im_domains (recover_tables e st)) = descriptors dr_descriptor (im_domains st)"
    by (simp add: recover_tables_def, rule maps(2)) (auto simp: recover_domain_def)
  show "descriptors rr_descriptor (im_regions (recover_tables e st)) = descriptors rr_descriptor (im_regions st)"
    by (simp add: recover_tables_def, rule maps(3)) (auto simp: recover_region_def new_region_def region_keyed_def)
  show "descriptors plr_descriptor (im_pools (recover_tables e st)) = descriptors plr_descriptor (im_pools st)"
    by (simp add: recover_tables_def, rule maps(4)) (auto simp: recover_pool_def)
  have "descriptors id (map recover_policy (im_policies st)) = descriptors id (im_policies st)"
    by (rule maps(5)) (auto simp: recover_policy_def)
  then show "im_policies (recover_tables e st) = im_policies st"
    by (simp add: recover_tables_def descriptors_def)
  show "im_consumers (recover_tables e st) = im_consumers st"
    by (simp add: recover_tables_def)
qed

lemma rebuild_descriptors:
  "descriptors rr_descriptor (im_regions (rebuild_memberships s)) = descriptors rr_descriptor (im_regions s)"
proof -
  have i: "descriptors rr_descriptor (index_member pid gen m regs) = descriptors rr_descriptor regs" for pid gen m regs
    by (induction regs) (auto simp: index_member_def umap_modify_def descriptors_def)
  have m: "descriptors rr_descriptor (fold (index_member pid gen) ms regs) = descriptors rr_descriptor regs" for pid gen ms regs
    by (induction ms arbitrary: regs) (simp_all add: i)
  have "descriptors rr_descriptor (fold (\<lambda>(pid, pl). fold (index_member pid (pl_generation (plr_descriptor pl)))
      (pl_members (plr_descriptor pl))) pools regs) = descriptors rr_descriptor regs" for pools :: "(PoolId, PoolRecord) umap" and regs
    by (induction pools arbitrary: regs) (auto simp: m)
  then show ?thesis by (simp add: rebuild_memberships_def)
qed

end
