(* ===== verification/Freshness.thy ===== *)
theory Freshness
  imports Keys
begin

text \<open>
  Evidence is fresh. The tables of regions are changed in many places, but a field of a region record only
  in few; a rule about single region records that survives those few changes holds in every state. The
  locale \<open>region_rule\<close> states what such a rule must survive and proves it for the calls, \<open>evidence_rule\<close>
  adds the calls that register regions and change pools. Its instances: the evidence that a region is
  selected by belongs to the current epoch and to this incarnation of the region, and it was published
  after the fabric was loaded.
\<close>

section \<open>Rules about single region records\<close>

lemma each_sweep_regions:
  "(\<And>regs r. each P regs \<Longrightarrow> each P (fst (body regs r))) \<Longrightarrow> each P regs \<Longrightarrow> each P (fst (umap_sweep body regs m))"
  by (induction m arbitrary: regs) (auto simp: Let_def case_prod_beta)

lemma each_modify_found:
  "each P m \<Longrightarrow> umap_wf m \<Longrightarrow> (\<And>v. umap_find m k = Some v \<Longrightarrow> P k v \<Longrightarrow> P k (g v)) \<Longrightarrow> each P (umap_modify k g m)"
  unfolding each_def list_all_iff umap_modify_def by (fastforce dest: umap_in_set_find)

locale region_rule =
  fixes P :: "RegionId \<Rightarrow> RegionRecord \<Rightarrow> bool"
  assumes ledger: "P i (rr\<lparr>rr_ledger := l\<rparr>) = P i rr"
    and lifecycle: "P i (rr\<lparr>rr_lifecycle := lc\<rparr>) = P i rr"
    and attachments: "P i (rr\<lparr>rr_attachments := as\<rparr>) = P i rr"
    and withdrawn: "P i rr \<Longrightarrow> s \<noteq> EvidenceStatus.CURRENT \<Longrightarrow> P i (rr\<lparr>rr_evidenceStatus := s\<rparr>)"
    and forgotten: "P i rr \<Longrightarrow> P i (rr\<lparr>rr_hasEvidence := False, rr_evidenceStatus := EvidenceStatus.UNKNOWN\<rparr>)"
begin

lemmas fields = ledger lifecycle attachments

lemma with_ledger_each: "each P regs \<Longrightarrow> each P (with_ledger i f regs)"
  by (auto simp: with_ledger_def fields intro: each_modify)

lemma sweep_each:
  "each P regs \<Longrightarrow> each P (fst (umap_sweep (fence_if F why) regs m))"
  "each P regs \<Longrightarrow> each P (fst (umap_sweep epoch_fence regs m))"
  "each P regs \<Longrightarrow> each P (fst (umap_sweep (drain_release k) regs m))"
proof -
  have "each P (fst (fence_if F why regs r))" "each P (fst (epoch_fence regs r))" "each P (fst (drain_release k regs r))"
    if "each P regs" for regs r
    using that by (simp_all add: fence_if_def fence_def epoch_fence_def drain_release_def Let_def case_prod_beta with_ledger_each
        split: option.split)
  then show "each P regs \<Longrightarrow> each P (fst (umap_sweep (fence_if F why) regs m))"
    "each P regs \<Longrightarrow> each P (fst (umap_sweep epoch_fence regs m))"
    "each P regs \<Longrightarrow> each P (fst (umap_sweep (drain_release k) regs m))"
    by (auto intro: each_sweep_regions)
qed

lemma fence_where_each: "each P (im_regions st) \<Longrightarrow> each P (im_regions (fence_where F why st))"
  by (simp add: fence_where_def case_prod_beta sweep_each)

lemma updates:
  "P i rr \<Longrightarrow> P i (epoch_region rr)" "P i rr \<Longrightarrow> P i (orphan_region w b rr)"
  "P i rr \<Longrightarrow> P i (revalidate_provider_region p rr)"
  by (auto simp: epoch_region_def orphan_region_def revalidate_provider_region_def Let_def fields
      intro!: withdrawn forgotten)

lemmas each_intros = each_modify each_map with_ledger_each fence_where_each sweep_each updates withdrawn

lemma others_each:
  assumes "each P (im_regions st)"
  shows "each P (im_regions (setEpoch e st))" "each P (im_regions (snd (registerConsumer c g a st)))"
    "each P (im_regions (snd (registerProvider now pd a st)))" "each P (im_regions (snd (registerDomain dd a st)))"
    "each P (im_regions (snd (registerPool now pl a st)))" "each P (im_regions (snd (registerPolicy po a st)))"
  using assms
  by (auto simp: setEpoch_def registry_defs Let_def case_prod_beta fields split: option.split intro!: each_intros)

lemma lifecycles_each:
  assumes "each P (im_regions st)"
  shows "each P (im_regions (snd (publishAttachment att a st)))" "each P (im_regions (snd (beginDrain i a st)))"
    "each P (im_regions (snd (completeDrain i a st)))" "each P (im_regions (snd (cancelDrain i a st)))"
    "each P (im_regions (snd (markUnavailable i a st)))" "each P (im_regions (snd (recoverRegion i a st)))"
    "each P (im_regions (snd (retireProvider q a st)))" "each P (im_regions (snd (retireRegion i a st)))"
  using assms
  by (auto simp: publishAttachment_def beginDrain_def completeDrain_def cancelDrain_def markUnavailable_def
      recoverRegion_def retireProvider_def retireRegion_def Let_def case_prod_beta fields split: option.split
      intro!: each_intros)

lemma workers_each:
  assumes "each P (im_regions st)"
  shows "each P (im_regions (snd (registerWorker now w b e pid a st)))" "each P (im_regions (snd (markWorkerDead now w a st)))"
    "each P (im_regions (noteWorkerHandle w h st))" "each P (im_regions (snd (select req a st)))"
  using assms
  by (auto simp: registerWorker_def markWorkerDead_def noteWorkerHandle_def select_def evaluateLocked_def Let_def
      case_prod_beta split: option.split intro!: each_intros)

lemma reservations_each:
  assumes "each P (im_regions st)"
  shows "each P (im_regions (snd (requestReservation now req a st)))" "each P (im_regions (snd (commitReservation i a st)))"
    "each P (im_regions (snd (releaseReservation i a st)))"
  using assms
  by (auto simp: requestReservation_def commitReservation_def releaseReservation_def evaluateLocked_def
      Let_def case_prod_beta split: option.split list.split intro!: each_intros)

lemma replacePool_each: "each P (im_regions st) \<Longrightarrow> each P (im_regions (snd (replacePoolGeneration now pl a st)))"
  using others_each(5) [of st now pl a] by (simp add: replacePoolGeneration_def case_prod_beta split: sum.split)

lemma registerRegion_each:
  assumes "each P (im_regions st)" "P (rd_id d) (new_region d RegionLifecycle.DECLARED (new_ledger (rd_totalCapacityBytes d)))"
  shows "each P (im_regions (snd (registerRegion d a st)))"
  using assms by (auto simp: registerRegion_def Let_def split: option.split intro!: each_put each_intros)

lemma publish_each:
  assumes "each P (im_regions st)" "umap_wf (im_regions st)"
    and "\<And>rr led. umap_find (im_regions st) (eh_region (ev_header e)) = Some rr \<Longrightarrow> eh_epoch (ev_header e) = im_epoch st \<Longrightarrow>
      eh_regionGeneration (ev_header e) = rd_generation (rr_descriptor rr) \<Longrightarrow>
      P (eh_region (ev_header e)) rr \<Longrightarrow> P (eh_region (ev_header e)) (record_evidence now e led rr)"
  shows "each P (im_regions (snd (publishRegionEvidence now e a st)))"
proof -
  have "each P (umap_modify (eh_region (ev_header e)) (record_evidence now e led) (im_regions st))"
    if "umap_find (im_regions st) (eh_region (ev_header e)) = Some rr" "eh_epoch (ev_header e) = im_epoch st"
      "eh_regionGeneration (ev_header e) = rd_generation (rr_descriptor rr)" for rr led
    using that assms(3) by (intro each_modify_found [OF assms(1,2)]) simp
  then show ?thesis
    using assms(1)
    by (auto simp: publishRegionEvidence_def Let_def case_prod_beta fields with_ledger_each split: option.split
        intro!: each_modify [of P "umap_modify _ (record_evidence _ _ _) _"])
qed

lemmas run_op_each = others_each lifecycles_each workers_each reservations_each replacePool_each

end

locale evidence_rule = region_rule +
  assumes memberships: "P i (rr\<lparr>rr_poolMemberships := ms\<rparr>) = P i rr"
    and unknown: "P (rd_id d) (new_region d lc led)"
begin

lemma members_each:
  assumes "each P (im_regions st)"
  shows "each P (im_regions (snd (addPoolMember p m a st)))" "each P (im_regions (snd (removePoolMember p i a st)))"
  using assms
  by (auto simp: addPoolMember_def removePoolMember_def append_member_def Let_def memberships split: option.split list.split
      intro!: each_modify)

lemma run_op_rule:
  assumes "each P (im_regions st)" "umap_wf (im_regions st)"
    and "\<And>now e a rr led. o1 = PublishRegionEvidence now e a \<Longrightarrow> umap_find (im_regions st) (eh_region (ev_header e)) = Some rr \<Longrightarrow>
      eh_epoch (ev_header e) = im_epoch st \<Longrightarrow> eh_regionGeneration (ev_header e) = rd_generation (rr_descriptor rr) \<Longrightarrow>
      P (eh_region (ev_header e)) (record_evidence now e led rr)"
  shows "each P (im_regions (snd (run_op o1 st)))"
proof (cases o1)
  case (PublishRegionEvidence now e a)
  then show ?thesis using publish_each [OF assms(1,2)] assms(3) [OF PublishRegionEvidence] by simp
qed (use assms(1) in \<open>simp_all add: run_op_each members_each registerRegion_each unknown\<close>)

end

section \<open>Current evidence belongs to the current epoch and incarnation\<close>

definition fresh_for :: "CoordinatorEpoch \<Rightarrow> RegionId \<Rightarrow> RegionRecord \<Rightarrow> bool" where
  "fresh_for e i rr \<longleftrightarrow> (rr_evidenceStatus rr = EvidenceStatus.CURRENT \<longrightarrow>
     rr_hasEvidence rr \<and> eh_epoch (ev_header (rr_latest rr)) = e \<and> eh_region (ev_header (rr_latest rr)) = i \<and>
     eh_regionGeneration (ev_header (rr_latest rr)) = rd_generation (rr_descriptor rr) \<and>
     rr_health rr = ev_health (rr_latest rr) \<and> rr_reachable rr = ev_reachable (rr_latest rr) \<and>
     rr_latencyNs rr = ev_latencyNs (rr_latest rr) \<and> rr_bandwidthBytesPerSec rr = ev_bandwidthBytesPerSec (rr_latest rr))"

interpretation fresh: evidence_rule "fresh_for e" for e
  by unfold_locales (auto simp: fresh_for_def new_region_def)

lemma epoch_region_withdraws: "fresh_for e i rr \<Longrightarrow> fresh_for e' i (epoch_region rr)"
  by (auto simp: fresh_for_def epoch_region_def Let_def)

lemma setEpoch_fresh:
  assumes "each (fresh_for (im_epoch st)) (im_regions st)"
  shows "each (fresh_for (im_epoch (setEpoch e st))) (im_regions (setEpoch e st))"
proof (cases "id_value e \<le> id_value (im_epoch st)")
  case True
  then show ?thesis using assms by (simp add: setEpoch_def)
next
  case False
  have "each (fresh_for e) (umap_map epoch_region (im_regions st))"
    using assms by (auto simp: each_def umap_map_def list_all_iff intro: epoch_region_withdraws)
  then show ?thesis using False fresh.sweep_each(2) by (simp add: setEpoch_def Let_def case_prod_beta)
qed

lemma run_op_fresh:
  assumes "each (fresh_for (im_epoch st)) (im_regions st)" "umap_wf (im_regions st)"
  shows "each (fresh_for (im_epoch (snd (run_op o1 st)))) (im_regions (snd (run_op o1 st)))"
proof (cases "\<exists>e. o1 = SetEpoch e")
  case True
  then show ?thesis using setEpoch_fresh [OF assms(1)] by auto
next
  case False
  then have "im_epoch (snd (run_op o1 st)) = im_epoch st" by (simp add: run_op_epoch del: run_op.simps)
  then show ?thesis
    using fresh.run_op_rule [OF assms] by (auto simp: fresh_for_def record_evidence_def)
qed

lemma regions_wf: "fabric_reach n st \<Longrightarrow> n < 2 ^ 64 - 1 \<Longrightarrow> umap_wf (im_regions st)"
  using reach_tables_wf by (simp add: tables_wf_def)

lemma recovered_unknown: "load_bytes bytes = ok st \<Longrightarrow> each (\<lambda>i rr. rr_evidenceStatus rr = EvidenceStatus.UNKNOWN) (im_regions st)"
  using load_recovered [of bytes st]
  by (auto simp: recovered_def values_are_def recovered_region_def each_def list_all_iff)

lemma reach_fresh: "fabric_reach n st \<Longrightarrow> n < 2 ^ 64 - 1 \<Longrightarrow> each (fresh_for (im_epoch st)) (im_regions st)"
proof (induction rule: fabric_reach.induct)
  case (loaded bytes st)
  then show ?case using recovered_unknown [of bytes st] by (auto simp: each_def list_all_iff fresh_for_def)
next
  case (step n st o1)
  then show ?case using run_op_fresh [of st o1] regions_wf [of n st] by simp
qed (simp add: new_fabric_def)

section \<open>Evidence after a load\<close>

text \<open>The evidence that a sequence of calls publishes.\<close>

definition published :: "op list \<Rightarrow> RegionEvidence set" where
  "published ops = {e. \<exists>now a. PublishRegionEvidence now e a \<in> set ops}"

definition vouched :: "RegionEvidence set \<Rightarrow> RegionId \<Rightarrow> RegionRecord \<Rightarrow> bool" where
  "vouched E i rr \<longleftrightarrow> (rr_evidenceStatus rr = EvidenceStatus.CURRENT \<longrightarrow> rr_latest rr \<in> E)"

interpretation vouched: evidence_rule "vouched E" for E
  by unfold_locales (auto simp: vouched_def new_region_def)

lemma run_ops_vouched:
  assumes "fabric_reach n st" "n + length ops < 2 ^ 64 - 1" "each (vouched E) (im_regions st)" "published ops \<subseteq> E"
  shows "each (vouched E) (im_regions (run_ops ops st))"
  using assms
proof (induction ops arbitrary: n st)
  case (Cons o1 ops)
  have "each (vouched E) (im_regions (snd (run_op o1 st)))"
  proof (rule vouched.run_op_rule [OF Cons.prems(3)])
    show "umap_wf (im_regions st)" using regions_wf [OF Cons.prems(1)] Cons.prems(2) by simp
    show "vouched E (eh_region (ev_header e)) (record_evidence now e led rr)" if "o1 = PublishRegionEvidence now e a" for now e a rr led
      using that Cons.prems(4) by (auto simp: vouched_def record_evidence_def published_def)
  qed
  moreover have "published ops \<subseteq> E" using Cons.prems(4) by (auto simp: published_def)
  ultimately show ?case
    using Cons.IH [OF fabric_reach.step [OF Cons.prems(1), of o1]] Cons.prems(2) by simp
qed simp

lemma loaded_vouched:
  assumes "load_bytes bytes = ok st" "length ops < 2 ^ 64 - 1" "umap_find (im_regions (run_ops ops st)) i = Some rr"
    and "rr_evidenceStatus rr = EvidenceStatus.CURRENT"
  shows "rr_latest rr \<in> published ops"
proof -
  have "each (vouched (published ops)) (im_regions st)"
    using recovered_unknown [OF assms(1)] by (auto simp: each_def list_all_iff vouched_def)
  then have "each (vouched (published ops)) (im_regions (run_ops ops st))"
    using run_ops_vouched [OF fabric_reach.loaded [OF assms(1)], of ops] assms(2) by simp
  from each_find [OF this assms(3)] assms(4) show ?thesis by (simp add: vouched_def)
qed

section \<open>What a commit does not look at\<close>

lemma publish_accepted:
  assumes "publishRegionEvidence now e b st = (ok (), st')" "umap_find (im_regions st) (eh_region (ev_header e)) = Some rr"
  shows "\<exists>led. umap_find (im_regions st') (eh_region (ev_header e)) =
      Some ((record_evidence now e led rr)\<lparr>rr_lifecycle := evidence_target e\<rparr>)"
    and "im_workers st' = im_workers st" "im_consumers st' = im_consumers st" "im_reservations st' = im_reservations st"
      "im_epoch st' = im_epoch st"
  using assms by (auto simp: publishRegionEvidence_def Let_def case_prod_beta split: if_splits option.splits)

lemma same_generation_still_commits:
  assumes c: "consistent st" and r: "umap_find (im_reservations st) i = Some r" "rs_state r = ReservationState.RESERVED"
    and rr: "umap_find (im_regions st) (rs_region r) = Some rr" and a: "authorityAcceptableLocked st a"
    and free: "commit_refusal st a r = None"
    and pub: "publishRegionEvidence now e b st = (ok (), st')"
    and e: "eh_region (ev_header e) = rs_region r" "eh_generation (ev_header e) = rs_evidenceGeneration r"
      "ev_health e \<noteq> HealthState.FAILED"
  shows "fst (commitReservation i a st') = ok (r\<lparr>rs_state := ReservationState.COMMITTED\<rparr>)"
proof -
  have c': "consistent st'" using publishRegionEvidence_consistent [OF c, of now e b] pub by simp
  obtain led where rr': "umap_find (im_regions st') (rs_region r) =
      Some ((record_evidence now e led rr)\<lparr>rr_lifecycle := evidence_target e\<rparr>)"
    using publish_accepted(1) [OF pub] rr e(1) by auto
  note same = publish_accepted(2-5) [OF pub, of rr] e(1) rr
  have r': "umap_find (im_reservations st') i = Some r" using same r(1) by simp
  have "commit_worker_refusal st a r = None" "\<not> consumer_moved st r"
    using free unfolding commit_refusal_live [OF c r rr] by (auto split: option.splits if_splits)
  moreover have "commit_worker_refusal st' a r = commit_worker_refusal st a r" "consumer_moved st' r = consumer_moved st r"
    using same by (simp_all add: commit_worker_refusal_def consumer_moved_def)
  ultimately have "commit_refusal st' a r = None"
    unfolding commit_refusal_live [OF c' r' r(2) rr'] using e(2,3)
    by (simp add: evidence_moved_def record_evidence_def evidence_target_def)
  moreover have "authorityAcceptableLocked st' a" using a authority_frame [of st' st] same by simp
  ultimately show ?thesis using commit_accepts [OF c' _ r' r(2)] by fastforce
qed

lemma domain_not_bound: "commit_refusal (snd (registerDomain d b st)) a r = commit_refusal st a r"
proof -
  obtain ds where ds: "snd (registerDomain d b st) = st\<lparr>im_domains := ds\<rparr>"
  proof
    show "snd (registerDomain d b st) = st\<lparr>im_domains := im_domains (snd (registerDomain d b st))\<rparr>"
      by (simp add: registerDomain_def Let_def split: option.split)
  qed
  have "im_regions (st\<lparr>im_domains := ds\<rparr>) = im_regions st" "im_providers (st\<lparr>im_domains := ds\<rparr>) = im_providers st"
    "im_pools (st\<lparr>im_domains := ds\<rparr>) = im_pools st" "im_policies (st\<lparr>im_domains := ds\<rparr>) = im_policies st"
    "im_epoch (st\<lparr>im_domains := ds\<rparr>) = im_epoch st" "im_workers (st\<lparr>im_domains := ds\<rparr>) = im_workers st"
    "im_consumers (st\<lparr>im_domains := ds\<rparr>) = im_consumers st"
    by simp_all
  note same = this
  show ?thesis unfolding ds commit_refusal_def commit_worker_refusal_def same ..
qed

lemma domain_commit:
  assumes c: "consistent st" and r: "umap_find (im_reservations st) i = Some r" "rs_state r = ReservationState.RESERVED"
    and a: "authorityAcceptableLocked st a"
  shows "fst (commitReservation i a (snd (registerDomain d b st))) = fst (commitReservation i a st)"
proof -
  let ?st = "snd (registerDomain d b st)"
  have c': "consistent ?st" by (rule registerDomain_consistent [OF c])
  have "im_epoch ?st = im_epoch st" "im_workers ?st = im_workers st" "im_reservations ?st = im_reservations st"
    by (simp_all add: registerDomain_def Let_def split: option.split)
  then have r': "umap_find (im_reservations ?st) i = Some r" "authorityAcceptableLocked ?st a"
    using r(1) a authority_frame [of ?st st] by simp_all
  show ?thesis
  proof (cases "commit_refusal st a r")
    case None
    then have "commit_refusal ?st a r = None" by (simp add: domain_not_bound)
    from commit_accepts [OF c' r'(2,1) r(2) this] commit_accepts [OF c a r None] show ?thesis by auto
  next
    case (Some x)
    then have "commit_refusal ?st a r = Some x" by (simp add: domain_not_bound)
    then show ?thesis
      using Some a r r' by (cases x) (simp add: commitReservation_def reservationStateAllowed_def)
  qed
qed

section \<open>Grants rest on fresh evidence\<close>

lemma eligible_fresh:
  assumes "fabric_reach n st" "n < 2 ^ 64 - 1" "umap_find (im_regions st) i = Some rr"
    and "evaluateRegionEligibility st req rr = ELIGIBLE"
  shows "rr_evidenceStatus rr = EvidenceStatus.CURRENT" "eh_region (ev_header (rr_latest rr)) = i"
    "eh_epoch (ev_header (rr_latest rr)) = im_epoch st" "eh_regionGeneration (ev_header (rr_latest rr)) = rd_generation (rr_descriptor rr)"
    "rr_health rr = ev_health (rr_latest rr)" "rr_reachable rr = ev_reachable (rr_latest rr)"
    "rr_latencyNs rr = ev_latencyNs (rr_latest rr)" "rr_bandwidthBytesPerSec rr = ev_bandwidthBytesPerSec (rr_latest rr)"
proof -
  have "rr_evidenceStatus rr = EvidenceStatus.CURRENT" using assms(4) unfolding eligible_iff usable_now_def by blast
  moreover have "fresh_for (im_epoch st) i rr" by (rule each_find [OF reach_fresh [OF assms(1,2)] assms(3)])
  ultimately show "rr_evidenceStatus rr = EvidenceStatus.CURRENT" "eh_region (ev_header (rr_latest rr)) = i"
    "eh_epoch (ev_header (rr_latest rr)) = im_epoch st" "eh_regionGeneration (ev_header (rr_latest rr)) = rd_generation (rr_descriptor rr)"
    "rr_health rr = ev_health (rr_latest rr)" "rr_reachable rr = ev_reachable (rr_latest rr)"
    "rr_latencyNs rr = ev_latencyNs (rr_latest rr)" "rr_bandwidthBytesPerSec rr = ev_bandwidthBytesPerSec (rr_latest rr)"
    by (simp_all add: fresh_for_def)
qed

lemma loaded_reach: "load_bytes bytes = ok st \<Longrightarrow> fabric_reach (length ops) (run_ops ops st)"
  using run_ops_reach [OF fabric_reach.loaded, of bytes st ops] by simp

lemma loaded_ranked:
  assumes "load_bytes bytes = ok st" "length ops < 2 ^ 64 - 1" "i \<in> rc_region ` set (ranking (run_ops ops st) req)"
  shows "\<exists>e \<in> published ops. eh_region (ev_header e) = i \<and> eh_epoch (ev_header e) = im_epoch (run_ops ops st) \<and>
    ev_reachable e \<and> ev_health e \<noteq> HealthState.FAILED"
proof -
  note reach = loaded_reach [OF assms(1), of ops] assms(2)
  obtain rr where rr: "umap_find (im_regions (run_ops ops st)) i = Some rr"
      "evaluateRegionEligibility (run_ops ops st) req rr = ELIGIBLE"
    using assms(3) unfolding ranked_iff [OF regions_wf [OF reach]] by blast
  have "rr_reachable rr" "rr_health rr \<noteq> HealthState.FAILED" using rr(2) unfolding eligible_iff usable_now_def by blast+
  with eligible_fresh [OF reach rr] loaded_vouched [OF assms(1,2) rr(1)] show ?thesis by auto
qed

lemma request_ok:
  assumes "fst (requestReservation now req a st) = ok k"
  shows "authorityAcceptableLocked st a" "valid_request req" "ranking st req \<noteq> []"
  using assms evaluate_parts(1) [of req st]
  by (auto simp: requestReservation_def valid_request_def case_prod_beta split: if_splits)

lemma granted_region:
  assumes "consistent st" "fst (requestReservation now req a st) = ok k"
  shows "\<exists>r. umap_find (im_reservations (snd (requestReservation now req a st))) k = Some r \<and>
    rs_region r \<in> rc_region ` set (ranking st req)"
proof -
  note v = request_ok [OF assms(2)]
  obtain best rest where b: "ranking st req = best # rest" using v(3) by (cases "ranking st req") auto
  from request_grants [OF assms(1) v(1,2) b, of now] assms(2) show ?thesis by (auto simp: b)
qed

section \<open>What a selection does not look at\<close>

text \<open>Four fields of the requirements that no line of \<open>selection.cpp\<close> reads.\<close>

definition with_ignored :: "bool \<Rightarrow> bool \<Rightarrow> bool \<Rightarrow> bool \<Rightarrow> ConsumerRequirements \<Rightarrow> ConsumerRequirements" where
  "with_ignored isolated fresh staging allow req =
     req\<lparr>rq_failureDomainIsolationRequired := isolated, rq_freshEvidenceRequired := fresh,
       rq_stagingAcceptable := staging, rq_allowStaging := allow\<rparr>"

lemma with_ignored_fields:
  "rq_consumer (with_ignored b1 b2 b3 b4 req) = rq_consumer req" "rq_requiredBytes (with_ignored b1 b2 b3 b4 req) = rq_requiredBytes req"
  "rq_maxLatencyNs (with_ignored b1 b2 b3 b4 req) = rq_maxLatencyNs req" "rq_minBandwidth (with_ignored b1 b2 b3 b4 req) = rq_minBandwidth req"
  "rq_alignmentBytes (with_ignored b1 b2 b3 b4 req) = rq_alignmentBytes req" "rq_cpuAccessible (with_ignored b1 b2 b3 b4 req) = rq_cpuAccessible req"
  "rq_acceleratorAccessible (with_ignored b1 b2 b3 b4 req) = rq_acceleratorAccessible req"
  "rq_directAccessRequired (with_ignored b1 b2 b3 b4 req) = rq_directAccessRequired req" "rq_persistent (with_ignored b1 b2 b3 b4 req) = rq_persistent req"
  "rq_localityPreference (with_ignored b1 b2 b3 b4 req) = rq_localityPreference req"
  "rq_allowedKinds (with_ignored b1 b2 b3 b4 req) = rq_allowedKinds req" "rq_forbiddenKinds (with_ignored b1 b2 b3 b4 req) = rq_forbiddenKinds req"
  "rq_forbiddenFailureDomain (with_ignored b1 b2 b3 b4 req) = rq_forbiddenFailureDomain req"
  "rq_allowDegraded (with_ignored b1 b2 b3 b4 req) = rq_allowDegraded req" "rq_policy (with_ignored b1 b2 b3 b4 req) = rq_policy req"
  "rq_allowLocalFallback (with_ignored b1 b2 b3 b4 req) = rq_allowLocalFallback req"
  "rq_expansionRequired (with_ignored b1 b2 b3 b4 req) = rq_expansionRequired req"
  "rq_preferredPool (with_ignored b1 b2 b3 b4 req) = rq_preferredPool req"
  "rq_reserveHeadroomFactor (with_ignored b1 b2 b3 b4 req) = rq_reserveHeadroomFactor req"
  by (simp_all add: with_ignored_def)

lemma ignored_requirements: "evaluateLocked (with_ignored b1 b2 b3 b4 req) st = evaluateLocked req st"
  unfolding evaluateLocked_def ranking_def rejected_cands_def eligible_cands_def admitted_def pool_admits_def make_cand_def
    score_all_def score_cand_def headroom_def selection_outcome_def evaluateRegionEligibility_def effective_allowDegraded_def
    with_ignored_fields ..

end
