(* ===== verification/Pools.thy ===== *)
theory Pools
  imports Freshness
begin

text \<open>
  Pools and the reverse index. Selection does not read the members a pool lists but the memberships
  recorded on the regions. The two agree as long as pools start empty (or are loaded from a file) and no
  region that a pool lists is registered again; the calls that separate them are named by \<open>unsettles\<close>.
\<close>

section \<open>Listed and indexed\<close>

definition pool_lists :: "Impl \<Rightarrow> PoolId \<Rightarrow> RegionId \<Rightarrow> bool" where
  "pool_lists st p i \<longleftrightarrow>
     (case umap_find (im_pools st) p of None \<Rightarrow> False | Some pl \<Rightarrow> i \<in> pm_region ` set (pl_members (plr_descriptor pl)))"

definition indexed :: "PoolId \<Rightarrow> RegionRecord \<Rightarrow> bool" where
  "indexed p rr \<longleftrightarrow> p \<in> fst ` set (rr_poolMemberships rr)"

definition indexed_as :: "PoolId \<Rightarrow> (RegionId \<Rightarrow> bool) \<Rightarrow> RegionId \<Rightarrow> RegionRecord \<Rightarrow> bool" where
  "indexed_as p L i rr \<longleftrightarrow> (indexed p rr \<longleftrightarrow> L i)"

definition index_agrees :: "PoolId \<Rightarrow> Impl \<Rightarrow> bool" where
  "index_agrees p st \<longleftrightarrow> each (indexed_as p (pool_lists st p)) (im_regions st)"

text \<open>
  The calls after which a pool may list a region that is not indexed, or the other way round: registering
  the pool with members, or once more, and registering a region that the pool already lists.
\<close>

fun unsettles :: "PoolId \<Rightarrow> op \<Rightarrow> Impl \<Rightarrow> bool" where
  "unsettles p (RegisterPool now d a) st \<longleftrightarrow> pl_id d = p \<and> (pl_members d \<noteq> [] \<or> umap_find (im_pools st) p \<noteq> None)"
| "unsettles p (ReplacePoolGeneration now d a) st \<longleftrightarrow> pl_id d = p \<and> (pl_members d \<noteq> [] \<or> umap_find (im_pools st) p \<noteq> None)"
| "unsettles p (RegisterRegion d a) st \<longleftrightarrow> pool_lists st p (rd_id d)"
| "unsettles p _ st \<longleftrightarrow> False"

fun settled :: "PoolId \<Rightarrow> op list \<Rightarrow> Impl \<Rightarrow> bool" where
  "settled p [] st \<longleftrightarrow> True"
| "settled p (o1 # ops) st \<longleftrightarrow> \<not> unsettles p o1 st \<and> settled p ops (snd (run_op o1 st))"

section \<open>Every other call keeps the agreement\<close>

interpretation indexed: region_rule "indexed_as p L" for p L
  by unfold_locales (simp_all add: indexed_as_def indexed_def)

lemma record_evidence_indexed: "indexed_as p L i (record_evidence now e led rr) = indexed_as p L i rr"
  by (simp add: indexed_as_def indexed_def record_evidence_def)

lemma publish_indexed:
  "each (indexed_as p L) (im_regions st) \<Longrightarrow> umap_wf (im_regions st) \<Longrightarrow>
   each (indexed_as p L) (im_regions (snd (publishRegionEvidence now e a st)))"
  by (rule indexed.publish_each) (simp_all add: record_evidence_indexed)

lemma new_region_indexed: "indexed_as p L i (new_region d lc led) \<longleftrightarrow> \<not> L i"
  by (simp add: indexed_as_def indexed_def new_region_def)

lemma fence_where_pools [simp]: "im_pools (fence_where F why st) = im_pools st"
  by (simp add: fence_where_def case_prod_beta)

fun changes_pools :: "op \<Rightarrow> bool" where
  "changes_pools (RegisterPool now d a) \<longleftrightarrow> True"
| "changes_pools (ReplacePoolGeneration now d a) \<longleftrightarrow> True"
| "changes_pools (AddPoolMember q m a) \<longleftrightarrow> True"
| "changes_pools (RemovePoolMember q i a) \<longleftrightarrow> True"
| "changes_pools _ \<longleftrightarrow> False"

lemma pools_untouched: "\<not> changes_pools o1 \<Longrightarrow> im_pools (snd (run_op o1 st)) = im_pools st"
  by (cases o1)
    (simp_all add: setEpoch_def registry_defs publishRegionEvidence_def publishAttachment_def beginDrain_def
      completeDrain_def cancelDrain_def markUnavailable_def recoverRegion_def retireProvider_def retireRegion_def
      registerWorker_def markWorkerDead_def noteWorkerHandle_def select_def evaluateLocked_def
      requestReservation_def commitReservation_def releaseReservation_def Let_def case_prod_beta
      split: option.split list.split)

lemma registerPool_lists:
  "\<not> (pl_id d = p \<and> (pl_members d \<noteq> [] \<or> umap_find (im_pools st) p \<noteq> None)) \<Longrightarrow>
   pool_lists (snd (registerPool now d a st)) p = pool_lists st p"
  by (rule ext) (auto simp: registerPool_def pool_lists_def Let_def split: option.split)

lemma append_member_lists:
  "pool_lists (append_member q m st) p i \<longleftrightarrow>
     pool_lists st p i \<or> p = q \<and> umap_find (im_pools st) q \<noteq> None \<and> i = pm_region m"
  by (auto simp: pool_lists_def append_member_def split: option.split)

lemma agrees_update:
  assumes "index_agrees p st" "im_regions st' = umap_modify k f (im_regions st)"
    and "\<And>rr. indexed p (f rr) \<longleftrightarrow> indexed_after (indexed p rr)"
    and "\<And>i. pool_lists st' p i \<longleftrightarrow> (if i = k then indexed_after (pool_lists st p k) else pool_lists st p i)"
  shows "index_agrees p st'"
  using assms by (auto simp: index_agrees_def each_def list_all_iff umap_modify_def indexed_as_def split: if_splits)

lemma addPoolMember_agrees:
  assumes "index_agrees p st"
  shows "index_agrees p (snd (addPoolMember q m a st))"
proof -
  let ?st = "append_member q m st"
  have again: "index_agrees p ?st" if pl: "umap_find (im_pools st) q = Some pl"
    "filter (\<lambda>mem. pm_region mem = pm_region m) (pl_members (plr_descriptor pl)) \<noteq> []" for pl
  proof -
    obtain mem where "mem \<in> set (pl_members (plr_descriptor pl))" "pm_region mem = pm_region m"
      using pl(2) by (auto simp: filter_empty_conv)
    then have "pm_region m \<in> pm_region ` set (pl_members (plr_descriptor pl))" by (metis imageI)
    then have "pool_lists st q (pm_region m)" using pl(1) by (simp add: pool_lists_def)
    then have "pool_lists ?st p = pool_lists st p" by (auto simp: append_member_lists fun_eq_iff)
    then show ?thesis using assms by (simp add: index_agrees_def append_member_def [of q m st])
  qed
  have first: "index_agrees p (?st\<lparr>im_regions := umap_modify (pm_region m)
      (\<lambda>rr. rr\<lparr>rr_poolMemberships := rr_poolMemberships rr @ [(q, g)]\<rparr>) (im_regions ?st)\<rparr>)"
    if "umap_find (im_pools st) q = Some pl" for pl g
    by (rule agrees_update [OF assms, where k = "pm_region m" and indexed_after = "\<lambda>b. b \<or> p = q"])
      (use that append_member_lists [of q m st p] in \<open>auto simp: append_member_def indexed_def pool_lists_def\<close>)
  show ?thesis
    using assms again first by (auto simp: addPoolMember_def Let_def split: option.split list.split)
qed

lemma removePoolMember_agrees:
  assumes "index_agrees p st"
  shows "index_agrees p (snd (removePoolMember q i a st))"
proof -
  have "index_agrees p (st\<lparr>im_pools := umap_modify q (\<lambda>p. p\<lparr>plr_descriptor := (plr_descriptor p)\<lparr>pl_members :=
        filter (\<lambda>m. pm_region m \<noteq> i) (pl_members (plr_descriptor pl))\<rparr>\<rparr>) (im_pools st),
      im_regions := umap_modify i
        (\<lambda>rr. rr\<lparr>rr_poolMemberships := filter (\<lambda>(p, g). p \<noteq> q) (rr_poolMemberships rr)\<rparr>) (im_regions st)\<rparr>)"
    if "umap_find (im_pools st) q = Some pl" for pl
    by (rule agrees_update [OF assms, where k = i and indexed_after = "\<lambda>b. b \<and> p \<noteq> q"])
      (use that in \<open>auto simp: indexed_def pool_lists_def image_iff split: option.split if_splits\<close>)
  then show ?thesis
    using assms by (auto simp: removePoolMember_def Let_def split: option.split)
qed

lemma run_op_agrees:
  assumes "index_agrees p st" "umap_wf (im_regions st)" "\<not> unsettles p o1 st"
  shows "index_agrees p (snd (run_op o1 st))"
proof (cases o1)
  case (RegisterPool now d a)
  then show ?thesis using assms registerPool_lists [of d p st now a]
    by (simp add: index_agrees_def indexed.run_op_each)
next
  case (ReplacePoolGeneration now d a)
  then have "pool_lists (snd (replacePoolGeneration now d a st)) p = pool_lists st p"
    using registerPool_lists [of d p st now a] assms(3)
    by (simp add: replacePoolGeneration_def case_prod_beta split: sum.split)
  then show ?thesis using ReplacePoolGeneration assms(1) by (simp add: index_agrees_def indexed.run_op_each)
next
  case (RegisterRegion d a)
  then have "im_pools (snd (registerRegion d a st)) = im_pools st" using pools_untouched [of o1 st] by simp
  then have "pool_lists (snd (registerRegion d a st)) p = pool_lists st p" by (simp add: pool_lists_def fun_eq_iff)
  then show ?thesis using RegisterRegion assms by (simp add: index_agrees_def indexed.registerRegion_each new_region_indexed)
next
  case (AddPoolMember q m a)
  then show ?thesis using addPoolMember_agrees [OF assms(1)] by simp
next
  case (RemovePoolMember q i a)
  then show ?thesis using removePoolMember_agrees [OF assms(1)] by simp
qed (use assms pools_untouched [of o1 st] in
  \<open>simp_all add: index_agrees_def indexed.run_op_each publish_indexed pool_lists_def [abs_def]\<close>)

section \<open>Where the agreement starts\<close>

lemma new_fabric_agrees: "index_agrees p (new_fabric e)"
  by (simp add: index_agrees_def new_fabric_def)

lemma deserialize_regions:
  assumes "\<And>bs z rest. get_region bs = Inr (z, rest) \<Longrightarrow> P (fst z) (snd z)" "deserializePayload bs = Inr s"
  shows "each P (im_regions s)"
  using assms(2) unfolding deserializePayload_def
  apply (clarsimp split: sum.splits if_splits elim!: fieldE)
  apply (erule get_table_eachE [where P = "\<lambda>_ _. True"], rule TrueI)
  apply (erule get_table_eachE [where P = "\<lambda>_ _. True"], rule TrueI)
  apply (erule get_table_eachE [where P = P], erule assms(1))
  apply (erule get_table_eachE [where P = "\<lambda>_ _. True"], rule TrueI)
  apply (erule get_table_eachE [where P = "\<lambda>_ _. True"], rule TrueI)
  apply (erule get_table_eachE [where P = "\<lambda>_ _. True"], rule TrueI)
  apply (auto simp: decoded_def)
  done

lemma get_region_unindexed: "get_region bs = Inr (z, rest) \<Longrightarrow> rr_poolMemberships (snd z) = []"
  unfolding get_region_def Let_def by (elim fieldE) (auto simp: decoded_def new_region_def)

lemma pool_entries_lists:
  assumes "umap_wf (im_pools s)"
  shows "p \<in> fst ` set (concat (map (pool_entries i) (im_pools s))) \<longleftrightarrow> pool_lists s p i"
proof -
  have e: "p \<in> fst ` set (pool_entries i x) \<longleftrightarrow> fst x = p \<and> i \<in> pm_region ` set (pl_members (plr_descriptor (snd x)))" for x
    by (cases x) (auto simp: pool_entries_def image_iff)
  have "p \<in> fst ` set (concat (map (pool_entries i) (im_pools s))) \<longleftrightarrow> (\<exists>x \<in> set (im_pools s). p \<in> fst ` set (pool_entries i x))"
    by (simp add: image_UN)
  also have "\<dots> \<longleftrightarrow> (\<exists>pl. umap_find (im_pools s) p = Some pl \<and> i \<in> pm_region ` set (pl_members (plr_descriptor pl)))"
    unfolding e by (metis assms fst_conv prod.collapse snd_conv umap_find_in_set umap_in_set_find)
  also have "\<dots> \<longleftrightarrow> pool_lists s p i" by (simp add: pool_lists_def split: option.split)
  finally show ?thesis .
qed

lemma loaded_agrees:
  assumes "load_bytes bytes = ok st"
  shows "index_agrees p st"
proof -
  obtain bs s e where s: "deserializePayload bs = Inr s" "st = rebuild_memberships (s\<lparr>im_epoch := e\<rparr>)"
    using assms by (auto simp: load_bytes_def Let_def split: if_splits sum.splits)
  have w: "umap_wf (im_pools s)" "umap_wf (im_regions s)" "umap_wf (im_regions st)"
    using deserialize_recovered [OF s(1)] load_recovered [OF assms] by (simp_all add: recovered_def tables_wf_def)
  have none: "each (\<lambda>_ rr. rr_poolMemberships rr = []) (im_regions s)"
    by (rule deserialize_regions [OF _ s(1)]) (rule get_region_unindexed)
  have "indexed p rr \<longleftrightarrow> pool_lists st p i" if rr: "umap_find (im_regions st) i = Some rr" for i rr
  proof -
    obtain rr0 where "umap_find (im_regions s) i = Some rr0" "rr = add_entries (concat (map (pool_entries i) (im_pools s))) rr0"
      using rr by (auto simp: s(2) rebuild_find)
    moreover have "pool_lists st p i = pool_lists s p i" by (simp add: s(2) pool_lists_def rebuild_memberships_def)
    ultimately show ?thesis
      using each_find [OF none] pool_entries_lists [OF w(1)] by (simp add: indexed_def add_entries_def)
  qed
  then show ?thesis using umap_in_set_find [OF w(3)] by (auto simp: index_agrees_def each_def list_all_iff indexed_as_def)
qed

lemma run_ops_agrees:
  assumes "fabric_reach n st" "n + length ops < 2 ^ 64 - 1" "index_agrees p st" "settled p ops st"
  shows "index_agrees p (run_ops ops st)"
  using assms
proof (induction ops arbitrary: n st)
  case (Cons o1 ops)
  have "index_agrees p (snd (run_op o1 st))"
    using run_op_agrees [OF Cons.prems(3) regions_wf [OF Cons.prems(1)], of o1] Cons.prems(2,4) by simp
  then show ?case using Cons.IH [OF fabric_reach.step [OF Cons.prems(1), of o1]] Cons.prems(2,4) by simp
qed simp

section \<open>Selection from a pool\<close>

lemma pool_admits_indexed: "pool_admits req rr \<longleftrightarrow> null (rq_preferredPool req) \<or> indexed (rq_preferredPool req) rr"
  by (force simp: pool_admits_def indexed_def)

lemma start_agrees:
  assumes "load_bytes bytes = ok st0 \<or> st0 = new_fabric e"
  shows "fabric_reach 0 st0" "index_agrees p st0"
  using assms fabric_reach.start fabric_reach.loaded new_fabric_agrees loaded_agrees by blast+

lemma settled_listed:
  assumes "load_bytes bytes = ok st0 \<or> st0 = new_fabric e" "length ops < 2 ^ 64 - 1" "settled p ops st0"
    and "umap_find (im_regions (run_ops ops st0)) i = Some rr"
  shows "indexed p rr \<longleftrightarrow> pool_lists (run_ops ops st0) p i"
proof -
  have "index_agrees p (run_ops ops st0)"
    using run_ops_agrees [OF start_agrees(1) [OF assms(1)] _ start_agrees(2) [OF assms(1)] assms(3)] assms(2) by simp
  then show ?thesis using each_find assms(4) by (fastforce simp: index_agrees_def indexed_as_def)
qed

section \<open>Concrete runs\<close>

text \<open>The run of \<open>Scenario\<close>, after which the operator makes a pool of its region.\<close>

definition sc_pool_setup :: "op list" where
  "sc_pool_setup = sc_setup @
     [RegisterPool 20 \<lparr>pl_id = TypedId 3, pl_generation = TypedId 1, pl_name = ''p'', pl_origin = OriginClass.SYNTHETIC,
        pl_members = []\<rparr> sc_operator,
      AddPoolMember (TypedId 3) \<lparr>pm_region = TypedId 5, pm_generation = TypedId 1\<rparr> sc_operator]"

definition sc_pool_request :: ConsumerRequirements where
  "sc_pool_request = sc_request\<lparr>rq_preferredPool := TypedId 3\<rparr>"

lemma settled_append: "settled p (xs @ ys) st \<longleftrightarrow> settled p xs st \<and> settled p ys (run_ops xs st)"
  by (induction xs arbitrary: st) simp_all

lemma sc_pooled:
  "im_regions (run_ops sc_pool_setup (new_fabric sc_epoch)) =
     [(TypedId 5, sc_region_record\<lparr>rr_poolMemberships := [(TypedId 3, TypedId 1)]\<rparr>)]"
  "im_providers (run_ops sc_pool_setup (new_fabric sc_epoch)) = im_providers sc_ready"
  "im_policies (run_ops sc_pool_setup (new_fabric sc_epoch)) = im_policies sc_ready"
  "pool_lists (run_ops sc_pool_setup (new_fabric sc_epoch)) (TypedId 3) (TypedId 5)"
proof -
  have g: "rd_generation (rr_descriptor sc_region_record) = TypedId 1" "rr_poolMemberships sc_region_record = []"
    by (simp_all add: sc_region_record_def sc_region_def)
  have "run_ops sc_pool_setup (new_fabric sc_epoch) = sc_ready\<lparr>
      im_pools := [(TypedId 3, \<lparr>plr_descriptor = \<lparr>pl_id = TypedId 3, pl_generation = TypedId 1, pl_name = ''p'',
         pl_origin = OriginClass.SYNTHETIC, pl_members = [\<lparr>pm_region = TypedId 5, pm_generation = TypedId 1\<rparr>]\<rparr>,
         plr_registeredAtMs = 20\<rparr>)],
      im_regions := [(TypedId 5, sc_region_record\<lparr>rr_poolMemberships := [(TypedId 3, TypedId 1)]\<rparr>)]\<rparr>"
    unfolding sc_pool_setup_def run_ops_append sc_ready_def [symmetric]
    by (simp add: sc_ready_eq new_fabric_def registerPool_def addPoolMember_def append_member_def authorityAcceptableLocked_def
        sc_operator_def operator_authority_def umap_put_def umap_find_def umap_modify_def Let_def g)
  note eq = this
  show "im_regions (run_ops sc_pool_setup (new_fabric sc_epoch)) =
      [(TypedId 5, sc_region_record\<lparr>rr_poolMemberships := [(TypedId 3, TypedId 1)]\<rparr>)]"
    "im_providers (run_ops sc_pool_setup (new_fabric sc_epoch)) = im_providers sc_ready"
    "im_policies (run_ops sc_pool_setup (new_fabric sc_epoch)) = im_policies sc_ready"
    "pool_lists (run_ops sc_pool_setup (new_fabric sc_epoch)) (TypedId 3) (TypedId 5)"
    unfolding eq by (simp_all add: pool_lists_def umap_find_def)
qed

lemma sc_pool_settled: "settled (TypedId 3) sc_pool_setup (new_fabric sc_epoch)"
proof -
  have "im_pools (snd (run_op (RegisterProvider 10 sc_provider sc_operator) (new_fabric sc_epoch))) = []"
    using pools_untouched [of "RegisterProvider 10 sc_provider sc_operator"] by (simp add: new_fabric_def del: run_op.simps)
  then have "settled (TypedId 3) sc_setup (new_fabric sc_epoch)"
    by (simp add: sc_setup_def pool_lists_def umap_find_def del: run_op.simps)
  moreover have "im_pools sc_ready = []" by (simp add: sc_ready_eq new_fabric_def)
  ultimately show ?thesis
    unfolding sc_pool_setup_def settled_append sc_ready_def [symmetric] by (simp add: umap_find_def del: run_op.simps)
qed

lemma sc_pool_eligible:
  "evaluateRegionEligibility (run_ops sc_pool_setup (new_fabric sc_epoch)) sc_pool_request
     (sc_region_record\<lparr>rr_poolMemberships := [(TypedId 3, TypedId 1)]\<rparr>) = ELIGIBLE"
proof -
  let ?pr = "\<lparr>pr_descriptor = sc_provider, pr_lifecycle = Lifecycle.ONLINE, pr_registeredAtMs = 10\<rparr>"
  have "evaluateRegionEligibility st sc_pool_request (sc_region_record\<lparr>rr_poolMemberships := ms\<rparr>) = ELIGIBLE"
    if "im_providers st = [(TypedId 1, ?pr)]" "im_policies st = []" for st ms
    using that
    by (simp add: evaluateRegionEligibility_def sc_pool_request_def sc_region_record_def sc_defs umap_find_def
        effective_allowDegraded_def default_ConsumerRequirements_def default_RegionEvidence_def null_id_def Let_def)
  moreover have "im_providers sc_ready = [(TypedId 1, ?pr)]" "im_policies sc_ready = []"
    by (simp_all add: sc_ready_eq new_fabric_def)
  ultimately show ?thesis by (metis sc_pooled(2,3))
qed

text \<open>A restart: the saved run is loaded, and the operator publishes evidence of the new epoch.\<close>

definition sc_restarted :: Impl where
  "sc_restarted = rebuild_memberships (recover_tables (TypedId 2) sc_held)"

definition sc_again :: RegionEvidence where
  "sc_again = sc_evidence\<lparr>ev_header := (ev_header sc_evidence)\<lparr>eh_epoch := TypedId 2\<rparr>\<rparr>"

definition sc_revived :: "op list" where
  "sc_revived = [PublishRegionEvidence 30 sc_again (operator_authority (TypedId 2))]"

lemma sc_restart: "load_bytes (file_of_payload (put_state sc_held)) = ok sc_restarted"
proof -
  have "id_value (im_epoch sc_held) + 1 = 2" by (simp add: sc_held_eq sc_ready_eq new_fabric_def sc_epoch_def)
  then show ?thesis
    using load_saved [OF _ deserialize_serialize [OF sc_persistable reach_tables_wf [OF sc_held_reach]]] sc_persistable
    by (simp add: persistable_def sc_restarted_def)
qed

lemma sc_revived_ranked: "TypedId 5 \<in> rc_region ` set (ranking (run_ops sc_revived sc_restarted) sc_request)"
proof -
  let ?rr = "record_evidence 30 sc_again \<lparr>total = 4096, governedOnline = 2048, free = 2048, reserved = 0, committed = 0,
      draining = 0, unavailable = 0\<rparr> (new_region sc_region RegionLifecycle.REVALIDATION_REQUIRED (new_ledger 4096))"
  let ?on = "?rr\<lparr>rr_lifecycle := RegionLifecycle.ONLINE\<rparr>"
  have st: "sc_restarted = (new_fabric (TypedId 2))\<lparr>
      im_providers := [recover_provider (TypedId 1, \<lparr>pr_descriptor = sc_provider, pr_lifecycle = Lifecycle.ONLINE, pr_registeredAtMs = 10\<rparr>)],
      im_regions := [(TypedId 5, new_region sc_region RegionLifecycle.REVALIDATION_REQUIRED (new_ledger 4096))]\<rparr>"
    by (simp add: sc_restarted_def rebuild_memberships_def recover_tables_def sc_held_eq sc_ready_eq new_fabric_def
        recover_region_def sc_region_record_def sc_region_def)
  have "\<exists>pr. im_providers (run_ops sc_revived sc_restarted) = [(TypedId 1, pr)] \<and>
      pr_descriptor pr = sc_provider \<and> pr_lifecycle pr \<notin> {Lifecycle.RETIRED, Lifecycle.FAILED}" (is "\<exists>pr. ?p pr")
    and regs: "im_regions (run_ops sc_revived sc_restarted) = [(TypedId 5, ?on)]"
    and pols: "im_policies (run_ops sc_revived sc_restarted) = []"
    unfolding st sc_revived_def
    by (simp_all add: recover_provider_def new_fabric_def publishRegionEvidence_def sc_again_def sc_defs
      authorityAcceptableLocked_def umap_find_def umap_modify_def Let_def new_region_def new_ledger_def setOnline_def
      invariant_def record_evidence_def evidence_target_def regionLifecycleAllowed_def reflect_provider_def
      providerLifecycleAllowed_def default_RegionEvidence_def default_EvidenceHeader_def)
  then obtain pr where pr: "?p pr" by blast
  have "evaluateRegionEligibility (run_ops sc_revived sc_restarted) sc_request ?on = ELIGIBLE"
    using pr by (simp add: evaluateRegionEligibility_def pols umap_find_def record_evidence_def new_region_def sc_again_def
        sc_defs effective_allowDegraded_def default_ConsumerRequirements_def default_RegionEvidence_def null_id_def Let_def)
  moreover have "pool_admits sc_request ?on"
    by (simp add: pool_admits_def sc_request_def default_ConsumerRequirements_def)
  moreover have "umap_wf (im_regions (run_ops sc_revived sc_restarted))" by (simp add: regs umap_wf_def)
  ultimately show ?thesis using ranked_iff regs by (auto simp: umap_find_def)
qed

text \<open>Evidence of the generation the reservation of \<open>Scenario\<close> was granted on, but of a degraded and smaller region.\<close>

definition sc_weaker :: RegionEvidence where
  "sc_weaker = sc_evidence\<lparr>ev_health := HealthState.DEGRADED, ev_onlineCapacityBytes := 1024\<rparr>"

lemma sc_weaker_fields:
  "ev_health sc_weaker = HealthState.DEGRADED" "ev_onlineCapacityBytes sc_weaker < ev_onlineCapacityBytes sc_evidence"
  "eh_region (ev_header sc_weaker) = TypedId 5" "eh_generation (ev_header sc_weaker) = TypedId 3"
  "ev_health sc_weaker \<noteq> HealthState.FAILED"
  by (simp_all add: sc_weaker_def sc_evidence_def)

lemma sc_weaker_published:
  "publishRegionEvidence 14 sc_weaker sc_worker sc_held = (ok (), snd (publishRegionEvidence 14 sc_weaker sc_worker sc_held))"
proof -
  have "fst (setOnline 1024 sc_reserved_ledger)" by (simp add: setOnline_def sc_reserved_ledger_def invariant_def Let_def)
  then have "fst (publishRegionEvidence 14 sc_weaker sc_worker sc_held) = ok ()"
    by (simp add: publishRegionEvidence_def sc_held_eq sc_ready_eq new_fabric_def sc_weaker_def sc_defs
        authorityAcceptableLocked_def umap_find_def sc_region_record_def Let_def case_prod_beta evidence_target_def
        regionLifecycleAllowed_def)
  then show ?thesis by (metis prod.collapse)
qed

end
