(* ===== verification/Cursor.thy ===== *)
theory Cursor
  imports Bytes Crc
begin

unbundle bit_operations_syntax

text \<open>
  The classes \<open>ByteReader\<close> and \<open>ByteWriter\<close> and the checksum of \<open>src/persistence.cpp\<close> as the code has them:
  a pointer to memory with a length and a position of type \<open>size_t\<close>, a growing vector, and a static table
  that the first call fills. The codecs of \<open>Storage\<close> are written over the readers and writers of
  \<open>Bytes\<close>, which work on the bytes that are left; this theory proves the classes refine them, without
  any access outside the buffer, and that filling the table on demand makes no difference.
\<close>

section \<open>The reader\<close>

record ByteReader =
  br_p :: "u8 list"
  br_len :: u64
  br_pos :: u64

text \<open>
  A method returns its value, or \<open>None\<close> where it returns false, and the reader it leaves. The outer
  \<open>None\<close> is an access outside the memory behind the pointer, which the language leaves undefined.
\<close>

type_synonym 'a br_method = "ByteReader \<Rightarrow> ('a option \<times> ByteReader) option"

definition new_reader :: "u8 list \<Rightarrow> ByteReader" where
  "new_reader bytes = \<lparr>br_p = bytes, br_len = of_nat (length bytes), br_pos = 0\<rparr>"

definition have_bytes :: "u64 \<Rightarrow> ByteReader \<Rightarrow> bool" where
  "have_bytes n r \<longleftrightarrow> n \<le> br_len r - br_pos r"

definition byte_at :: "u64 \<Rightarrow> ByteReader \<Rightarrow> u8 option" where
  "byte_at i r = (if unat i < length (br_p r) then Some (br_p r ! unat i) else None)"

definition advance :: "u64 \<Rightarrow> ByteReader \<Rightarrow> ByteReader" where
  "advance n r = r\<lparr>br_pos := br_pos r + n\<rparr>"

definition br_u8 :: "u8 br_method" where
  "br_u8 r =
     (if \<not> have_bytes 1 r then Some (None, r)
      else case byte_at (br_pos r) r of
        None \<Rightarrow> None
      | Some b \<Rightarrow> Some (Some b, advance 1 r))"

definition br_u16 :: "u16 br_method" where
  "br_u16 r =
     (if \<not> have_bytes 2 r then Some (None, r)
      else case (byte_at (br_pos r) r, byte_at (br_pos r + 1) r) of
        (Some b0, Some b1) \<Rightarrow> Some (Some (ucast b0 OR push_bit 8 (ucast b1)), advance 2 r)
      | _ \<Rightarrow> None)"

definition br_u32 :: "u32 br_method" where
  "br_u32 r =
     (if \<not> have_bytes 4 r then Some (None, r)
      else case (byte_at (br_pos r) r, byte_at (br_pos r + 1) r, byte_at (br_pos r + 2) r, byte_at (br_pos r + 3) r) of
        (Some b0, Some b1, Some b2, Some b3) \<Rightarrow>
          Some (Some (ucast b0 OR push_bit 8 (ucast b1) OR push_bit 16 (ucast b2) OR push_bit 24 (ucast b3)), advance 4 r)
      | _ \<Rightarrow> None)"

text \<open>The calls of one method in the body of another: the second runs only when the first returned true.\<close>

definition br_then :: "'a br_method \<Rightarrow> ('a \<Rightarrow> 'b br_method) \<Rightarrow> 'b br_method" where
  "br_then m k r =
     (case m r of
        None \<Rightarrow> None
      | Some (None, r') \<Rightarrow> Some (None, r')
      | Some (Some v, r') \<Rightarrow> k v r')"

definition br_u64 :: "u64 br_method" where
  "br_u64 = br_then br_u32 (\<lambda>lo. br_then br_u32 (\<lambda>hi r. Some (Some (ucast lo OR push_bit 32 (ucast hi)), r)))"

definition br_copy :: "u32 \<Rightarrow> string br_method" where
  "br_copy n r =
     (if unat n > kMaxString then Some (None, r)
      else if \<not> have_bytes (ucast n) r then Some (None, r)
      else if unat (br_pos r) + unat n \<le> length (br_p r)
      then Some (Some (map char_of_byte (take (unat n) (drop (unat (br_pos r)) (br_p r)))), advance (ucast n) r)
      else None)"

definition br_str :: "string br_method" where
  "br_str = br_then br_u32 br_copy"

definition br_finish :: "ByteReader \<Rightarrow> bool" where
  "br_finish r \<longleftrightarrow> br_pos r = br_len r"

section \<open>The writer\<close>

definition bw_u8 :: "u8 \<Rightarrow> u8 list \<Rightarrow> u8 list" where
  "bw_u8 v b = b @ [v]"

definition bw_u16 :: "u16 \<Rightarrow> u8 list \<Rightarrow> u8 list" where
  "bw_u16 v b = (b @ [ucast (v AND 0xFF)]) @ [ucast (drop_bit 8 v AND 0xFF)]"

definition bw_u32 :: "u32 \<Rightarrow> u8 list \<Rightarrow> u8 list" where
  "bw_u32 v b = (((b @ [ucast (v AND 0xFF)]) @ [ucast (drop_bit 8 v AND 0xFF)]) @
     [ucast (drop_bit 16 v AND 0xFF)]) @ [ucast (drop_bit 24 v AND 0xFF)]"

definition bw_u64 :: "u64 \<Rightarrow> u8 list \<Rightarrow> u8 list" where
  "bw_u64 v b = bw_u32 (ucast (drop_bit 32 v)) (bw_u32 (ucast v) b)"

definition bw_str :: "string \<Rightarrow> u8 list \<Rightarrow> u8 list" where
  "bw_str s b = bw_u32 (of_nat (length s)) b @ map byte_of_char s"

section \<open>The checksum with its static table\<close>

record CrcStatics =
  cs_table :: "u32 list"
  cs_init :: bool

definition fresh_statics :: CrcStatics where
  "fresh_statics = \<lparr>cs_table = replicate 256 0, cs_init = False\<rparr>"

text \<open>The loop of eight shifts, and the loop that fills the entries from \<open>i\<close> on.\<close>

fun crc_entry :: "nat \<Rightarrow> u32 \<Rightarrow> u32" where
  "crc_entry 0 c = c"
| "crc_entry (Suc k) c = crc_entry k (if c AND 1 \<noteq> 0 then 0xEDB88320 XOR drop_bit 1 c else drop_bit 1 c)"

fun fill_table :: "nat list \<Rightarrow> u32 list \<Rightarrow> u32 list" where
  "fill_table [] table = table"
| "fill_table (i # is) table = fill_table is (table[i := crc_entry 8 (of_nat i)])"

fun crc_loop :: "u32 list \<Rightarrow> u8 list \<Rightarrow> u32 \<Rightarrow> u32" where
  "crc_loop table [] crc = crc"
| "crc_loop table (b # data) crc =
     crc_loop table data (table ! unat ((crc XOR ucast b) AND 0xFF) XOR drop_bit 8 crc)"

definition crc32_static :: "u8 list \<Rightarrow> CrcStatics \<Rightarrow> u32 \<times> CrcStatics" where
  "crc32_static data s =
     (let s' = (if \<not> cs_init s then \<lparr>cs_table = fill_table [0..<256] (cs_table s), cs_init = True\<rparr> else s)
      in (crc_loop (cs_table s') data 0xFFFFFFFF XOR 0xFFFFFFFF, s'))"

section \<open>The reader refines reading from a list\<close>

text \<open>The bytes that are left, and a reader whose length is that of its memory.\<close>

definition left :: "ByteReader \<Rightarrow> u8 list" where
  "left r = drop (unat (br_pos r)) (br_p r)"

definition reader_ok :: "ByteReader \<Rightarrow> bool" where
  "reader_ok r \<longleftrightarrow> unat (br_len r) = length (br_p r) \<and> br_pos r \<le> br_len r"

definition refines :: "'a br_method \<Rightarrow> 'a reader \<Rightarrow> bool" where
  "refines m rd \<longleftrightarrow> (\<forall>r. reader_ok r \<longrightarrow>
     (\<exists>res r'. m r = Some (res, r') \<and> reader_ok r' \<and> br_p r' = br_p r \<and> br_pos r \<le> br_pos r' \<and>
        (case rd (left r) of None \<Rightarrow> res = None | Some (v, rest) \<Rightarrow> res = Some v \<and> left r' = rest)))"

lemma have_iff: "reader_ok r \<Longrightarrow> have_bytes n r \<longleftrightarrow> unat n \<le> length (left r)"
  by (simp add: have_bytes_def reader_ok_def left_def word_le_nat_alt unat_sub)

lemma advance_ok:
  assumes "reader_ok r" "unat n \<le> length (left r)"
  shows "reader_ok (advance n r)" "br_p (advance n r) = br_p r" "br_pos r \<le> br_pos (advance n r)"
    "left (advance n r) = drop (unat n) (left r)"
proof -
  have b: "unat (br_pos r) + unat n \<le> unat (br_len r)"
    using assms by (auto simp: reader_ok_def left_def word_le_nat_alt)
  then have "unat (br_pos r + n) = unat (br_pos r) + unat n"
    using unsigned_less [of "br_len r", where 'a = nat] by (intro unat_add_lem [THEN iffD1]) simp
  with b assms(1) show "reader_ok (advance n r)" "br_p (advance n r) = br_p r" "br_pos r \<le> br_pos (advance n r)"
    "left (advance n r) = drop (unat n) (left r)"
    by (simp_all add: reader_ok_def advance_def left_def word_le_nat_alt add.commute)
qed

lemma byte_at_left:
  assumes "reader_ok r" "k < length (left r)"
  shows "byte_at (br_pos r + of_nat k) r = Some (left r ! k)"
proof -
  have b: "unat (br_pos r) + k < unat (br_len r)" using assms by (auto simp: reader_ok_def left_def word_le_nat_alt)
  then have "unat (of_nat k :: u64) = k"
    using unsigned_less [of "br_len r", where 'a = nat] by (simp add: unat_of_nat take_bit_nat_eq_self)
  moreover from this have "unat (br_pos r + of_nat k) = unat (br_pos r) + unat (of_nat k :: u64)"
    using b unsigned_less [of "br_len r", where 'a = nat] by (intro unat_add_lem [THEN iffD1]) simp
  ultimately show ?thesis using assms b by (simp add: byte_at_def left_def reader_ok_def nth_append)
qed

lemma left_bytes:
  assumes "reader_ok r" "left r = bs @ rest"
  shows "k < length bs \<Longrightarrow> byte_at (br_pos r + of_nat k) r = Some (bs ! k)"
  using byte_at_left [OF assms(1), of k] assms(2) by (simp add: nth_append)

lemma refinesI:
  assumes "\<And>r. reader_ok r \<Longrightarrow> rd (left r) = None \<Longrightarrow> m r = Some (None, r)"
    and "\<And>r v rest. reader_ok r \<Longrightarrow> rd (left r) = Some (v, rest) \<Longrightarrow>
      \<exists>n. unat n \<le> length (left r) \<and> m r = Some (Some v, advance n r) \<and> rest = drop (unat n) (left r)"
  shows "refines m rd"
  unfolding refines_def
proof (intro allI impI)
  fix r assume r: "reader_ok r"
  show "\<exists>res r'. m r = Some (res, r') \<and> reader_ok r' \<and> br_p r' = br_p r \<and> br_pos r \<le> br_pos r' \<and>
        (case rd (left r) of None \<Rightarrow> res = None | Some (v, rest) \<Rightarrow> res = Some v \<and> left r' = rest)"
  proof (cases "rd (left r)")
    case None
    then show ?thesis using assms(1) [OF r] r by simp
  next
    case (Some x)
    obtain v rest where x: "x = (v, rest)" by fastforce
    from assms(2) [OF r Some [unfolded x]] obtain n where n: "unat n \<le> length (left r)"
        "m r = Some (Some v, advance n r)" "rest = drop (unat n) (left r)" by blast
    then show ?thesis using advance_ok [OF r n(1)] by (simp add: Some x)
  qed
qed

lemma refines_u8: "refines br_u8 r_u8"
proof (rule refinesI)
  fix r v rest assume r: "reader_ok r" and rd: "r_u8 (left r) = Some (v, rest)"
  then have l: "left r = [v] @ rest" by (cases "left r") auto
  have "br_u8 r = Some (Some v, advance 1 r)"
    using left_bytes [OF r l, of 0] l by (simp add: br_u8_def have_iff [OF r])
  then show "\<exists>n. unat n \<le> length (left r) \<and> br_u8 r = Some (Some v, advance n r) \<and> rest = drop (unat n) (left r)"
    using l by (intro exI [of _ 1]) simp
next
  fix r assume r: "reader_ok r" and "r_u8 (left r) = None"
  then have "left r = []" by (cases "left r") auto
  then show "br_u8 r = Some (None, r)" by (simp add: br_u8_def have_iff [OF r])
qed

lemma refines_u16: "refines br_u16 r_u16"
proof (rule refinesI)
  fix r v rest assume r: "reader_ok r" and rd: "r_u16 (left r) = Some (v, rest)"
  then obtain b0 b1 where l: "left r = [b0, b1] @ rest" and v: "v = ucast b0 OR push_bit 8 (ucast b1)"
    by (auto elim: r_u16.elims)
  have "br_u16 r = Some (Some v, advance 2 r)"
    using left_bytes [OF r l, of 0] left_bytes [OF r l, of 1] l v by (simp add: br_u16_def have_iff [OF r])
  then show "\<exists>n. unat n \<le> length (left r) \<and> br_u16 r = Some (Some v, advance n r) \<and> rest = drop (unat n) (left r)"
    using l by (intro exI [of _ 2]) simp
next
  fix r assume r: "reader_ok r" and "r_u16 (left r) = None"
  then have "length (left r) < 2" by (auto elim: r_u16.elims)
  then show "br_u16 r = Some (None, r)" by (simp add: br_u16_def have_iff [OF r])
qed

lemma refines_u32: "refines br_u32 r_u32"
proof (rule refinesI)
  fix r v rest assume r: "reader_ok r" and rd: "r_u32 (left r) = Some (v, rest)"
  then obtain b0 b1 b2 b3 where l: "left r = [b0, b1, b2, b3] @ rest"
    and v: "v = ucast b0 OR push_bit 8 (ucast b1) OR push_bit 16 (ucast b2) OR push_bit 24 (ucast b3)"
    by (auto elim: r_u32.elims)
  have "br_u32 r = Some (Some v, advance 4 r)"
    using left_bytes [OF r l, of 0] left_bytes [OF r l, of 1] left_bytes [OF r l, of 2] left_bytes [OF r l, of 3] l v
    by (simp add: br_u32_def have_iff [OF r])
  then show "\<exists>n. unat n \<le> length (left r) \<and> br_u32 r = Some (Some v, advance n r) \<and> rest = drop (unat n) (left r)"
    using l by (intro exI [of _ 4]) simp
next
  fix r assume r: "reader_ok r" and "r_u32 (left r) = None"
  then have "length (left r) < 4" by (auto elim: r_u32.elims)
  then show "br_u32 r = Some (None, r)" by (simp add: br_u32_def have_iff [OF r])
qed

text \<open>
  The contract of a method, and what a caller makes of it: a method that calls another and goes on with
  its value refines the composition of the list readers.
\<close>

locale cursor_method =
  fixes m :: "'a br_method" and rd :: "'a reader"
  assumes refines: "refines m rd"
begin

lemma call:
  assumes "reader_ok r"
  obtains res r' where "m r = Some (res, r')" "reader_ok r'" "br_p r' = br_p r" "br_pos r \<le> br_pos r'"
    "case rd (left r) of None \<Rightarrow> res = None | Some (v, rest) \<Rightarrow> res = Some v \<and> left r' = rest"
  using refines assms unfolding refines_def by blast

lemma in_bounds: "reader_ok r \<Longrightarrow> m r \<noteq> None"
  by (erule call) simp

lemma then_refines:
  assumes "\<And>v. refines (k v) (kd v)"
  shows "refines (br_then m k) (\<lambda>bs. case rd bs of None \<Rightarrow> None | Some (v, rest) \<Rightarrow> kd v rest)"
  unfolding refines_def
proof (intro allI impI)
  fix r assume "reader_ok r"
  then obtain res r' where c: "m r = Some (res, r')" "reader_ok r'" "br_p r' = br_p r" "br_pos r \<le> br_pos r'"
    "case rd (left r) of None \<Rightarrow> res = None | Some (v, rest) \<Rightarrow> res = Some v \<and> left r' = rest" by (rule call)
  show "\<exists>res r'. br_then m k r = Some (res, r') \<and> reader_ok r' \<and> br_p r' = br_p r \<and> br_pos r \<le> br_pos r' \<and>
     (case (case rd (left r) of None \<Rightarrow> None | Some (v, rest) \<Rightarrow> kd v rest) of
        None \<Rightarrow> res = None | Some (v, rest) \<Rightarrow> res = Some v \<and> left r' = rest)"
  proof (cases "rd (left r)")
    case None
    then show ?thesis using c by (simp add: br_then_def)
  next
    case (Some x)
    obtain v rest where x: "x = (v, rest)" by fastforce
    obtain res2 r2 where d: "k v r' = Some (res2, r2)" "reader_ok r2" "br_p r2 = br_p r'" "br_pos r' \<le> br_pos r2"
      "case kd v (left r') of None \<Rightarrow> res2 = None | Some (w, rest) \<Rightarrow> res2 = Some w \<and> left r2 = rest"
      using assms [of v] c(2) unfolding refines_def by blast
    have "br_then m k r = Some (res2, r2)" "left r' = rest" using c(1,5) d(1) by (simp_all add: br_then_def Some x)
    then show ?thesis using c(3,4) d(2-5) by (simp add: Some x)
  qed
qed

end

interpretation cur8: cursor_method br_u8 r_u8
  by unfold_locales (rule refines_u8)

interpretation cur16: cursor_method br_u16 r_u16
  by unfold_locales (rule refines_u16)

interpretation cur32: cursor_method br_u32 r_u32
  by unfold_locales (rule refines_u32)

lemma refines_return: "refines (\<lambda>r. Some (Some v, r)) (\<lambda>bs. Some (v, bs))"
  by (simp add: refines_def)

interpretation cur64: cursor_method br_u64 r_u64
proof unfold_locales
  have "r_u64 = (\<lambda>bs. case r_u32 bs of None \<Rightarrow> None | Some (lo, bs') \<Rightarrow>
      (case r_u32 bs' of None \<Rightarrow> None | Some (hi, rest) \<Rightarrow> Some (ucast lo OR push_bit 32 (ucast hi), rest)))"
    by (simp add: r_u64_def fun_eq_iff)
  then show "refines br_u64 r_u64"
    unfolding br_u64_def by (elim ssubst) (intro cur32.then_refines refines_return)
qed

lemma refines_copy:
  "refines (br_copy n) (\<lambda>rest. if unat n > kMaxString then None else if unat n > length rest then None
     else Some (map char_of_byte (take (unat n) rest), drop (unat n) rest))" (is "refines _ ?rd")
proof (rule refinesI)
  have n: "unat (ucast n :: u64) = unat n" using unsigned_less [of n, where 'a = nat]
    by (simp add: unsigned_ucast_eq take_bit_nat_eq_self)
  fix r assume r: "reader_ok r"
  {
    assume "?rd (left r) = None"
    then show "br_copy n r = Some (None, r)" by (auto simp: br_copy_def have_iff [OF r] n split: if_splits)
  next
    fix v rest assume rd: "?rd (left r) = Some (v, rest)"
    then have l: "\<not> unat n > kMaxString" "unat n \<le> length (left r)" "v = map char_of_byte (take (unat n) (left r))"
      "rest = drop (unat n) (left r)" by (auto split: if_splits)
    moreover have "unat (br_pos r) + unat n \<le> length (br_p r)"
      using l(2) r by (auto simp: left_def reader_ok_def word_le_nat_alt)
    ultimately have "br_copy n r = Some (Some v, advance (ucast n) r)"
      by (simp add: br_copy_def have_iff [OF r] n left_def)
    then show "\<exists>k. unat k \<le> length (left r) \<and> br_copy n r = Some (Some v, advance k r) \<and> rest = drop (unat k) (left r)"
      using l n by (intro exI [of _ "ucast n"]) simp
  }
qed

interpretation curstr: cursor_method br_str r_str
proof unfold_locales
  have "r_str = (\<lambda>bs. case r_u32 bs of None \<Rightarrow> None | Some (n, rest) \<Rightarrow>
      (if unat n > kMaxString then None else if unat n > length rest then None
       else Some (map char_of_byte (take (unat n) rest), drop (unat n) rest)))"
    by (simp add: r_str_def fun_eq_iff)
  then show "refines br_str r_str"
    unfolding br_str_def by (elim ssubst) (intro cur32.then_refines refines_copy)
qed

lemma new_reader_ok: "length bytes < 2 ^ 64 \<Longrightarrow> reader_ok (new_reader bytes) \<and> left (new_reader bytes) = bytes"
  by (simp add: reader_ok_def new_reader_def left_def unat_of_nat take_bit_nat_eq_self)

lemma finish_iff: "reader_ok r \<Longrightarrow> br_finish r \<longleftrightarrow> left r = []"
  by (auto simp: reader_ok_def br_finish_def left_def word_le_nat_alt word_unat_eq_iff)

section \<open>Writer and checksum\<close>

lemma writer_appends:
  "bw_u8 v8 b = b @ w_u8 v8" "bw_u16 v16 b = b @ w_u16 v16" "bw_u32 v32 b = b @ w_u32 v32"
  "bw_u64 v64 b = b @ w_u64 v64" "bw_str s b = b @ w_str s"
  by (simp_all add: bw_u8_def bw_u16_def bw_u32_def bw_u64_def bw_str_def w_u8_def w_u16_def w_u32_def w_u64_def w_str_def)

lemma crc_entry_bits: "crc_entry k c = (crc_bit ^^ k) c"
  by (induction k arbitrary: c) (simp_all add: crc_bit_def funpow_swap1)

lemma fill_table_nth:
  "distinct is \<Longrightarrow> j < length table \<Longrightarrow>
     fill_table is table ! j = (if j \<in> set is then crc_entry 8 (of_nat j) else table ! j)"
  by (induction "is" arbitrary: table) (auto simp: nth_list_update)

lemma fill_table_length [simp]: "length (fill_table is table) = length table"
  by (induction "is" arbitrary: table) simp_all

lemma filled: "length table = 256 \<Longrightarrow> fill_table [0..<256] table = crc_table"
  by (rule nth_equalityI) (simp_all add: fill_table_nth crc_table_def crc_entry_bits)

lemma crc_loop_fold: "crc_loop crc_table data crc = foldl crc_step crc data"
  by (induction data arbitrary: crc) (simp_all add: crc_step_def)

definition statics_ok :: "CrcStatics \<Rightarrow> bool" where
  "statics_ok s \<longleftrightarrow> length (cs_table s) = 256 \<and> (cs_init s \<longrightarrow> cs_table s = crc_table)"

lemma crc32_static_eq:
  assumes "statics_ok s"
  shows "fst (crc32_static data s) = crc32 data" "statics_ok (snd (crc32_static data s))"
  using assms by (simp_all add: crc32_static_def statics_ok_def Let_def filled crc_loop_fold crc32_def) (simp add: crc_table_def)

section \<open>The classes and the codecs agree\<close>

text \<open>
  C21. The byte classes of the persistence code do what its codecs rely on. On a reader whose length is
  that of its buffer, every read method stays within the buffer and within 64-bit arithmetic, returns
  exactly what the list reader returns on the bytes that are left, and leaves such a reader; a new reader
  is one, and it has reached its end exactly when no byte is left. Every write method appends exactly the
  bytes of the list writer. The checksum with its table filled on the first call returns the checksum on
  the first and on every later call.
\<close>
theorem byte_classes_refine_lists:
  "refines br_u8 r_u8 \<and> refines br_u16 r_u16 \<and> refines br_u32 r_u32 \<and> refines br_u64 r_u64 \<and> refines br_str r_str \<and>
   (length bytes < 2 ^ 64 \<longrightarrow> reader_ok (new_reader bytes) \<and> left (new_reader bytes) = bytes) \<and>
   (reader_ok r \<longrightarrow> br_finish r = (left r = [])) \<and>
   bw_u8 v8 b = b @ w_u8 v8 \<and> bw_u16 v16 b = b @ w_u16 v16 \<and> bw_u32 v32 b = b @ w_u32 v32 \<and>
   bw_u64 v64 b = b @ w_u64 v64 \<and> bw_str s b = b @ w_str s \<and>
   statics_ok fresh_statics \<and>
   (statics_ok cs \<longrightarrow> fst (crc32_static data cs) = crc32 data \<and> statics_ok (snd (crc32_static data cs)))"
  by (intro conjI impI cur8.refines cur16.refines cur32.refines cur64.refines curstr.refines writer_appends crc32_static_eq)
    (simp_all add: new_reader_ok finish_iff statics_ok_def fresh_statics_def)

theorem byte_classes_refine_lists_witness:
  "reader_ok (new_reader [0x34, 0x12, 7]) \<and> (\<exists>r. br_u16 (new_reader [0x34, 0x12, 7]) = Some (Some 0x1234, r) \<and> left r = [7]) \<and>
   fst (crc32_static [1, 2, 3] (snd (crc32_static [9] fresh_statics))) = crc32 [1, 2, 3]"
proof -
  note facts = byte_classes_refine_lists [of "[0x34, 0x12, 7]"]
  have r: "reader_ok (new_reader [0x34, 0x12, 7])" "left (new_reader [0x34, 0x12, 7]) = [0x34, 0x12, 7]" using facts by simp_all
  have "refines br_u16 r_u16" using facts by simp
  then obtain res r' where "br_u16 (new_reader [0x34, 0x12, 7]) = Some (res, r')"
      "case r_u16 (left (new_reader [0x34, 0x12, 7])) of None \<Rightarrow> res = None | Some (v, rest) \<Rightarrow> res = Some v \<and> left r' = rest"
    using r(1) unfolding refines_def by blast
  then have "\<exists>r. br_u16 (new_reader [0x34, 0x12, 7]) = Some (Some 0x1234, r) \<and> left r = [7]" by (simp add: r(2))
  moreover have "statics_ok (snd (crc32_static [9] fresh_statics))" using crc32_static_eq(2) facts by blast
  ultimately show ?thesis
    using r(1) byte_classes_refine_lists [where cs = "snd (crc32_static [9] fresh_statics)" and data = "[1, 2, 3]"] by blast
qed

end
