(* ===== verification/Snapshot.thy ===== *)
theory Snapshot
  imports Execution
begin

text \<open>
  Inspection (\<open>src/snapshot.cpp\<close>): the copied view of the state that \<open>Fabric::snapshot\<close> returns and the
  self-check \<open>Fabric::audit\<close>. Both only read the state. An audit is the list of its checks in the
  order the code makes them; its text is one \<open>PASS\<close> or \<open>FAIL\<close> line per check and a verdict line.
\<close>

section \<open>Snapshot records\<close>

record ProviderSnapshot =
  ps_id :: ProviderId
  ps_generation :: ProviderGeneration
  ps_kind :: ProviderKind
  ps_origin :: OriginClass
  ps_name :: string
  ps_failureDomain :: FailureDomainId
  ps_totalCapacityBytes :: u64
  ps_lifecycle :: Lifecycle
  ps_timestampMs :: u64

record DomainSnapshot =
  ds_id :: ExpansionDomainId
  ds_generation :: ExpansionDomainGeneration
  ds_name :: string
  ds_origin :: OriginClass
  ds_failureDomain :: FailureDomainId
  ds_lifecycle :: Lifecycle

record RegionSnapshot =
  gs_id :: RegionId
  gs_generation :: RegionGeneration
  gs_provider :: ProviderId
  gs_domain :: ExpansionDomainId
  gs_name :: string
  gs_totalCapacityBytes :: u64
  gs_lifecycle :: RegionLifecycle
  gs_onlineBytes :: u64
  gs_freeBytes :: u64
  gs_reservedBytes :: u64
  gs_committedBytes :: u64
  gs_drainingBytes :: u64
  gs_unavailableBytes :: u64
  gs_health :: HealthState
  gs_reachable :: bool
  gs_evidenceStatus :: EvidenceStatus
  gs_latencyNs :: u64
  gs_bandwidthBytesPerSec :: u64
  gs_origin :: OriginClass

record PoolSnapshot =
  os_id :: PoolId
  os_generation :: PoolGeneration
  os_name :: string
  os_origin :: OriginClass
  os_members :: "PoolMember list"
  os_totalBytes :: u64
  os_freeBytes :: u64

record ReservationSnapshot =
  vs_id :: ReservationId
  vs_generation :: ReservationGeneration
  vs_consumer :: ConsumerId
  vs_region :: RegionId
  vs_provider :: ProviderId
  vs_bytes :: u64
  vs_state :: ReservationState
  vs_epoch :: CoordinatorEpoch

record PolicySnapshot =
  ys_id :: PolicyId
  ys_generation :: PolicyGeneration
  ys_name :: string
  ys_rules :: "PolicyRule list"

record WorkerSnapshot =
  ws_id :: WorkerId
  ws_boot :: WorkerBootId
  ws_registered :: bool
  ws_alive :: bool
  ws_holdsProcessHandle :: bool
  ws_pid :: u64
  ws_lastSeenMs :: u64

record FabricSnapshot =
  sn_epoch :: CoordinatorEpoch
  sn_providers :: "ProviderSnapshot list"
  sn_domains :: "DomainSnapshot list"
  sn_regions :: "RegionSnapshot list"
  sn_pools :: "PoolSnapshot list"
  sn_reservations :: "ReservationSnapshot list"
  sn_policies :: "PolicySnapshot list"
  sn_workers :: "WorkerSnapshot list"

section \<open>Taking a snapshot\<close>

definition provider_snapshot :: "ProviderId \<times> ProviderRecord \<Rightarrow> ProviderSnapshot" where
  "provider_snapshot = (\<lambda>(i, p).
     \<lparr>ps_id = i, ps_generation = pd_generation (pr_descriptor p), ps_kind = pd_kind (pr_descriptor p),
      ps_origin = pd_origin (pr_descriptor p), ps_name = pd_name (pr_descriptor p),
      ps_failureDomain = pd_failureDomain (pr_descriptor p),
      ps_totalCapacityBytes = pd_totalCapacityBytes (pr_descriptor p),
      ps_lifecycle = pr_lifecycle p, ps_timestampMs = pr_registeredAtMs p\<rparr>)"

definition domain_snapshot :: "ExpansionDomainId \<times> DomainRecord \<Rightarrow> DomainSnapshot" where
  "domain_snapshot = (\<lambda>(i, d).
     \<lparr>ds_id = i, ds_generation = dd_generation (dr_descriptor d), ds_name = dd_name (dr_descriptor d),
      ds_origin = dd_origin (dr_descriptor d), ds_failureDomain = dd_failureDomain (dr_descriptor d),
      ds_lifecycle = dr_lifecycle d\<rparr>)"

definition region_snapshot :: "RegionId \<times> RegionRecord \<Rightarrow> RegionSnapshot" where
  "region_snapshot = (\<lambda>(i, r).
     \<lparr>gs_id = i, gs_generation = rd_generation (rr_descriptor r), gs_provider = rd_provider (rr_descriptor r),
      gs_domain = rd_domain (rr_descriptor r), gs_name = rd_name (rr_descriptor r),
      gs_totalCapacityBytes = rd_totalCapacityBytes (rr_descriptor r), gs_lifecycle = rr_lifecycle r,
      gs_onlineBytes = governedOnline (rr_ledger r), gs_freeBytes = free (rr_ledger r),
      gs_reservedBytes = reserved (rr_ledger r), gs_committedBytes = committed (rr_ledger r),
      gs_drainingBytes = draining (rr_ledger r), gs_unavailableBytes = unavailable (rr_ledger r),
      gs_health = rr_health r, gs_reachable = rr_reachable r, gs_evidenceStatus = rr_evidenceStatus r,
      gs_latencyNs = rr_latencyNs r, gs_bandwidthBytesPerSec = rr_bandwidthBytesPerSec r,
      gs_origin = rd_origin (rr_descriptor r)\<rparr>)"

text \<open>The totals of a pool, summed over its members with 64-bit wrap-around.\<close>

fun pool_totals :: "regions \<Rightarrow> PoolMember list \<Rightarrow> u64 \<times> u64 \<Rightarrow> u64 \<times> u64" where
  "pool_totals regs [] acc = acc"
| "pool_totals regs (m # ms) (tot, fr) =
     pool_totals regs ms
       (case umap_find regs (pm_region m) of
          Some rr \<Rightarrow> (tot + rd_totalCapacityBytes (rr_descriptor rr), fr + free (rr_ledger rr))
        | None \<Rightarrow> (tot, fr))"

definition pool_snapshot :: "regions \<Rightarrow> PoolId \<times> PoolRecord \<Rightarrow> PoolSnapshot" where
  "pool_snapshot regs = (\<lambda>(i, pl).
     let (tot, fr) = pool_totals regs (pl_members (plr_descriptor pl)) (0, 0) in
     \<lparr>os_id = i, os_generation = pl_generation (plr_descriptor pl), os_name = pl_name (plr_descriptor pl),
      os_origin = pl_origin (plr_descriptor pl), os_members = pl_members (plr_descriptor pl),
      os_totalBytes = tot, os_freeBytes = fr\<rparr>)"

definition reservation_snapshot :: "ReservationId \<times> Reservation \<Rightarrow> ReservationSnapshot" where
  "reservation_snapshot = (\<lambda>(i, r).
     \<lparr>vs_id = i, vs_generation = rs_generation r, vs_consumer = rs_consumer r, vs_region = rs_region r,
      vs_provider = rs_provider r, vs_bytes = rs_bytes r, vs_state = rs_state r, vs_epoch = rs_epoch r\<rparr>)"

definition policy_snapshot :: "PolicyId \<times> PolicyRecord \<Rightarrow> PolicySnapshot" where
  "policy_snapshot = (\<lambda>(i, p).
     \<lparr>ys_id = i, ys_generation = po_generation p, ys_name = po_name p, ys_rules = po_rules p\<rparr>)"

definition worker_snapshot :: "WorkerId \<times> WorkerRecord \<Rightarrow> WorkerSnapshot" where
  "worker_snapshot = (\<lambda>(i, w).
     \<lparr>ws_id = i, ws_boot = wr_boot w, ws_registered = True, ws_alive = wr_alive w,
      ws_holdsProcessHandle = wr_holdsHandle w, ws_pid = wr_pid w, ws_lastSeenMs = wr_lastSeenMs w\<rparr>)"

definition snapshot :: "Impl \<Rightarrow> FabricSnapshot" where
  "snapshot st =
     \<lparr>sn_epoch = im_epoch st, sn_providers = map provider_snapshot (im_providers st),
      sn_domains = map domain_snapshot (im_domains st), sn_regions = map region_snapshot (im_regions st),
      sn_pools = map (pool_snapshot (im_regions st)) (im_pools st),
      sn_reservations = map reservation_snapshot (im_reservations st),
      sn_policies = map policy_snapshot (im_policies st), sn_workers = map worker_snapshot (im_workers st)\<rparr>"

section \<open>The audit\<close>

text \<open>\<open>std::to_string\<close> of an unsigned integer.\<close>

fun nat_to_string :: "nat \<Rightarrow> string" where
  "nat_to_string n =
     (if n < 10 then [char_of (48 + n)] else nat_to_string (n div 10) @ [char_of (48 + n mod 10)])"

declare nat_to_string.simps [simp del]

definition to_string :: "u64 \<Rightarrow> string" where
  "to_string w = nat_to_string (unat w)"

definition newline :: string where
  "newline = [CHR 0x0A]"

definition ledger_checks :: "Impl \<Rightarrow> (bool \<times> string) list" where
  "ledger_checks st = concat (map (\<lambda>(i, r).
     [(invariant (rr_ledger r), ''capacity invariant: region '' @ to_string (id_value i)),
      (governedOnline (rr_ledger r) \<le> rd_totalCapacityBytes (rr_descriptor r),
       ''online <= total: region '' @ to_string (id_value i))]) (im_regions st))"

text \<open>The sums of the second loop, in 64-bit arithmetic, over the reservations of one region.\<close>

fun audit_sums :: "RegionId \<Rightarrow> reservations \<Rightarrow> u64 \<times> u64 \<Rightarrow> u64 \<times> u64" where
  "audit_sums i [] acc = acc"
| "audit_sums i ((k, r) # rest) (reservedSum, committedSum) =
     audit_sums i rest
       (if rs_region r \<noteq> i then (reservedSum, committedSum)
        else (if rs_state r = ReservationState.RESERVED then reservedSum + rs_bytes r else reservedSum,
              if rs_state r = ReservationState.COMMITTED \<or> rs_state r = ReservationState.ACTIVE
              then committedSum + rs_bytes r else committedSum))"

definition reservation_checks :: "Impl \<Rightarrow> (bool \<times> string) list" where
  "reservation_checks st = concat (map (\<lambda>(i, rr).
     let (reservedSum, committedSum) = audit_sums i (im_reservations st) (0, 0) in
     [(reservedSum = reserved (rr_ledger rr),
       ''reservation sum == ledger reserved: region '' @ to_string (id_value i)),
      (committedSum = committed (rr_ledger rr),
       ''reservation sum == ledger committed: region '' @ to_string (id_value i))]) (im_regions st))"

definition member_current :: "regions \<Rightarrow> PoolMember \<Rightarrow> bool" where
  "member_current regs m \<longleftrightarrow>
     (case umap_find regs (pm_region m) of
        None \<Rightarrow> False
      | Some rr \<Rightarrow> rd_generation (rr_descriptor rr) = pm_generation m)"

definition member_checks :: "Impl \<Rightarrow> (bool \<times> string) list" where
  "member_checks st = concat (map (\<lambda>(i, pl).
     map (\<lambda>m. (member_current (im_regions st) m, ''pool member current: pool '' @ to_string (id_value i)))
       (pl_members (plr_descriptor pl))) (im_pools st))"

definition revalidation_checks :: "Impl \<Rightarrow> (bool \<times> string) list" where
  "revalidation_checks st = concat (map (\<lambda>(i, r).
     if rr_lifecycle r = RegionLifecycle.REVALIDATION_REQUIRED
     then [(rr_evidenceStatus r \<noteq> EvidenceStatus.CURRENT,
            ''revalidation region not CURRENT: region '' @ to_string (id_value i))]
     else []) (im_regions st))"

definition audit_checks :: "Impl \<Rightarrow> (bool \<times> string) list" where
  "audit_checks st = ledger_checks st @ reservation_checks st @ member_checks st @ revalidation_checks st"

definition audit_line :: "bool \<times> string \<Rightarrow> string" where
  "audit_line = (\<lambda>(cond, what). (if cond then ''PASS '' else ''FAIL '') @ what @ newline)"

definition audit :: "Impl \<Rightarrow> string Result" where
  "audit st =
     (let checks = audit_checks st; allOk = list_all fst checks
      in ok (concat (map audit_line checks) @
             (if allOk then ''PASS audit complete'' else ''FAIL audit complete'') @ newline))"

section \<open>The sums are the ledgers\<close>

lemma audit_sums_held:
  "audit_sums i resvs (a, c) =
     (a + of_nat (held_by_all Reserved i resvs), c + of_nat (held_by_all Committed i resvs))"
  by (induction resvs arbitrary: a c) (auto simp: held_def holds_def)

lemma consistent_region_parts:
  assumes "consistent st" "(i, rr) \<in> set (im_regions st)"
  shows "invariant (rr_ledger rr)" "governedOnline (rr_ledger rr) \<le> rd_totalCapacityBytes (rr_descriptor rr)"
    "unat (reserved (rr_ledger rr)) = held_by_all Reserved i (im_reservations st)"
    "unat (committed (rr_ledger rr)) = held_by_all Committed i (im_reservations st)"
proof -
  have b: "balanced (im_regions st) (im_reservations st)"
    using assms(1) by (simp add: consistent_def accounting_def)
  then have "umap_find (im_regions st) i = Some rr"
    using assms(2) by (simp add: balanced_def umap_in_set_find)
  note d = balancedD [OF b this]
  show "invariant (rr_ledger rr)" by (rule d(1))
  show "governedOnline (rr_ledger rr) \<le> rd_totalCapacityBytes (rr_descriptor rr)"
    using d(1) unfolding d(2) [symmetric] invariant_iff by (simp add: word_le_nat_alt)
  show "unat (reserved (rr_ledger rr)) = held_by_all Reserved i (im_reservations st)"
    "unat (committed (rr_ledger rr)) = held_by_all Committed i (im_reservations st)"
    using d(3,4) by simp_all
qed

lemma accounting_checks_pass:
  assumes "consistent st"
  shows "list_all fst (ledger_checks st)" "list_all fst (reservation_checks st)"
proof -
  note p = consistent_region_parts [OF assms]
  show "list_all fst (ledger_checks st)"
    using p(1,2) by (auto simp: ledger_checks_def list_all_iff)
  have "of_nat (held_by_all Reserved i (im_reservations st)) = reserved (rr_ledger rr)"
      "of_nat (held_by_all Committed i (im_reservations st)) = committed (rr_ledger rr)"
    if "(i, rr) \<in> set (im_regions st)" for i rr
    using p(3,4) [OF that, symmetric] by simp_all
  then show "list_all fst (reservation_checks st)"
    by (auto simp: reservation_checks_def list_all_iff audit_sums_held)
qed

lemma member_checks_pass:
  "list_all fst (member_checks st) \<longleftrightarrow>
     list_all (\<lambda>(i, pl). list_all (member_current (im_regions st)) (pl_members (plr_descriptor pl))) (im_pools st)"
  by (force simp: member_checks_def list_all_iff)

lemma revalidation_checks_pass:
  "list_all fst (revalidation_checks st) \<longleftrightarrow>
     list_all (\<lambda>(i, r). \<not> (rr_lifecycle r = RegionLifecycle.REVALIDATION_REQUIRED \<and>
       rr_evidenceStatus r = EvidenceStatus.CURRENT)) (im_regions st)"
  by (force simp: revalidation_checks_def list_all_iff split: if_splits)

lemma audit_verdict:
  assumes "consistent st"
  shows "list_all fst (audit_checks st) \<longleftrightarrow>
     list_all (\<lambda>(i, pl). list_all (member_current (im_regions st)) (pl_members (plr_descriptor pl))) (im_pools st) \<and>
     list_all (\<lambda>(i, r). \<not> (rr_lifecycle r = RegionLifecycle.REVALIDATION_REQUIRED \<and>
       rr_evidenceStatus r = EvidenceStatus.CURRENT)) (im_regions st)"
  by (simp add: audit_checks_def accounting_checks_pass [OF assms] member_checks_pass revalidation_checks_pass)

section \<open>What a snapshot lets a reader recompute\<close>

definition snapshot_held :: "ReservationState set \<Rightarrow> RegionId \<Rightarrow> FabricSnapshot \<Rightarrow> nat" where
  "snapshot_held S i sn =
     sum_list (map (\<lambda>v. if vs_region v = i \<and> vs_state v \<in> S then unat (vs_bytes v) else 0) (sn_reservations sn))"

lemma snapshot_held_is_held:
  "snapshot_held {ReservationState.RESERVED} i (snapshot st) = held_by_all Reserved i (im_reservations st)"
  "snapshot_held {ReservationState.COMMITTED, ReservationState.ACTIVE} i (snapshot st) =
     held_by_all Committed i (im_reservations st)"
  by (auto simp: snapshot_held_def snapshot_def reservation_snapshot_def held_by_all_def held_def holds_def
      comp_def case_prod_beta intro!: arg_cong [where f = sum_list])

lemma snapshot_recounts:
  assumes "consistent st" "s \<in> set (sn_regions (snapshot st))"
  shows "unat (gs_reservedBytes s) = snapshot_held {ReservationState.RESERVED} (gs_id s) (snapshot st)"
    "unat (gs_committedBytes s) =
       snapshot_held {ReservationState.COMMITTED, ReservationState.ACTIVE} (gs_id s) (snapshot st)"
    "unat (gs_freeBytes s) + unat (gs_reservedBytes s) + unat (gs_committedBytes s) + unat (gs_drainingBytes s) +
       unat (gs_unavailableBytes s) = unat (gs_onlineBytes s)"
    "gs_onlineBytes s \<le> gs_totalCapacityBytes s"
proof -
  obtain i rr where m: "(i, rr) \<in> set (im_regions st)" and s: "s = region_snapshot (i, rr)"
    using assms(2) by (auto simp: snapshot_def)
  note p = consistent_region_parts [OF assms(1) m]
  show "unat (gs_reservedBytes s) = snapshot_held {ReservationState.RESERVED} (gs_id s) (snapshot st)"
    "unat (gs_committedBytes s) =
       snapshot_held {ReservationState.COMMITTED, ReservationState.ACTIVE} (gs_id s) (snapshot st)"
    unfolding snapshot_held_is_held using p(3,4) by (simp_all add: s region_snapshot_def)
  show "unat (gs_freeBytes s) + unat (gs_reservedBytes s) + unat (gs_committedBytes s) + unat (gs_drainingBytes s) +
       unat (gs_unavailableBytes s) = unat (gs_onlineBytes s)"
    using p(1) by (simp add: s region_snapshot_def invariant_iff bucket_sum_def)
  show "gs_onlineBytes s \<le> gs_totalCapacityBytes s" using p(2) by (simp add: s region_snapshot_def)
qed

section \<open>Evidence of a failed device\<close>

lemma publish_success_region:
  assumes "is_ok (fst (publishRegionEvidence now e a st))"
  shows "\<exists>rr. umap_find (im_regions (snd (publishRegionEvidence now e a st))) (eh_region (ev_header e)) = Some rr \<and>
    rr_lifecycle rr = evidence_target e \<and> rr_evidenceStatus rr = EvidenceStatus.CURRENT"
  using assms
  by (auto simp: publishRegionEvidence_def Let_def case_prod_beta record_evidence_def
      split: option.splits if_splits)

lemma current_revalidation_fails_audit:
  assumes "umap_find (im_regions st) i = Some rr" "rr_lifecycle rr = RegionLifecycle.REVALIDATION_REQUIRED"
    and "rr_evidenceStatus rr = EvidenceStatus.CURRENT"
  shows "\<not> list_all fst (audit_checks st)"
proof -
  have "\<not> list_all fst (revalidation_checks st)"
    unfolding revalidation_checks_pass unfolding list_all_iff
    using umap_find_in_set [OF assms(1)] assms(2,3) by auto
  then show ?thesis by (simp add: audit_checks_def)
qed

end
