(* ===== verification/Frames.thy ===== *)
theory Frames
  imports EnumBytes Crc
begin

unbundle bit_operations_syntax

text \<open>
  The framing layer of the wire protocol (\<open>protocol.hpp\<close>, \<open>encodeFrame\<close> and \<open>decodeFrame\<close> of
  \<open>src/protocol.cpp\<close>). The decoder looks at a buffer that may hold less or more than one frame; its
  three results carry what the code writes through its reference parameters: the frame and the number
  of bytes consumed, or the error text.
\<close>

datatype FrameType =
  HELLO | HELLO_ACK | HEARTBEAT | BYE | PUBLISH_EVIDENCE | PUBLISH_ATTACHMENT | SELECT | SELECT_RESP
| RESERVE | RESERVE_RESP | COMMIT | COMMIT_RESP | RELEASE | RELEASE_RESP | INSPECT | INSPECT_RESP
| AUDIT | AUDIT_RESP | SPAWN_WORKER | SPAWN_WORKER_RESP | TERMINATE_WORKER | TERMINATE_WORKER_RESP
| SAVE | SAVE_RESP | FrameType_raw u16

definition FrameType_table :: "FrameType list" where
  "FrameType_table =
     [HELLO, HELLO_ACK, HEARTBEAT, BYE, PUBLISH_EVIDENCE, PUBLISH_ATTACHMENT, SELECT, SELECT_RESP,
      RESERVE, RESERVE_RESP, COMMIT, COMMIT_RESP, RELEASE, RELEASE_RESP, INSPECT, INSPECT_RESP,
      AUDIT, AUDIT_RESP, SPAWN_WORKER, SPAWN_WORKER_RESP, TERMINATE_WORKER, TERMINATE_WORKER_RESP,
      SAVE, SAVE_RESP]"

text \<open>The enumerators are numbered from 1.\<close>

definition FrameType_code :: "FrameType \<Rightarrow> u16" where
  "FrameType_code t = (case t of FrameType_raw w \<Rightarrow> w | _ \<Rightarrow> 1 + ucast (index_byte FrameType_table t))"

definition FrameType_of_code :: "u16 \<Rightarrow> FrameType" where
  "FrameType_of_code w = (if 1 \<le> w \<and> w \<le> 24 then FrameType_table ! (unat w - 1) else FrameType_raw w)"

definition isKnownFrameType :: "u16 \<Rightarrow> bool" where
  "isKnownFrameType w = (case FrameType_of_code w of FrameType_raw _ \<Rightarrow> False | _ \<Rightarrow> True)"

definition kMagic :: "u8 list" where
  "kMagic = [0x4D, 0x45, 0x46, 0x57]"

definition kProtocolVersion :: u16 where
  "kProtocolVersion = 1"

definition kMaxPayload :: nat where
  "kMaxPayload = 1024 * 1024"

definition kHeader :: nat where
  "kHeader = 16"

record Frame =
  fr_type :: FrameType
  fr_payload :: "u8 list"

datatype FrameDecode = FrameOK Frame nat | INCOMPLETE | ERROR string

definition encodeFrame :: "FrameType \<Rightarrow> u8 list \<Rightarrow> u8 list Result" where
  "encodeFrame type body =
     (if length body > kMaxPayload then fail FRAME_TOO_LARGE ''payload too large''
      else ok (concat (map w_u8 kMagic) @ w_u16 kProtocolVersion @ w_u16 (FrameType_code type) @
               w_u32 (of_nat (length body)) @ w_u32 (crc32 body) @ body))"

definition le16 :: "u8 list \<Rightarrow> nat \<Rightarrow> u16" where
  "le16 bs i = ucast (bs ! i) OR push_bit 8 (ucast (bs ! (i + 1)))"

definition le32 :: "u8 list \<Rightarrow> nat \<Rightarrow> u32" where
  "le32 bs i = ucast (bs ! i) OR push_bit 8 (ucast (bs ! (i + 1))) OR
     push_bit 16 (ucast (bs ! (i + 2))) OR push_bit 24 (ucast (bs ! (i + 3)))"

definition decodeFrame :: "u8 list \<Rightarrow> FrameDecode" where
  "decodeFrame bs =
     (if length bs < kHeader then INCOMPLETE
      else if take 4 bs \<noteq> kMagic then ERROR ''bad magic''
      else if le16 bs 4 \<noteq> kProtocolVersion then ERROR ''bad version''
      else if \<not> isKnownFrameType (le16 bs 6) then ERROR ''unknown frame type''
      else let plen = unat (le32 bs 8) in
        if plen > kMaxPayload then ERROR ''oversized frame''
        else if length bs < kHeader + plen then INCOMPLETE
        else let body = take plen (drop kHeader bs) in
          if crc32 body \<noteq> le32 bs 12 then ERROR ''checksum mismatch''
          else FrameOK \<lparr>fr_type = FrameType_of_code (le16 bs 6), fr_payload = body\<rparr> (kHeader + plen))"

section \<open>Frame types\<close>

definition FrameType_known :: "FrameType \<Rightarrow> bool" where
  "FrameType_known t = (case t of FrameType_raw _ \<Rightarrow> False | _ \<Rightarrow> True)"

lemma FrameType_code_known [simp]: "FrameType_known t \<Longrightarrow> FrameType_of_code (FrameType_code t) = t"
  by (cases t) (simp_all add: FrameType_known_def FrameType_code_def FrameType_of_code_def FrameType_table_def)

lemma isKnownFrameType_code [simp]: "FrameType_known t \<Longrightarrow> isKnownFrameType (FrameType_code t)"
  unfolding isKnownFrameType_def by (simp add: FrameType_known_def)

lemma known_range: "isKnownFrameType w \<longleftrightarrow> 1 \<le> w \<and> w \<le> 24"
proof -
  have "FrameType_known t" if "t \<in> set FrameType_table" for t
    using that by (auto simp: FrameType_table_def FrameType_known_def)
  moreover have "FrameType_table ! (unat w - 1) \<in> set FrameType_table" if "w \<le> 24"
    using that by (intro nth_mem) (auto simp: FrameType_table_def word_le_nat_alt)
  ultimately show ?thesis
    unfolding isKnownFrameType_def FrameType_known_def [symmetric] FrameType_of_code_def
    by (simp add: FrameType_known_def)
qed

lemma unat_ucast_u8: "unat (ucast (x :: u8) :: u16) = unat x"
  using unsigned_less [of x, where 'a = nat] by (simp add: unsigned_ucast_eq take_bit_nat_eq_self)

lemma code_of_known:
  assumes "isKnownFrameType w"
  shows "FrameType_code (FrameType_of_code w) = w" "FrameType_known (FrameType_of_code w)"
proof -
  from assms have r: "1 \<le> w" "w \<le> 24" by (auto simp: known_range)
  then have i: "unat w - 1 < length FrameType_table" "unat w \<ge> 1"
    by (auto simp: FrameType_table_def word_le_nat_alt)
  have d: "distinct FrameType_table" by (simp add: FrameType_table_def)
  show k: "FrameType_known (FrameType_of_code w)"
    using assms by (simp add: isKnownFrameType_def FrameType_known_def)
  then have "FrameType_code (FrameType_of_code w) = 1 + ucast (index_byte FrameType_table (FrameType_of_code w))"
    by (cases "FrameType_of_code w") (simp_all add: FrameType_code_def FrameType_known_def)
  also have "\<dots> = 1 + ucast (of_nat (unat w - 1) :: u8)"
    using r index_byte_nth [OF d i(1)] by (simp add: FrameType_of_code_def)
  also have "\<dots> = w"
  proof (rule word_unat_eq_iff [THEN iffD2])
    have "unat (of_nat k :: u8) = k" if "k < 256" for k
      using that by (simp add: unat_of_nat take_bit_nat_eq_self)
    from this [of "unat w - 1"] have "unat (of_nat (unat w - 1) :: u8) = unat w - 1"
      using i by (simp add: FrameType_table_def)
    then have "unat (ucast (of_nat (unat w - 1) :: u8) :: u16) = unat w - 1"
      by (simp only: unat_ucast_u8)
    then show "unat (1 + ucast (of_nat (unat w - 1) :: u8) :: u16) = unat w"
      using i r by (simp add: unat_word_ariths word_le_nat_alt)
  qed
  finally show "FrameType_code (FrameType_of_code w) = w" .
qed

section \<open>Headers\<close>

lemma header_fields:
  assumes "length m = 4"
  shows "le16 (m @ w_u16 v @ w_u16 t @ w_u32 n @ w_u32 c @ rest) 4 = v"
    "le16 (m @ w_u16 v @ w_u16 t @ w_u32 n @ w_u32 c @ rest) 6 = t"
    "le32 (m @ w_u16 v @ w_u16 t @ w_u32 n @ w_u32 c @ rest) 8 = n"
    "le32 (m @ w_u16 v @ w_u16 t @ w_u32 n @ w_u32 c @ rest) 12 = c"
  using assms by (simp_all add: le16_def le32_def w_u16_def w_u32_def nth_append u16_bytes u32_bytes)

lemma header_lengths [simp]: "length (w_u16 v) = 2" "length (w_u32 n) = 4" "length kMagic = 4"
  by (simp_all add: w_u16_def w_u32_def kMagic_def)

lemma decodeFrame_header:
  assumes "length m = 4"
  shows "decodeFrame (m @ w_u16 v @ w_u16 t @ w_u32 n @ w_u32 c @ rest) =
    (if m \<noteq> kMagic then ERROR ''bad magic''
     else if v \<noteq> kProtocolVersion then ERROR ''bad version''
     else if \<not> isKnownFrameType t then ERROR ''unknown frame type''
     else if unat n > kMaxPayload then ERROR ''oversized frame''
     else if length rest < unat n then INCOMPLETE
     else if crc32 (take (unat n) rest) \<noteq> c then ERROR ''checksum mismatch''
     else FrameOK \<lparr>fr_type = FrameType_of_code t, fr_payload = take (unat n) rest\<rparr> (16 + unat n))"
  unfolding decodeFrame_def header_fields [OF assms] Let_def
  using assms by (simp add: kHeader_def)

lemma header_split:
  assumes "16 \<le> length bs"
  obtains m v t n c rest where "length m = 4" "bs = m @ w_u16 v @ w_u16 t @ w_u32 n @ w_u32 c @ rest"
proof -
  have "drop 4 bs = w_u16 (le16 bs 4) @ w_u16 (le16 bs 6) @ w_u32 (le32 bs 8) @ w_u32 (le32 bs 12) @ drop 16 bs"
  proof -
    have two: "drop i bs = w_u16 (le16 bs i) @ drop (i + 2) bs" if "i + 2 \<le> 16" for i
      using that assms by (simp add: le16_def u16_word_bytes Cons_nth_drop_Suc)
    have four: "drop i bs = w_u32 (le32 bs i) @ drop (i + 4) bs" if "i + 4 \<le> 16" for i
    proof -
      have "drop i bs = bs ! i # bs ! (i + 1) # bs ! (i + 2) # bs ! (i + 3) # drop (i + 4) bs"
        using that assms Cons_nth_drop_Suc [of i bs] Cons_nth_drop_Suc [of "i + 1" bs]
          Cons_nth_drop_Suc [of "i + 2" bs] Cons_nth_drop_Suc [of "i + 3" bs] by (simp add: eval_nat_numeral)
      then show ?thesis by (simp only: le32_def u32_word_bytes append_Cons append_Nil)
    qed
    show ?thesis using two [of 4] two [of 6] four [of 8] four [of 12] by simp
  qed
  then have "bs = take 4 bs @ w_u16 (le16 bs 4) @ w_u16 (le16 bs 6) @ w_u32 (le32 bs 8) @ w_u32 (le32 bs 12) @ drop 16 bs"
    by (metis append_take_drop_id)
  moreover have "length (take 4 bs) = 4" using assms by simp
  ultimately show ?thesis using that by blast
qed

lemma encodeFrame_ok:
  "encodeFrame t p = ok e \<longleftrightarrow> length p \<le> kMaxPayload \<and>
     e = kMagic @ w_u16 kProtocolVersion @ w_u16 (FrameType_code t) @ w_u32 (of_nat (length p)) @ w_u32 (crc32 p) @ p"
  by (auto simp: encodeFrame_def kMagic_def w_u8_def)

lemma payload_length [simp]: "n \<le> kMaxPayload \<Longrightarrow> unat (of_nat n :: u32) = n"
  by (simp add: kMaxPayload_def unat_of_nat take_bit_nat_eq_self)

lemma decode_encoded:
  assumes "encodeFrame t p = ok e" "FrameType_known t"
  shows "decodeFrame (e @ rest) = FrameOK \<lparr>fr_type = t, fr_payload = p\<rparr> (length e)"
  using assms by (simp add: encodeFrame_ok decodeFrame_header)

lemma decode_exact:
  assumes "decodeFrame bs = FrameOK f n"
  shows "FrameType_known (fr_type f)" "encodeFrame (fr_type f) (fr_payload f) = ok (take n bs)" "n \<le> length bs"
proof -
  have "16 \<le> length bs" using assms by (auto simp: decodeFrame_def kHeader_def split: if_splits)
  then obtain m v t k c rest where m: "length m = 4" and bs: "bs = m @ w_u16 v @ w_u16 t @ w_u32 k @ w_u32 c @ rest"
    by (rule header_split)
  from assms have f: "m = kMagic" "v = kProtocolVersion" "isKnownFrameType t" "unat k \<le> kMaxPayload"
      "unat k \<le> length rest" "crc32 (take (unat k) rest) = c"
      "f = \<lparr>fr_type = FrameType_of_code t, fr_payload = take (unat k) rest\<rparr>" "n = 16 + unat k"
    unfolding bs decodeFrame_header [OF m] by (auto split: if_splits)
  show "FrameType_known (fr_type f)" using f by (simp add: code_of_known)
  show "encodeFrame (fr_type f) (fr_payload f) = ok (take n bs)"
    using f m by (simp add: encodeFrame_ok code_of_known bs min_def)
  show "n \<le> length bs" using f m bs by simp
qed

lemma decode_partial:
  assumes "encodeFrame t p = ok e" "FrameType_known t" "n < length e"
  shows "decodeFrame (take n e) = INCOMPLETE"
proof (cases "n < 16")
  case False
  define h where "h = kMagic @ w_u16 kProtocolVersion @ w_u16 (FrameType_code t) @ w_u32 (of_nat (length p)) @ w_u32 (crc32 p)"
  have e: "e = h @ p" "length p \<le> kMaxPayload" and h: "length h = 16" using assms(1) by (auto simp: encodeFrame_ok h_def)
  then have "take n e = h @ take (n - 16) p" using False by simp
  moreover have "n - 16 < length p" using assms(3) e h False by simp
  ultimately show ?thesis using e(2) assms(2) by (simp add: h_def decodeFrame_header)
next
  case True
  then have "length (take n e) < kHeader" by (simp add: kHeader_def min.strict_coboundedI2)
  then show ?thesis by (simp only: decodeFrame_def if_True)
qed

lemma decode_bounded:
  assumes "16 + kMaxPayload \<le> length bs"
  shows "decodeFrame bs \<noteq> INCOMPLETE"
proof -
  have "16 \<le> length bs" using assms by simp
  then obtain m v t k c rest where m: "length m = 4" and bs: "bs = m @ w_u16 v @ w_u16 t @ w_u32 k @ w_u32 c @ rest"
    by (rule header_split)
  show ?thesis using assms m unfolding bs decodeFrame_header [OF m] by auto
qed

lemma decode_corrupted:
  assumes "encodeFrame t (xs @ ws @ ys) = ok e" "FrameType_known t"
    and "length ws' = length ws" "length ws \<le> 4" "ws' \<noteq> ws"
  shows "decodeFrame (take 16 e @ xs @ ws' @ ys @ rest) = ERROR ''checksum mismatch''"
proof -
  let ?p = "xs @ ws @ ys"
  define h where "h = kMagic @ w_u16 kProtocolVersion @ w_u16 (FrameType_code t) @ w_u32 (of_nat (length ?p)) @ w_u32 (crc32 ?p)"
  have e: "e = h @ ?p" "length ?p \<le> kMaxPayload" and h: "length h = 16" using assms(1) by (auto simp: encodeFrame_ok h_def)
  have "crc32 (xs @ ws' @ ys) \<noteq> crc32 ?p" using crc32_burst [OF assms(3)] assms(3-5) by force
  moreover have "unat (of_nat (length ?p) :: u32) = length (xs @ ws' @ ys)" using e(2) assms(3) by (simp only: payload_length) simp
  ultimately have "decodeFrame (h @ (xs @ ws' @ ys) @ rest) = ERROR ''checksum mismatch''"
    unfolding h_def append_assoc
    using e(2) assms(2,3) by (simp add: decodeFrame_header)
  then show ?thesis using e h by simp
qed

section \<open>The decoder inverts the encoder\<close>

text \<open>
  C28. Decoding is the exact inverse of encoding: the decoder returns a frame and a length if and only if
  the buffer begins with the encoding of that frame, of a known type and bounded payload, and the
  length is that of the encoding. Whatever follows in the buffer does not matter. Every proper prefix of
  an encoding asks for more bytes, and no buffer of \<open>16 + 1 MiB\<close> does, so a reader that keeps so many bytes
  always gets a frame or an error.
\<close>
theorem frame_decode_exact:
  "(decodeFrame bs = FrameOK f n \<longleftrightarrow>
     FrameType_known (fr_type f) \<and>
     (\<exists>e rest. encodeFrame (fr_type f) (fr_payload f) = ok e \<and> bs = e @ rest \<and> n = length e)) \<and>
   (encodeFrame t p = ok e \<longrightarrow> FrameType_known t \<longrightarrow> k < length e \<longrightarrow> decodeFrame (take k e) = INCOMPLETE) \<and>
   (kHeader + kMaxPayload \<le> length bs \<longrightarrow> decodeFrame bs \<noteq> INCOMPLETE)"
proof (intro conjI impI)
  show "decodeFrame bs = FrameOK f n \<longleftrightarrow> FrameType_known (fr_type f) \<and>
     (\<exists>e rest. encodeFrame (fr_type f) (fr_payload f) = ok e \<and> bs = e @ rest \<and> n = length e)" (is "?l \<longleftrightarrow> ?r")
  proof
    assume d: ?l
    have "bs = take n bs @ drop n bs" "n = length (take n bs)" using decode_exact(3) [OF d] by simp_all
    with decode_exact(1,2) [OF d] show ?r by blast
  next
    assume ?r
    then show ?l by (auto simp: decode_encoded)
  qed
next
  assume "encodeFrame t p = ok e" "FrameType_known t" "k < length e"
  then show "decodeFrame (take k e) = INCOMPLETE" using decode_partial by blast
next
  assume "kHeader + kMaxPayload \<le> length bs"
  then show "decodeFrame bs \<noteq> INCOMPLETE" using decode_bounded by (simp add: kHeader_def)
qed

theorem frame_decode_exact_witness:
  "\<exists>e. encodeFrame HELLO [1, 2, 3] = ok e \<and> decodeFrame (take 18 e) = INCOMPLETE \<and> length e = 19 \<and>
     decodeFrame (e @ [7]) = FrameOK \<lparr>fr_type = HELLO, fr_payload = [1, 2, 3]\<rparr> 19"
proof -
  obtain e where e: "encodeFrame HELLO [1, 2, 3] = ok e" by (simp add: encodeFrame_def kMaxPayload_def)
  then have l: "length e = 19" by (auto simp: encodeFrame_ok)
  have k: "FrameType_known HELLO" by (simp add: FrameType_known_def)
  show ?thesis
    using frame_decode_exact [of "e @ [7]" "\<lparr>fr_type = HELLO, fr_payload = [1, 2, 3]\<rparr>" 19 HELLO "[1, 2, 3]" e 18] e l k by auto
qed

text \<open>
  C30. Corruption is detected: replacing up to four consecutive bytes of the payload of a frame by any
  others makes the decoder report a checksum mismatch.
\<close>
theorem frame_corruption_detected:
  assumes "encodeFrame t (xs @ ws @ ys) = ok e" "FrameType_known t"
    and "length ws' = length ws" "length ws \<le> 4" "ws' \<noteq> ws"
  shows "decodeFrame (take kHeader e @ xs @ ws' @ ys @ rest) = ERROR ''checksum mismatch''"
  using decode_corrupted [OF assms] by (simp add: kHeader_def)

theorem frame_corruption_detected_witness:
  "\<exists>e. encodeFrame HELLO [1, 2, 3] = ok e \<and> decodeFrame (take kHeader e @ [1, 9, 3]) = ERROR ''checksum mismatch''"
proof -
  obtain e where e: "encodeFrame HELLO [1, 2, 3] = ok e" by (simp add: encodeFrame_def kMaxPayload_def)
  have "FrameType_known HELLO" by (simp add: FrameType_known_def)
  then show ?thesis using e frame_corruption_detected [of HELLO "[1]" "[2]" "[3]" e "[9]" "[]"] by simp
qed

end
