(* ===== verification/Protocol.thy ===== *)
theory Protocol
  imports Frames Types
begin

text \<open>
  The payload codecs of \<open>src/protocol.cpp\<close>: region evidence, consumer requirements, selection results
  and reservations, field by field in the order of the code, with the label of every failure. Each
  pair interprets \<open>payload\<close>; the side condition of a round trip (\<open>\<dots>_fits\<close>) is that strings have at
  most 1024 bytes and lists at most 8192 elements, the limits the decoders enforce and the encoders
  do not, and that enumerations are in normal form.
\<close>

section \<open>Region evidence\<close>

definition put_evidence :: "RegionEvidence \<Rightarrow> u8 list" where
  "put_evidence e =
     (let h = ev_header e in
      w_u64 (id_value (eh_id h)) @ w_u64 (id_value (eh_generation h)) @
      w_u64 (id_value (eh_sourceProvider h)) @ w_u64 (id_value (eh_sourceProviderGeneration h)) @
      w_u64 (id_value (eh_region h)) @ w_u64 (id_value (eh_regionGeneration h)) @
      w_u64 (id_value (eh_worker h)) @ w_u64 (id_value (eh_boot h)) @ w_u64 (id_value (eh_epoch h)) @
      w_u64 (eh_timestampMs h) @ w_u64 (eh_sequence h) @ w_str (eh_provenance h) @ w_f64 (eh_confidence h) @
      w_u8 (HealthState_byte (ev_health e)) @ w_bool (ev_reachable e) @ w_u64 (ev_onlineCapacityBytes e) @
      w_u64 (ev_latencyNs e) @ w_u64 (ev_bandwidthBytesPerSec e) @ w_u8 (Locality_byte (ev_locality e)) @
      w_u64 (ev_nodeId e) @ w_u8 (EvidenceStatus_byte (ev_status e)))"

definition encodeRegionEvidence :: "RegionEvidence \<Rightarrow> u8 list Result" where
  "encodeRegionEvidence e = ok (put_evidence e)"

definition get_evidence :: "RegionEvidence dec" where
  "get_evidence =
     field ''id'' r_u64 (\<lambda>vid. field ''gen'' r_u64 (\<lambda>gen.
     field ''srcprov'' r_u64 (\<lambda>srcprov. field ''srcpgen'' r_u64 (\<lambda>srcpgen.
     field ''region'' r_u64 (\<lambda>region. field ''rgen'' r_u64 (\<lambda>rgen.
     field ''worker'' r_u64 (\<lambda>worker. field ''boot'' r_u64 (\<lambda>boot. field ''epoch'' r_u64 (\<lambda>epoch.
     field ''ts'' r_u64 (\<lambda>ts. field ''seq'' r_u64 (\<lambda>sq. field ''prov'' r_str (\<lambda>prov.
     field ''conf'' r_f64 (\<lambda>conf. field ''health'' r_u8 (\<lambda>health. field ''reach'' r_u8 (\<lambda>reach.
     field ''online'' r_u64 (\<lambda>online. field ''lat'' r_u64 (\<lambda>lat. field ''bw'' r_u64 (\<lambda>bw.
     field ''loc'' r_u8 (\<lambda>loc. field ''node'' r_u64 (\<lambda>node. field ''status'' r_u8 (\<lambda>status.
     decoded
       \<lparr>ev_header = \<lparr>eh_id = TypedId vid, eh_generation = TypedId gen, eh_sourceProvider = TypedId srcprov,
          eh_sourceProviderGeneration = TypedId srcpgen, eh_region = TypedId region,
          eh_regionGeneration = TypedId rgen, eh_worker = TypedId worker, eh_boot = TypedId boot,
          eh_epoch = TypedId epoch, eh_timestampMs = ts, eh_sequence = sq, eh_provenance = prov,
          eh_confidence = conf\<rparr>,
        ev_health = HealthState_of_byte health, ev_reachable = (reach \<noteq> 0), ev_onlineCapacityBytes = online,
        ev_latencyNs = lat, ev_bandwidthBytesPerSec = bw, ev_locality = Locality_of_byte loc,
        ev_nodeId = node, ev_status = EvidenceStatus_of_byte status\<rparr>)))))))))))))))))))))"

definition decodeRegionEvidence :: "u8 list \<Rightarrow> RegionEvidence Result" where
  "decodeRegionEvidence b = decode_all get_evidence b"

definition evidence_fits :: "RegionEvidence \<Rightarrow> bool" where
  "evidence_fits e \<longleftrightarrow>
     length (eh_provenance (ev_header e)) \<le> kMaxString \<and> HealthState_ok (ev_health e) \<and>
     Locality_ok (ev_locality e) \<and> EvidenceStatus_ok (ev_status e)"

section \<open>Consumer requirements\<close>

definition kind_list :: "ProviderKind list \<Rightarrow> u8 list" where
  "kind_list ks = w_u32 (of_nat (length ks)) @ concat (map (\<lambda>k. w_u8 (ProviderKind_byte k)) ks)"

definition get_kind :: "string \<Rightarrow> ProviderKind dec" where
  "get_kind what = field what r_u8 (\<lambda>u. decoded (ProviderKind_of_byte u))"

definition put_requirements :: "ConsumerRequirements \<Rightarrow> u8 list" where
  "put_requirements r =
     w_u64 (id_value (rq_consumer r)) @ w_u64 (id_value (rq_consumerGeneration r)) @
     w_u64 (rq_requiredBytes r) @ w_u64 (rq_alignmentBytes r) @
     w_bool (rq_cpuAccessible r) @ w_bool (rq_acceleratorAccessible r) @
     w_bool (rq_directAccessRequired r) @ w_bool (rq_stagingAcceptable r) @ w_bool (rq_persistent r) @
     w_u64 (rq_maxLatencyNs r) @ w_u64 (rq_minBandwidth r) @ w_u8 (Locality_byte (rq_localityPreference r)) @
     kind_list (rq_allowedKinds r) @ kind_list (rq_forbiddenKinds r) @
     w_bool (rq_failureDomainIsolationRequired r) @ w_u64 (id_value (rq_forbiddenFailureDomain r)) @
     w_bool (rq_freshEvidenceRequired r) @ w_bool (rq_allowDegraded r) @
     w_bool (rq_allowLocalFallback r) @ w_bool (rq_expansionRequired r) @ w_bool (rq_allowStaging r) @
     w_u64 (id_value (rq_policy r)) @ w_u64 (id_value (rq_preferredPool r)) @ w_f64 (rq_reserveHeadroomFactor r)"

definition encodeRequirements :: "ConsumerRequirements \<Rightarrow> u8 list Result" where
  "encodeRequirements r = ok (put_requirements r)"

definition get_requirements :: "ConsumerRequirements dec" where
  "get_requirements =
     field ''consumer'' r_u64 (\<lambda>consumer. field ''cgen'' r_u64 (\<lambda>cgen.
     field ''bytes'' r_u64 (\<lambda>bytes. field ''align'' r_u64 (\<lambda>align.
     field ''cpu'' r_u8 (\<lambda>cpu. field ''acc'' r_u8 (\<lambda>acc. field ''direct'' r_u8 (\<lambda>direct.
     field ''staging'' r_u8 (\<lambda>staging. field ''pers'' r_u8 (\<lambda>pers.
     field ''maxlat'' r_u64 (\<lambda>maxlat. field ''minbw'' r_u64 (\<lambda>minbw. field ''loc'' r_u8 (\<lambda>loc.
     field ''allowed'' r_count (\<lambda>n. andthen (many (unat n) (get_kind ''allowed'')) (\<lambda>allowed.
     field ''forbidden'' r_count (\<lambda>n. andthen (many (unat n) (get_kind ''forbidden'')) (\<lambda>forbidden.
     field ''fdi'' r_u8 (\<lambda>fdi. field ''fdom'' r_u64 (\<lambda>fdom.
     field ''fresh'' r_u8 (\<lambda>fresh. field ''degraded'' r_u8 (\<lambda>degraded. field ''fallback'' r_u8 (\<lambda>fallback.
     field ''expansion'' r_u8 (\<lambda>expansion. field ''allowstaging'' r_u8 (\<lambda>allowstaging.
     field ''policy'' r_u64 (\<lambda>policy. field ''pool'' r_u64 (\<lambda>pool. field ''headroom'' r_f64 (\<lambda>headroom.
     decoded
       \<lparr>rq_consumer = TypedId consumer, rq_consumerGeneration = TypedId cgen, rq_requiredBytes = bytes,
        rq_alignmentBytes = align, rq_cpuAccessible = (cpu \<noteq> 0), rq_acceleratorAccessible = (acc \<noteq> 0),
        rq_directAccessRequired = (direct \<noteq> 0), rq_stagingAcceptable = (staging \<noteq> 0),
        rq_persistent = (pers \<noteq> 0), rq_maxLatencyNs = maxlat, rq_minBandwidth = minbw,
        rq_localityPreference = Locality_of_byte loc, rq_allowedKinds = allowed, rq_forbiddenKinds = forbidden,
        rq_failureDomainIsolationRequired = (fdi \<noteq> 0), rq_forbiddenFailureDomain = TypedId fdom,
        rq_freshEvidenceRequired = (fresh \<noteq> 0), rq_allowDegraded = (degraded \<noteq> 0),
        rq_allowLocalFallback = (fallback \<noteq> 0), rq_expansionRequired = (expansion \<noteq> 0),
        rq_allowStaging = (allowstaging \<noteq> 0), rq_policy = TypedId policy, rq_preferredPool = TypedId pool,
        rq_reserveHeadroomFactor = headroom\<rparr>))))))))))))))))))))))))))"

definition decodeRequirements :: "u8 list \<Rightarrow> ConsumerRequirements Result" where
  "decodeRequirements b = decode_all get_requirements b"

definition kinds_fit :: "ProviderKind list \<Rightarrow> bool" where
  "kinds_fit ks \<longleftrightarrow> length ks \<le> unat kMaxCount \<and> list_all ProviderKind_ok ks"

definition requirements_fit :: "ConsumerRequirements \<Rightarrow> bool" where
  "requirements_fit r \<longleftrightarrow>
     Locality_ok (rq_localityPreference r) \<and> kinds_fit (rq_allowedKinds r) \<and> kinds_fit (rq_forbiddenKinds r)"

section \<open>Selection results\<close>

definition put_factor :: "RankingFactor \<Rightarrow> u8 list" where
  "put_factor f = w_str (rf_name f) @ w_f64 (rf_raw f) @ w_f64 (rf_normalized f) @ w_f64 (rf_weight f)"

definition put_ranked :: "RankedCandidate \<Rightarrow> u8 list" where
  "put_ranked rc =
     w_u64 (id_value (rc_region rc)) @ w_u64 (id_value (rc_provider rc)) @ w_u64 (id_value (rc_pool rc)) @
     w_u64 (rc_bytes rc) @ w_f64 (rc_score rc) @
     w_u32 (of_nat (length (rc_factors rc))) @ concat (map put_factor (rc_factors rc))"

definition put_assessment :: "CandidateAssessment \<Rightarrow> u8 list" where
  "put_assessment c =
     w_u64 (id_value (ca_region c)) @ w_u64 (id_value (ca_provider c)) @ w_u64 (id_value (ca_pool c)) @
     w_u8 (EligibilityReason_byte (ca_reason c)) @ w_f64 (ca_score c)"

definition put_selection :: "SelectionResult \<Rightarrow> u8 list" where
  "put_selection s =
     w_u64 (id_value (sel_id s)) @ w_u64 (id_value (sel_generation s)) @
     w_u8 (SelectionOutcome_byte (sel_outcome s)) @ w_str (sel_tieBreakRule s) @
     w_u32 (of_nat (length (sel_ranked s))) @ concat (map put_ranked (sel_ranked s)) @
     w_u32 (of_nat (length (sel_rejected s))) @ concat (map put_assessment (sel_rejected s))"

definition encodeSelection :: "SelectionResult \<Rightarrow> u8 list Result" where
  "encodeSelection s = ok (put_selection s)"

definition get_factor :: "RankingFactor dec" where
  "get_factor =
     field ''fname'' r_str (\<lambda>name. field ''fraw'' r_f64 (\<lambda>raw. field ''fnorm'' r_f64 (\<lambda>norm.
     field ''fweight'' r_f64 (\<lambda>weight.
     decoded \<lparr>rf_name = name, rf_raw = raw, rf_normalized = norm, rf_weight = weight\<rparr>))))"

definition get_ranked :: "RankedCandidate dec" where
  "get_ranked =
     field ''rregion'' r_u64 (\<lambda>region. field ''rprov'' r_u64 (\<lambda>prov. field ''rpool'' r_u64 (\<lambda>pool.
     field ''rbytes'' r_u64 (\<lambda>bytes. field ''rscore'' r_f64 (\<lambda>score.
     field ''factors'' r_count (\<lambda>fc. andthen (many (unat fc) get_factor) (\<lambda>factors.
     decoded
       \<lparr>rc_region = TypedId region, rc_provider = TypedId prov, rc_pool = TypedId pool, rc_bytes = bytes,
        rc_score = score, rc_factors = factors\<rparr>)))))))"

definition get_assessment :: "CandidateAssessment dec" where
  "get_assessment =
     field ''cregion'' r_u64 (\<lambda>region. field ''cprov'' r_u64 (\<lambda>prov. field ''cpool'' r_u64 (\<lambda>pool.
     field ''creason'' r_u8 (\<lambda>reason. field ''cscore'' r_f64 (\<lambda>score.
     decoded
       \<lparr>ca_region = TypedId region, ca_provider = TypedId prov, ca_pool = TypedId pool,
        ca_reason = EligibilityReason_of_byte reason, ca_score = score\<rparr>)))))"

definition get_selection :: "SelectionResult dec" where
  "get_selection =
     field ''id'' r_u64 (\<lambda>sid. field ''gen'' r_u64 (\<lambda>gen. field ''outcome'' r_u8 (\<lambda>oc. field ''tie'' r_str (\<lambda>tie.
     field ''ranked'' r_count (\<lambda>n. andthen (many (unat n) get_ranked) (\<lambda>ranked.
     field ''rejected'' r_count (\<lambda>n. andthen (many (unat n) get_assessment) (\<lambda>rejected.
     decoded
       \<lparr>sel_id = TypedId sid, sel_generation = TypedId gen, sel_outcome = SelectionOutcome_of_byte oc,
        sel_ranked = ranked, sel_rejected = rejected, sel_tieBreakRule = tie\<rparr>))))))))"

definition decodeSelection :: "u8 list \<Rightarrow> SelectionResult Result" where
  "decodeSelection b = decode_all get_selection b"

definition factor_fits :: "RankingFactor \<Rightarrow> bool" where
  "factor_fits f \<longleftrightarrow> length (rf_name f) \<le> kMaxString"

definition ranked_fits :: "RankedCandidate \<Rightarrow> bool" where
  "ranked_fits rc \<longleftrightarrow> length (rc_factors rc) \<le> unat kMaxCount \<and> list_all factor_fits (rc_factors rc)"

definition assessment_fits :: "CandidateAssessment \<Rightarrow> bool" where
  "assessment_fits c \<longleftrightarrow> EligibilityReason_ok (ca_reason c)"

definition selection_fits :: "SelectionResult \<Rightarrow> bool" where
  "selection_fits s \<longleftrightarrow>
     SelectionOutcome_ok (sel_outcome s) \<and> length (sel_tieBreakRule s) \<le> kMaxString \<and>
     length (sel_ranked s) \<le> unat kMaxCount \<and> list_all ranked_fits (sel_ranked s) \<and>
     length (sel_rejected s) \<le> unat kMaxCount \<and> list_all assessment_fits (sel_rejected s)"

section \<open>Reservations\<close>

definition put_reservation :: "Reservation \<Rightarrow> u8 list" where
  "put_reservation r =
     w_u64 (id_value (rs_id r)) @ w_u64 (id_value (rs_generation r)) @ w_u64 (id_value (rs_consumer r)) @
     w_u64 (id_value (rs_consumerGeneration r)) @ w_u64 (id_value (rs_provider r)) @
     w_u64 (id_value (rs_providerGeneration r)) @ w_u64 (id_value (rs_region r)) @
     w_u64 (id_value (rs_regionGeneration r)) @ w_u64 (id_value (rs_pool r)) @
     w_u64 (id_value (rs_poolGeneration r)) @ w_u64 (id_value (rs_policy r)) @
     w_u64 (id_value (rs_policyGeneration r)) @ w_u64 (id_value (rs_selection r)) @
     w_u64 (id_value (rs_selectionGeneration r)) @ w_u64 (id_value (rs_evidenceGeneration r)) @
     w_u64 (id_value (rs_worker r)) @ w_u64 (id_value (rs_boot r)) @ w_u64 (id_value (rs_epoch r)) @
     w_u64 (rs_bytes r) @ w_u8 (ReservationState_byte (rs_state r)) @ w_u64 (rs_createdAtMs r) @
     w_u64 (rs_expiresAtMs r) @ w_str (rs_note r)"

definition encodeReservation :: "Reservation \<Rightarrow> u8 list Result" where
  "encodeReservation r = ok (put_reservation r)"

definition get_reservation :: "Reservation dec" where
  "get_reservation =
     field ''id'' r_u64 (\<lambda>rid. field ''gen'' r_u64 (\<lambda>gen. field ''consumer'' r_u64 (\<lambda>consumer.
     field ''cgen'' r_u64 (\<lambda>cgen. field ''provider'' r_u64 (\<lambda>prov. field ''pgen'' r_u64 (\<lambda>pgen.
     field ''region'' r_u64 (\<lambda>region. field ''rgen'' r_u64 (\<lambda>rgen. field ''pool'' r_u64 (\<lambda>pool.
     field ''poolgen'' r_u64 (\<lambda>poolgen. field ''policy'' r_u64 (\<lambda>policy. field ''polgen'' r_u64 (\<lambda>polgen.
     field ''sel'' r_u64 (\<lambda>sl. field ''selgen'' r_u64 (\<lambda>slgen. field ''evgen'' r_u64 (\<lambda>evgen.
     field ''worker'' r_u64 (\<lambda>worker. field ''boot'' r_u64 (\<lambda>boot. field ''epoch'' r_u64 (\<lambda>epoch.
     field ''bytes'' r_u64 (\<lambda>bytes. field ''state'' r_u8 (\<lambda>state. field ''created'' r_u64 (\<lambda>created.
     field ''expires'' r_u64 (\<lambda>expires. field ''note'' r_str (\<lambda>note.
     decoded
       \<lparr>rs_id = TypedId rid, rs_generation = TypedId gen, rs_consumer = TypedId consumer,
        rs_consumerGeneration = TypedId cgen, rs_provider = TypedId prov, rs_providerGeneration = TypedId pgen,
        rs_region = TypedId region, rs_regionGeneration = TypedId rgen, rs_pool = TypedId pool,
        rs_poolGeneration = TypedId poolgen, rs_policy = TypedId policy, rs_policyGeneration = TypedId polgen,
        rs_selection = TypedId sl, rs_selectionGeneration = TypedId slgen, rs_evidenceGeneration = TypedId evgen,
        rs_worker = TypedId worker, rs_boot = TypedId boot, rs_epoch = TypedId epoch, rs_bytes = bytes,
        rs_state = ReservationState_of_byte state, rs_createdAtMs = created, rs_expiresAtMs = expires,
        rs_note = note\<rparr>)))))))))))))))))))))))"

definition decodeReservation :: "u8 list \<Rightarrow> Reservation Result" where
  "decodeReservation b = decode_all get_reservation b"

definition reservation_fits :: "Reservation \<Rightarrow> bool" where
  "reservation_fits r \<longleftrightarrow> ReservationState_ok (rs_state r) \<and> length (rs_note r) \<le> kMaxString"

definition makeStringPayload :: "string \<Rightarrow> u8 list" where
  "makeStringPayload s = map byte_of_char s"

section \<open>The codecs keep their contract\<close>

interpretation evidence: payload put_evidence get_evidence evidence_fits
proof unfold_locales
  show "get_evidence (put_evidence e @ rest) = Inr (e, rest)" if "evidence_fits e" for e rest
    using that unfolding evidence_fits_def
    by (cases e; cases "ev_header e") (simp add: get_evidence_def put_evidence_def Let_def decoded_def)
  show "extends get_evidence"
    unfolding get_evidence_def by (intro extending)
qed

interpretation kind_elem: payload "\<lambda>k. w_u8 (ProviderKind_byte k)" "get_kind what" ProviderKind_ok
proof unfold_locales
  show "get_kind what (w_u8 (ProviderKind_byte k) @ rest) = Inr (k, rest)" if "ProviderKind_ok k" for k rest
    using that by (simp add: get_kind_def decoded_def)
  show "extends (get_kind what)" unfolding get_kind_def by (intro extending)
qed

interpretation requirements: payload put_requirements get_requirements requirements_fit
proof unfold_locales
  show "get_requirements (put_requirements r @ rest) = Inr (r, rest)" if "requirements_fit r" for r rest
    using that unfolding requirements_fit_def kinds_fit_def
    by (cases r) (simp add: get_requirements_def put_requirements_def kind_list_def decoded_def)
  show "extends get_requirements"
    unfolding get_requirements_def by (intro extending kind_elem.dec_extends)
qed

interpretation factor: payload put_factor get_factor factor_fits
proof unfold_locales
  show "get_factor (put_factor f @ rest) = Inr (f, rest)" if "factor_fits f" for f rest
    using that by (cases f) (simp add: get_factor_def put_factor_def factor_fits_def decoded_def)
  show "extends get_factor" unfolding get_factor_def by (intro extending)
qed

interpretation ranked: payload put_ranked get_ranked ranked_fits
proof unfold_locales
  show "get_ranked (put_ranked rc @ rest) = Inr (rc, rest)" if "ranked_fits rc" for rc rest
    using that by (cases rc) (simp add: get_ranked_def put_ranked_def ranked_fits_def decoded_def)
  show "extends get_ranked" unfolding get_ranked_def by (intro extending factor.dec_extends)
qed

interpretation assessment: payload put_assessment get_assessment assessment_fits
proof unfold_locales
  show "get_assessment (put_assessment c @ rest) = Inr (c, rest)" if "assessment_fits c" for c rest
    using that by (cases c) (simp add: get_assessment_def put_assessment_def assessment_fits_def decoded_def)
  show "extends get_assessment" unfolding get_assessment_def by (intro extending)
qed

interpretation selection: payload put_selection get_selection selection_fits
proof unfold_locales
  show "get_selection (put_selection s @ rest) = Inr (s, rest)" if "selection_fits s" for s rest
    using that by (cases s) (simp add: get_selection_def put_selection_def selection_fits_def decoded_def)
  show "extends get_selection"
    unfolding get_selection_def by (intro extending ranked.dec_extends assessment.dec_extends)
qed

interpretation reservation: payload put_reservation get_reservation reservation_fits
proof unfold_locales
  show "get_reservation (put_reservation r @ rest) = Inr (r, rest)" if "reservation_fits r" for r rest
    using that by (cases r) (simp add: get_reservation_def put_reservation_def reservation_fits_def decoded_def)
  show "extends get_reservation"
    unfolding get_reservation_def by (intro extending)
qed

section \<open>Round trips and malformed payloads\<close>

text \<open>
  C31. Every payload codec gives back what was encoded, for values within the documented limits.
\<close>
theorem payload_roundtrips:
  assumes "evidence_fits e" "requirements_fit q" "selection_fits s" "reservation_fits r"
  shows "(\<exists>b. encodeRegionEvidence e = ok b \<and> decodeRegionEvidence b = ok e) \<and>
    (\<exists>b. encodeRequirements q = ok b \<and> decodeRequirements b = ok q) \<and>
    (\<exists>b. encodeSelection s = ok b \<and> decodeSelection b = ok s) \<and>
    (\<exists>b. encodeReservation r = ok b \<and> decodeReservation b = ok r)"
  by (simp add: encodeRegionEvidence_def decodeRegionEvidence_def evidence.roundtrip [OF assms(1)]
      encodeRequirements_def decodeRequirements_def requirements.roundtrip [OF assms(2)]
      encodeSelection_def decodeSelection_def selection.roundtrip [OF assms(3)]
      encodeReservation_def decodeReservation_def reservation.roundtrip [OF assms(4)])

definition sample_selection :: SelectionResult where
  "sample_selection =
     \<lparr>sel_id = TypedId 1, sel_generation = TypedId 2, sel_outcome = EXPANSION_SELECTED,
      sel_ranked = [\<lparr>rc_region = TypedId 5, rc_provider = TypedId 1, rc_pool = null_id, rc_bytes = 512,
        rc_score = F64 0x3FE0000000000000,
        rc_factors = [\<lparr>rf_name = ''locality'', rf_raw = F64 0, rf_normalized = F64 0, rf_weight = F64 0\<rparr>]\<rparr>],
      sel_rejected = [\<lparr>ca_region = TypedId 6, ca_provider = TypedId 1, ca_pool = null_id,
        ca_reason = EligibilityReason.STALE_EVIDENCE, ca_score = F64 0\<rparr>],
      sel_tieBreakRule = ''score desc''\<rparr>"

definition sample_reservation :: Reservation where
  "sample_reservation =
     \<lparr>rs_id = TypedId 1, rs_generation = TypedId 1, rs_consumer = TypedId 2, rs_consumerGeneration = TypedId 1,
      rs_provider = TypedId 1, rs_providerGeneration = TypedId 1, rs_region = TypedId 5, rs_regionGeneration = TypedId 1,
      rs_pool = null_id, rs_poolGeneration = null_id, rs_policy = null_id, rs_policyGeneration = null_id,
      rs_selection = TypedId 1, rs_selectionGeneration = TypedId 1, rs_evidenceGeneration = TypedId 3,
      rs_worker = TypedId 7, rs_boot = TypedId 9, rs_epoch = TypedId 1, rs_bytes = 512,
      rs_state = ReservationState.RESERVED, rs_createdAtMs = 13, rs_expiresAtMs = 0, rs_note = []\<rparr>"

lemma samples_fit:
  "evidence_fits default_RegionEvidence" "requirements_fit default_ConsumerRequirements"
  "selection_fits sample_selection" "reservation_fits sample_reservation"
  by (simp_all add: evidence_fits_def default_RegionEvidence_def default_EvidenceHeader_def requirements_fit_def
      default_ConsumerRequirements_def kinds_fit_def selection_fits_def sample_selection_def ranked_fits_def
      factor_fits_def assessment_fits_def reservation_fits_def sample_reservation_def kMaxString_def kMaxCount_def
      HealthState_ok_def Locality_ok_def EvidenceStatus_ok_def SelectionOutcome_ok_def EligibilityReason_ok_def
      ReservationState_ok_def)

theorem payload_roundtrips_witness:
  "\<exists>b. encodeSelection sample_selection = ok b \<and> decodeSelection b = ok sample_selection"
  using payload_roundtrips [OF samples_fit] by blast

text \<open>
  C32. Malformed payloads are refused: a decoder rejects every proper prefix of an encoding and every
  encoding with bytes appended, with \<open>CORRUPT\<close> and without reading past the buffer.
\<close>
theorem malformed_payloads_refused:
  assumes "evidence_fits e" "requirements_fit q" "selection_fits s" "reservation_fits r" "x \<noteq> []"
  shows "(\<forall>n < length (put_evidence e). fails_with ErrorCode.CORRUPT (decodeRegionEvidence (take n (put_evidence e)))) \<and>
    (\<forall>n < length (put_requirements q). fails_with ErrorCode.CORRUPT (decodeRequirements (take n (put_requirements q)))) \<and>
    (\<forall>n < length (put_selection s). fails_with ErrorCode.CORRUPT (decodeSelection (take n (put_selection s)))) \<and>
    (\<forall>n < length (put_reservation r). fails_with ErrorCode.CORRUPT (decodeReservation (take n (put_reservation r)))) \<and>
    fails_with ErrorCode.CORRUPT (decodeRegionEvidence (put_evidence e @ x)) \<and>
    fails_with ErrorCode.CORRUPT (decodeRequirements (put_requirements q @ x)) \<and>
    fails_with ErrorCode.CORRUPT (decodeSelection (put_selection s @ x)) \<and>
    fails_with ErrorCode.CORRUPT (decodeReservation (put_reservation r @ x))"
  unfolding decodeRegionEvidence_def decodeRequirements_def decodeSelection_def decodeReservation_def
    evidence.padded [OF assms(1,5)] requirements.padded [OF assms(2,5)] selection.padded [OF assms(3,5)]
    reservation.padded [OF assms(4,5)]
  using evidence.truncated [OF assms(1)] requirements.truncated [OF assms(2)] selection.truncated [OF assms(3)]
    reservation.truncated [OF assms(4)]
  by (fastforce simp: failCodec_def)

theorem malformed_payloads_refused_witness:
  "fails_with ErrorCode.CORRUPT (decodeReservation (put_reservation sample_reservation @ [0]))"
  using malformed_payloads_refused [OF samples_fit, of "[0]"] by simp

end
