(* ===== verification/Worker.thy ===== *)
theory Worker
  imports Protocol Snapshot Recovery
begin

unbundle bit_operations_syntax

text \<open>
  The worker process (\<open>src/worker.cpp\<close>): its command line, and the two frames it sends once it is
  connected. Socket and process calls are the environment: whether \<open>WSAStartup\<close> and \<open>socket\<close> succeed
  and the identifier of the process are arguments; connecting is retried until the coordinator accepts,
  so it has no failure; the bytes handed to \<open>send\<close> are the result, and the worker then waits until its
  connection is closed and returns 0. An exception of \<open>std::stoull\<close> is not caught and ends the process.
\<close>

section \<open>Numbers on the command line\<close>

text \<open>\<open>std::stoull\<close>: blanks and a sign are skipped, digits are read as far as they go; \<open>None\<close> is an exception.\<close>

definition is_blank :: "char \<Rightarrow> bool" where
  "is_blank c \<longleftrightarrow> c \<in> {CHR '' '', CHR 0x09, CHR 0x0A, CHR 0x0B, CHR 0x0C, CHR 0x0D}"

definition is_digit :: "char \<Rightarrow> bool" where
  "is_digit c \<longleftrightarrow> 48 \<le> (of_char c :: nat) \<and> (of_char c :: nat) \<le> 57"

definition digits_value :: "string \<Rightarrow> nat" where
  "digits_value ds = foldl (\<lambda>n c. 10 * n + (of_char c - 48)) 0 ds"

definition stoull :: "string \<Rightarrow> u64 option" where
  "stoull s =
     (let t = dropWhile is_blank s;
          (negative, body) = (case t of c # rest \<Rightarrow> if c = CHR ''-'' then (True, rest)
                                         else if c = CHR ''+'' then (False, rest) else (False, t)
                              | [] \<Rightarrow> (False, t));
          ds = takeWhile is_digit body; n = digits_value ds
      in if ds = [] then None
         else if n \<ge> 2 ^ 64 then None
         else Some (if negative then - of_nat n else of_nat n))"

section \<open>Arguments\<close>

record WorkerArgs =
  wa_port :: u64
  wa_wid :: u64
  wa_boot :: u64
  wa_epoch :: u64
  wa_region :: u64
  wa_provider :: u64
  wa_online :: u64
  wa_latency :: u64
  wa_bw :: u64
  wa_egen :: u64
  wa_eid :: u64

definition default_WorkerArgs :: WorkerArgs where
  "default_WorkerArgs =
     \<lparr>wa_port = 0, wa_wid = 0, wa_boot = 0, wa_epoch = 1, wa_region = 1, wa_provider = 1, wa_online = 0,
      wa_latency = 100, wa_bw = 1000000000, wa_egen = 1, wa_eid = 1\<rparr>"

definition worker_option :: "string \<Rightarrow> (u64 \<Rightarrow> WorkerArgs \<Rightarrow> WorkerArgs) option" where
  "worker_option a =
     (if a = ''--port'' then Some (\<lambda>n w. w\<lparr>wa_port := n\<rparr>)
      else if a = ''--worker'' then Some (\<lambda>n w. w\<lparr>wa_wid := n\<rparr>)
      else if a = ''--boot'' then Some (\<lambda>n w. w\<lparr>wa_boot := n\<rparr>)
      else if a = ''--epoch'' then Some (\<lambda>n w. w\<lparr>wa_epoch := n\<rparr>)
      else if a = ''--region'' then Some (\<lambda>n w. w\<lparr>wa_region := n\<rparr>)
      else if a = ''--provider'' then Some (\<lambda>n w. w\<lparr>wa_provider := n\<rparr>)
      else if a = ''--online'' then Some (\<lambda>n w. w\<lparr>wa_online := n\<rparr>)
      else if a = ''--latency'' then Some (\<lambda>n w. w\<lparr>wa_latency := n\<rparr>)
      else if a = ''--bandwidth'' then Some (\<lambda>n w. w\<lparr>wa_bw := n\<rparr>)
      else if a = ''--egen'' then Some (\<lambda>n w. w\<lparr>wa_egen := n\<rparr>)
      else if a = ''--eid'' then Some (\<lambda>n w. w\<lparr>wa_eid := n\<rparr>)
      else None)"

text \<open>The loop over \<open>argv[1]\<close> and what follows; an option without a value is skipped like an unknown word.\<close>

fun parse_worker :: "string list \<Rightarrow> WorkerArgs \<Rightarrow> WorkerArgs option" where
  "parse_worker (a # v # rest) w =
     (case worker_option a of
        None \<Rightarrow> parse_worker (v # rest) w
      | Some upd \<Rightarrow> (case stoull v of None \<Rightarrow> None | Some n \<Rightarrow> parse_worker rest (upd n w)))"
| "parse_worker _ w = Some w"

section \<open>What the worker sends\<close>

definition put64 :: "u64 \<Rightarrow> u8 list" where
  "put64 v = map (\<lambda>i. ucast (drop_bit (8 * i) v AND 0xFF)) [0..<8]"

definition hello_payload :: "u64 \<Rightarrow> WorkerArgs \<Rightarrow> u8 list" where
  "hello_payload pid w = put64 (wa_wid w) @ put64 (wa_boot w) @ put64 (wa_epoch w) @ put64 pid"

definition worker_evidence :: "WorkerArgs \<Rightarrow> RegionEvidence" where
  "worker_evidence w = default_RegionEvidence\<lparr>
     ev_header := default_EvidenceHeader\<lparr>
       eh_id := TypedId (wa_eid w), eh_generation := TypedId (wa_egen w),
       eh_sourceProvider := TypedId (wa_provider w), eh_sourceProviderGeneration := TypedId 1,
       eh_region := TypedId (wa_region w), eh_regionGeneration := TypedId 1,
       eh_worker := TypedId (wa_wid w), eh_boot := TypedId (wa_boot w), eh_epoch := TypedId (wa_epoch w),
       eh_provenance := ''synthetic-worker''\<rparr>,
     ev_health := HealthState.HEALTHY, ev_reachable := True, ev_onlineCapacityBytes := wa_online w,
     ev_latencyNs := wa_latency w, ev_bandwidthBytesPerSec := wa_bw w, ev_locality := Locality.LOCAL,
     ev_status := EvidenceStatus.CURRENT\<rparr>"

text \<open>How the process ends, with the buffers it has handed to \<open>send\<close>.\<close>

datatype WorkerRun = Throws | Returns int "u8 list list"

definition runWorker :: "bool \<Rightarrow> bool \<Rightarrow> u64 \<Rightarrow> string list \<Rightarrow> WorkerRun" where
  "runWorker wsa_ok socket_ok pid argv =
     (case parse_worker (tl argv) default_WorkerArgs of
        None \<Rightarrow> Throws
      | Some w \<Rightarrow>
          if wa_port w = 0 then Returns 1 []
          else if \<not> wsa_ok then Returns 1 []
          else if \<not> socket_ok then Returns 1 []
          else (case encodeFrame HELLO (hello_payload pid w) of
            Inl _ \<Rightarrow> Returns 1 []
          | Inr encHello \<Rightarrow>
              (case encodeRegionEvidence (worker_evidence w) of
                 Inl _ \<Rightarrow> Returns 1 [encHello]
               | Inr evEnc \<Rightarrow>
                   (case encodeFrame PUBLISH_EVIDENCE evEnc of
                      Inl _ \<Rightarrow> Returns 1 [encHello]
                    | Inr encEv \<Rightarrow> Returns 0 [encHello, encEv]))))"

section \<open>Numbers survive printing and parsing\<close>

lemma digits_value_append: "digits_value (xs @ [c]) = 10 * digits_value xs + (of_char c - 48)"
  by (simp add: digits_value_def)

lemma nat_to_string_digits:
  "nat_to_string n \<noteq> [] \<and> list_all is_digit (nat_to_string n) \<and> digits_value (nat_to_string n) = n"
proof (induction n rule: nat_to_string.induct)
  case (1 n)
  have c: "is_digit (char_of (48 + k))" "(of_char (char_of (48 + k) :: char) :: nat) = 48 + k" if "k < 10" for k :: nat
    using that by (simp_all add: is_digit_def)
  show ?case
  proof (cases "n < 10")
    case True
    then show ?thesis using c [of n] by (subst (1 2 3) nat_to_string.simps) (simp add: digits_value_def)
  next
    case False
    then have "nat_to_string n = nat_to_string (n div 10) @ [char_of (48 + n mod 10)]"
      by (subst nat_to_string.simps) simp
    then show ?thesis using False 1 c [of "n mod 10"] by (simp add: digits_value_append)
  qed
qed

lemma digit_not_special: "is_digit c \<Longrightarrow> \<not> is_blank c \<and> c \<noteq> CHR ''-'' \<and> c \<noteq> CHR ''+''"
  by (auto simp: is_digit_def is_blank_def)

lemma stoull_to_string [simp]: "stoull (to_string w) = Some w"
proof -
  let ?s = "nat_to_string (unat w)"
  have d: "?s \<noteq> []" "list_all is_digit ?s" "digits_value ?s = unat w" using nat_to_string_digits by simp_all
  obtain c cs where s: "?s = c # cs" using d(1) by (cases ?s) auto
  have "is_digit c" using d(2) s by simp
  then have c: "\<not> is_blank c" "c \<noteq> CHR ''-''" "c \<noteq> CHR ''+''" using digit_not_special by simp_all
  have b: "dropWhile is_blank ?s = ?s" using c(1) s by simp
  have t: "takeWhile is_digit cs = cs" using d(2) s by (simp add: list_all_iff takeWhile_eq_all_conv)
  show ?thesis
    using d c s unat_u64_less [of w] by (simp add: stoull_def to_string_def b t Let_def del: takeWhile_eq_all_conv)
qed

section \<open>Bytes\<close>

lemma drop_word_ucast:
  "n < 4 \<Longrightarrow> (ucast (drop_bit (8 * n) (ucast v :: u32)) :: u8) = ucast (drop_bit (8 * n) (v :: u64))"
  by (rule bit_word_eqI) (simp add: bit_ucast_iff bit_drop_bit_eq)

lemma put64_bytes: "put64 v = w_u64 v"
proof -
  have lo: "(ucast (drop_bit (8 * n) (ucast v :: u32)) :: u8) = ucast (drop_bit (8 * n) v)" if "n < 4" for n
    using that by (rule drop_word_ucast)
  have hi: "(ucast (drop_bit (8 * n) (ucast (drop_bit 32 v) :: u32)) :: u8) = ucast (drop_bit (8 * n + 32) v)" if "n < 4" for n
    using drop_word_ucast [OF that, of "drop_bit 32 v"] by (simp add: drop_bit_drop_bit add.commute)
  have "[0..<8] = [0, 1, 2, 3, 4, 5, 6, 7]" by (simp add: upt_rec)
  then show ?thesis
    using lo [of 0] lo [of 1] lo [of 2] lo [of 3] hi [of 0] hi [of 1] hi [of 2] hi [of 3]
    by (simp add: put64_def w_u64_def w_u32_def)
qed

lemma hello_payload_length: "length (hello_payload pid w) = 32"
  by (simp add: hello_payload_def put64_bytes)

section \<open>A started worker\<close>

lemma runWorker_sends:
  assumes "parse_worker (tl argv) default_WorkerArgs = Some w" "wa_port w \<noteq> 0"
  shows "\<exists>encHello encEv. runWorker True True pid argv = Returns 0 [encHello, encEv] \<and>
    encodeFrame HELLO (hello_payload pid w) = ok encHello \<and>
    encodeFrame PUBLISH_EVIDENCE (put_evidence (worker_evidence w)) = ok encEv"
proof -
  have "length (hello_payload pid w) \<le> kMaxPayload" by (simp add: hello_payload_length kMaxPayload_def)
  moreover have "length (put_evidence (worker_evidence w)) \<le> kMaxPayload"
    by (simp add: put_evidence_def worker_evidence_def default_RegionEvidence_def default_EvidenceHeader_def
        w_f64_def kMaxPayload_def)
  ultimately obtain encHello encEv where e: "encodeFrame HELLO (hello_payload pid w) = ok encHello"
      "encodeFrame PUBLISH_EVIDENCE (put_evidence (worker_evidence w)) = ok encEv"
    by (simp add: encodeFrame_def)
  then have "runWorker True True pid argv = Returns 0 [encHello, encEv]"
    using assms by (simp add: runWorker_def encodeRegionEvidence_def ok_def)
  with e show ?thesis by blast
qed

lemma worker_evidence_fits: "evidence_fits (worker_evidence w)"
  by (simp add: evidence_fits_def worker_evidence_def kMaxString_def HealthState_ok_def Locality_ok_def
      EvidenceStatus_ok_def)

end
