(* ===== verification/Bringup.thy ===== *)
theory Bringup
  imports Scenario
begin

text \<open>
  Bringing a fabric up: sequences of calls none of which is refused, registrations of fresh identifiers,
  and the first evidence about a region. The tools that set up a fabric (\<open>tools/cli.cpp\<close>,
  \<open>src/coordinator.cpp\<close>) ignore the results of these calls; the lemmas here show when that is safe.
\<close>

section \<open>Sequences of calls\<close>

text \<open>No call of a sequence returns an error.\<close>

fun accepted :: "op list \<Rightarrow> Impl \<Rightarrow> bool" where
  "accepted [] st \<longleftrightarrow> True"
| "accepted (o1 # os) st \<longleftrightarrow> fst (run_op o1 st) = None \<and> accepted os (snd (run_op o1 st))"

lemma accepted_append: "accepted (xs @ ys) st \<longleftrightarrow> accepted xs st \<and> accepted ys (run_ops xs st)"
  by (induction xs arbitrary: st) simp_all

definition provider_valid :: "ProviderDescriptor \<Rightarrow> bool" where
  "provider_valid p \<longleftrightarrow>
     \<not> null (pd_id p) \<and> \<not> null (pd_generation p) \<and> pd_totalCapacityBytes p \<noteq> 0 \<and> pd_alignmentBytes p \<noteq> 0 \<and>
     pd_granularityBytes p \<noteq> 0 \<and> capabilityContradiction (pd_capabilities p) = None"

definition region_valid :: "RegionDescriptor \<Rightarrow> bool" where
  "region_valid r \<longleftrightarrow>
     \<not> null (rd_id r) \<and> \<not> null (rd_generation r) \<and> \<not> null (rd_provider r) \<and> rd_totalCapacityBytes r \<noteq> 0 \<and>
     rd_alignmentBytes r \<noteq> 0 \<and> rd_granularityBytes r \<noteq> 0 \<and> capabilityContradiction (rd_staticCapabilities r) = None"

text \<open>Registrations of fresh identifiers.\<close>

lemma registerProvider_fresh:
  assumes "provider_valid p" "authorityAcceptableLocked st a" "umap_find (im_providers st) (pd_id p) = None"
  shows "registerProvider now p a st = (ok (pd_id p), st\<lparr>im_providers := umap_put (pd_id p)
    \<lparr>pr_descriptor = p, pr_lifecycle = Lifecycle.REGISTERED, pr_registeredAtMs = now\<rparr> (im_providers st)\<rparr>)"
  using assms by (simp add: registerProvider_def provider_valid_def Let_def)

lemma registerDomain_fresh:
  assumes "\<not> null (dd_id d)" "\<not> null (dd_generation d)" "authorityAcceptableLocked st a"
    and "umap_find (im_domains st) (dd_id d) = None"
  shows "registerDomain d a st = (ok (dd_id d), st\<lparr>im_domains := umap_put (dd_id d)
    \<lparr>dr_descriptor = d, dr_lifecycle = Lifecycle.REGISTERED\<rparr> (im_domains st)\<rparr>)"
  using assms by (simp add: registerDomain_def Let_def)

lemma registerRegion_fresh:
  assumes "region_valid r" "authorityAcceptableLocked st a" "umap_find (im_regions st) (rd_id r) = None"
    and "umap_find (im_providers st) (rd_provider r) \<noteq> None"
  shows "registerRegion r a st = (ok (rd_id r), st\<lparr>im_regions := umap_put (rd_id r)
    (new_region r RegionLifecycle.DECLARED (new_ledger (rd_totalCapacityBytes r))) (im_regions st)\<rparr>)"
  using assms by (auto simp: registerRegion_def region_valid_def Let_def)

text \<open>The region record after the first evidence about a healthy device.\<close>

definition brought_online :: "RegionEvidence \<Rightarrow> RegionRecord \<Rightarrow> bool" where
  "brought_online e rr \<longleftrightarrow>
     rr_lifecycle rr = RegionLifecycle.ONLINE \<and> rr_hasEvidence rr \<and> rr_latest rr = e \<and>
     rr_evidenceStatus rr = EvidenceStatus.CURRENT \<and> rr_reachable rr = ev_reachable e \<and> rr_health rr = ev_health e \<and>
     rr_ledger rr = (new_ledger (rd_totalCapacityBytes (rr_descriptor rr)))
       \<lparr>governedOnline := ev_onlineCapacityBytes e, free := ev_onlineCapacityBytes e\<rparr>"

definition region_online :: "RegionDescriptor \<Rightarrow> Impl \<Rightarrow> bool" where
  "region_online r st \<longleftrightarrow> (\<exists>rr e. umap_find (im_regions st) (rd_id r) = Some rr \<and> rr_descriptor rr = r \<and>
     brought_online e rr \<and> ev_reachable e \<and> ev_health e = HealthState.HEALTHY \<and>
     ev_onlineCapacityBytes e = rd_totalCapacityBytes r)"

text \<open>Providers keep their descriptors and their lifecycle, or come online.\<close>

definition providers_kept :: "(ProviderId, ProviderRecord) umap \<Rightarrow> (ProviderId, ProviderRecord) umap \<Rightarrow> bool" where
  "providers_kept provs provs' \<longleftrightarrow> (\<forall>q. rel_option
     (\<lambda>p p'. pr_descriptor p' = pr_descriptor p \<and> (pr_lifecycle p' = pr_lifecycle p \<or> pr_lifecycle p' = Lifecycle.ONLINE))
     (umap_find provs q) (umap_find provs' q))"

lemma providers_kept_refl: "providers_kept provs provs"
  by (auto simp: providers_kept_def option.rel_refl)

lemma providers_keptD:
  assumes "providers_kept provs provs'" "umap_find provs q = Some p"
  shows "\<exists>p'. umap_find provs' q = Some p' \<and> pr_descriptor p' = pr_descriptor p \<and>
    (pr_lifecycle p' = pr_lifecycle p \<or> pr_lifecycle p' = Lifecycle.ONLINE)"
  using assms(1) [unfolded providers_kept_def, rule_format, of q] assms(2) by (auto simp: option_rel_Some1)

lemma providers_kept_trans:
  assumes "providers_kept provs provs'" "providers_kept provs' provs''"
  shows "providers_kept provs provs''"
  unfolding providers_kept_def
proof
  fix q
  show "rel_option (\<lambda>p p'. pr_descriptor p' = pr_descriptor p \<and>
      (pr_lifecycle p' = pr_lifecycle p \<or> pr_lifecycle p' = Lifecycle.ONLINE)) (umap_find provs q) (umap_find provs'' q)"
    using assms [unfolded providers_kept_def, rule_format, of q]
    by (cases "umap_find provs q"; cases "umap_find provs' q"; cases "umap_find provs'' q") auto
qed

lemma setOnline_new:
  assumes "b \<le> t"
  shows "setOnline b (new_ledger t) = (True, (new_ledger t)\<lparr>governedOnline := b, free := b\<rparr>)"
proof -
  have "invariant (new_ledger t)" by (simp add: new_ledger_def invariant_iff bucket_sum_def)
  with assms show ?thesis by (simp add: setOnline_eq Let_def) (simp add: new_ledger_def)
qed

lemma reflect_kept: "providers_kept provs (umap_modify i (reflect_provider l) provs)"
proof -
  have "pr_descriptor (reflect_provider l x) = pr_descriptor x \<and>
      (pr_lifecycle (reflect_provider l x) = pr_lifecycle x \<or> pr_lifecycle (reflect_provider l x) = Lifecycle.ONLINE)" for x
    by (simp add: reflect_provider_def Let_def)
  then show ?thesis unfolding providers_kept_def by (auto simp: option.rel_map intro: option.rel_refl)
qed

lemma publish_fresh:
  assumes a: "authorityAcceptableLocked st a" "null (au_worker a) \<or> eh_worker (ev_header e) = au_worker a \<and> eh_boot (ev_header e) = au_boot a"
    and e: "eh_epoch (ev_header e) = im_epoch st" "ev_health e = HealthState.HEALTHY"
    and r: "umap_find (im_regions st) (eh_region (ev_header e)) = Some rr"
      "eh_regionGeneration (ev_header e) = rd_generation (rr_descriptor rr)" "rr_lifecycle rr = RegionLifecycle.DECLARED"
      "rr_ledger rr = new_ledger (rd_totalCapacityBytes (rr_descriptor rr))"
      "ev_onlineCapacityBytes e \<le> rd_totalCapacityBytes (rr_descriptor rr)"
    and p: "umap_find (im_providers st) (eh_sourceProvider (ev_header e)) = Some pr"
      "eh_sourceProviderGeneration (ev_header e) = pd_generation (pr_descriptor pr)"
  shows "\<exists>rr' regs provs. publishRegionEvidence now e a st =
      (ok (), st\<lparr>im_regions := regs, im_providers := provs\<rparr>) \<and>
    (\<forall>j. umap_find regs j = (if j = eh_region (ev_header e) then Some rr' else umap_find (im_regions st) j)) \<and>
    rr_descriptor rr' = rr_descriptor rr \<and> brought_online e rr' \<and>
    providers_kept (im_providers st) provs"
proof -
  let ?i = "eh_region (ev_header e)" and ?led = "(rr_ledger rr)\<lparr>governedOnline := ev_onlineCapacityBytes e, free := ev_onlineCapacityBytes e\<rparr>"
  let ?rr = "(record_evidence now e ?led rr)\<lparr>rr_lifecycle := RegionLifecycle.ONLINE\<rparr>"
  let ?rg = "umap_modify ?i (\<lambda>x. x\<lparr>rr_lifecycle := RegionLifecycle.ONLINE\<rparr>) (umap_modify ?i (record_evidence now e ?led) (im_regions st))"
  let ?pv = "umap_modify (rd_provider (rr_descriptor rr)) (reflect_provider RegionLifecycle.ONLINE) (im_providers st)"
  have led: "setOnline (ev_onlineCapacityBytes e) (rr_ledger rr) = (True, ?led)"
    using r(4,5) setOnline_new by simp
  have pub: "publishRegionEvidence now e a st = (ok (), st\<lparr>im_regions := ?rg, im_providers := ?pv\<rparr>)"
    using a e r p led
    by (auto simp: publishRegionEvidence_def Let_def evidence_target_def regionLifecycleAllowed_def)
  have "\<forall>j. umap_find ?rg j = (if j = ?i then Some ?rr else umap_find (im_regions st) j)" using r(1) by simp
  moreover have "brought_online e ?rr" "rr_descriptor ?rr = rr_descriptor rr"
    using r(4) by (simp_all add: brought_online_def record_evidence_def)
  moreover have "providers_kept (im_providers st) ?pv" by (rule reflect_kept)
  ultimately show ?thesis using pub by blast
qed

section \<open>Loops of registrations\<close>

definition declared_region :: "RegionDescriptor \<Rightarrow> RegionRecord" where
  "declared_region r = new_region r RegionLifecycle.DECLARED (new_ledger (rd_totalCapacityBytes r))"

lemma operator_acceptable:
  "au_epoch a = im_epoch st \<Longrightarrow> null (au_worker a) \<Longrightarrow> authorityAcceptableLocked st a"
  by (simp add: authorityAcceptableLocked_def)

text \<open>
  A loop that stores one new entry per call. \<open>tab\<close> and \<open>upd\<close> read and update the table, \<open>Q\<close> is what the
  call needs of the rest of the state.
\<close>

lemma storing_loop:
  assumes "\<And>x s. x \<in> set xs \<Longrightarrow> Q s \<Longrightarrow> umap_find (tab s) (key x) = None \<Longrightarrow>
      run_op (call x) s = (None, upd (umap_put (key x) (val x)) s)"
    and "\<And>g s. Q (upd g s) = Q s" "\<And>g s. tab (upd g s) = g (tab s)" "\<And>g h s. upd g (upd h s) = upd (g \<circ> h) s"
      "\<And>s. upd (\<lambda>m. m) s = s"
    and "Q st" "distinct (map key xs)" "\<And>x. x \<in> set xs \<Longrightarrow> umap_find (tab st) (key x) = None"
  shows "accepted (map call xs) st \<and> run_ops (map call xs) st = upd (insert_all (map (\<lambda>x. (key x, val x)) xs)) st"
  using assms(1,6-8)
proof (induction xs arbitrary: st)
  case Nil
  show ?case by (simp add: insert_all_def [abs_def] assms(5))
next
  case (Cons x xs)
  let ?st = "upd (umap_put (key x) (val x)) st"
  have r: "run_op (call x) st = (None, ?st)" using Cons.prems by simp
  have "key x \<notin> key ` set xs" using Cons.prems(3) by simp
  then have ne: "key y \<noteq> key x" if "y \<in> set xs" for y using that by (metis imageI)
  have "accepted (map call xs) ?st \<and> run_ops (map call xs) ?st = upd (insert_all (map (\<lambda>x. (key x, val x)) xs)) ?st"
    using Cons.prems ne by (intro Cons.IH) (simp_all add: assms(2,3))
  moreover have "insert_all (map (\<lambda>x. (key x, val x)) xs) \<circ> umap_put (key x) (val x) =
      insert_all (map (\<lambda>x. (key x, val x)) (x # xs))"
    by (auto simp: insert_all_def)
  ultimately show ?case by (simp add: r assms(4))
qed

lemma insert_all_find:
  "distinct (map fst kvs) \<Longrightarrow> (k, v) \<in> set kvs \<Longrightarrow> umap_find (insert_all kvs []) k = Some v"
  using insert_all_fresh [of "[]" kvs] by (simp add: umap_find_def)

lemma enumerate_snd: "x \<in> set (enumerate n xs) \<Longrightarrow> snd x \<in> set xs"
  by (metis imageI map_snd_enumerate set_map)

lemma in_enumerate: "x \<in> set xs \<Longrightarrow> \<exists>i. (i, x) \<in> set (enumerate n xs)"
  by (induction xs arbitrary: n) auto

lemma map_enumerate_snd: "map (\<lambda>x. f (snd x)) (enumerate n xs) = map f xs"
  by (induction xs arbitrary: n) simp_all

lemma register_providers:
  assumes "\<And>p. p \<in> set ps \<Longrightarrow> provider_valid p \<and> umap_find (im_providers st) (pd_id p) = None"
    and "distinct (map pd_id ps)" "au_epoch a = im_epoch st" "null (au_worker a)"
  shows "accepted (map (\<lambda>x. RegisterProvider (clk (fst x)) (snd x) a) (enumerate n ps)) st \<and>
    run_ops (map (\<lambda>x. RegisterProvider (clk (fst x)) (snd x) a) (enumerate n ps)) st =
      im_providers_update (insert_all (map (\<lambda>x. (pd_id (snd x), \<lparr>pr_descriptor = snd x,
        pr_lifecycle = Lifecycle.REGISTERED, pr_registeredAtMs = clk (fst x)\<rparr>)) (enumerate n ps))) st"
proof (rule storing_loop [where Q = "\<lambda>s. im_epoch s = im_epoch st" and tab = im_providers])
  fix x and s :: Impl
  assume "x \<in> set (enumerate n ps)" "im_epoch s = im_epoch st" "umap_find (im_providers s) (pd_id (snd x)) = None"
  then show "run_op (RegisterProvider (clk (fst x)) (snd x) a) s = (None, im_providers_update (umap_put (pd_id (snd x))
       \<lparr>pr_descriptor = snd x, pr_lifecycle = Lifecycle.REGISTERED, pr_registeredAtMs = clk (fst x)\<rparr>) s)"
    using assms registerProvider_fresh [of "snd x" s a "clk (fst x)"] operator_acceptable [of a s]
    by (simp add: enumerate_snd)
next
  show "distinct (map (\<lambda>x. pd_id (snd x)) (enumerate n ps))" using assms(2) by (simp add: map_enumerate_snd)
next
  show "umap_find (im_providers st) (pd_id (snd x)) = None" if "x \<in> set (enumerate n ps)" for x
    using enumerate_snd [OF that] assms(1) by simp
qed (simp_all add: comp_def)

lemma register_domains:
  assumes "\<And>d. d \<in> set ds \<Longrightarrow> \<not> null (dd_id d) \<and> \<not> null (dd_generation d) \<and> umap_find (im_domains st) (dd_id d) = None"
    and "distinct (map dd_id ds)" "au_epoch a = im_epoch st" "null (au_worker a)"
  shows "accepted (map (\<lambda>d. RegisterDomain d a) ds) st \<and> run_ops (map (\<lambda>d. RegisterDomain d a) ds) st =
      im_domains_update (insert_all (map (\<lambda>d. (dd_id d, \<lparr>dr_descriptor = d, dr_lifecycle = Lifecycle.REGISTERED\<rparr>)) ds)) st"
proof (rule storing_loop [where Q = "\<lambda>s. im_epoch s = im_epoch st" and tab = im_domains])
  fix d and s :: Impl
  assume "d \<in> set ds" "im_epoch s = im_epoch st" "umap_find (im_domains s) (dd_id d) = None"
  then show "run_op (RegisterDomain d a) s =
      (None, im_domains_update (umap_put (dd_id d) \<lparr>dr_descriptor = d, dr_lifecycle = Lifecycle.REGISTERED\<rparr>) s)"
    using assms registerDomain_fresh [of d s a] operator_acceptable [of a s] by simp
qed (use assms in \<open>simp_all add: comp_def\<close>)

lemma register_regions:
  assumes "\<And>r. r \<in> set rs \<Longrightarrow> region_valid r \<and> umap_find (im_regions st) (rd_id r) = None \<and>
      umap_find (im_providers st) (rd_provider r) \<noteq> None"
    and "distinct (map rd_id rs)" "au_epoch a = im_epoch st" "null (au_worker a)"
  shows "accepted (map (\<lambda>r. RegisterRegion r a) rs) st \<and> run_ops (map (\<lambda>r. RegisterRegion r a) rs) st =
      im_regions_update (insert_all (map (\<lambda>r. (rd_id r, declared_region r)) rs)) st"
proof (rule storing_loop [where Q = "\<lambda>s. im_epoch s = im_epoch st \<and> im_providers s = im_providers st" and tab = im_regions])
  fix r and s :: Impl
  assume "r \<in> set rs" "im_epoch s = im_epoch st \<and> im_providers s = im_providers st" "umap_find (im_regions s) (rd_id r) = None"
  then show "run_op (RegisterRegion r a) s = (None, im_regions_update (umap_put (rd_id r) (declared_region r)) s)"
    using assms registerRegion_fresh [of r s a] operator_acceptable [of a s] by (simp add: declared_region_def)
qed (use assms in \<open>simp_all add: comp_def\<close>)

text \<open>A loop that publishes first evidence about different regions.\<close>

definition declared_for :: "Impl \<Rightarrow> RegionEvidence \<Rightarrow> bool" where
  "declared_for st e \<longleftrightarrow>
     (\<exists>r. umap_find (im_regions st) (eh_region (ev_header e)) = Some (declared_region r) \<and>
        eh_regionGeneration (ev_header e) = rd_generation r \<and> ev_onlineCapacityBytes e \<le> rd_totalCapacityBytes r) \<and>
     (\<exists>pr. umap_find (im_providers st) (eh_sourceProvider (ev_header e)) = Some pr \<and>
        eh_sourceProviderGeneration (ev_header e) = pd_generation (pr_descriptor pr)) \<and>
     eh_epoch (ev_header e) = im_epoch st \<and> ev_health e = HealthState.HEALTHY"

lemma publish_declared:
  assumes "authorityAcceptableLocked st a" "declared_for st e"
    and "null (au_worker a) \<or> eh_worker (ev_header e) = au_worker a \<and> eh_boot (ev_header e) = au_boot a"
  shows "\<exists>rr' regs provs. publishRegionEvidence now e a st =
      (ok (), st\<lparr>im_regions := regs, im_providers := provs\<rparr>) \<and>
    (\<forall>j. umap_find regs j = (if j = eh_region (ev_header e) then Some rr' else umap_find (im_regions st) j)) \<and>
    map_option rr_descriptor (umap_find (im_regions st) (eh_region (ev_header e))) = Some (rr_descriptor rr') \<and>
    brought_online e rr' \<and>
    providers_kept (im_providers st) provs"
proof -
  obtain r pr where r: "umap_find (im_regions st) (eh_region (ev_header e)) = Some (declared_region r)"
      "eh_regionGeneration (ev_header e) = rd_generation r" "ev_onlineCapacityBytes e \<le> rd_totalCapacityBytes r"
    and p: "umap_find (im_providers st) (eh_sourceProvider (ev_header e)) = Some pr"
      "eh_sourceProviderGeneration (ev_header e) = pd_generation (pr_descriptor pr)"
    and e: "eh_epoch (ev_header e) = im_epoch st" "ev_health e = HealthState.HEALTHY"
    using assms(2) unfolding declared_for_def by blast
  have d: "rr_descriptor (declared_region r) = r" "rr_lifecycle (declared_region r) = RegionLifecycle.DECLARED"
    "rr_ledger (declared_region r) = new_ledger (rd_totalCapacityBytes r)"
    by (simp_all add: declared_region_def new_region_def)
  show ?thesis
    using publish_fresh [OF assms(1,3) e r(1) _ d(2) _ _ p, of now] r(2,3) d(1,3) by (fastforce simp: r(1))
qed

lemma declared_for_other:
  assumes "declared_for st e" "\<forall>j. umap_find regs j = (if j = i then x else umap_find (im_regions st) j)"
    and "eh_region (ev_header e) \<noteq> i"
    and "providers_kept (im_providers st) provs"
  shows "declared_for (st\<lparr>im_regions := regs, im_providers := provs\<rparr>) e"
proof -
  obtain pr where "umap_find (im_providers st) (eh_sourceProvider (ev_header e)) = Some pr"
      "eh_sourceProviderGeneration (ev_header e) = pd_generation (pr_descriptor pr)"
    using assms(1) by (auto simp: declared_for_def)
  then obtain pr' where "umap_find provs (eh_sourceProvider (ev_header e)) = Some pr'" "pr_descriptor pr' = pr_descriptor pr"
    using providers_keptD [OF assms(4)] by blast
  with assms show ?thesis unfolding declared_for_def by (fastforce simp: \<open>eh_sourceProviderGeneration (ev_header e) = pd_generation (pr_descriptor pr)\<close>)
qed

lemma publishing_loop:
  assumes "\<And>x. x \<in> set xs \<Longrightarrow> declared_for st (ev x)" "distinct (map (eh_region \<circ> ev_header \<circ> ev) xs)"
    and "au_epoch a = im_epoch st" "null (au_worker a)"
  shows "accepted (map (\<lambda>x. PublishRegionEvidence (clk x) (ev x) a) xs) st \<and>
    (\<exists>regs provs. run_ops (map (\<lambda>x. PublishRegionEvidence (clk x) (ev x) a) xs) st =
        st\<lparr>im_regions := regs, im_providers := provs\<rparr> \<and> providers_kept (im_providers st) provs \<and>
      (\<forall>j. map_option rr_descriptor (umap_find regs j) = map_option rr_descriptor (umap_find (im_regions st) j)) \<and>
      (\<forall>x \<in> set xs. pred_option (brought_online (ev x)) (umap_find regs (eh_region (ev_header (ev x))))) \<and>
      (\<forall>j. j \<notin> (eh_region \<circ> ev_header \<circ> ev) ` set xs \<longrightarrow> umap_find regs j = umap_find (im_regions st) j))"
  using assms
proof (induction xs arbitrary: st)
  case Nil
  show ?case by (intro conjI exI [of _ "im_regions st"] exI [of _ "im_providers st"]) (simp_all add: providers_kept_refl)
next
  case (Cons x xs)
  let ?e = "ev x" and ?i = "eh_region (ev_header (ev x))"
  have acc: "authorityAcceptableLocked st a" using Cons.prems by (simp add: operator_acceptable)
  have dec: "declared_for st ?e" using Cons.prems(1) [of x] by simp
  obtain rr' regs provs where pub: "publishRegionEvidence (clk x) ?e a st = (ok (), st\<lparr>im_regions := regs, im_providers := provs\<rparr>)"
    and regs: "\<forall>j. umap_find regs j = (if j = ?i then Some rr' else umap_find (im_regions st) j)"
    and rr': "map_option rr_descriptor (umap_find (im_regions st) ?i) = Some (rr_descriptor rr')" "brought_online ?e rr'"
    and provs: "providers_kept (im_providers st) provs"
    using publish_declared [OF acc dec disjI1 [OF Cons.prems(4)], of "clk x"] by blast
  let ?st = "st\<lparr>im_regions := regs, im_providers := provs\<rparr>"
  have new: "?i \<notin> (eh_region \<circ> ev_header \<circ> ev) ` set xs" using Cons.prems(2) by simp
  then have ne: "eh_region (ev_header (ev y)) \<noteq> ?i" if "y \<in> set xs" for y using that by (metis comp_apply imageI)
  have "declared_for ?st (ev y)" if "y \<in> set xs" for y
    using that ne by (intro declared_for_other [OF Cons.prems(1) regs _ provs]) simp_all
  then have "accepted (map (\<lambda>x. PublishRegionEvidence (clk x) (ev x) a) xs) ?st \<and>
    (\<exists>regs' provs'. run_ops (map (\<lambda>x. PublishRegionEvidence (clk x) (ev x) a) xs) ?st =
        ?st\<lparr>im_regions := regs', im_providers := provs'\<rparr> \<and> providers_kept (im_providers ?st) provs' \<and>
      (\<forall>j. map_option rr_descriptor (umap_find regs' j) = map_option rr_descriptor (umap_find (im_regions ?st) j)) \<and>
      (\<forall>x \<in> set xs. pred_option (brought_online (ev x)) (umap_find regs' (eh_region (ev_header (ev x))))) \<and>
      (\<forall>j. j \<notin> (eh_region \<circ> ev_header \<circ> ev) ` set xs \<longrightarrow> umap_find regs' j = umap_find (im_regions ?st) j))"
    using Cons.prems by (intro Cons.IH) simp_all
  then obtain regs' provs' where acc': "accepted (map (\<lambda>x. PublishRegionEvidence (clk x) (ev x) a) xs) ?st"
    and run: "run_ops (map (\<lambda>x. PublishRegionEvidence (clk x) (ev x) a) xs) ?st = ?st\<lparr>im_regions := regs', im_providers := provs'\<rparr>"
    and kept: "providers_kept provs provs'"
    and d: "\<And>j. map_option rr_descriptor (umap_find regs' j) = map_option rr_descriptor (umap_find regs j)"
    and b: "\<And>y. y \<in> set xs \<Longrightarrow> pred_option (brought_online (ev y)) (umap_find regs' (eh_region (ev_header (ev y))))"
    and o: "\<And>j. j \<notin> (eh_region \<circ> ev_header \<circ> ev) ` set xs \<Longrightarrow> umap_find regs' j = umap_find regs j"
    by auto
  have "umap_find regs' ?i = Some rr'" using o [OF new] regs by simp
  moreover have "map_option rr_descriptor (umap_find regs' j) = map_option rr_descriptor (umap_find (im_regions st) j)" for j
    using d [of j] regs rr'(1) by auto
  moreover have "umap_find regs' j = umap_find (im_regions st) j" if "j \<notin> (eh_region \<circ> ev_header \<circ> ev) ` set (x # xs)" for j
    using o [of j] that regs by simp
  moreover note providers_kept_trans [OF provs kept]
  ultimately show ?case
    using pub acc' run b rr'(2) by (intro conjI exI [of _ regs'] exI [of _ provs']) (simp_all add: outcome_ok)
qed

section \<open>A reservation from request to release\<close>

lemma request_ok_shape:
  assumes "requestReservation now req a st = (ok i, st')"
  obtains best rr led sel st1 g where "umap_find (im_regions st) best = Some rr"
    "umap_find (im_regions st') best = Some (rr\<lparr>rr_ledger := led\<rparr>)"
    "umap_find (im_reservations st') i = Some (make_reservation now req a st1 sel best rr i g)"
    "im_consumers st' = im_consumers st" "im_epoch st' = im_epoch st" "im_workers st' = im_workers st"
proof -
  obtain m n where e: "snd (evaluateLocked req st) = st\<lparr>im_selectionIdAlloc := m, im_selectionGenAlloc := n\<rparr>"
    using evaluate_parts(2) [of req st] by auto
  from assms show ?thesis
    by (auto simp: requestReservation_def Let_def case_prod_beta e with_ledger_find intro: that
        split: if_splits list.splits option.splits)
qed

lemma operator_frame:
  "null (au_worker a) \<Longrightarrow> authorityAcceptableLocked st a \<longleftrightarrow> au_epoch a = im_epoch st"
  by (simp add: authorityAcceptableLocked_def)

lemma commit_epoch [simp]: "im_epoch (snd (commitReservation i a st)) = im_epoch st"
  by (simp add: commitReservation_def Let_def case_prod_beta split: option.split)

lemma fresh_commit_allowed:
  assumes c: "consistent st" "consistent st'" and run: "requestReservation now req a st = (ok i, st')"
    and op: "null (au_worker a)" and best: "ranking st req = best # rest"
    and r: "umap_find (im_reservations st') i = Some r" "rs_region r = rc_region best" "rs_state r = ReservationState.RESERVED"
    and g: "umap_find (im_consumers st) (rq_consumer req) \<in> {None, Some (rq_consumerGeneration req)}"
  shows "commit_refusal st' a r = None"
proof -
  obtain b rr led sel st1 gen where shape: "umap_find (im_regions st) b = Some rr"
    "umap_find (im_regions st') b = Some (rr\<lparr>rr_ledger := led\<rparr>)"
    "umap_find (im_reservations st') i = Some (make_reservation now req a st1 sel b rr i gen)"
    "im_consumers st' = im_consumers st"
    by (rule request_ok_shape [OF run])
  have req: "r = make_reservation now req a st1 sel b rr i gen" using shape(3) r(1) by simp
  then have f: "rs_region r = b" "rs_worker r = au_worker a" "rs_consumer r = rq_consumer req"
    "rs_consumerGeneration r = rq_consumerGeneration req"
    "rs_evidenceGeneration r = (if rr_hasEvidence rr then eh_generation (ev_header (rr_latest rr)) else null_id)"
    by (simp_all add: make_reservation_def)
  have "best \<in> set (ranking st req)" using best by simp
  then obtain rr0 pr where "umap_find (im_regions st) (rc_region best) = Some rr0" "usable_now st req pr rr0"
    using best_candidate [OF c(1)] by metis
  then have u: "usable_now st req pr rr" using shape(1) f(1) r(2) by simp
  have reg: "umap_find (im_regions st') (rs_region r) = Some (rr\<lparr>rr_ledger := led\<rparr>)" using shape(2) f(1) by simp
  have "commit_worker_refusal st' a r = None" using op f(2) by (simp add: commit_worker_refusal_def)
  moreover have "\<not> consumer_moved st' r" using g by (auto simp: consumer_moved_def f shape(4))
  moreover have "\<not> evidence_moved (rr\<lparr>rr_ledger := led\<rparr>) r" "rr_lifecycle rr \<noteq> RegionLifecycle.REVALIDATION_REQUIRED"
    using u f(5) by (auto simp: evidence_moved_def usable_now_def)
  ultimately show ?thesis by (simp add: commit_refusal_live [OF c(2) r(1,3) reg])
qed

lemma move_there_and_back:
  "n \<le> f Free \<Longrightarrow> move Committed Free n (move Reserved Committed n (move Free Reserved n f)) = f"
  by (simp add: move_def fun_eq_iff)

lemma reserve_commit_release:
  assumes c: "consistent st" "im_reservationIdAlloc st \<noteq> UINT64_MAX"
    and a: "authorityAcceptableLocked st a" "null (au_worker a)" and v: "valid_request req"
    and g: "umap_find (im_consumers st) (rq_consumer req) \<in> {None, Some (rq_consumerGeneration req)}"
    and best: "ranking st req = best # rest"
  shows "\<exists>i st1 r st2 st3. requestReservation now req a st = (ok i, st1) \<and> commitReservation i a st1 = (ok r, st2) \<and>
     releaseReservation i a st2 = (ok (), st3) \<and> rs_state r = ReservationState.COMMITTED \<and>
     (\<forall>j. bytes_at (im_regions st3) j = bytes_at (im_regions st) j) \<and>
     (\<forall>k. umap_find (im_reservations st3) k =
        (if k = i then Some (r\<lparr>rs_state := ReservationState.RELEASED\<rparr>) else umap_find (im_reservations st) k)) \<and>
     i = TypedId (im_reservationIdAlloc st) \<and> rs_bytes r = rq_requiredBytes req"
proof -
  let ?i = "TypedId (im_reservationIdAlloc st) :: ReservationId" and ?n = "unat (rq_requiredBytes req)"
  obtain st1 r where req: "requestReservation now req a st = (ok ?i, st1)"
    and r: "umap_find (im_reservations st1) ?i = Some r" "rs_state r = ReservationState.RESERVED"
      "rs_region r = rc_region best" "rs_bytes r = rq_requiredBytes req"
    and others: "\<forall>k. k \<noteq> ?i \<longrightarrow> umap_find (im_reservations st1) k = umap_find (im_reservations st) k"
    and b1: "\<forall>j. bytes_at (im_regions st1) j = (if j = rc_region best
         then move Free Reserved ?n (bytes_at (im_regions st) j) else bytes_at (im_regions st) j)"
    using request_grants [OF c(1) a(1) v best, of now] by blast
  have c1: "consistent st1" using requestReservation_consistent [OF c, of now req a] req by simp
  have ep: "im_epoch st1 = im_epoch st" by (rule request_ok_shape [OF req])
  have a1: "authorityAcceptableLocked st1 a" using a ep by (simp add: operator_frame)
  obtain st2 where com: "commitReservation ?i a st1 = (ok (r\<lparr>rs_state := ReservationState.COMMITTED\<rparr>), st2)"
    and b2: "\<forall>j. bytes_at (im_regions st2) j = (if j = rs_region r
         then move Reserved Committed (unat (rs_bytes r)) (bytes_at (im_regions st1) j) else bytes_at (im_regions st1) j)"
    and r2: "\<forall>k. umap_find (im_reservations st2) k =
        (if k = ?i then Some (r\<lparr>rs_state := ReservationState.COMMITTED\<rparr>) else umap_find (im_reservations st1) k)"
    using commit_accepts [OF c1 a1 r(1,2) fresh_commit_allowed [OF c(1) c1 req a(2) best r(1,3,2) g]] by blast
  have c2: "consistent st2" using commitReservation_consistent [OF c1, of ?i a] com by simp
  have a2: "authorityAcceptableLocked st2 a" using a1 a(2) commit_epoch [of ?i a st1] com by (simp add: operator_frame)
  let ?r = "r\<lparr>rs_state := ReservationState.COMMITTED\<rparr>"
  have "holds ?r = Some Committed" by (simp add: holds_def)
  then obtain st3 where rel: "releaseReservation ?i a st2 = (ok (), st3)"
    and b3: "\<forall>j. bytes_at (im_regions st3) j = (if j = rs_region ?r
         then move Committed Free (unat (rs_bytes ?r)) (bytes_at (im_regions st2) j) else bytes_at (im_regions st2) j)"
    and r3: "\<forall>k. umap_find (im_reservations st3) k =
        (if k = ?i then Some (?r\<lparr>rs_state := ReservationState.RELEASED\<rparr>) else umap_find (im_reservations st2) k)"
    using release_succeeds [OF c2 a2, of ?i ?r Committed] r2 by auto
  have "best \<in> set (ranking st req)" using best by simp
  then obtain rr pr where rr: "umap_find (im_regions st) (rc_region best) = Some rr" "meets_requirements st req pr rr"
    using best_candidate [OF c(1)] by metis
  then have "?n \<le> bytes_at (im_regions st) (rc_region best) Free"
    by (simp add: bytes_at_find meets_requirements_def word_le_nat_alt)
  then have "bytes_at (im_regions st3) j = bytes_at (im_regions st) j" for j
    using b1 [rule_format, of j] b2 [rule_format, of j] b3 [rule_format, of j] r(3,4)
    by (cases "j = rc_region best") (simp_all add: move_there_and_back)
  moreover have "umap_find (im_reservations st3) k =
      (if k = ?i then Some (?r\<lparr>rs_state := ReservationState.RELEASED\<rparr>) else umap_find (im_reservations st) k)" for k
    using r3 [rule_format, of k] r2 [rule_format, of k] others [rule_format, of k] by (cases "k = ?i") (simp_all only: if_True if_False simp_thms)
  moreover have "rs_state ?r = ReservationState.COMMITTED" "rs_bytes ?r = rq_requiredBytes req" using r(4) by simp_all
  ultimately show ?thesis using req com rel by blast
qed

end
