(* ===== verification/Backends.thy ===== *)
theory Backends
  imports Snapshot
begin

text \<open>
  Discovery (\<open>include/memory_expansion_fabric/backend.hpp\<close>, \<open>src/backends.cpp\<close>). The abstract class
  \<open>Discovery\<close> is a record of what its methods return, its three subclasses are values of it. The only
  input is what \<open>GlobalMemoryStatusEx\<close> answers: \<open>Some n\<close> for \<open>n\<close> bytes of physical memory, \<open>None\<close> when
  the call fails or the platform has none. \<open>processorCount\<close> is never called and has no counterpart.
\<close>

section \<open>Default-constructed descriptors\<close>

definition default_ProviderDescriptor :: ProviderDescriptor where
  "default_ProviderDescriptor =
     \<lparr>pd_id = null_id, pd_generation = null_id, pd_kind = ProviderKind.UNKNOWN,
      pd_origin = OriginClass.UNKNOWN, pd_name = [], pd_failureDomain = null_id,
      pd_addressability = Addressability.UNKNOWN, pd_persistence = Persistence.UNKNOWN,
      pd_totalCapacityBytes = 0, pd_alignmentBytes = 1, pd_granularityBytes = 1,
      pd_capabilities = [], pd_requiresHostCopy = False\<rparr>"

definition default_RegionDescriptor :: RegionDescriptor where
  "default_RegionDescriptor =
     \<lparr>rd_id = null_id, rd_generation = null_id, rd_provider = null_id, rd_domain = null_id,
      rd_name = [], rd_totalCapacityBytes = 0, rd_alignmentBytes = 1, rd_granularityBytes = 1,
      rd_origin = OriginClass.UNKNOWN, rd_persistence = Persistence.UNKNOWN, rd_staticCapabilities = []\<rparr>"

definition default_DomainDescriptor :: ExpansionDomainDescriptor where
  "default_DomainDescriptor =
     \<lparr>dd_id = null_id, dd_generation = null_id, dd_name = [], dd_origin = OriginClass.UNKNOWN,
      dd_failureDomain = null_id\<rparr>"

text \<open>A sequence of \<open>capabilities.set(key, status)\<close> calls, whose note is empty.\<close>

definition set_caps :: "(CapabilityKey \<times> CapabilityStatus) list \<Rightarrow> CapabilityModel" where
  "set_caps kss = fold (\<lambda>(k, s). cap_set k s []) kss []"

section \<open>The interface\<close>

record Discovery =
  di_name :: string
  di_summary :: string
  di_originClass :: OriginClass
  di_providers :: "ProviderDescriptor list"
  di_domains :: "ExpansionDomainDescriptor list"
  di_regions :: "RegionDescriptor list"
  di_initialEvidence :: "CoordinatorEpoch \<Rightarrow> RegionEvidence list"
  di_capabilityReport :: string

definition totalPhysicalRam :: "u64 option \<Rightarrow> u64" where
  "totalPhysicalRam status = (case status of Some n \<Rightarrow> n | None \<Rightarrow> 0)"

section \<open>The system backend\<close>

definition system_provider :: "u64 \<Rightarrow> ProviderDescriptor" where
  "system_provider ram = default_ProviderDescriptor\<lparr>
     pd_id := TypedId 1, pd_generation := TypedId 1, pd_kind := ProviderKind.SYSTEM_MEMORY,
     pd_origin := OriginClass.REAL, pd_name := ''host-physical-memory'', pd_totalCapacityBytes := ram,
     pd_alignmentBytes := 4096, pd_granularityBytes := 4096, pd_persistence := Persistence.VOLATILE,
     pd_capabilities := set_caps
       [(CapabilityKey.CPU_ACCESSIBLE, SUPPORTED),
        (CapabilityKey.ACCELERATOR_ACCESSIBLE, CapabilityStatus.UNKNOWN),
        (CapabilityKey.BYTE_ADDRESSABLE, SUPPORTED), (CapabilityKey.VOLATILE, SUPPORTED),
        (CapabilityKey.DIRECT_ACCESS, SUPPORTED)]\<rparr>"

definition system_region :: "u64 \<Rightarrow> RegionDescriptor" where
  "system_region ram = default_RegionDescriptor\<lparr>
     rd_id := TypedId 1, rd_generation := TypedId 1, rd_provider := TypedId 1, rd_domain := TypedId 1,
     rd_name := ''host-system-memory-region'', rd_totalCapacityBytes := ram,
     rd_alignmentBytes := 4096, rd_granularityBytes := 4096,
     rd_origin := OriginClass.REAL, rd_persistence := Persistence.VOLATILE,
     rd_staticCapabilities := set_caps
       [(CapabilityKey.CPU_ACCESSIBLE, SUPPORTED),
        (CapabilityKey.ACCELERATOR_ACCESSIBLE, CapabilityStatus.UNKNOWN)]\<rparr>"

definition system_evidence :: "u64 \<Rightarrow> CoordinatorEpoch \<Rightarrow> RegionEvidence" where
  "system_evidence ram epoch = default_RegionEvidence\<lparr>
     ev_header := default_EvidenceHeader\<lparr>
       eh_id := TypedId 1, eh_generation := TypedId 1, eh_sourceProvider := TypedId 1,
       eh_sourceProviderGeneration := TypedId 1, eh_region := TypedId 1, eh_regionGeneration := TypedId 1,
       eh_worker := null_id, eh_boot := null_id, eh_epoch := epoch,
       eh_provenance := ''system-api GlobalMemoryStatusEx''\<rparr>,
     ev_health := HealthState.HEALTHY, ev_reachable := True, ev_onlineCapacityBytes := ram,
     ev_latencyNs := 100, ev_bandwidthBytesPerSec := 30000000000, ev_locality := Locality.LOCAL,
     ev_nodeId := 1, ev_status := EvidenceStatus.CURRENT\<rparr>"

definition SystemDiscovery :: "u64 option \<Rightarrow> Discovery" where
  "SystemDiscovery status =
     (let ram = totalPhysicalRam status in
      \<lparr>di_name = ''system'',
       di_summary =
         ''system backend: physical host memory present; '' @
         ''no physical memory-expansion hardware (CXL-class/remote/pooled/'' @
         ''fabric-attached) is installed on this machine.'',
       di_originClass = OriginClass.REAL,
       di_providers = (if ram > 0 then [system_provider ram] else []),
       di_domains =
         (if ram = 0 then []
          else [\<lparr>dd_id = TypedId 1, dd_generation = TypedId 1, dd_name = ''host-system-memory'',
                 dd_origin = OriginClass.REAL, dd_failureDomain = null_id\<rparr>]),
       di_regions = (if ram = 0 then [] else [system_region ram]),
       di_initialEvidence = (\<lambda>epoch. if ram = 0 then [] else [system_evidence ram epoch]),
       di_capabilityReport =
         ''CXL-class expansion: UNSUPPORTED'' @ newline @
         ''remote/pooled memory: UNSUPPORTED'' @ newline @
         ''fabric-attached memory: UNSUPPORTED'' @ newline @
         ''accelerator-adjacent expansion: UNSUPPORTED'' @ newline @
         ''host SYSTEM_MEMORY: REAL'' @ newline\<rparr>)"

section \<open>The synthetic backend\<close>

definition synthetic_cxl :: ProviderDescriptor where
  "synthetic_cxl = default_ProviderDescriptor\<lparr>
     pd_id := TypedId 1, pd_generation := TypedId 1, pd_kind := ProviderKind.CXL_CLASS,
     pd_origin := OriginClass.SYNTHETIC, pd_name := ''synthetic-cxl-class'',
     pd_totalCapacityBytes := 32 * 1024 * 1024 * 1024, pd_alignmentBytes := 4096,
     pd_granularityBytes := 4096, pd_persistence := Persistence.VOLATILE,
     pd_capabilities := set_caps
       [(CapabilityKey.CPU_ACCESSIBLE, SUPPORTED), (CapabilityKey.ACCELERATOR_ACCESSIBLE, SUPPORTED),
        (CapabilityKey.BYTE_ADDRESSABLE, SUPPORTED), (CapabilityKey.DIRECT_ACCESS, SUPPORTED),
        (CapabilityKey.VOLATILE, SUPPORTED)]\<rparr>"

definition synthetic_remote :: ProviderDescriptor where
  "synthetic_remote = default_ProviderDescriptor\<lparr>
     pd_id := TypedId 2, pd_generation := TypedId 1, pd_kind := ProviderKind.REMOTE_MEMORY,
     pd_origin := OriginClass.SYNTHETIC, pd_name := ''synthetic-remote-memory'',
     pd_totalCapacityBytes := 16 * 1024 * 1024 * 1024, pd_alignmentBytes := 4096,
     pd_granularityBytes := 4096, pd_persistence := Persistence.PERSISTENT,
     pd_capabilities := set_caps
       [(CapabilityKey.CPU_ACCESSIBLE, SUPPORTED), (CapabilityKey.ACCELERATOR_ACCESSIBLE, SUPPORTED),
        (CapabilityKey.BYTE_ADDRESSABLE, SUPPORTED), (CapabilityKey.DIRECT_ACCESS, SUPPORTED),
        (CapabilityKey.PERSISTENT, SUPPORTED)]\<rparr>"

definition synthetic_region1 :: RegionDescriptor where
  "synthetic_region1 = default_RegionDescriptor\<lparr>
     rd_id := TypedId 1, rd_generation := TypedId 1, rd_provider := TypedId 1, rd_domain := TypedId 1,
     rd_name := ''synthetic-cxl-region'', rd_totalCapacityBytes := 32 * 1024 * 1024 * 1024,
     rd_alignmentBytes := 4096, rd_granularityBytes := 4096,
     rd_origin := OriginClass.SYNTHETIC, rd_persistence := Persistence.VOLATILE\<rparr>"

definition synthetic_region2 :: RegionDescriptor where
  "synthetic_region2 = default_RegionDescriptor\<lparr>
     rd_id := TypedId 2, rd_generation := TypedId 1, rd_provider := TypedId 2, rd_domain := TypedId 1,
     rd_name := ''synthetic-remote-region'', rd_totalCapacityBytes := 16 * 1024 * 1024 * 1024,
     rd_alignmentBytes := 4096, rd_granularityBytes := 4096,
     rd_origin := OriginClass.SYNTHETIC, rd_persistence := Persistence.PERSISTENT\<rparr>"

definition synthetic_evidence1 :: "CoordinatorEpoch \<Rightarrow> RegionEvidence" where
  "synthetic_evidence1 epoch = default_RegionEvidence\<lparr>
     ev_header := default_EvidenceHeader\<lparr>
       eh_id := TypedId 1, eh_generation := TypedId 1, eh_sourceProvider := TypedId 1,
       eh_sourceProviderGeneration := TypedId 1, eh_region := TypedId 1, eh_regionGeneration := TypedId 1,
       eh_epoch := epoch, eh_provenance := ''synthetic''\<rparr>,
     ev_health := HealthState.HEALTHY, ev_reachable := True,
     ev_onlineCapacityBytes := 32 * 1024 * 1024 * 1024,
     ev_latencyNs := 120, ev_bandwidthBytesPerSec := 20000000000, ev_locality := Locality.FABRIC,
     ev_nodeId := 2, ev_status := EvidenceStatus.CURRENT\<rparr>"

definition synthetic_evidence2 :: "CoordinatorEpoch \<Rightarrow> RegionEvidence" where
  "synthetic_evidence2 epoch = default_RegionEvidence\<lparr>
     ev_header := default_EvidenceHeader\<lparr>
       eh_id := TypedId 2, eh_generation := TypedId 1, eh_sourceProvider := TypedId 2,
       eh_sourceProviderGeneration := TypedId 1, eh_region := TypedId 2, eh_regionGeneration := TypedId 1,
       eh_epoch := epoch, eh_provenance := ''synthetic''\<rparr>,
     ev_health := HealthState.HEALTHY, ev_reachable := True,
     ev_onlineCapacityBytes := 16 * 1024 * 1024 * 1024,
     ev_latencyNs := 4000, ev_bandwidthBytesPerSec := 3000000000, ev_locality := Locality.REMOTE,
     ev_nodeId := 3, ev_status := EvidenceStatus.CURRENT\<rparr>"

definition SyntheticDiscovery :: Discovery where
  "SyntheticDiscovery =
     \<lparr>di_name = ''synthetic'',
      di_summary =
        ''synthetic backend: deterministic proof-only expansion scenario; '' @ ''NOT real hardware.'',
      di_originClass = OriginClass.SYNTHETIC,
      di_providers = [synthetic_cxl, synthetic_remote],
      di_domains =
        [\<lparr>dd_id = TypedId 1, dd_generation = TypedId 1, dd_name = ''synthetic-domain'',
          dd_origin = OriginClass.SYNTHETIC, dd_failureDomain = null_id\<rparr>],
      di_regions = [synthetic_region1, synthetic_region2],
      di_initialEvidence = (\<lambda>epoch. [synthetic_evidence1 epoch, synthetic_evidence2 epoch]),
      di_capabilityReport =
        ''CXL-class expansion: SYNTHETIC'' @ newline @
        ''remote/pooled memory: SYNTHETIC'' @ newline @
        ''fabric-attached memory: SYNTHETIC'' @ newline @
        ''accelerator-adjacent expansion: SYNTHETIC'' @ newline @
        ''generic expansion semantics: SYNTHETIC'' @ newline @
        ''physical hardware: NOT PRESENT'' @ newline\<rparr>"

section \<open>The unsupported backend and the factory\<close>

definition UnsupportedDiscovery :: Discovery where
  "UnsupportedDiscovery =
     \<lparr>di_name = ''unsupported'',
      di_summary = ''unsupported backend: no memory-expansion technology is available here.'',
      di_originClass = OriginClass.UNSUPPORTED,
      di_providers = [], di_domains = [], di_regions = [], di_initialEvidence = (\<lambda>epoch. []),
      di_capabilityReport = ''all physical memory-expansion classes: UNSUPPORTED'' @ newline\<rparr>"

definition makeDiscovery :: "u64 option \<Rightarrow> string \<Rightarrow> Discovery" where
  "makeDiscovery status kind =
     (if kind = ''system'' then SystemDiscovery status
      else if kind = ''synthetic'' then SyntheticDiscovery
      else UnsupportedDiscovery)"

lemmas system_defs = SystemDiscovery_def system_provider_def system_region_def system_evidence_def

lemmas synthetic_defs = SyntheticDiscovery_def synthetic_cxl_def synthetic_remote_def synthetic_region1_def
  synthetic_region2_def synthetic_evidence1_def synthetic_evidence2_def

lemmas descriptor_defaults = default_ProviderDescriptor_def default_RegionDescriptor_def default_DomainDescriptor_def
  default_RegionEvidence_def default_EvidenceHeader_def set_caps_def

end
