(* ===== verification/Format.thy ===== *)
theory Format
  imports Snapshot
begin

text \<open>
  Text output of the programs (\<open>tools/cli.cpp\<close>, \<open>src/coordinator.cpp\<close>, \<open>proofs/cuda_proof.cu\<close>): \<open>%llu\<close> and \<open>std::to_string\<close> of an
  unsigned integer are \<open>to_string\<close>, an enumeration cast to \<open>int\<close> is printed as its position, and \<open>%f\<close>
  prints six decimals, rounded to nearest with ties to even.
\<close>

definition pad6 :: "nat \<Rightarrow> string" where
  "pad6 n = (let s = nat_to_string n in replicate (6 - length s) (CHR ''0'') @ s)"

definition show_f :: "double \<Rightarrow> string" where
  "show_f d =
     (let sign = (if sign_neg d then ''-'' else []) in
      if is_nan d then sign @ ''nan''
      else if is_inf d then sign @ ''inf''
      else let scaled = mag_units (mag_bits d) * 10 ^ 6; one = 2 ^ 1074;
               q = scaled div one; r = scaled mod one;
               n = (if 2 * r < one \<or> 2 * r = one \<and> even q then q else q + 1)
           in sign @ nat_to_string (n div 10 ^ 6) @ ''.'' @ pad6 (n mod 10 ^ 6))"

definition show_byte :: "u8 \<Rightarrow> string" where
  "show_byte b = nat_to_string (unat b)"

definition show_bool :: "bool \<Rightarrow> string" where
  "show_bool b = (if b then ''1'' else ''0'')"

text \<open>\<open>(int)\<close> of a region lifecycle, which never crosses the wire.\<close>

definition RegionLifecycle_int :: "RegionLifecycle \<Rightarrow> nat" where
  "RegionLifecycle_int l =
     (case l of
        RegionLifecycle.DECLARED \<Rightarrow> 0 | RegionLifecycle.ONLINE \<Rightarrow> 1 | RegionLifecycle.DEGRADED \<Rightarrow> 2
      | RegionLifecycle.DRAINING \<Rightarrow> 3 | RegionLifecycle.UNAVAILABLE \<Rightarrow> 4
      | RegionLifecycle.REVALIDATION_REQUIRED \<Rightarrow> 5 | RegionLifecycle.RETIRED \<Rightarrow> 6)"

text \<open>\<open>%d\<close> of a signed integer.\<close>

definition show_int :: "int \<Rightarrow> string" where
  "show_int i = (if i < 0 then ''-'' @ nat_to_string (nat (- i)) else nat_to_string (nat i))"

text \<open>\<open>CapacityLedger::describe\<close> and \<open>Fabric::version\<close>.\<close>

definition describe :: "CapacityLedger \<Rightarrow> string" where
  "describe l =
     ''total='' @ to_string (total l) @ '' online='' @ to_string (governedOnline l) @
     '' free='' @ to_string (free l) @ '' reserved='' @ to_string (reserved l) @
     '' committed='' @ to_string (committed l) @ '' draining='' @ to_string (draining l) @
     '' unavailable='' @ to_string (unavailable l)"

definition version :: string where
  "version = ''1.0.1''"

end
