(* ===== verification/Coordinator.thy ===== *)
theory Coordinator
  imports Worker Bringup Backends Format
begin

unbundle bit_operations_syntax

text \<open>
  The coordinator process (\<open>src/coordinator.cpp\<close>): the handler of every frame, the loop that reassembles
  frames from the bytes of a connection, the monitor of a worker process, the command line and the seed.

  \<^item> \<open>Coordinator\<close> is the struct of that name, with one more field for the file system that \<open>save\<close>
    writes. Its mutexes are not fields: a handler runs between two of the steps of \<open>Server\<close>.
  \<^item> \<open>Connection\<close> holds the local variables of \<open>handleConnection\<close>. \<open>cn_noting\<close> marks the program point
    between the two fabric calls of the \<open>HELLO\<close> handler, and \<open>cn_served\<close> counts the frames handled.
  \<^item> A handler returns the effects it has on the world in order: bytes handed to \<open>send\<close>, a process
    started with a command line, a monitor thread started, a process terminated.
  \<^item> What the operating system answers is the argument \<open>Env\<close>: the clock, the handle of a created process
    (\<open>None\<close> when that fails), whether a process could be terminated, how writing a file went, and the
    path of the executable.
\<close>

section \<open>State\<close>

type_synonym HANDLE = u64

record Coordinator =
  co_fabric :: Impl
  co_port :: u64
  co_workerExe :: string
  co_epoch :: CoordinatorEpoch
  co_procHandles :: "(WorkerId, HANDLE) umap"
  co_files :: files

record Connection =
  cn_isWorker :: bool
  cn_worker :: WorkerId
  cn_boot :: WorkerBootId
  cn_buf :: "u8 list"
  cn_open :: bool
  cn_noting :: bool
  cn_served :: nat

definition new_connection :: Connection where
  "new_connection =
     \<lparr>cn_isWorker = False, cn_worker = null_id, cn_boot = null_id, cn_buf = [], cn_open = True,
      cn_noting = False, cn_served = 0\<rparr>"

record Env =
  en_now :: u64
  en_process :: "HANDLE option"
  en_terminated :: bool
  en_write :: write_io
  en_self :: string

datatype Effect = Send "u8 list" | StartProcess string | StartMonitor WorkerId HANDLE | Terminate HANDLE

type_synonym reply = "Effect list \<times> Connection \<times> Coordinator"

definition kSeedTotal :: u64 where
  "kSeedTotal = 16 * 1024 * 1024 * 1024"

definition regionTotal :: "RegionId \<Rightarrow> Coordinator \<Rightarrow> u64" where
  "regionTotal r c =
     (case filter (\<lambda>rg. gs_id rg = r) (sn_regions (snapshot (co_fabric c))) of
        rg # _ \<Rightarrow> gs_totalCapacityBytes rg
      | [] \<Rightarrow> 0)"

definition umap_erase :: "'k \<Rightarrow> ('k, 'v) umap \<Rightarrow> ('k, 'v) umap" where
  "umap_erase k m = filter (\<lambda>(k', v). k' \<noteq> k) m"

section \<open>Helpers\<close>

definition memefle64 :: "u8 list \<Rightarrow> u64" where
  "memefle64 p = fold (\<lambda>i v. v OR push_bit (8 * i) (ucast (p ! i))) [0..<8] 0"

definition sendFrame :: "FrameType \<Rightarrow> u8 list \<Rightarrow> Effect list" where
  "sendFrame type body = (case encodeFrame type body of Inl _ \<Rightarrow> [] | Inr enc \<Rightarrow> [Send enc])"

definition flag :: "bool \<Rightarrow> u8 list" where
  "flag b = [if b then 1 else 0]"

definition findWorkerExe :: "string \<Rightarrow> string" where
  "findWorkerExe selfPath =
     (let slash = (\<lambda>c. c = CHR 0x5C \<or> c = CHR ''/'');
          dir = (if list_ex slash selfPath then rev (tl (dropWhile (\<lambda>c. \<not> slash c) (rev selfPath))) else ''.'')
      in dir @ [CHR 0x5C] @ ''mef_worker.exe'')"

text \<open>The command line of \<open>spawnWorker\<close>: the quoted executable, then the words of the arguments.\<close>

definition spawn_args :: "Coordinator \<Rightarrow> WorkerId \<Rightarrow> WorkerBootId \<Rightarrow> string list" where
  "spawn_args c w boot =
     (let t = regionTotal (TypedId 1) c; total = (if t = 0 then kSeedTotal else t)
      in [''--port'', to_string (co_port c), ''--worker'', to_string (id_value w), ''--boot'', to_string (id_value boot),
          ''--epoch'', to_string (id_value (co_epoch c)), ''--region'', ''1'', ''--provider'', ''1'',
          ''--online'', to_string total])"

definition command_line :: "string \<Rightarrow> string list \<Rightarrow> string" where
  "command_line exe args = [CHR 0x22] @ exe @ [CHR 0x22] @ concat (map (\<lambda>a. '' '' @ a) args)"

definition worker_exe :: "Env \<Rightarrow> Coordinator \<Rightarrow> string" where
  "worker_exe env c = (if co_workerExe c = [] then findWorkerExe (en_self env) else co_workerExe c)"

definition spawnWorker :: "Env \<Rightarrow> WorkerId \<Rightarrow> WorkerBootId \<Rightarrow> Coordinator \<Rightarrow> HANDLE option \<times> Effect list" where
  "spawnWorker env w boot c =
     (let exe = worker_exe env c in
      if exe = [] then (None, [])
      else (case en_process env of
          None \<Rightarrow> (None, [])
        | Some h \<Rightarrow> (Some h, [StartProcess (command_line exe (spawn_args c w boot))])))"

section \<open>Frame handlers\<close>

text \<open>
  The \<open>HELLO\<close> handler calls the fabric twice and other threads may run in between:
  \<open>hello_register\<close> is the part up to the first call, \<open>hello_note\<close> the rest.
\<close>

definition hello_register :: "Env \<Rightarrow> u8 list \<Rightarrow> Connection \<Rightarrow> Coordinator \<Rightarrow> Connection \<times> Coordinator" where
  "hello_register env body cn c =
     (if length body < 32 then (cn, c)
      else let worker = TypedId (memefle64 body); boot = TypedId (memefle64 (drop 8 body));
               ep = TypedId (memefle64 (drop 16 body)); pid = memefle64 (drop 24 body);
               (r, st) = registerWorker (en_now env) worker boot ep pid (operator_authority (co_epoch c)) (co_fabric c)
           in (cn\<lparr>cn_worker := worker, cn_boot := boot, cn_isWorker := is_ok r, cn_noting := True\<rparr>,
               c\<lparr>co_fabric := st\<rparr>))"

definition hello_note :: "Connection \<Rightarrow> Coordinator \<Rightarrow> reply" where
  "hello_note cn c =
     (if \<not> cn_noting cn then ([], cn, c)
      else (sendFrame HELLO_ACK (flag (cn_isWorker cn)), cn\<lparr>cn_noting := False\<rparr>,
            if cn_isWorker cn then c\<lparr>co_fabric := noteWorkerHandle (cn_worker cn) True (co_fabric c)\<rparr> else c))"

definition on_hello :: "Env \<Rightarrow> u8 list \<Rightarrow> Connection \<Rightarrow> Coordinator \<Rightarrow> reply" where
  "on_hello env body cn c = (let (cn', c') = hello_register env body cn c in hello_note cn' c')"

definition on_publish_evidence :: "Env \<Rightarrow> u8 list \<Rightarrow> Connection \<Rightarrow> Coordinator \<Rightarrow> reply" where
  "on_publish_evidence env body cn c =
     (if \<not> cn_isWorker cn then ([], cn, c)
      else (case decodeRegionEvidence body of
          Inl _ \<Rightarrow> ([], cn, c)
        | Inr ev \<Rightarrow>
            let (r, st) = publishRegionEvidence (en_now env) ev
                  (worker_authority (co_epoch c) (cn_worker cn) (cn_boot cn)) (co_fabric c)
            in ([], cn, c\<lparr>co_fabric := st\<rparr>)))"

definition on_select :: "Env \<Rightarrow> u8 list \<Rightarrow> Connection \<Rightarrow> Coordinator \<Rightarrow> reply" where
  "on_select env body cn c =
     (case decodeRequirements body of
        Inl _ \<Rightarrow> ([], cn, c)
      | Inr req \<Rightarrow>
          let (sel, st) = select req (operator_authority (co_epoch c)) (co_fabric c)
          in (case sel of
                Inl _ \<Rightarrow> ([], cn, c\<lparr>co_fabric := st\<rparr>)
              | Inr s \<Rightarrow> (sendFrame SELECT_RESP (put_selection s), cn, c\<lparr>co_fabric := st\<rparr>)))"

definition on_reserve :: "Env \<Rightarrow> u8 list \<Rightarrow> Connection \<Rightarrow> Coordinator \<Rightarrow> reply" where
  "on_reserve env body cn c =
     (case decodeRequirements body of
        Inl _ \<Rightarrow> ([], cn, c)
      | Inr req \<Rightarrow>
          let (rres, st) = requestReservation (en_now env) req (operator_authority (co_epoch c)) (co_fabric c);
              resp = (case rres of Inl _ \<Rightarrow> flag False | Inr i \<Rightarrow> flag True @ put64 (id_value i))
          in (sendFrame RESERVE_RESP resp, cn, c\<lparr>co_fabric := st\<rparr>))"

definition on_commit :: "Env \<Rightarrow> u8 list \<Rightarrow> Connection \<Rightarrow> Coordinator \<Rightarrow> reply" where
  "on_commit env body cn c =
     (if length body < 8 then ([], cn, c)
      else let (res, st) = commitReservation (TypedId (memefle64 body)) (operator_authority (co_epoch c)) (co_fabric c)
           in (case res of
                 Inl _ \<Rightarrow> ([], cn, c\<lparr>co_fabric := st\<rparr>)
               | Inr r \<Rightarrow> (sendFrame COMMIT_RESP (put_reservation r), cn, c\<lparr>co_fabric := st\<rparr>)))"

definition on_release :: "Env \<Rightarrow> u8 list \<Rightarrow> Connection \<Rightarrow> Coordinator \<Rightarrow> reply" where
  "on_release env body cn c =
     (if length body < 8 then ([], cn, c)
      else let (res, st) = releaseReservation (TypedId (memefle64 body)) (operator_authority (co_epoch c)) (co_fabric c)
           in (sendFrame RELEASE_RESP (flag (is_ok res)), cn, c\<lparr>co_fabric := st\<rparr>))"

definition inspect_text :: "FabricSnapshot \<Rightarrow> string" where
  "inspect_text snap =
     ''epoch='' @ to_string (id_value (sn_epoch snap)) @ newline @
     concat (map (\<lambda>rv. ''reservation '' @ to_string (id_value (vs_id rv)) @
        '' state='' @ show_byte (ReservationState_byte (vs_state rv)) @
        '' region='' @ to_string (id_value (vs_region rv)) @
        '' bytes='' @ to_string (vs_bytes rv) @ newline) (sn_reservations snap)) @
     concat (map (\<lambda>wd. ''worker '' @ to_string (id_value (ws_id wd)) @
        '' boot='' @ to_string (id_value (ws_boot wd)) @ '' alive='' @ show_bool (ws_alive wd) @
        '' handle='' @ show_bool (ws_holdsProcessHandle wd) @ '' pid='' @ to_string (ws_pid wd) @ newline)
       (sn_workers snap)) @
     concat (map (\<lambda>rg. ''region '' @ to_string (id_value (gs_id rg)) @
        '' life='' @ nat_to_string (RegionLifecycle_int (gs_lifecycle rg)) @
        '' ev='' @ show_byte (EvidenceStatus_byte (gs_evidenceStatus rg)) @
        '' free='' @ to_string (gs_freeBytes rg) @ '' reach='' @ show_bool (gs_reachable rg) @ newline)
       (sn_regions snap))"

definition on_inspect :: "Env \<Rightarrow> u8 list \<Rightarrow> Connection \<Rightarrow> Coordinator \<Rightarrow> reply" where
  "on_inspect env body cn c =
     (sendFrame INSPECT_RESP (makeStringPayload (inspect_text (snapshot (co_fabric c)))), cn, c)"

definition on_audit :: "Env \<Rightarrow> u8 list \<Rightarrow> Connection \<Rightarrow> Coordinator \<Rightarrow> reply" where
  "on_audit env body cn c =
     (let text = (case audit (co_fabric c) of Inr t \<Rightarrow> t | Inl _ \<Rightarrow> ''AUDIT_ERROR'')
      in (sendFrame AUDIT_RESP (makeStringPayload text), cn, c))"

definition on_spawn_worker :: "Env \<Rightarrow> u8 list \<Rightarrow> Connection \<Rightarrow> Coordinator \<Rightarrow> reply" where
  "on_spawn_worker env body cn c =
     (if length body < 16 then ([], cn, c)
      else let w = TypedId (memefle64 body); b = TypedId (memefle64 (drop 8 body));
               (spawned, effects) = spawnWorker env w b c
           in (case spawned of
                 None \<Rightarrow> (effects @ sendFrame SPAWN_WORKER_RESP (flag False), cn, c)
               | Some h \<Rightarrow>
                   (effects @ [StartMonitor w h] @ sendFrame SPAWN_WORKER_RESP (flag True), cn,
                    c\<lparr>co_procHandles := umap_put w h (co_procHandles c)\<rparr>)))"

definition on_terminate_worker :: "Env \<Rightarrow> u8 list \<Rightarrow> Connection \<Rightarrow> Coordinator \<Rightarrow> reply" where
  "on_terminate_worker env body cn c =
     (if length body < 8 then ([], cn, c)
      else let w = TypedId (memefle64 body);
               h = (case umap_find (co_procHandles c) w of Some h \<Rightarrow> h | None \<Rightarrow> 0)
           in if h \<noteq> 0
              then ([Terminate h] @ sendFrame TERMINATE_WORKER_RESP (flag (en_terminated env)), cn, c)
              else (sendFrame TERMINATE_WORKER_RESP (flag False), cn, c))"

definition on_save :: "Env \<Rightarrow> u8 list \<Rightarrow> Connection \<Rightarrow> Coordinator \<Rightarrow> reply" where
  "on_save env body cn c =
     (let path = map char_of_byte body;
          (r, files) = save (en_write env) path (co_fabric c) (co_files c)
      in (sendFrame SAVE_RESP (flag (is_ok r)), cn, c\<lparr>co_files := files\<rparr>))"

definition dispatch :: "Env \<Rightarrow> Frame \<Rightarrow> Connection \<Rightarrow> Coordinator \<Rightarrow> reply" where
  "dispatch env f cn c =
     (case fr_type f of
        HELLO \<Rightarrow> on_hello env (fr_payload f) cn c
      | PUBLISH_EVIDENCE \<Rightarrow> on_publish_evidence env (fr_payload f) cn c
      | SELECT \<Rightarrow> on_select env (fr_payload f) cn c
      | RESERVE \<Rightarrow> on_reserve env (fr_payload f) cn c
      | COMMIT \<Rightarrow> on_commit env (fr_payload f) cn c
      | RELEASE \<Rightarrow> on_release env (fr_payload f) cn c
      | INSPECT \<Rightarrow> on_inspect env (fr_payload f) cn c
      | AUDIT \<Rightarrow> on_audit env (fr_payload f) cn c
      | SPAWN_WORKER \<Rightarrow> on_spawn_worker env (fr_payload f) cn c
      | TERMINATE_WORKER \<Rightarrow> on_terminate_worker env (fr_payload f) cn c
      | SAVE \<Rightarrow> on_save env (fr_payload f) cn c
      | _ \<Rightarrow> ([], cn, c))"

section \<open>The receive loop of a connection\<close>

lemma dispatch_local:
  "cn_buf (fst (snd (dispatch env f cn c))) = cn_buf cn" "cn_open (fst (snd (dispatch env f cn c))) = cn_open cn"
  "cn_served (fst (snd (dispatch env f cn c))) = cn_served cn"
  by (simp_all add: dispatch_def on_hello_def hello_register_def hello_note_def on_publish_evidence_def on_select_def
      on_reserve_def on_commit_def on_release_def on_inspect_def on_audit_def on_spawn_worker_def
      on_terminate_worker_def on_save_def Let_def case_prod_beta split: FrameType.split sum.split option.split)

lemma decode_consumes: "decodeFrame bs = FrameOK f n \<Longrightarrow> 16 \<le> n \<and> n \<le> length bs"
  by (auto simp: decodeFrame_def kHeader_def Let_def split: if_splits)

text \<open>
  The inner loop of \<open>handleConnection\<close>: frames are taken from the front of the buffer until it holds no
  complete one. An error ends the connection, and with it the buffer. \<open>envs\<close> gives the environment of each
  frame of the connection.
\<close>

function serve :: "(nat \<Rightarrow> Env) \<Rightarrow> Connection \<Rightarrow> Coordinator \<Rightarrow> reply" where
  "serve envs cn c =
     (case decodeFrame (cn_buf cn) of
        INCOMPLETE \<Rightarrow> ([], cn, c)
      | ERROR m \<Rightarrow> ([], cn\<lparr>cn_open := False, cn_buf := []\<rparr>, c)
      | FrameOK f n \<Rightarrow>
          let (effects, cn', c') = dispatch (envs (cn_served cn)) f (cn\<lparr>cn_buf := drop n (cn_buf cn)\<rparr>) c;
              (effects', cn'', c'') = serve envs (cn'\<lparr>cn_served := Suc (cn_served cn)\<rparr>) c'
          in (effects @ effects', cn'', c''))"
  by pat_completeness auto
termination
proof (relation "measure (\<lambda>(envs, cn, c). length (cn_buf cn))", goal_cases)
  case (2 envs cn c f n x effects y cn' c')
  have "cn_buf cn' = drop n (cn_buf cn)"
    using dispatch_local(1) [of "envs (cn_served cn)" f "cn\<lparr>cn_buf := drop n (cn_buf cn)\<rparr>" c] 2(2-4)
    by (cases "dispatch (envs (cn_served cn)) f (cn\<lparr>cn_buf := drop n (cn_buf cn)\<rparr>) c") auto
  then show ?case using decode_consumes [OF 2(1)] by auto
qed simp

declare serve.simps [simp del]

text \<open>One turn of the outer loop: \<open>recv\<close> returns no bytes when the peer has closed or failed.\<close>

definition receive :: "(nat \<Rightarrow> Env) \<Rightarrow> u8 list \<Rightarrow> Connection \<Rightarrow> Coordinator \<Rightarrow> reply" where
  "receive envs chunk cn c =
     (if \<not> cn_open cn then ([], cn, c)
      else if chunk = [] then ([], cn\<lparr>cn_open := False, cn_buf := []\<rparr>, c)
      else serve envs (cn\<lparr>cn_buf := cn_buf cn @ chunk\<rparr>) c)"

fun handleConnection :: "(nat \<Rightarrow> Env) \<Rightarrow> u8 list list \<Rightarrow> Connection \<Rightarrow> Coordinator \<Rightarrow> reply" where
  "handleConnection envs [] cn c = ([], cn, c)"
| "handleConnection envs (chunk # chunks) cn c =
     (let (effects, cn', c') = receive envs chunk cn c;
          (effects', cn'', c'') = handleConnection envs chunks cn' c'
      in (effects @ effects', cn'', c''))"

section \<open>Process monitor\<close>

text \<open>\<open>workerMonitor\<close> after the process has exited: first the fabric, then the table of handles.\<close>

definition monitor_marks :: "u64 \<Rightarrow> WorkerId \<Rightarrow> Coordinator \<Rightarrow> Coordinator" where
  "monitor_marks now w c =
     c\<lparr>co_fabric := snd (markWorkerDead now w (operator_authority (co_epoch c)) (co_fabric c))\<rparr>"

definition monitor_erases :: "WorkerId \<Rightarrow> Coordinator \<Rightarrow> Coordinator" where
  "monitor_erases w c = c\<lparr>co_procHandles := umap_erase w (co_procHandles c)\<rparr>"

section \<open>Start\<close>

record CoordinatorArgs =
  cg_port :: u64
  cg_epoch :: u64
  cg_workerExe :: string
  cg_seed :: bool
  cg_loadPath :: string

definition default_CoordinatorArgs :: CoordinatorArgs where
  "default_CoordinatorArgs = \<lparr>cg_port = 0, cg_epoch = 1, cg_workerExe = [], cg_seed = False, cg_loadPath = []\<rparr>"

fun parse_coordinator :: "string list \<Rightarrow> CoordinatorArgs \<Rightarrow> CoordinatorArgs option" where
  "parse_coordinator (a # v # rest) g =
     (if a = ''--port'' then (case stoull v of None \<Rightarrow> None | Some n \<Rightarrow> parse_coordinator rest (g\<lparr>cg_port := n\<rparr>))
      else if a = ''--epoch'' then (case stoull v of None \<Rightarrow> None | Some n \<Rightarrow> parse_coordinator rest (g\<lparr>cg_epoch := n\<rparr>))
      else if a = ''--worker-exe'' then parse_coordinator rest (g\<lparr>cg_workerExe := v\<rparr>)
      else if a = ''--seed'' then parse_coordinator (v # rest) (g\<lparr>cg_seed := True\<rparr>)
      else if a = ''--load'' then parse_coordinator rest (g\<lparr>cg_loadPath := v\<rparr>)
      else parse_coordinator (v # rest) g)"
| "parse_coordinator [a] g = Some (if a = ''--seed'' then g\<lparr>cg_seed := True\<rparr> else g)"
| "parse_coordinator [] g = Some g"

definition seed_provider :: ProviderDescriptor where
  "seed_provider = default_ProviderDescriptor\<lparr>
     pd_id := TypedId 1, pd_generation := TypedId 1, pd_kind := ProviderKind.SYNTHETIC,
     pd_origin := OriginClass.SYNTHETIC, pd_name := ''seed-provider'', pd_totalCapacityBytes := kSeedTotal,
     pd_alignmentBytes := 4096, pd_granularityBytes := 4096, pd_persistence := Persistence.VOLATILE,
     pd_capabilities := set_caps
       [(CapabilityKey.CPU_ACCESSIBLE, SUPPORTED), (CapabilityKey.ACCELERATOR_ACCESSIBLE, SUPPORTED),
        (CapabilityKey.COHERENT, SUPPORTED), (CapabilityKey.BYTE_ADDRESSABLE, SUPPORTED),
        (CapabilityKey.VOLATILE, SUPPORTED)]\<rparr>"

definition seed_domain :: ExpansionDomainDescriptor where
  "seed_domain = default_DomainDescriptor\<lparr>
     dd_id := TypedId 1, dd_generation := TypedId 1, dd_name := ''seed-domain'', dd_origin := OriginClass.SYNTHETIC\<rparr>"

definition seed_region :: RegionDescriptor where
  "seed_region = default_RegionDescriptor\<lparr>
     rd_id := TypedId 1, rd_generation := TypedId 1, rd_provider := TypedId 1, rd_domain := TypedId 1,
     rd_name := ''seed-region'', rd_totalCapacityBytes := kSeedTotal, rd_alignmentBytes := 4096,
     rd_granularityBytes := 4096, rd_origin := OriginClass.SYNTHETIC,
     rd_staticCapabilities := set_caps
       [(CapabilityKey.CPU_ACCESSIBLE, SUPPORTED), (CapabilityKey.ACCELERATOR_ACCESSIBLE, SUPPORTED)]\<rparr>"

definition seed_ops :: "u64 \<Rightarrow> Authority \<Rightarrow> op list" where
  "seed_ops now a =
     [RegisterProvider now seed_provider a, RegisterDomain seed_domain a, RegisterRegion seed_region a,
      RegisterConsumer (TypedId 10) (TypedId 1) a]"

text \<open>
  \<open>runCoordinator\<close> up to the accept loop: \<open>None\<close> when an exception of \<open>std::stoull\<close> ends the process,
  \<open>Some (Inl msg)\<close> when it prints a message and returns 1.
\<close>

definition startCoordinator :: "bool \<Rightarrow> read_io \<Rightarrow> u64 \<Rightarrow> files \<Rightarrow> string list \<Rightarrow> (string + Coordinator) option" where
  "startCoordinator wsa_ok io now fs argv =
     (case parse_coordinator (tl argv) default_CoordinatorArgs of
        None \<Rightarrow> None
      | Some g \<Rightarrow> Some
          (if cg_port g = 0 then Inl (''coordinator: --port required'' @ newline)
           else if \<not> wsa_ok then Inl (''coordinator: WSAStartup failed'' @ newline)
           else let c = (\<lambda>f e. \<lparr>co_fabric = f, co_port = cg_port g, co_workerExe = cg_workerExe g, co_epoch = e,
                                co_procHandles = [], co_files = fs\<rparr>)
             in if cg_loadPath g \<noteq> [] then
                  (case load io (cg_loadPath g) fs of
                     Inl e \<Rightarrow> Inl (''coordinator: load failed: '' @ message e @ newline)
                   | Inr f \<Rightarrow> Inr (c f (im_epoch f)))
                else let e = TypedId (cg_epoch g); f = new_fabric e
                  in if cg_seed g then Inr (c (run_ops (seed_ops now (operator_authority e)) f) e)
                     else Inr (c f e)))"

end
