(* ===== verification/Server.thy ===== *)
theory Server
  imports Coordinator
begin

unbundle bit_operations_syntax

text \<open>
  The coordinator at work. First a single connection: how the network cuts a byte stream into pieces does
  not matter. Then the whole process as a step relation: any number of connections, whose threads take
  turns between fabric calls, and the monitor threads of the worker processes; every state it reaches is
  a state of the fabric model. Last, a worker that the coordinator starts, from its command line to the
  region it brings online, and what a late monitor does to the successor of its worker.
\<close>

section \<open>A stream in pieces\<close>

lemma header_extend:
  assumes "16 \<le> length b"
  shows "take 4 (b @ x) = take 4 b" "le16 (b @ x) 4 = le16 b 4" "le16 (b @ x) 6 = le16 b 6"
    "le32 (b @ x) 8 = le32 b 8" "le32 (b @ x) 12 = le32 b 12"
  using assms by (simp_all add: le16_def le32_def nth_append)

lemma decode_extend:
  "decodeFrame b \<noteq> INCOMPLETE \<Longrightarrow> decodeFrame (b @ x) = decodeFrame b"
proof -
  assume d: "decodeFrame b \<noteq> INCOMPLETE"
  then have l: "16 \<le> length b" by (simp add: decodeFrame_def kHeader_def split: if_splits)
  have i: "\<not> length b < 16" "\<not> length (b @ x) < 16" using l by simp_all
  show ?thesis
  proof (cases "unat (le32 b 8) \<le> length b - 16")
    case True
    then have "\<not> length b < 16 + unat (le32 b 8)" "\<not> length (b @ x) < 16 + unat (le32 b 8)"
      "take (unat (le32 b 8)) (drop 16 (b @ x)) = take (unat (le32 b 8)) (drop 16 b)"
      using l by simp_all
    then show ?thesis unfolding decodeFrame_def kHeader_def header_extend [OF l] Let_def by (simp only: i if_False)
  next
    case False
    then have f: "length b < 16 + unat (le32 b 8)" using l by simp
    have "take 4 b \<noteq> kMagic \<or> le16 b 4 \<noteq> kProtocolVersion \<or> \<not> isKnownFrameType (le16 b 6) \<or> kMaxPayload < unat (le32 b 8)"
    proof (rule ccontr)
      assume "\<not> ?thesis"
      then have "decodeFrame b = INCOMPLETE" using f i by (simp add: decodeFrame_def kHeader_def Let_def)
      with d show False by simp
    qed
    then show ?thesis
      by (elim disjE; simp add: decodeFrame_def kHeader_def header_extend [OF l] i Let_def i(2) [simplified] del: take_append)
  qed
qed

lemma dispatch_buf:
  "dispatch env f (cn\<lparr>cn_buf := b\<rparr>) c =
     (let (effects, cn', c') = dispatch env f cn c in (effects, cn'\<lparr>cn_buf := b\<rparr>, c'))"
  by (cases "fr_type f")
    (simp_all add: dispatch_def on_hello_def hello_register_def hello_note_def on_publish_evidence_def on_select_def
      on_reserve_def on_commit_def on_release_def on_inspect_def on_audit_def on_spawn_worker_def
      on_terminate_worker_def on_save_def Let_def case_prod_beta split: sum.split option.split)

text \<open>Serving what is in the buffer and then, if the connection is still open, more bytes.\<close>

definition serve_more :: "(nat \<Rightarrow> Env) \<Rightarrow> u8 list \<Rightarrow> reply \<Rightarrow> reply" where
  "serve_more envs x r =
     (let (effects, cn, c) = r;
          (effects', cn', c') = (if cn_open cn then serve envs (cn\<lparr>cn_buf := cn_buf cn @ x\<rparr>) c else ([], cn, c))
      in (effects @ effects', cn', c'))"

lemma serve_append:
  "cn_open cn \<Longrightarrow> serve envs (cn\<lparr>cn_buf := cn_buf cn @ x\<rparr>) c = serve_more envs x (serve envs cn c)"
proof (induction envs cn c rule: serve.induct)
  case (1 envs cn c)
  show ?case
  proof (cases "decodeFrame (cn_buf cn)")
    case INCOMPLETE
    then show ?thesis using 1(2) by (simp add: serve.simps [of envs cn] serve_more_def case_prod_beta)
  next
    case (ERROR m)
    then show ?thesis
      using decode_extend [of "cn_buf cn" x]
      by (simp add: serve.simps [of envs cn] serve.simps [of envs "cn\<lparr>cn_buf := cn_buf cn @ x\<rparr>"] serve_more_def)
  next
    case (FrameOK f n)
    let ?cn = "cn\<lparr>cn_buf := drop n (cn_buf cn)\<rparr>"
    obtain eff cn' c' where d: "dispatch (envs (cn_served cn)) f ?cn c = (eff, cn', c')" by (metis prod_cases3)
    have loc: "cn_buf cn' = drop n (cn_buf cn)" "cn_open cn'" "cn_served cn' = cn_served cn"
      using dispatch_local [of "envs (cn_served cn)" f ?cn c] d 1(2) by simp_all
    have ext: "decodeFrame (cn_buf cn @ x) = FrameOK f n" using decode_extend [of "cn_buf cn" x] FrameOK by simp
    have "dispatch (envs (cn_served cn)) f (cn\<lparr>cn_buf := drop n (cn_buf cn) @ x\<rparr>) c =
        (eff, cn'\<lparr>cn_buf := cn_buf cn' @ x\<rparr>, c')"
      using dispatch_buf [of "envs (cn_served cn)" f "drop n (cn_buf cn) @ x" ?cn c] d loc by simp
    moreover obtain e2 cn2 c2 where s2: "serve envs (cn'\<lparr>cn_served := Suc (cn_served cn)\<rparr>) c' = (e2, cn2, c2)"
      by (metis prod_cases3)
    have eq: "cn'\<lparr>cn_served := Suc (cn_served cn), cn_buf := cn_buf (cn'\<lparr>cn_served := Suc (cn_served cn)\<rparr>) @ x\<rparr> =
        cn'\<lparr>cn_buf := cn_buf cn' @ x, cn_served := Suc (cn_served cn)\<rparr>" by simp
    have "serve envs (cn'\<lparr>cn_served := Suc (cn_served cn), cn_buf := cn_buf (cn'\<lparr>cn_served := Suc (cn_served cn)\<rparr>) @ x\<rparr>) c' =
        serve_more envs x (e2, cn2, c2)"
      using loc(2) unfolding s2 [symmetric] by (intro 1(1) [OF FrameOK d [symmetric]]) simp_all
    note ih = this [unfolded eq]
    ultimately have "serve envs (cn\<lparr>cn_buf := cn_buf cn @ x\<rparr>) c =
        (let (effects', cn'', c'') = serve_more envs x (e2, cn2, c2) in (eff @ effects', cn'', c''))"
      using ext decode_consumes [OF FrameOK] by (subst serve.simps) (simp add: ih)
    then show ?thesis
      using FrameOK d s2 by (simp add: serve.simps [of envs cn] serve_more_def case_prod_beta Let_def)
  qed
qed

lemma receive_append:
  assumes "x \<noteq> []" "y \<noteq> []"
  shows "(let (effects, cn', c') = receive envs x cn c; (effects', cn'', c'') = receive envs y cn' c'
      in (effects @ effects', cn'', c'')) = receive envs (x @ y) cn c"
proof (cases "cn_open cn")
  case True
  obtain e cn' c' where s: "serve envs (cn\<lparr>cn_buf := cn_buf cn @ x\<rparr>) c = (e, cn', c')" by (metis prod_cases3)
  have "serve envs (cn\<lparr>cn_buf := (cn_buf cn @ x) @ y\<rparr>) c = serve_more envs y (e, cn', c')"
    using serve_append [of "cn\<lparr>cn_buf := cn_buf cn @ x\<rparr>" envs y c] True s by simp
  with True assms s show ?thesis by (simp add: receive_def serve_more_def)
qed (simp add: receive_def)

lemma handleConnection_concat:
  "[] \<notin> set chunks \<Longrightarrow> chunks \<noteq> [] \<Longrightarrow> handleConnection envs chunks cn c = receive envs (concat chunks) cn c"
proof (induction chunks arbitrary: cn c)
  case (Cons x chunks)
  show ?case
  proof (cases "chunks = []")
    case True
    then show ?thesis by (cases "receive envs x cn c") simp
  next
    case False
    with Cons.prems(1) have "concat chunks \<noteq> []" by (cases chunks) auto
    moreover have "x \<noteq> []" using Cons.prems(1) by auto
    ultimately show ?thesis using Cons False receive_append [of x "concat chunks" envs cn c] by simp
  qed
qed simp

section \<open>Frame by frame\<close>

text \<open>One encoded frame at the front of the buffer.\<close>

lemma serve_frame:
  assumes "encodeFrame t p = ok e" "FrameType_known t"
    and "dispatch (envs (cn_served cn)) \<lparr>fr_type = t, fr_payload = p\<rparr> (cn\<lparr>cn_buf := rest\<rparr>) c = (effects, cn', c')"
  shows "serve envs (cn\<lparr>cn_buf := e @ rest\<rparr>) c =
    (let (effects', cn'', c'') = serve envs (cn'\<lparr>cn_served := Suc (cn_served cn)\<rparr>) c' in (effects @ effects', cn'', c''))"
  using decode_encoded [OF assms(1,2), of rest] assms(3) by (subst serve.simps) simp

lemma serve_empty: "cn_buf cn = [] \<Longrightarrow> serve envs cn c = ([], cn, c)"
  by (subst serve.simps) (simp add: decodeFrame_def kHeader_def)

text \<open>The server without a network: frames are handled one at a time, in order.\<close>

fun serve_frames :: "(nat \<Rightarrow> Env) \<Rightarrow> Frame list \<Rightarrow> Connection \<Rightarrow> Coordinator \<Rightarrow> reply" where
  "serve_frames envs [] cn c = ([], cn, c)"
| "serve_frames envs (f # fs) cn c =
     (let (effects, cn', c') = dispatch (envs (cn_served cn)) f cn c;
          (effects', cn'', c'') = serve_frames envs fs (cn'\<lparr>cn_served := Suc (cn_served cn)\<rparr>) c'
      in (effects @ effects', cn'', c''))"

lemma serve_encoded:
  assumes "list_all2 (\<lambda>f e. FrameType_known (fr_type f) \<and> encodeFrame (fr_type f) (fr_payload f) = ok e) fs es"
    and "cn_buf cn = []"
  shows "serve envs (cn\<lparr>cn_buf := concat es\<rparr>) c = serve_frames envs fs cn c"
  using assms
proof (induction fs es arbitrary: cn c rule: list_all2_induct)
  case Nil
  then show ?case by (simp add: serve_empty)
next
  case (Cons f fs e es)
  obtain eff cn' c' where d: "dispatch (envs (cn_served cn)) f cn c = (eff, cn', c')" by (metis prod_cases3)
  have b: "cn_buf cn' = []" "cn_served cn' = cn_served cn" using dispatch_local [of "envs (cn_served cn)" f cn c] d Cons.prems by simp_all
  have "dispatch (envs (cn_served cn)) f (cn\<lparr>cn_buf := concat es\<rparr>) c = (eff, cn'\<lparr>cn_buf := concat es\<rparr>, c')"
    using dispatch_buf [of "envs (cn_served cn)" f "concat es" cn c] d by simp
  moreover obtain t p where f: "f = \<lparr>fr_type = t, fr_payload = p\<rparr>" by (cases f)
  have t: "FrameType_known t" "encodeFrame t p = ok e" using Cons.hyps(1) f by simp_all
  ultimately have "serve envs (cn\<lparr>cn_buf := e @ concat es\<rparr>) c =
      (let (effects', cn'', c'') = serve envs (cn'\<lparr>cn_buf := concat es, cn_served := Suc (cn_served cn)\<rparr>) c'
       in (eff @ effects', cn'', c''))"
    using serve_frame [OF t(2,1), of envs cn "concat es" c] f by simp
  also have "cn'\<lparr>cn_buf := concat es, cn_served := Suc (cn_served cn)\<rparr> =
      (cn'\<lparr>cn_served := Suc (cn_served cn)\<rparr>)\<lparr>cn_buf := concat es\<rparr>" by simp
  also have "serve envs \<dots> c' = serve_frames envs fs (cn'\<lparr>cn_served := Suc (cn_served cn)\<rparr>) c'"
    using b by (intro Cons.IH) simp
  finally show ?case using d by simp
qed

lemma handle_encoded:
  assumes "list_all2 (\<lambda>f e. FrameType_known (fr_type f) \<and> encodeFrame (fr_type f) (fr_payload f) = ok e) fs es"
    and "cn_buf cn = []" "cn_open cn" "[] \<notin> set chunks" "concat chunks = concat es"
  shows "handleConnection envs chunks cn c = serve_frames envs fs cn c"
proof (cases "chunks = []")
  case True
  have "cn\<lparr>cn_buf := []\<rparr> = cn" using assms(2) by (metis Connection.surjective Connection.update_convs(4))
  moreover have "concat es = []" using assms(5) True by simp
  ultimately have "serve envs cn c = serve_frames envs fs cn c"
    using serve_encoded [OF assms(1,2), of envs c] by (simp del: concat_eq_Nil_conv)
  then show ?thesis using True assms(2) by (simp add: serve_empty)
next
  case False
  then have "concat chunks \<noteq> []" using assms(4) by (cases chunks) auto
  then show ?thesis
    using serve_encoded [OF assms(1,2), of envs c] assms(2,3)
    unfolding handleConnection_concat [OF assms(4) False] receive_def by (simp add: assms(5) del: concat_eq_Nil_conv)
qed

text \<open>No complete frame is left in the buffer, so it stays smaller than the largest frame.\<close>

lemma decode_nil [simp]: "decodeFrame [] = INCOMPLETE"
  by (simp add: decodeFrame_def kHeader_def)

lemma serve_drained: "serve envs cn c = (effects, cn', c') \<Longrightarrow> decodeFrame (cn_buf cn') = INCOMPLETE"
proof (induction envs cn c arbitrary: effects cn' c' rule: serve.induct)
  case (1 envs cn c)
  show ?case
  proof (cases "decodeFrame (cn_buf cn)")
    case (FrameOK f n)
    obtain eff cn1 c1 where d: "dispatch (envs (cn_served cn)) f (cn\<lparr>cn_buf := drop n (cn_buf cn)\<rparr>) c = (eff, cn1, c1)"
      by (metis prod_cases3)
    obtain e2 cn2 c2 where s: "serve envs (cn1\<lparr>cn_served := Suc (cn_served cn)\<rparr>) c1 = (e2, cn2, c2)" by (metis prod_cases3)
    have "cn' = cn2" using 1(2) FrameOK d s by (simp add: serve.simps [of envs cn])
    moreover have "decodeFrame (cn_buf cn2) = INCOMPLETE" using 1(1) [OF FrameOK d [symmetric] refl refl s] by simp
    ultimately show ?thesis by simp
  qed (use 1(2) in \<open>auto simp: serve.simps [of envs cn]\<close>)
qed

lemma handle_drained:
  "decodeFrame (cn_buf cn) = INCOMPLETE \<Longrightarrow> handleConnection envs chunks cn c = (effects, cn', c') \<Longrightarrow>
     decodeFrame (cn_buf cn') = INCOMPLETE"
proof (induction envs chunks cn c arbitrary: effects cn' c' rule: handleConnection.induct)
  case (2 envs chunk chunks cn c)
  obtain e1 cn1 c1 where r: "receive envs chunk cn c = (e1, cn1, c1)" by (metis prod_cases3)
  obtain e2 cn2 c2 where h: "handleConnection envs chunks cn1 c1 = (e2, cn2, c2)" by (metis prod_cases3)
  have "decodeFrame (cn_buf cn1) = INCOMPLETE"
    using r 2(2) serve_drained [of envs "cn\<lparr>cn_buf := cn_buf cn @ chunk\<rparr>" c e1 cn1 c1]
    by (auto simp: receive_def split: if_splits)
  from 2(1) [OF r [symmetric] refl refl this h] show ?case using 2(3) r h by simp
qed simp

text \<open>Every frame handled has used at least the 16 bytes of its header.\<close>

lemma serve_bounded:
  "serve envs cn c = (effects, cn', c') \<Longrightarrow> 16 * cn_served cn' + length (cn_buf cn') \<le> 16 * cn_served cn + length (cn_buf cn)"
proof (induction envs cn c arbitrary: effects cn' c' rule: serve.induct)
  case (1 envs cn c)
  show ?case
  proof (cases "decodeFrame (cn_buf cn)")
    case (FrameOK f n)
    let ?cn = "cn\<lparr>cn_buf := drop n (cn_buf cn)\<rparr>"
    obtain eff cn1 c1 where d: "dispatch (envs (cn_served cn)) f ?cn c = (eff, cn1, c1)"
      by (metis prod_cases3)
    obtain e2 cn2 c2 where s: "serve envs (cn1\<lparr>cn_served := Suc (cn_served cn)\<rparr>) c1 = (e2, cn2, c2)" by (metis prod_cases3)
    have "cn' = cn2" using 1(2) FrameOK d s by (simp add: serve.simps [of envs cn])
    moreover have "16 * cn_served cn2 + length (cn_buf cn2) \<le> 16 * Suc (cn_served cn) + length (cn_buf cn1)"
      using 1(1) [OF FrameOK d [symmetric] refl refl s] by simp
    moreover have "length (cn_buf cn1) = length (cn_buf cn) - n"
      using dispatch_local(1) [of "envs (cn_served cn)" f ?cn c] d by simp
    ultimately show ?thesis using decode_consumes [OF FrameOK] by auto
  qed (use 1(2) in \<open>auto simp: serve.simps [of envs cn]\<close>)
qed

lemma handle_bounded:
  "handleConnection envs chunks cn c = (effects, cn', c') \<Longrightarrow>
     16 * cn_served cn' + length (cn_buf cn') \<le> 16 * cn_served cn + length (cn_buf cn) + length (concat chunks)"
proof (induction envs chunks cn c arbitrary: effects cn' c' rule: handleConnection.induct)
  case (2 envs chunk chunks cn c)
  obtain e1 cn1 c1 where r: "receive envs chunk cn c = (e1, cn1, c1)" by (metis prod_cases3)
  obtain e2 cn2 c2 where h: "handleConnection envs chunks cn1 c1 = (e2, cn2, c2)" by (metis prod_cases3)
  have "16 * cn_served cn1 + length (cn_buf cn1) \<le> 16 * cn_served cn + length (cn_buf cn) + length chunk"
    using r serve_bounded [of envs "cn\<lparr>cn_buf := cn_buf cn @ chunk\<rparr>" c e1 cn1 c1]
    by (auto simp: receive_def split: if_splits)
  moreover have "cn' = cn2" using 2(2) r h by simp
  ultimately show ?case using 2(1) [OF r [symmetric] refl refl h] by simp
qed simp

section \<open>The process\<close>

text \<open>
  A monitor thread waits for its process, then reports the death to the fabric, then removes the handle
  and ends. A step is what one thread does up to its next fabric call or blocking call; the relation lets
  the threads take steps in any order, with any bytes on the connections and any answers of the operating
  system.
\<close>

record Monitor =
  mo_worker :: WorkerId
  mo_handle :: HANDLE
  mo_marked :: bool

record Process =
  sy_coord :: Coordinator
  sy_conns :: "nat \<Rightarrow> Connection option"
  sy_monitors :: "Monitor list"

fun monitors_of :: "Effect list \<Rightarrow> Monitor list" where
  "monitors_of [] = []"
| "monitors_of (StartMonitor w h # es) = \<lparr>mo_worker = w, mo_handle = h, mo_marked = False\<rparr> # monitors_of es"
| "monitors_of (_ # es) = monitors_of es"

inductive proc_step :: "Process \<Rightarrow> Process \<Rightarrow> bool" where
  accept: "sy_conns y k = None \<Longrightarrow> proc_step y (y\<lparr>sy_conns := (sy_conns y)(k \<mapsto> new_connection)\<rparr>)"
| recv: "sy_conns y k = Some cn \<Longrightarrow> cn_open cn \<Longrightarrow> \<not> cn_noting cn \<Longrightarrow> decodeFrame (cn_buf cn) = INCOMPLETE \<Longrightarrow>
    proc_step y (y\<lparr>sy_conns := (sy_conns y)(k \<mapsto> cn\<lparr>cn_buf := cn_buf cn @ bytes\<rparr>)\<rparr>)"
| close: "sy_conns y k = Some cn \<Longrightarrow> cn_open cn \<Longrightarrow> \<not> cn_noting cn \<Longrightarrow>
    (\<forall>f n. decodeFrame (cn_buf cn) \<noteq> FrameOK f n) \<Longrightarrow>
    proc_step y (y\<lparr>sy_conns := (sy_conns y)(k \<mapsto> cn\<lparr>cn_open := False, cn_buf := []\<rparr>)\<rparr>)"
| hello: "sy_conns y k = Some cn \<Longrightarrow> cn_open cn \<Longrightarrow> \<not> cn_noting cn \<Longrightarrow>
    decodeFrame (cn_buf cn) = FrameOK f n \<Longrightarrow> fr_type f = HELLO \<Longrightarrow>
    hello_register env (fr_payload f) (cn\<lparr>cn_buf := drop n (cn_buf cn), cn_served := Suc (cn_served cn)\<rparr>) (sy_coord y) = (cn', c') \<Longrightarrow>
    proc_step y (y\<lparr>sy_coord := c', sy_conns := (sy_conns y)(k \<mapsto> cn')\<rparr>)"
| acknowledge: "sy_conns y k = Some cn \<Longrightarrow> cn_noting cn \<Longrightarrow> hello_note cn (sy_coord y) = (effects, cn', c') \<Longrightarrow>
    proc_step y (y\<lparr>sy_coord := c', sy_conns := (sy_conns y)(k \<mapsto> cn')\<rparr>)"
| frame: "sy_conns y k = Some cn \<Longrightarrow> cn_open cn \<Longrightarrow> \<not> cn_noting cn \<Longrightarrow>
    decodeFrame (cn_buf cn) = FrameOK f n \<Longrightarrow> fr_type f \<noteq> HELLO \<Longrightarrow>
    dispatch env f (cn\<lparr>cn_buf := drop n (cn_buf cn), cn_served := Suc (cn_served cn)\<rparr>) (sy_coord y) = (effects, cn', c') \<Longrightarrow>
    proc_step y (y\<lparr>sy_coord := c', sy_conns := (sy_conns y)(k \<mapsto> cn'), sy_monitors := sy_monitors y @ monitors_of effects\<rparr>)"
| died: "i < length (sy_monitors y) \<Longrightarrow> \<not> mo_marked (sy_monitors y ! i) \<Longrightarrow>
    proc_step y (y\<lparr>sy_coord := monitor_marks now (mo_worker (sy_monitors y ! i)) (sy_coord y),
      sy_monitors := (sy_monitors y)[i := (sy_monitors y ! i)\<lparr>mo_marked := True\<rparr>]\<rparr>)"
| erased: "i < length (sy_monitors y) \<Longrightarrow> mo_marked (sy_monitors y ! i) \<Longrightarrow>
    proc_step y (y\<lparr>sy_coord := monitor_erases (mo_worker (sy_monitors y ! i)) (sy_coord y),
      sy_monitors := take i (sy_monitors y) @ drop (Suc i) (sy_monitors y)\<rparr>)"

inductive proc_reach :: "nat \<Rightarrow> Process \<Rightarrow> bool" where
  start: "startCoordinator wsa_ok io now fs argv = Some (Inr c) \<Longrightarrow>
    proc_reach 0 \<lparr>sy_coord = c, sy_conns = (\<lambda>_. None), sy_monitors = []\<rparr>"
| step: "proc_reach n y \<Longrightarrow> proc_step y y' \<Longrightarrow> proc_reach (Suc n) y'"

section \<open>Every step is at most one call of the fabric\<close>

definition called :: "Coordinator \<Rightarrow> Coordinator \<Rightarrow> bool" where
  "called c c' \<longleftrightarrow> co_epoch c' = co_epoch c \<and>
     (co_fabric c' = co_fabric c \<or>
      (\<exists>o1. (\<forall>e. o1 \<noteq> SetEpoch e) \<and> co_fabric c' = snd (run_op o1 (co_fabric c))))"

lemma called_refl [simp]: "called c c" "called c (c\<lparr>co_procHandles := h\<rparr>)" "called c (c\<lparr>co_files := fs\<rparr>)"
  by (simp_all add: called_def)

lemma called_op: "(\<forall>e. o1 \<noteq> SetEpoch e) \<Longrightarrow> called c (c\<lparr>co_fabric := snd (run_op o1 (co_fabric c))\<rparr>)"
  by (auto simp: called_def simp del: run_op.simps)

lemma called_ops [simp]:
  "called c (c\<lparr>co_fabric := snd (publishRegionEvidence now ev a (co_fabric c))\<rparr>)"
  "called c (c\<lparr>co_fabric := snd (select req a (co_fabric c))\<rparr>)"
  "called c (c\<lparr>co_fabric := snd (requestReservation now req a (co_fabric c))\<rparr>)"
  "called c (c\<lparr>co_fabric := snd (commitReservation i a (co_fabric c))\<rparr>)"
  "called c (c\<lparr>co_fabric := snd (releaseReservation i a (co_fabric c))\<rparr>)"
  "called c (c\<lparr>co_fabric := snd (registerWorker now w b e pid a (co_fabric c))\<rparr>)"
  "called c (c\<lparr>co_fabric := snd (markWorkerDead now w a (co_fabric c))\<rparr>)"
  "called c (c\<lparr>co_fabric := noteWorkerHandle w h (co_fabric c)\<rparr>)"
  using called_op [of "PublishRegionEvidence now ev a" c] called_op [of "Select req a" c]
    called_op [of "RequestReservation now req a" c] called_op [of "CommitReservation i a" c]
    called_op [of "ReleaseReservation i a" c] called_op [of "RegisterWorker now w b e pid a" c]
    called_op [of "MarkWorkerDead now w a" c] called_op [of "NoteWorkerHandle w h" c]
  by simp_all

lemmas handler_defs = on_publish_evidence_def on_select_def on_reserve_def on_commit_def on_release_def
  on_inspect_def on_audit_def on_spawn_worker_def on_terminate_worker_def on_save_def

lemma dispatch_called: "fr_type f \<noteq> HELLO \<Longrightarrow> called c (snd (snd (dispatch env f cn c)))"
  by (cases "fr_type f")
    (simp_all add: dispatch_def handler_defs Let_def case_prod_beta split: sum.split option.split)

lemma hello_called: "called c (snd (hello_register env body cn c))" "called c (snd (snd (hello_note cn c)))"
  by (simp_all add: hello_register_def hello_note_def Let_def case_prod_beta)

lemma monitor_called: "called c (monitor_marks now w c)" "called c (monitor_erases w c)"
  by (simp_all add: monitor_marks_def monitor_erases_def)

lemma monitors_of_append: "monitors_of (xs @ ys) = monitors_of xs @ monitors_of ys"
  by (induction xs rule: monitors_of.induct) simp_all

lemma dispatch_handles:
  assumes "fr_type f \<noteq> HELLO" "dispatch env f cn c = (effects, cn', c')"
  shows "co_procHandles c' = co_procHandles c \<or>
     (\<exists>w h. co_procHandles c' = umap_put w h (co_procHandles c) \<and>
        \<lparr>mo_worker = w, mo_handle = h, mo_marked = False\<rparr> \<in> set (monitors_of effects))"
proof (cases "fr_type f = SPAWN_WORKER")
  case True
  obtain sp eff where sp: "spawnWorker env (TypedId (memefle64 (fr_payload f))) (TypedId (memefle64 (drop 8 (fr_payload f)))) c = (sp, eff)"
    by fastforce
  show ?thesis
  proof (cases "length (fr_payload f) < 16 \<or> sp = None")
    case False
    then obtain h where "sp = Some h" by auto
    with False True sp assms(2) show ?thesis
      by (intro disjI2 exI [of _ "TypedId (memefle64 (fr_payload f))"] exI [of _ h])
        (auto simp: dispatch_def on_spawn_worker_def Let_def monitors_of_append)
  qed (use True sp assms(2) in \<open>auto simp: dispatch_def on_spawn_worker_def Let_def split: if_splits\<close>)
next
  case False
  then have "co_procHandles (snd (snd (dispatch env f cn c))) = co_procHandles c"
    using assms(1) by (cases "fr_type f")
      (simp_all add: dispatch_def handler_defs Let_def case_prod_beta split: sum.split option.split)
  with assms(2) show ?thesis by simp
qed

lemma proc_step_called: "proc_step y y' \<Longrightarrow> called (sy_coord y) (sy_coord y')"
proof (induction rule: proc_step.induct)
  case (hello y k cn f n env cn' c')
  from arg_cong [OF hello(6), of snd] have "c' = snd (hello_register env (fr_payload f)
      (cn\<lparr>cn_buf := drop n (cn_buf cn), cn_served := Suc (cn_served cn)\<rparr>) (sy_coord y))" by simp
  then show ?case by (simp add: hello_called)
next
  case (acknowledge y k cn effects cn' c')
  show ?case using hello_called(2) [of "sy_coord y" cn] acknowledge(3) by simp
next
  case (frame y k cn f n env effects cn' c')
  from arg_cong [OF frame(6), of "\<lambda>r. snd (snd r)"] have "c' = snd (snd (dispatch env f
      (cn\<lparr>cn_buf := drop n (cn_buf cn), cn_served := Suc (cn_served cn)\<rparr>) (sy_coord y)))" by simp
  then show ?case by (simp add: dispatch_called [OF frame(5)])
qed (simp_all add: monitor_called)

text \<open>Every handle in the table has a monitor thread that has not ended.\<close>

definition monitored :: "Process \<Rightarrow> bool" where
  "monitored y \<longleftrightarrow> (\<forall>w h. umap_find (co_procHandles (sy_coord y)) w = Some h \<longrightarrow>
     (\<exists>m \<in> set (sy_monitors y). mo_worker m = w \<and> mo_handle m = h))"

lemma umap_find_erase: "umap_find (umap_erase w m) k = (if k = w then None else umap_find m k)"
  by (induction m) (auto simp: umap_erase_def umap_find_def)

lemma monitored_mono:
  assumes "monitored y" "co_procHandles (sy_coord y') = co_procHandles (sy_coord y)"
    and "(\<lambda>m. (mo_worker m, mo_handle m)) ` set (sy_monitors y) \<subseteq> (\<lambda>m. (mo_worker m, mo_handle m)) ` set (sy_monitors y')"
  shows "monitored y'"
  unfolding monitored_def assms(2)
proof (intro allI impI)
  fix w h assume "umap_find (co_procHandles (sy_coord y)) w = Some h"
  then have "(w, h) \<in> (\<lambda>m. (mo_worker m, mo_handle m)) ` set (sy_monitors y)" using assms(1) by (force simp: monitored_def)
  then have "(w, h) \<in> (\<lambda>m. (mo_worker m, mo_handle m)) ` set (sy_monitors y')" using assms(3) by blast
  then show "\<exists>m \<in> set (sy_monitors y'). mo_worker m = w \<and> mo_handle m = h" by auto
qed

lemma proc_step_monitored: "proc_step y y' \<Longrightarrow> monitored y \<Longrightarrow> monitored y'"
proof (induction rule: proc_step.induct)
  case (hello y k cn f n env cn' c')
  have "co_procHandles c' = co_procHandles (sy_coord y)"
    using hello(6) by (auto simp: hello_register_def Let_def case_prod_beta split: if_splits)
  with hello(7) show ?case by (auto intro: monitored_mono)
next
  case (acknowledge y k cn effects cn' c')
  have "co_procHandles c' = co_procHandles (sy_coord y)"
    using acknowledge(3) by (auto simp: hello_note_def split: if_splits)
  with acknowledge(4) show ?case by (auto intro: monitored_mono)
next
  case (frame y k cn f n env effects cn' c')
  from dispatch_handles [OF frame(5,6)] show ?case
  proof (elim disjE exE conjE)
    fix w h assume "co_procHandles c' = umap_put w h (co_procHandles (sy_coord y))"
      "\<lparr>mo_worker = w, mo_handle = h, mo_marked = False\<rparr> \<in> set (monitors_of effects)"
    with frame(7) show ?thesis by (force simp: monitored_def split: if_splits)
  qed (use frame(7) in \<open>auto intro: monitored_mono\<close>)
next
  case (died i y now)
  have "(\<lambda>m. (mo_worker m, mo_handle m)) ` set ((sy_monitors y)[i := (sy_monitors y ! i)\<lparr>mo_marked := True\<rparr>]) =
      (\<lambda>m. (mo_worker m, mo_handle m)) ` set (sy_monitors y)"
    unfolding set_map [symmetric] map_update using died(1)
    by (simp add: list_update_same_conv [THEN iffD2] del: set_map)
  with died(3) show ?case by (auto intro!: monitored_mono [of y] simp: monitor_marks_def)
next
  case (erased i y)
  have "set (sy_monitors y) \<subseteq> insert (sy_monitors y ! i) (set (take i (sy_monitors y) @ drop (Suc i) (sy_monitors y)))"
    using id_take_nth_drop [OF erased(1)] by (metis Un_insert_right set_append list.simps(15) order_refl)
  with erased(3) show ?case by (fastforce simp: monitored_def monitor_erases_def umap_find_erase)
qed (auto intro: monitored_mono)

section \<open>Reachable states\<close>

lemma start_reach:
  assumes "startCoordinator wsa_ok io now fs argv = Some (Inr c)"
  shows "(\<exists>m \<le> 4. fabric_reach m (co_fabric c)) \<and> im_epoch (co_fabric c) = co_epoch c \<and> co_procHandles c = []"
proof -
  obtain g where g: "parse_coordinator (tl argv) default_CoordinatorArgs = Some g"
    using assms by (cases "parse_coordinator (tl argv) default_CoordinatorArgs") (simp_all add: startCoordinator_def)
  show ?thesis
  proof (cases "cg_loadPath g = []")
    case True
    let ?e = "TypedId (cg_epoch g) :: CoordinatorEpoch"
    have "length (seed_ops now (operator_authority ?e)) = 4" by (simp add: seed_ops_def)
    then have "fabric_reach 4 (run_ops (seed_ops now (operator_authority ?e)) (new_fabric ?e))"
      using run_ops_reach [OF fabric_reach.start, of "seed_ops now (operator_authority ?e)" ?e] by simp
    moreover have "im_epoch (run_ops (seed_ops now (operator_authority ?e)) (new_fabric ?e)) = ?e"
      by (simp add: seed_ops_def run_op_epoch del: run_op.simps) (simp add: new_fabric_def)
    moreover have "fabric_reach 0 (new_fabric ?e)" "im_epoch (new_fabric ?e) = ?e"
      by (rule fabric_reach.start) (simp add: new_fabric_def)
    ultimately show ?thesis
      using assms g True by (fastforce simp: startCoordinator_def Let_def split: if_splits)
  next
    case False
    then obtain f where f: "load io (cg_loadPath g) fs = ok f" "co_fabric c = f" "co_epoch c = im_epoch f" "co_procHandles c = []"
      using assms g by (auto simp: startCoordinator_def Let_def ok_def split: if_splits sum.splits)
    then obtain bytes where "load_bytes bytes = ok f" by (auto simp: load_def split: sum.splits)
    then have "fabric_reach 0 f" by (rule fabric_reach.loaded)
    with f show ?thesis by auto
  qed
qed

lemma called_reach:
  assumes "called c c'" "fabric_reach m (co_fabric c)" "im_epoch (co_fabric c) = co_epoch c"
  shows "(\<exists>k \<le> Suc m. fabric_reach k (co_fabric c')) \<and> im_epoch (co_fabric c') = co_epoch c'"
  using assms fabric_reach.step [OF assms(2)] unfolding called_def
  by (metis le_Suc_eq order_refl run_op_epoch)

lemma proc_reach_fabric:
  "proc_reach n y \<Longrightarrow> (\<exists>m \<le> n + 4. fabric_reach m (co_fabric (sy_coord y))) \<and>
     im_epoch (co_fabric (sy_coord y)) = co_epoch (sy_coord y) \<and> monitored y"
proof (induction rule: proc_reach.induct)
  case (start wsa_ok io now fs argv c)
  from start_reach [OF this] show ?case by (simp add: monitored_def)
next
  case (step n y y')
  then obtain m where m: "m \<le> n + 4" "fabric_reach m (co_fabric (sy_coord y))" by blast
  have e: "im_epoch (co_fabric (sy_coord y)) = co_epoch (sy_coord y)" using step(3) by blast
  obtain k where k: "k \<le> Suc m" "fabric_reach k (co_fabric (sy_coord y'))"
      "im_epoch (co_fabric (sy_coord y')) = co_epoch (sy_coord y')"
    using called_reach [OF proc_step_called [OF step(2)] m(2) e] by blast
  moreover have "k \<le> Suc n + 4" using k(1) m(1) by simp
  moreover have "monitored y'" using proc_step_monitored [OF step(2)] step(3) by blast
  ultimately show ?case by blast
qed

section \<open>A late monitor\<close>

text \<open>
  A monitor that has seen its process exit reports the worker by its identifier alone, and removes
  whatever handle the table has for that identifier, also when both belong to a later incarnation.
\<close>

lemma marked_not_alive:
  assumes "im_epoch (co_fabric c) = co_epoch c"
  shows "\<not> workerAlive w b (co_fabric (monitor_marks now w c))"
proof -
  have "authorityAcceptableLocked (co_fabric c) (operator_authority (co_epoch c))"
    using assms by (simp add: operator_acceptable operator_authority_def)
  then show ?thesis
    by (simp add: monitor_marks_def markWorkerDead_def workerAlive_def Let_def split: option.split)
qed

lemma late_monitor:
  assumes "im_epoch (co_fabric (sy_coord y)) = co_epoch (sy_coord y)" "i < length (sy_monitors y)"
    and "\<not> mo_marked (sy_monitors y ! i)" "mo_worker (sy_monitors y ! i) = w"
  shows "\<exists>y1 y2. proc_step y y1 \<and> proc_step y1 y2 \<and> \<not> workerAlive w b (co_fabric (sy_coord y2)) \<and>
    umap_find (co_procHandles (sy_coord y2)) w = None"
proof -
  let ?m = "(sy_monitors y ! i)\<lparr>mo_marked := True\<rparr>"
  let ?y1 = "y\<lparr>sy_coord := monitor_marks 0 w (sy_coord y), sy_monitors := (sy_monitors y)[i := ?m]\<rparr>"
  let ?y2 = "?y1\<lparr>sy_coord := monitor_erases w (sy_coord ?y1), sy_monitors := take i (sy_monitors ?y1) @ drop (Suc i) (sy_monitors ?y1)\<rparr>"
  have "proc_step y ?y1" using died [OF assms(2,3), of 0] assms(4) by simp
  moreover have "proc_step ?y1 ?y2" using erased [of i ?y1] assms(2,4) by simp
  moreover have "\<not> workerAlive w b (co_fabric (sy_coord ?y2))"
    using marked_not_alive [OF assms(1)] by (simp add: monitor_erases_def)
  moreover have "umap_find (co_procHandles (sy_coord ?y2)) w = None" by (simp add: monitor_erases_def umap_find_erase)
  ultimately show ?thesis by blast
qed

section \<open>Delivering a frame\<close>

lemma deliver:
  assumes y: "proc_reach n y" "sy_conns y k = Some cn" "cn_open cn" "\<not> cn_noting cn" "cn_buf cn = []"
    and e: "encodeFrame t p = ok e" "FrameType_known t" "t \<noteq> HELLO"
    and d: "dispatch env \<lparr>fr_type = t, fr_payload = p\<rparr> (cn\<lparr>cn_served := Suc (cn_served cn)\<rparr>) (sy_coord y) = (effects, cn', c')"
  shows "proc_reach (Suc (Suc n)) (y\<lparr>sy_coord := c', sy_conns := (sy_conns y)(k \<mapsto> cn'),
    sy_monitors := sy_monitors y @ monitors_of effects\<rparr>)"
proof -
  let ?y = "y\<lparr>sy_conns := (sy_conns y)(k \<mapsto> cn\<lparr>cn_buf := e\<rparr>)\<rparr>"
  have "proc_reach (Suc n) ?y" using recv [OF y(2-4), of e] y(1,5) by (simp add: proc_reach.step)
  moreover have "cn\<lparr>cn_buf := []\<rparr> = cn" using y(5) by (metis Connection.surjective Connection.update_convs(4))
  then have "proc_step ?y (?y\<lparr>sy_coord := c', sy_conns := (sy_conns ?y)(k \<mapsto> cn'), sy_monitors := sy_monitors ?y @ monitors_of effects\<rparr>)"
    using decode_encoded [OF e(1,2), of "[]"] y(3,4) e(3) d
    by (intro frame [where cn = "cn\<lparr>cn_buf := e\<rparr>" and f = "\<lparr>fr_type = t, fr_payload = p\<rparr>" and n = "length e" and env = env])
      simp_all
  ultimately show ?thesis by (auto dest: proc_reach.step)
qed

lemma deliver_hello:
  assumes y: "proc_reach n y" "sy_conns y k = Some cn" "cn_open cn" "\<not> cn_noting cn" "cn_buf cn = []"
    and e: "encodeFrame HELLO p = ok e"
    and r: "hello_register env p (cn\<lparr>cn_served := Suc (cn_served cn)\<rparr>) (sy_coord y) = (cn1, c1)" "cn_noting cn1"
    and a: "hello_note cn1 c1 = (effects, cn', c')"
  shows "proc_reach (Suc (Suc (Suc n))) (y\<lparr>sy_coord := c', sy_conns := (sy_conns y)(k \<mapsto> cn')\<rparr>)"
proof -
  let ?y = "y\<lparr>sy_conns := (sy_conns y)(k \<mapsto> cn\<lparr>cn_buf := e\<rparr>)\<rparr>"
  let ?y1 = "?y\<lparr>sy_coord := c1, sy_conns := (sy_conns ?y)(k \<mapsto> cn1)\<rparr>"
  have "proc_reach (Suc n) ?y" using recv [OF y(2-4), of e] y(1,5) by (simp add: proc_reach.step)
  moreover have "cn\<lparr>cn_buf := []\<rparr> = cn" using y(5) by (metis Connection.surjective Connection.update_convs(4))
  then have "proc_step ?y ?y1"
    using decode_encoded [OF e, of "[]"] y(3,4) r
    by (intro hello [where cn = "cn\<lparr>cn_buf := e\<rparr>" and f = "\<lparr>fr_type = HELLO, fr_payload = p\<rparr>" and n = "length e" and env = env])
      (simp_all add: FrameType_known_def)
  moreover have "proc_step ?y1 (?y1\<lparr>sy_coord := c', sy_conns := (sy_conns ?y1)(k \<mapsto> cn')\<rparr>)"
    using r(2) a by (intro acknowledge) simp_all
  ultimately show ?thesis by (auto dest: proc_reach.step)
qed

end
