(* ===== verification/Spawning.thy ===== *)
theory Spawning
  imports Server
begin
unbundle bit_operations_syntax

text \<open>
  A worker that the coordinator starts, across the two processes: the command line that \<open>spawnWorker\<close>
  builds, the arguments the worker reads from it, the frames the worker sends and what the coordinator
  does with them. How the operating system splits a command line into arguments is a parameter.
\<close>

section \<open>The frames of a worker at the coordinator\<close>

lemma assembled_bits:
  "k \<le> 8 \<Longrightarrow> bit (fold (\<lambda>i w. w OR push_bit (8 * i) (ucast (ucast (drop_bit (8 * i) v) :: u8))) [0..<k] 0 :: u64) n \<longleftrightarrow>
     n < 8 * k \<and> bit v n"
proof (induction k)
  case (Suc k)
  then show ?case
    by (auto simp: bit_or_iff bit_push_bit_iff bit_ucast_iff bit_drop_bit_eq dest: bit_imp_le_length)
qed simp

lemma memefle64_put64 [simp]: "memefle64 (put64 v @ rest) = v"
proof -
  have "memefle64 (put64 v @ rest) = fold (\<lambda>i w. w OR push_bit (8 * i) (ucast (ucast (drop_bit (8 * i) v) :: u8))) [0..<8] 0"
    unfolding memefle64_def by (rule fold_cong) (auto simp: put64_def nth_append)
  then show ?thesis using assembled_bits [of 8 v] bit_imp_le_length [of v] by (auto intro!: bit_word_eqI)
qed

definition seeded :: "u64 \<Rightarrow> CoordinatorEpoch \<Rightarrow> Impl" where
  "seeded now e = run_ops (seed_ops now (operator_authority e)) (new_fabric e)"

lemma seeded_eq:
  "seeded now e = (new_fabric e)\<lparr>
     im_providers := [(TypedId 1, \<lparr>pr_descriptor = seed_provider, pr_lifecycle = Lifecycle.REGISTERED, pr_registeredAtMs = now\<rparr>)],
     im_domains := [(TypedId 1, \<lparr>dr_descriptor = seed_domain, dr_lifecycle = Lifecycle.REGISTERED\<rparr>)],
     im_regions := [(TypedId 1, declared_region seed_region)], im_consumers := [(TypedId 10, TypedId 1)]\<rparr>"
proof -
  have v: "provider_valid seed_provider" "region_valid seed_region"
    by (simp_all add: provider_valid_def region_valid_def seed_provider_def seed_region_def descriptor_defaults
        capabilityContradiction_def kSeedTotal_def)
  have k: "pd_id seed_provider = TypedId 1" "dd_id seed_domain = TypedId 1" "dd_generation seed_domain = TypedId 1"
    "rd_id seed_region = TypedId 1" "rd_provider seed_region = TypedId 1"
    by (simp_all add: seed_provider_def seed_domain_def seed_region_def)
  have a: "authorityAcceptableLocked st (operator_authority e)" if "im_epoch st = e" for st
    using that by (simp add: operator_acceptable operator_authority_def)
  show ?thesis
    unfolding seeded_def seed_ops_def
    by (simp add: registerProvider_fresh v k a registerDomain_fresh registerRegion_fresh registerConsumer_def
        umap_put_def umap_find_def declared_region_def new_fabric_def)
qed

lemma put64_length [simp]: "length (put64 v) = 8"
  by (simp add: put64_def)

lemma hello_fields:
  "memefle64 (hello_payload pid wa) = wa_wid wa" "memefle64 (drop 8 (hello_payload pid wa)) = wa_boot wa"
  "memefle64 (drop 16 (hello_payload pid wa)) = wa_epoch wa" "memefle64 (drop 24 (hello_payload pid wa)) = pid"
  using memefle64_put64 [of pid "[]"] by (simp_all add: hello_payload_def)

text \<open>The first frame of a worker: it is registered, its handle noted, and the connection is a worker's.\<close>

definition greeted :: "u64 \<Rightarrow> u64 \<Rightarrow> WorkerArgs \<Rightarrow> Impl \<Rightarrow> Impl" where
  "greeted now pid wa st = noteWorkerHandle (TypedId (wa_wid wa)) True
     (st\<lparr>im_workers := umap_put (TypedId (wa_wid wa))
        \<lparr>wr_boot = TypedId (wa_boot wa), wr_registeredEpoch = TypedId (wa_epoch wa), wr_pid = pid, wr_alive = True,
         wr_holdsHandle = False, wr_lastSeenMs = now\<rparr> (im_workers st)\<rparr>)"

lemma greeted_fields:
  "im_regions (greeted now pid wa st) = im_regions st" "im_providers (greeted now pid wa st) = im_providers st"
  "im_epoch (greeted now pid wa st) = im_epoch st"
  "umap_find (im_workers (greeted now pid wa st)) (TypedId (wa_wid wa)) = Some
     \<lparr>wr_boot = TypedId (wa_boot wa), wr_registeredEpoch = TypedId (wa_epoch wa), wr_pid = pid, wr_alive = True,
      wr_holdsHandle = True, wr_lastSeenMs = now\<rparr>"
  by (simp_all add: greeted_def noteWorkerHandle_def)

lemma hello_served:
  assumes e: "im_epoch (co_fabric c) = co_epoch c" "co_epoch c = TypedId (wa_epoch wa)"
    and w: "wa_wid wa \<noteq> 0" "wa_boot wa \<noteq> 0"
    and b: "\<And>wr. umap_find (im_workers (co_fabric c)) (TypedId (wa_wid wa)) = Some wr \<Longrightarrow> wr_boot wr \<noteq> TypedId (wa_boot wa)"
  shows "on_hello env (hello_payload pid wa) cn c = (sendFrame HELLO_ACK (flag True),
      cn\<lparr>cn_worker := TypedId (wa_wid wa), cn_boot := TypedId (wa_boot wa), cn_isWorker := True, cn_noting := False\<rparr>,
      c\<lparr>co_fabric := greeted (en_now env) pid wa (co_fabric c)\<rparr>)"
proof -
  let ?rec = "\<lparr>wr_boot = TypedId (wa_boot wa), wr_registeredEpoch = TypedId (wa_epoch wa), wr_pid = pid, wr_alive = True,
      wr_holdsHandle = False, wr_lastSeenMs = en_now env\<rparr>"
  have "registerWorker (en_now env) (TypedId (wa_wid wa)) (TypedId (wa_boot wa)) (TypedId (wa_epoch wa)) pid
      (operator_authority (co_epoch c)) (co_fabric c) =
      (ok (), (co_fabric c)\<lparr>im_workers := umap_put (TypedId (wa_wid wa)) ?rec (im_workers (co_fabric c))\<rparr>)"
    using e w b by (auto simp: registerWorker_def operator_authority_def split: option.split)
  then show ?thesis
    by (simp add: on_hello_def hello_register_def hello_note_def hello_fields hello_payload_length greeted_def Let_def)
qed

lemma worker_served:
  assumes e: "im_epoch (co_fabric c) = co_epoch c" "co_epoch c = TypedId (wa_epoch wa)"
    and w: "wa_wid wa \<noteq> 0" "wa_boot wa \<noteq> 0" "umap_find (im_workers (co_fabric c)) (TypedId (wa_wid wa)) = None"
    and d: "declared_for (co_fabric c) (worker_evidence wa)"
    and enc: "encodeFrame HELLO (hello_payload pid wa) = ok encHello"
      "encodeFrame PUBLISH_EVIDENCE (put_evidence (worker_evidence wa)) = ok encEv"
  shows "\<exists>cn c'. serve envs (new_connection\<lparr>cn_buf := encHello @ encEv\<rparr>) c = (sendFrame HELLO_ACK (flag True), cn, c') \<and>
    cn_isWorker cn \<and> cn_open cn \<and> workerAlive (TypedId (wa_wid wa)) (TypedId (wa_boot wa)) (co_fabric c') \<and>
    pred_option (brought_online (worker_evidence wa)) (umap_find (im_regions (co_fabric c')) (TypedId (wa_region wa))) \<and>
    umap_find (im_regions (co_fabric c')) (TypedId (wa_region wa)) \<noteq> None"
proof -
  let ?w = "TypedId (wa_wid wa) :: WorkerId" and ?b = "TypedId (wa_boot wa) :: WorkerBootId"
  let ?ev = "worker_evidence wa" and ?k = "cn_served new_connection"
  let ?st = "greeted (en_now (envs ?k)) pid wa (co_fabric c)" and ?a = "worker_authority (co_epoch c) ?w ?b"
  let ?cn = "(new_connection\<lparr>cn_buf := encEv\<rparr>)\<lparr>cn_worker := ?w, cn_boot := ?b, cn_isWorker := True, cn_noting := False\<rparr>"
  have k: "FrameType_known HELLO" "FrameType_known PUBLISH_EVIDENCE" by (simp_all add: FrameType_known_def)
  have hello: "dispatch (envs ?k) \<lparr>fr_type = HELLO, fr_payload = hello_payload pid wa\<rparr> (new_connection\<lparr>cn_buf := encEv\<rparr>) c =
      (sendFrame HELLO_ACK (flag True), ?cn, c\<lparr>co_fabric := ?st\<rparr>)"
    using hello_served [OF e w(1,2), of "envs ?k" pid "new_connection\<lparr>cn_buf := encEv\<rparr>"] w(3) by (simp add: dispatch_def)
  have acc: "authorityAcceptableLocked ?st ?a"
    using e by (simp add: authorityAcceptableLocked_def worker_authority_def greeted_fields)
  have dec: "declared_for ?st ?ev" using d by (simp add: declared_for_def greeted_fields)
  have who: "eh_worker (ev_header ?ev) = au_worker ?a \<and> eh_boot (ev_header ?ev) = au_boot ?a"
    by (simp add: worker_evidence_def worker_authority_def)
  obtain rr' regs provs where pub: "publishRegionEvidence (en_now (envs (Suc ?k))) ?ev ?a ?st =
      (ok (), ?st\<lparr>im_regions := regs, im_providers := provs\<rparr>)"
    and regs: "\<forall>j. umap_find regs j = (if j = eh_region (ev_header ?ev) then Some rr' else umap_find (im_regions ?st) j)"
    and on: "brought_online ?ev rr'"
    using publish_declared [OF acc dec disjI2 [OF who], of "en_now (envs (Suc ?k))"] by blast
  have ev: "decodeRegionEvidence (put_evidence ?ev) = Inr ?ev"
    using evidence.roundtrip [OF worker_evidence_fits] by (simp add: decodeRegionEvidence_def ok_def)
  let ?cn2 = "?cn\<lparr>cn_served := Suc ?k\<rparr>"
  have second: "dispatch (envs (cn_served ?cn2)) \<lparr>fr_type = PUBLISH_EVIDENCE, fr_payload = put_evidence ?ev\<rparr>
      (?cn2\<lparr>cn_buf := []\<rparr>) (c\<lparr>co_fabric := ?st\<rparr>) =
      ([], ?cn2\<lparr>cn_buf := []\<rparr>, c\<lparr>co_fabric := ?st\<lparr>im_regions := regs, im_providers := provs\<rparr>\<rparr>)"
    using pub by (simp add: dispatch_def on_publish_evidence_def ev)
  have "?cn2\<lparr>cn_buf := encEv @ []\<rparr> = ?cn2" by simp
  then have "serve envs ?cn2 (c\<lparr>co_fabric := ?st\<rparr>) =
      ([], ?cn2\<lparr>cn_buf := [], cn_served := Suc (Suc ?k)\<rparr>, c\<lparr>co_fabric := ?st\<lparr>im_regions := regs, im_providers := provs\<rparr>\<rparr>)"
    using serve_frame [where cn = ?cn2 and envs = envs and rest = "[]", OF enc(2) k(2) second] by (simp add: serve_empty new_connection_def)
  then have "serve envs (new_connection\<lparr>cn_buf := encHello @ encEv\<rparr>) c = (sendFrame HELLO_ACK (flag True),
      ?cn2\<lparr>cn_buf := [], cn_served := Suc (Suc ?k)\<rparr>, c\<lparr>co_fabric := ?st\<lparr>im_regions := regs, im_providers := provs\<rparr>\<rparr>)"
    using serve_frame [where cn = new_connection and envs = envs and rest = encEv, OF enc(1) k(1) hello] by (simp add: new_connection_def)
  moreover have "cn_open (?cn2\<lparr>cn_buf := [], cn_served := Suc (Suc ?k)\<rparr>)" by (simp add: new_connection_def)
  moreover have "workerAlive ?w ?b (?st\<lparr>im_regions := regs, im_providers := provs\<rparr>)"
    by (simp add: workerAlive_def greeted_fields)
  moreover have "umap_find regs (TypedId (wa_region wa)) = Some rr'" using regs by (simp add: worker_evidence_def)
  ultimately show ?thesis using on by simp
qed


lemma worker_connection:
  assumes "im_epoch (co_fabric c) = co_epoch c" "co_epoch c = TypedId (wa_epoch wa)"
    and "wa_wid wa \<noteq> 0" "wa_boot wa \<noteq> 0" "umap_find (im_workers (co_fabric c)) (TypedId (wa_wid wa)) = None"
    and "declared_for (co_fabric c) (worker_evidence wa)"
    and "encodeFrame HELLO (hello_payload pid wa) = ok encHello"
      "encodeFrame PUBLISH_EVIDENCE (put_evidence (worker_evidence wa)) = ok encEv"
    and "[] \<notin> set chunks" "concat chunks = encHello @ encEv"
  shows "\<exists>cn c'. handleConnection envs chunks new_connection c = (sendFrame HELLO_ACK (flag True), cn, c') \<and>
    cn_isWorker cn \<and> cn_open cn \<and> workerAlive (TypedId (wa_wid wa)) (TypedId (wa_boot wa)) (co_fabric c') \<and>
    (\<exists>rr. umap_find (im_regions (co_fabric c')) (TypedId (wa_region wa)) = Some rr \<and> brought_online (worker_evidence wa) rr)"
proof -
  have "encHello \<noteq> []" using assms(7) by (auto simp: encodeFrame_def kMagic_def w_u8_def split: if_splits)
  then have ne: "encHello @ encEv \<noteq> []" "chunks \<noteq> []" using assms(10) by auto
  have "handleConnection envs chunks new_connection c = serve envs (new_connection\<lparr>cn_buf := encHello @ encEv\<rparr>) c"
    unfolding handleConnection_concat [OF assms(9) ne(2)] assms(10) receive_def using \<open>encHello \<noteq> []\<close> by (simp add: new_connection_def)
  then show ?thesis using worker_served [OF assms(1-8), of envs] by auto
qed

section \<open>From the command line to the arguments\<close>

text \<open>
  A word without blanks, quotes and backslashes is an argument as it stands, and the first argument of a
  command line that begins with a quote extends to the next quote. \<open>splits_plain\<close> is that much of the
  rules by which \<open>argv\<close> is made from the command line given to \<open>CreateProcess\<close>.
\<close>

definition plain_word :: "string \<Rightarrow> bool" where
  "plain_word a \<longleftrightarrow> a \<noteq> [] \<and> list_all (\<lambda>ch. \<not> is_blank ch \<and> ch \<noteq> CHR 0x22 \<and> ch \<noteq> CHR 0x5C) a"

definition splits_plain :: "(string \<Rightarrow> string list) \<Rightarrow> bool" where
  "splits_plain split \<longleftrightarrow>
     (\<forall>exe args. CHR 0x22 \<notin> set exe \<and> list_all plain_word args \<longrightarrow> split (command_line exe args) = exe # args)"

lemma plain_to_string: "plain_word (to_string v)"
proof -
  have "is_digit ch \<Longrightarrow> \<not> is_blank ch \<and> ch \<noteq> CHR 0x22 \<and> ch \<noteq> CHR 0x5C" for ch
    by (auto simp: is_digit_def is_blank_def)
  then show ?thesis
    using nat_to_string_digits [of "unat v"] by (auto simp: plain_word_def to_string_def list_all_iff)
qed

lemma spawn_args_plain: "list_all plain_word (spawn_args c w b)"
  by (simp add: spawn_args_def Let_def plain_to_string) (simp add: plain_word_def is_blank_def)

lemma stoull_1: "stoull ''1'' = Some 1"
  by (simp add: stoull_def is_blank_def is_digit_def digits_value_def)

lemma parse_spawn_args:
  "parse_worker (spawn_args c w b) default_WorkerArgs = Some (default_WorkerArgs\<lparr>wa_port := co_port c, wa_wid := id_value w,
     wa_boot := id_value b, wa_epoch := id_value (co_epoch c), wa_region := 1, wa_provider := 1,
     wa_online := (if regionTotal (TypedId 1) c = 0 then kSeedTotal else regionTotal (TypedId 1) c)\<rparr>)"
  by (simp add: spawn_args_def Let_def worker_option_def stoull_1)

section \<open>A seeded coordinator and the worker it starts\<close>

lemma started_seeded:
  assumes "startCoordinator True io now fs argv = Some (Inr c)" "parse_coordinator (tl argv) default_CoordinatorArgs = Some g"
    and "cg_seed g" "cg_loadPath g = []"
  shows "co_fabric c = seeded now (co_epoch c)" "co_port c \<noteq> 0" "co_procHandles c = []"
  using assms by (auto simp: startCoordinator_def Let_def seeded_def split: if_splits)

lemma seeded_total: "co_fabric c = seeded now e \<Longrightarrow> regionTotal (TypedId 1) c = kSeedTotal"
  by (simp add: regionTotal_def seeded_eq snapshot_def region_snapshot_def declared_region_def new_region_def
      seed_region_def)

lemma seeded_declared:
  assumes "wa_region wa = 1" "wa_provider wa = 1" "wa_online wa = kSeedTotal" "TypedId (wa_epoch wa) = e"
  shows "declared_for (seeded now e) (worker_evidence wa)"
  using assms by (auto simp: declared_for_def seeded_eq umap_find_def worker_evidence_def seed_region_def seed_provider_def
      new_fabric_def)

lemma spawn_reply:
  assumes "16 \<le> length body" "worker_exe env c \<noteq> []" "en_process env = Some h"
  shows "dispatch env \<lparr>fr_type = SPAWN_WORKER, fr_payload = body\<rparr> cn c =
    ([StartProcess (command_line (worker_exe env c)
        (spawn_args c (TypedId (memefle64 body)) (TypedId (memefle64 (drop 8 body))))),
      StartMonitor (TypedId (memefle64 body)) h] @ sendFrame SPAWN_WORKER_RESP (flag True), cn,
     c\<lparr>co_procHandles := umap_put (TypedId (memefle64 body)) h (co_procHandles c)\<rparr>)"
  using assms by (simp add: dispatch_def on_spawn_worker_def spawnWorker_def Let_def)

text \<open>A splitter with that property, and a coordinator started with \<open>--port 7000 --seed --worker-exe w.exe\<close>.\<close>

fun words :: "string \<Rightarrow> string \<Rightarrow> string list" where
  "words [] cur = (if cur = [] then [] else [cur])"
| "words (ch # s) cur =
     (if ch = CHR '' '' then (if cur = [] then words s [] else cur # words s []) else words s (cur @ [ch]))"

definition split_words :: "string \<Rightarrow> string list" where
  "split_words cl = takeWhile (\<lambda>ch. ch \<noteq> CHR 0x22) (tl cl) # words (tl (dropWhile (\<lambda>ch. ch \<noteq> CHR 0x22) (tl cl))) []"

definition sp_argv :: "string list" where
  "sp_argv = [''mef_coordinator'', ''--port'', ''7000'', ''--seed'', ''--worker-exe'', ''w.exe'']"

definition sp_coord :: Coordinator where
  "sp_coord = \<lparr>co_fabric = seeded 0 (TypedId 1), co_port = 7000, co_workerExe = ''w.exe'', co_epoch = TypedId 1,
     co_procHandles = [], co_files = Map.empty\<rparr>"

definition sp_env :: Env where
  "sp_env = \<lparr>en_now = 5, en_process = Some 64, en_terminated = True,
     en_write = \<lparr>io_opens = True, io_writes = True, io_renames = True, io_removes = True, io_partial = []\<rparr>, en_self = []\<rparr>"

lemma words_plain: "plain_word a \<Longrightarrow> words (a @ s) cur = words s (cur @ a)"
proof -
  have "CHR '' '' \<notin> set a \<Longrightarrow> words (a @ s) cur = words s (cur @ a)" by (induction a arbitrary: cur) auto
  moreover assume "plain_word a"
  ultimately show ?thesis by (auto simp: plain_word_def is_blank_def list_all_iff)
qed

lemma words_args: "list_all plain_word args \<Longrightarrow>
    words (concat (map (\<lambda>a. '' '' @ a) args)) cur = (if cur = [] then [] else [cur]) @ args"
proof (induction args arbitrary: cur)
  case (Cons a args)
  then have "a \<noteq> []" "plain_word a" by (auto simp: plain_word_def)
  with Cons show ?case by (simp add: words_plain)
qed simp

lemma split_words_plain: "splits_plain split_words"
  using words_args [of _ "[]"]
  by (simp add: splits_plain_def split_words_def command_line_def takeWhile_append dropWhile_append takeWhile_eq_all_conv)

lemma sp_started:
  "parse_coordinator (tl sp_argv) default_CoordinatorArgs =
     Some \<lparr>cg_port = 7000, cg_epoch = 1, cg_workerExe = ''w.exe'', cg_seed = True, cg_loadPath = []\<rparr>"
  "startCoordinator True io 0 Map.empty sp_argv = Some (Inr sp_coord)"
proof -
  have "stoull ''7000'' = Some 7000" by (simp add: stoull_def is_blank_def is_digit_def digits_value_def)
  then show 1: "parse_coordinator (tl sp_argv) default_CoordinatorArgs =
     Some \<lparr>cg_port = 7000, cg_epoch = 1, cg_workerExe = ''w.exe'', cg_seed = True, cg_loadPath = []\<rparr>"
    by (simp add: sp_argv_def default_CoordinatorArgs_def)
  show "startCoordinator True io 0 Map.empty sp_argv = Some (Inr sp_coord)"
    by (simp add: startCoordinator_def 1 sp_coord_def seeded_def Let_def)
qed

text \<open>
  C38. A worker that the coordinator starts comes up and brings the seeded region online. Let a
  coordinator be started with \<open>--seed\<close> and without \<open>--load\<close>, and let a \<open>SPAWN_WORKER\<close> request name a worker
  and a boot that are not zero. Then, if the executable is known and the process is created, the worker
  started with the command line of the coordinator ends normally after having sent its frames;
  and however the network cuts those bytes, the coordinator answers with one positive \<open>HELLO_ACK\<close>,
  holds the worker of that boot as alive, and has region 1 online with all of its seeded capacity free.
\<close>
theorem spawned_worker_brings_region_online:
  assumes split: "splits_plain split"
    and start: "startCoordinator True io now fs argv = Some (Inr c)"
      "parse_coordinator (tl argv) default_CoordinatorArgs = Some g" "cg_seed g" "cg_loadPath g = []"
    and exe: "worker_exe env c \<noteq> []" "CHR 0x22 \<notin> set (worker_exe env c)" "en_process env = Some h"
    and body: "16 \<le> length body" "memefle64 body \<noteq> 0" "memefle64 (drop 8 body) \<noteq> 0"
  shows "\<exists>cmd sends c'. dispatch env \<lparr>fr_type = SPAWN_WORKER, fr_payload = body\<rparr> cn c =
      ([StartProcess cmd, StartMonitor (TypedId (memefle64 body)) h] @ sendFrame SPAWN_WORKER_RESP (flag True), cn, c') \<and>
    runWorker True True pid (split cmd) = Returns 0 sends \<and>
    (\<forall>envs chunks. [] \<notin> set chunks \<longrightarrow> concat chunks = concat sends \<longrightarrow>
      (\<exists>cn' c''. handleConnection envs chunks new_connection c' = (sendFrame HELLO_ACK (flag True), cn', c'') \<and>
        cn_isWorker cn' \<and> cn_open cn' \<and>
        workerAlive (TypedId (memefle64 body)) (TypedId (memefle64 (drop 8 body))) (co_fabric c'') \<and>
        (\<exists>rr. umap_find (im_regions (co_fabric c'')) (TypedId 1) = Some rr \<and> rr_lifecycle rr = RegionLifecycle.ONLINE \<and>
          rr_evidenceStatus rr = EvidenceStatus.CURRENT \<and> free (rr_ledger rr) = kSeedTotal)))"
proof -
  let ?w = "TypedId (memefle64 body) :: WorkerId" and ?b = "TypedId (memefle64 (drop 8 body)) :: WorkerBootId"
  let ?cmd = "command_line (worker_exe env c) (spawn_args c ?w ?b)" and ?c = "c\<lparr>co_procHandles := umap_put ?w h (co_procHandles c)\<rparr>"
  note st = started_seeded [OF start]
  note total = seeded_total [OF st(1)]
  define wa where "wa = default_WorkerArgs\<lparr>wa_port := co_port c, wa_wid := id_value ?w, wa_boot := id_value ?b,
     wa_epoch := id_value (co_epoch c), wa_region := 1, wa_provider := 1, wa_online := kSeedTotal\<rparr>"
  have wf: "wa_port wa = co_port c" "wa_wid wa = memefle64 body" "wa_boot wa = memefle64 (drop 8 body)"
    "TypedId (wa_epoch wa) = co_epoch c" "wa_region wa = 1" "wa_provider wa = 1" "wa_online wa = kSeedTotal"
    by (simp_all add: wa_def)
  have "split ?cmd = worker_exe env c # spawn_args c ?w ?b"
    using split exe(2) spawn_args_plain by (simp add: splits_plain_def)
  then have "parse_worker (tl (split ?cmd)) default_WorkerArgs = Some wa"
    using parse_spawn_args [of c ?w ?b] total by (simp add: wa_def kSeedTotal_def)
  then obtain encHello encEv where run: "runWorker True True pid (split ?cmd) = Returns 0 [encHello, encEv]"
    and enc: "encodeFrame HELLO (hello_payload pid wa) = ok encHello"
      "encodeFrame PUBLISH_EVIDENCE (put_evidence (worker_evidence wa)) = ok encEv"
    using runWorker_sends [of "split ?cmd" wa pid] st(2) wf(1) by auto
  have e: "im_epoch (co_fabric ?c) = co_epoch ?c" "co_epoch ?c = TypedId (wa_epoch wa)"
    "umap_find (im_workers (co_fabric ?c)) (TypedId (wa_wid wa)) = None"
    using st(1) wf(4) by (simp_all add: seeded_eq new_fabric_def umap_find_def)
  have d: "declared_for (co_fabric ?c) (worker_evidence wa)"
    using seeded_declared [OF wf(5,6,7,4)] st(1) by simp
  have w: "wa_wid wa \<noteq> 0" "wa_boot wa \<noteq> 0" using body(2,3) wf(2,3) by simp_all
  have on: "brought_online (worker_evidence wa) rr \<Longrightarrow> rr_lifecycle rr = RegionLifecycle.ONLINE \<and>
      rr_evidenceStatus rr = EvidenceStatus.CURRENT \<and> free (rr_ledger rr) = kSeedTotal" for rr
    using wf(7) by (simp add: brought_online_def worker_evidence_def)
  note conn = worker_connection [OF e(1,2) w e(3) d enc]
  show ?thesis
    using spawn_reply [OF body(1) exe(1,3)] run conn on unfolding wf(2,3,5)
    by (intro exI [of _ ?cmd] exI [of _ "[encHello, encEv]"] exI [of _ ?c]) fastforce
qed

theorem spawned_worker_brings_region_online_witness:
  "\<exists>cmd sends c'. dispatch sp_env \<lparr>fr_type = SPAWN_WORKER, fr_payload = put64 7 @ put64 3\<rparr> new_connection sp_coord =
      ([StartProcess cmd, StartMonitor (TypedId 7) 64] @ sendFrame SPAWN_WORKER_RESP (flag True), new_connection, c') \<and>
    runWorker True True 42 (split_words cmd) = Returns 0 sends \<and>
    (\<exists>cn' c''. handleConnection (\<lambda>_. sp_env) (map (\<lambda>b. [b]) (concat sends)) new_connection c' = (sendFrame HELLO_ACK (flag True), cn', c'') \<and>
       workerAlive (TypedId 7) (TypedId 3) (co_fabric c''))"
proof -
  have p: "memefle64 (put64 7 @ put64 3) = 7" "memefle64 (drop 8 (put64 7 @ put64 3)) = 3"
    using memefle64_put64 [of 3 "[]"] by simp_all
  have x: "worker_exe sp_env sp_coord = ''w.exe''" "en_process sp_env = Some 64"
    by (simp_all add: worker_exe_def sp_coord_def sp_env_def)
  have c: "concat (map (\<lambda>b. [b]) xs) = xs" "[] \<notin> set (map (\<lambda>b. [b]) xs)" for xs :: "u8 list" by (induction xs) auto
  have "\<exists>cmd sends c'. dispatch sp_env \<lparr>fr_type = SPAWN_WORKER, fr_payload = put64 7 @ put64 3\<rparr> new_connection sp_coord =
      ([StartProcess cmd, StartMonitor (TypedId 7) 64] @ sendFrame SPAWN_WORKER_RESP (flag True), new_connection, c') \<and>
    runWorker True True 42 (split_words cmd) = Returns 0 sends \<and>
    (\<forall>envs chunks. [] \<notin> set chunks \<longrightarrow> concat chunks = concat sends \<longrightarrow>
      (\<exists>cn' c''. handleConnection envs chunks new_connection c' = (sendFrame HELLO_ACK (flag True), cn', c'') \<and>
        cn_isWorker cn' \<and> cn_open cn' \<and> workerAlive (TypedId 7) (TypedId 3) (co_fabric c'') \<and>
        (\<exists>rr. umap_find (im_regions (co_fabric c'')) (TypedId 1) = Some rr \<and> rr_lifecycle rr = RegionLifecycle.ONLINE \<and>
          rr_evidenceStatus rr = EvidenceStatus.CURRENT \<and> free (rr_ledger rr) = kSeedTotal)))"
    using spawned_worker_brings_region_online [OF split_words_plain sp_started(2,1), where body = "put64 7 @ put64 3" and
        env = sp_env and h = 64 and pid = 42 and cn = new_connection] unfolding p x by simp
  then show ?thesis using c by fast
qed

section \<open>A worker that is started twice\<close>

text \<open>
  The coordinator starts worker 7 with boot 1 and, on the next request, with boot 2; the second process
  says hello while the monitor of the first has not run yet.
\<close>

lemma encodes: "length p \<le> kMaxPayload \<Longrightarrow> \<exists>e. encodeFrame t p = ok e"
  by (simp add: encodeFrame_def)

lemma spawn_delivered:
  assumes y: "proc_reach n y" "sy_conns y k = Some cn" "cn_open cn" "\<not> cn_noting cn" "cn_buf cn = []"
    and exe: "co_workerExe (sy_coord y) \<noteq> []"
  shows "proc_reach (Suc (Suc n)) (y\<lparr>sy_coord := (sy_coord y)\<lparr>co_procHandles := umap_put (TypedId w) h (co_procHandles (sy_coord y))\<rparr>,
    sy_conns := (sy_conns y)(k \<mapsto> cn\<lparr>cn_served := Suc (cn_served cn)\<rparr>),
    sy_monitors := sy_monitors y @ [\<lparr>mo_worker = TypedId w, mo_handle = h, mo_marked = False\<rparr>]\<rparr>)"
proof -
  let ?p = "put64 w @ put64 b" and ?env = "sp_env\<lparr>en_process := Some h\<rparr>"
  obtain e where e: "encodeFrame SPAWN_WORKER ?p = ok e" using encodes [of ?p] by (auto simp: kMaxPayload_def)
  have "monitors_of (sendFrame SPAWN_WORKER_RESP (flag True)) = []"
    by (simp add: sendFrame_def split: sum.split)
  moreover have "worker_exe ?env (sy_coord y) \<noteq> []" using exe by (simp add: worker_exe_def)
  ultimately show ?thesis
    using deliver [OF y e _ _ spawn_reply [of ?p ?env "sy_coord y" h]] by (simp add: FrameType_known_def monitors_of_append)
qed

definition sp_second :: WorkerArgs where
  "sp_second = default_WorkerArgs\<lparr>wa_port := 7000, wa_wid := 7, wa_boot := 2, wa_online := kSeedTotal\<rparr>"

lemma sp_taken_over:
  "\<exists>y. proc_reach 9 y \<and> length (sy_monitors y) = 2 \<and>
     sy_monitors y ! 0 = \<lparr>mo_worker = TypedId 7, mo_handle = 64, mo_marked = False\<rparr> \<and>
     umap_find (co_procHandles (sy_coord y)) (TypedId 7) = Some 128 \<and>
     workerAlive (TypedId 7) (TypedId 2) (co_fabric (sy_coord y))"
proof -
  let ?cn = "\<lambda>k. new_connection\<lparr>cn_served := k\<rparr>" and ?m = "\<lambda>h. \<lparr>mo_worker = TypedId 7, mo_handle = h, mo_marked = False\<rparr>"
  let ?y = "\<lambda>k hs ms. \<lparr>sy_coord = sp_coord\<lparr>co_procHandles := hs\<rparr>, sy_conns = [0 \<mapsto> ?cn k], sy_monitors = ms\<rparr>"
  have "proc_reach 0 \<lparr>sy_coord = sp_coord, sy_conns = (\<lambda>_. None), sy_monitors = []\<rparr>"
    by (rule proc_reach.start [OF sp_started(2)])
  from proc_reach.step [OF this accept [of _ 0]] have 1: "proc_reach 1 (?y 0 [] [])"
    by (simp add: new_connection_def sp_coord_def)
  have 3: "proc_reach 3 (?y 1 [(TypedId 7, 64)] [?m 64])"
    using spawn_delivered [OF 1, of 0 "?cn 0" 7 64]
    by (simp add: new_connection_def sp_coord_def umap_put_def umap_find_def numeral_eq_Suc)
  have 5: "proc_reach 5 (?y 2 [(TypedId 7, 128)] [?m 64, ?m 128])"
    using spawn_delivered [OF 3, of 0 "?cn 1" 7 128]
    by (simp add: new_connection_def sp_coord_def umap_put_def umap_find_def numeral_eq_Suc)
  let ?y6 = "(?y 2 [(TypedId 7, 128)] [?m 64, ?m 128])\<lparr>sy_conns := [0 \<mapsto> ?cn 2, 1 \<mapsto> new_connection]\<rparr>"
  have 6: "proc_reach 6 ?y6"
    using proc_reach.step [OF 5 accept [of _ 1]] by (simp add: numeral_eq_Suc)
  let ?p = "hello_payload 42 sp_second" and ?cn1 = "new_connection\<lparr>cn_served := Suc (cn_served new_connection)\<rparr>"
  have f: "im_epoch (co_fabric sp_coord) = co_epoch sp_coord" "co_epoch sp_coord = TypedId (wa_epoch sp_second)"
    "umap_find (im_workers (co_fabric sp_coord)) (TypedId (wa_wid sp_second)) = None" "wa_wid sp_second = 7" "wa_boot sp_second = 2"
    by (simp_all add: sp_coord_def seeded_eq new_fabric_def umap_find_def sp_second_def default_WorkerArgs_def)
  obtain e where e: "encodeFrame HELLO ?p = ok e" using encodes [of ?p] by (auto simp: hello_payload_length kMaxPayload_def)
  obtain cn1 c1 where r: "hello_register sp_env ?p ?cn1 (sy_coord ?y6) = (cn1, c1)" by fastforce
  have n: "cn_noting cn1" using r by (auto simp: hello_register_def hello_payload_length Let_def case_prod_beta)
  obtain eff cn2 c2 where a: "hello_note cn1 c1 = (eff, cn2, c2)" by (metis prod_cases3)
  have "on_hello sp_env ?p ?cn1 (sy_coord ?y6) = (eff, cn2, c2)" using r a by (simp add: on_hello_def)
  then have c2: "c2 = (sy_coord ?y6)\<lparr>co_fabric := greeted (en_now sp_env) 42 sp_second (co_fabric sp_coord)\<rparr>"
    using hello_served [of "sy_coord ?y6" sp_second sp_env 42 ?cn1] f by simp
  have "proc_reach (Suc (Suc (Suc 6))) (?y6\<lparr>sy_coord := c2, sy_conns := (sy_conns ?y6)(1 \<mapsto> cn2)\<rparr>)"
    using deliver_hello [OF 6 _ _ _ _ e r n a, of 1] by (simp add: new_connection_def)
  then have 9: "proc_reach 9 (?y6\<lparr>sy_coord := c2, sy_conns := (sy_conns ?y6)(1 \<mapsto> cn2)\<rparr>)" by (simp add: numeral_eq_Suc)
  have "workerAlive (TypedId 7) (TypedId 2) (co_fabric c2)"
    using greeted_fields(4) [of "en_now sp_env" 42 sp_second "co_fabric sp_coord"] f(4,5) by (simp add: c2 workerAlive_def)
  with 9 show ?thesis by (intro exI [of _ "?y6\<lparr>sy_coord := c2, sy_conns := (sy_conns ?y6)(1 \<mapsto> cn2)\<rparr>"]) (simp add: c2 umap_find_def)
qed

end
