(* ===== verification/Cli.thy ===== *)
theory Cli
  imports Backends Bringup Format
begin

text \<open>
  The command line tool (\<open>tools/cli.cpp\<close>). A command is a function from its arguments and what the
  operating system answers (the physical memory \<open>ram\<close>, and the readings \<open>clk\<close> of the clock in the order
  in which they are taken) to the text it prints; the commands that build a fabric also return the fabric
  they leave. \<open>buildFabric\<close> is the sequence of calls it makes, whose results the tool ignores.
\<close>

section \<open>Names\<close>

definition originName :: "OriginClass \<Rightarrow> string" where
  "originName o1 =
     (case o1 of
        OriginClass.REAL \<Rightarrow> ''REAL''
      | OriginClass.SYNTHETIC \<Rightarrow> ''SYNTHETIC''
      | OriginClass.UNSUPPORTED \<Rightarrow> ''UNSUPPORTED''
      | OriginClass.UNKNOWN \<Rightarrow> ''UNKNOWN''
      | _ \<Rightarrow> ''UNKNOWN'')"

definition outName :: "SelectionOutcome \<Rightarrow> string" where
  "outName o1 =
     (case o1 of
        EXPANSION_SELECTED \<Rightarrow> ''EXPANSION_SELECTED''
      | ALTERNATE_EXPANSION_SELECTED \<Rightarrow> ''ALTERNATE_EXPANSION_SELECTED''
      | LOCAL_FALLBACK_SELECTED \<Rightarrow> ''LOCAL_FALLBACK_SELECTED''
      | SelectionOutcome.STAGING_REQUIRED \<Rightarrow> ''STAGING_REQUIRED''
      | DEFER \<Rightarrow> ''DEFER''
      | REJECT \<Rightarrow> ''REJECT''
      | SelectionOutcome.REVALIDATION_REQUIRED \<Rightarrow> ''REVALIDATION_REQUIRED''
      | _ \<Rightarrow> ''?'')"

section \<open>Arguments\<close>

text \<open>\<open>arg\<close> scans \<open>argv[1]\<close> to \<open>argv[argc - 2]\<close> and returns the word after the first match.\<close>

fun arg_after :: "string list \<Rightarrow> string \<Rightarrow> string \<Rightarrow> string" where
  "arg_after (a # b # rest) name dflt = (if a = name then b else arg_after (b # rest) name dflt)"
| "arg_after _ name dflt = dflt"

definition arg :: "string list \<Rightarrow> string \<Rightarrow> string \<Rightarrow> string" where
  "arg argv name dflt = arg_after (tl argv) name dflt"

section \<open>Building a fabric from a backend\<close>

definition cli_epoch :: CoordinatorEpoch where
  "cli_epoch = TypedId 1"

definition cli_authority :: Authority where
  "cli_authority = operator_authority cli_epoch"

definition cli_consumer :: ConsumerId where
  "cli_consumer = TypedId 10"

definition build_ops :: "(nat \<Rightarrow> u64) \<Rightarrow> Discovery \<Rightarrow> op list" where
  "build_ops clk disc =
     (let ps = di_providers disc; np = length ps in
      map (\<lambda>(i, p). RegisterProvider (clk i) p cli_authority) (enumerate 0 ps) @
      map (\<lambda>d. RegisterDomain d cli_authority) (di_domains disc) @
      map (\<lambda>r. RegisterRegion r cli_authority) (di_regions disc) @
      map (\<lambda>(i, e). PublishRegionEvidence (clk i) e cli_authority)
        (enumerate np (di_initialEvidence disc cli_epoch)) @
      [RegisterConsumer cli_consumer (TypedId 1) cli_authority])"

definition buildFabric :: "(nat \<Rightarrow> u64) \<Rightarrow> u64 option \<Rightarrow> string \<Rightarrow> Impl" where
  "buildFabric clk ram backend = run_ops (build_ops clk (makeDiscovery ram backend)) (new_fabric cli_epoch)"

section \<open>Commands\<close>

definition cmdDiscover :: "u64 option \<Rightarrow> string \<Rightarrow> string" where
  "cmdDiscover ram backend =
     (let disc = makeDiscovery ram backend in
      ''backend='' @ di_name disc @ newline @
      ''origin='' @ originName (di_originClass disc) @ newline @
      ''summary: '' @ di_summary disc @ newline @
      ''--- capability matrix ---'' @ newline @ di_capabilityReport disc @
      ''--- discovered structure ---'' @ newline @
      concat (map (\<lambda>p.
        ''provider '' @ to_string (id_value (pd_id p)) @ '' gen='' @ to_string (id_value (pd_generation p)) @
        '' kind='' @ show_byte (ProviderKind_byte (pd_kind p)) @ '' origin='' @ originName (pd_origin p) @
        '' cap='' @ to_string (pd_totalCapacityBytes p) @ newline) (di_providers disc)) @
      concat (map (\<lambda>r.
        ''region '' @ to_string (id_value (rd_id r)) @ '' gen='' @ to_string (id_value (rd_generation r)) @
        '' provider='' @ to_string (id_value (rd_provider r)) @ '' origin='' @ originName (rd_origin r) @
        '' cap='' @ to_string (rd_totalCapacityBytes r) @ newline) (di_regions disc)))"

text \<open>The end of two commands: the report of an audit, which never fails.\<close>

definition print_audit :: "Impl \<Rightarrow> string" where
  "print_audit st =
     ''--- audit ---'' @ newline @
     (case audit st of Inr text \<Rightarrow> text | Inl e \<Rightarrow> ''audit failed'' @ newline)"

definition cmdInspect :: "(nat \<Rightarrow> u64) \<Rightarrow> u64 option \<Rightarrow> string \<Rightarrow> string" where
  "cmdInspect clk ram backend =
     (let f = buildFabric clk ram backend; snap = snapshot f in
      ''epoch='' @ to_string (id_value (sn_epoch snap)) @ newline @
      concat (map (\<lambda>r.
        ''region '' @ to_string (id_value (gs_id r)) @
        '' life='' @ nat_to_string (RegionLifecycle_int (gs_lifecycle r)) @
        '' ev='' @ show_byte (EvidenceStatus_byte (gs_evidenceStatus r)) @
        '' online='' @ to_string (gs_onlineBytes r) @ '' free='' @ to_string (gs_freeBytes r) @
        '' reserved='' @ to_string (gs_reservedBytes r) @ '' committed='' @ to_string (gs_committedBytes r) @
        '' draining='' @ to_string (gs_drainingBytes r) @ '' unavailable='' @ to_string (gs_unavailableBytes r) @
        '' reach='' @ show_bool (gs_reachable r) @ newline) (sn_regions snap)) @
      print_audit f)"

definition demo_requirements :: ConsumerRequirements where
  "demo_requirements = default_ConsumerRequirements\<lparr>
     rq_consumer := cli_consumer, rq_consumerGeneration := TypedId 1,
     rq_requiredBytes := 4 * 1024 * 1024 * 1024, rq_acceleratorAccessible := True\<rparr>"

definition print_selection :: "SelectionResult Result \<Rightarrow> string" where
  "print_selection sel =
     (case sel of
        Inr s \<Rightarrow>
          ''select: outcome='' @ outName (sel_outcome s) @
          '' ranked='' @ nat_to_string (length (sel_ranked s)) @
          '' rejected='' @ nat_to_string (length (sel_rejected s)) @
          '' tie='' @ sel_tieBreakRule s @ newline @
          (case sel_ranked s of
             [] \<Rightarrow> []
           | best # _ \<Rightarrow>
               ''  top: region='' @ to_string (id_value (rc_region best)) @
               '' provider='' @ to_string (id_value (rc_provider best)) @
               '' score='' @ show_f (rc_score best) @ newline) @
          concat (map (\<lambda>rj.
            ''  rejected region='' @ to_string (id_value (ca_region rj)) @
            '' reason='' @ show_byte (EligibilityReason_byte (ca_reason rj)) @ newline) (sel_rejected s))
      | Inl e \<Rightarrow> ''select error: '' @ message e @ newline)"

text \<open>Select, reserve, commit, release: the text printed and the fabric left behind.\<close>

definition cmdDemo :: "(nat \<Rightarrow> u64) \<Rightarrow> u64 \<Rightarrow> u64 option \<Rightarrow> string \<Rightarrow> string \<times> Impl" where
  "cmdDemo clk now ram backend =
     (let f = buildFabric clk ram backend;
          (sel, f1) = select demo_requirements cli_authority f;
          (rid, f2) = requestReservation now demo_requirements cli_authority f1;
          (text, f3) =
            (case rid of
               Inr i \<Rightarrow>
                 let (cr, g1) = commitReservation i cli_authority f2;
                     (rel, g2) = releaseReservation i cli_authority g1
                 in (''reserve: id='' @ to_string (id_value i) @ '' ok'' @ newline @
                     ''commit: '' @ (if is_ok cr then ''ok'' else ''failed'') @ '' state='' @
                       (case cr of Inr r \<Rightarrow> show_byte (ReservationState_byte (rs_state r)) | Inl e \<Rightarrow> ''-1'') @ newline @
                     ''release: '' @ (if is_ok rel then ''ok'' else ''failed'') @ newline, g2)
             | Inl e \<Rightarrow> (''reserve failed: '' @ message e @ newline, f2))
      in (print_selection sel @ text @ print_audit f3, f3))"

definition main :: "(nat \<Rightarrow> u64) \<Rightarrow> u64 \<Rightarrow> u64 option \<Rightarrow> string list \<Rightarrow> int \<times> string" where
  "main clk now ram argv =
     (let backend = arg argv ''--backend'' ''synthetic'' in
      if length argv < 2 then
        (1, ''usage: mef_cli <discover|inspect|demo> [--backend system|synthetic|unsupported]'' @ newline)
      else let cmd = argv ! 1 in
        if cmd = ''discover'' then (0, cmdDiscover ram backend)
        else if cmd = ''inspect'' then (0, cmdInspect clk ram backend)
        else if cmd = ''demo'' then (0, fst (cmdDemo clk now ram backend))
        else (1, ''unknown command: '' @ cmd @ newline))"

section \<open>What a backend promises and what the tool makes of it\<close>

locale discovery =
  fixes disc :: Discovery
  assumes providers_valid: "p \<in> set (di_providers disc) \<Longrightarrow> provider_valid p"
    and providers_distinct: "distinct (map pd_id (di_providers disc))"
    and domains_valid: "d \<in> set (di_domains disc) \<Longrightarrow> \<not> null (dd_id d) \<and> \<not> null (dd_generation d)"
    and domains_distinct: "distinct (map dd_id (di_domains disc))"
    and regions_valid: "r \<in> set (di_regions disc) \<Longrightarrow> region_valid r \<and> rd_provider r \<in> pd_id ` set (di_providers disc)"
    and regions_distinct: "distinct (map rd_id (di_regions disc))"
    and evidence_valid: "e \<in> set (di_initialEvidence disc epoch) \<Longrightarrow>
      eh_epoch (ev_header e) = epoch \<and> ev_health e = HealthState.HEALTHY \<and> ev_reachable e"
    and evidence_region: "e \<in> set (di_initialEvidence disc epoch) \<Longrightarrow> \<exists>r \<in> set (di_regions disc).
      rd_id r = eh_region (ev_header e) \<and> rd_generation r = eh_regionGeneration (ev_header e) \<and>
      ev_onlineCapacityBytes e = rd_totalCapacityBytes r"
    and evidence_provider: "e \<in> set (di_initialEvidence disc epoch) \<Longrightarrow> \<exists>p \<in> set (di_providers disc).
      pd_id p = eh_sourceProvider (ev_header e) \<and> pd_generation p = eh_sourceProviderGeneration (ev_header e)"
    and evidence_complete: "map (eh_region \<circ> ev_header) (di_initialEvidence disc epoch) = map rd_id (di_regions disc)"
begin

abbreviation built :: "(nat \<Rightarrow> u64) \<Rightarrow> Impl" where
  "built clk \<equiv> run_ops (build_ops clk disc) (new_fabric cli_epoch)"

lemma authority: "au_epoch cli_authority = cli_epoch" "null (au_worker cli_authority)"
  by (simp_all add: cli_authority_def operator_authority_def)

definition structure_ops :: "(nat \<Rightarrow> u64) \<Rightarrow> op list" where
  "structure_ops clk =
     map (\<lambda>x. RegisterProvider (clk (fst x)) (snd x) cli_authority) (enumerate 0 (di_providers disc)) @
     map (\<lambda>d. RegisterDomain d cli_authority) (di_domains disc) @
     map (\<lambda>r. RegisterRegion r cli_authority) (di_regions disc)"

lemma structure_accepted:
  "\<exists>st. accepted (structure_ops clk) (new_fabric cli_epoch) \<and> run_ops (structure_ops clk) (new_fabric cli_epoch) = st \<and>
     im_regions st = map (\<lambda>r. (rd_id r, declared_region r)) (di_regions disc) \<and>
     (\<forall>p \<in> set (di_providers disc). \<exists>pr. umap_find (im_providers st) (pd_id p) = Some pr \<and> pr_descriptor pr = p \<and>
        pr_lifecycle pr = Lifecycle.REGISTERED) \<and>
     im_epoch st = cli_epoch \<and> im_reservations st = [] \<and> im_workers st = [] \<and> im_consumers st = [] \<and> im_pools st = []"
proof -
  let ?ps = "enumerate 0 (di_providers disc)"
  let ?k = "\<lambda>x. (pd_id (snd x), \<lparr>pr_descriptor = snd x, pr_lifecycle = Lifecycle.REGISTERED, pr_registeredAtMs = clk (fst x)\<rparr>)"
  let ?d = "\<lambda>d. (dd_id d, \<lparr>dr_descriptor = d, dr_lifecycle = Lifecycle.REGISTERED\<rparr>)"
  let ?g = "\<lambda>r. (rd_id r, declared_region r)"
  define st1 where "st1 = im_providers_update (insert_all (map ?k ?ps)) (new_fabric cli_epoch)"
  define st2 where "st2 = im_domains_update (insert_all (map ?d (di_domains disc))) st1"
  define st3 where "st3 = im_regions_update (insert_all (map ?g (di_regions disc))) st2"
  have f3: "im_epoch st3 = cli_epoch" "im_providers st3 = im_providers st1" "im_reservations st3 = []"
     "im_workers st3 = []" "im_consumers st3 = []" "im_pools st3 = []" "im_regions st3 = insert_all (map ?g (di_regions disc)) []"
    by (simp_all add: st3_def st2_def st1_def new_fabric_def)
  have ps: "\<exists>pr. umap_find (im_providers st1) (pd_id p) = Some pr \<and> pr_descriptor pr = p \<and> pr_lifecycle pr = Lifecycle.REGISTERED"
    if p: "p \<in> set (di_providers disc)" for p
  proof -
    obtain i where i: "(i, p) \<in> set ?ps" using in_enumerate [OF p, of 0] by auto
    have d: "distinct (map fst (map ?k ?ps))"
      using providers_distinct by (simp add: comp_def map_enumerate_snd [of pd_id])
    have "im_providers st1 = insert_all (map ?k ?ps) []" by (simp add: st1_def new_fabric_def)
    moreover have "?k (i, p) \<in> set (map ?k ?ps)" using i by (simp only: set_map) (rule imageI)
    ultimately show ?thesis using insert_all_find [OF d, of "pd_id p"] by simp
  qed
  have r1: "accepted (map (\<lambda>x. RegisterProvider (clk (fst x)) (snd x) cli_authority) ?ps) (new_fabric cli_epoch) \<and>
     run_ops (map (\<lambda>x. RegisterProvider (clk (fst x)) (snd x) cli_authority) ?ps) (new_fabric cli_epoch) = st1"
    unfolding st1_def using providers_valid providers_distinct
    by (intro register_providers) (simp_all add: authority new_fabric_def)
  have r2: "accepted (map (\<lambda>d. RegisterDomain d cli_authority) (di_domains disc)) st1 \<and>
     run_ops (map (\<lambda>d. RegisterDomain d cli_authority) (di_domains disc)) st1 = st2"
    unfolding st2_def using domains_valid domains_distinct
    by (intro register_domains) (simp_all add: authority st1_def new_fabric_def)
  have r3: "accepted (map (\<lambda>r. RegisterRegion r cli_authority) (di_regions disc)) st2 \<and>
     run_ops (map (\<lambda>r. RegisterRegion r cli_authority) (di_regions disc)) st2 = st3"
    unfolding st3_def using regions_valid regions_distinct ps
    by (intro register_regions) (fastforce simp: authority st2_def st1_def new_fabric_def)+
  have "im_regions st3 = map ?g (di_regions disc)"
    using f3 regions_distinct insert_all_fresh [of "[]" "map ?g (di_regions disc)"] by (simp add: comp_def)
  with r1 r2 r3 f3 ps show ?thesis
    by (intro exI [of _ st3]) (simp add: structure_ops_def accepted_append run_ops_append)
qed

lemma build_state:
  "\<exists>st regs provs. accepted (build_ops clk disc) (new_fabric cli_epoch) \<and>
     built clk = st\<lparr>im_regions := regs, im_providers := provs, im_consumers := [(cli_consumer, TypedId 1)]\<rparr> \<and>
     im_regions st = map (\<lambda>r. (rd_id r, declared_region r)) (di_regions disc) \<and>
     (\<forall>p \<in> set (di_providers disc). \<exists>pr. umap_find (im_providers st) (pd_id p) = Some pr \<and> pr_descriptor pr = p \<and>
        pr_lifecycle pr = Lifecycle.REGISTERED) \<and>
     im_epoch st = cli_epoch \<and> im_reservations st = [] \<and> providers_kept (im_providers st) provs \<and>
     (\<forall>j. map_option rr_descriptor (umap_find regs j) = map_option rr_descriptor (umap_find (im_regions st) j)) \<and>
     (\<forall>e \<in> set (di_initialEvidence disc cli_epoch). pred_option (brought_online e) (umap_find regs (eh_region (ev_header e))))"
proof -
  let ?es = "di_initialEvidence disc cli_epoch" and ?np = "length (di_providers disc)"
  let ?pub = "\<lambda>x. PublishRegionEvidence (clk (fst x)) (snd x) cli_authority"
  obtain st where acc: "accepted (structure_ops clk) (new_fabric cli_epoch)" "run_ops (structure_ops clk) (new_fabric cli_epoch) = st"
    and rs: "im_regions st = map (\<lambda>r. (rd_id r, declared_region r)) (di_regions disc)"
    and ps: "\<forall>p \<in> set (di_providers disc). \<exists>pr. umap_find (im_providers st) (pd_id p) = Some pr \<and> pr_descriptor pr = p \<and>
        pr_lifecycle pr = Lifecycle.REGISTERED"
    and f: "im_epoch st = cli_epoch" "im_reservations st = []" "im_consumers st = []"
    using structure_accepted [of clk] by blast
  have "umap_find (im_regions st) (rd_id r) = Some (declared_region r)" if "r \<in> set (di_regions disc)" for r
    using that regions_distinct by (simp add: rs umap_find_def comp_def map_of_eq_Some_iff)
  then have "declared_for st e" if "e \<in> set ?es" for e
    using evidence_region [OF that] evidence_provider [OF that] evidence_valid [OF that] ps
    unfolding declared_for_def f by (metis order_refl)
  then have "declared_for st (snd x)" if "x \<in> set (enumerate ?np ?es)" for x using enumerate_snd [OF that] by blast
  then have "accepted (map ?pub (enumerate ?np ?es)) st \<and>
    (\<exists>regs provs. run_ops (map ?pub (enumerate ?np ?es)) st = st\<lparr>im_regions := regs, im_providers := provs\<rparr> \<and>
      providers_kept (im_providers st) provs \<and>
      (\<forall>j. map_option rr_descriptor (umap_find regs j) = map_option rr_descriptor (umap_find (im_regions st) j)) \<and>
      (\<forall>x \<in> set (enumerate ?np ?es). pred_option (brought_online (snd x)) (umap_find regs (eh_region (ev_header (snd x))))) \<and>
      (\<forall>j. j \<notin> (eh_region \<circ> ev_header \<circ> snd) ` set (enumerate ?np ?es) \<longrightarrow> umap_find regs j = umap_find (im_regions st) j))"
    using regions_distinct evidence_complete [of cli_epoch]
    by (intro publishing_loop) (simp_all add: authority f flip: map_map comp_assoc)
  then obtain regs provs where pub: "accepted (map ?pub (enumerate ?np ?es)) st"
      "run_ops (map ?pub (enumerate ?np ?es)) st = st\<lparr>im_regions := regs, im_providers := provs\<rparr>"
    and kept: "providers_kept (im_providers st) provs"
    and desc: "\<forall>j. map_option rr_descriptor (umap_find regs j) = map_option rr_descriptor (umap_find (im_regions st) j)"
    and on: "\<forall>x \<in> set (enumerate ?np ?es). pred_option (brought_online (snd x)) (umap_find regs (eh_region (ev_header (snd x))))"
    by blast
  have on': "\<forall>e \<in> set ?es. pred_option (brought_online e) (umap_find regs (eh_region (ev_header e)))"
    using on in_enumerate [of _ ?es ?np] by fastforce
  let ?st = "st\<lparr>im_regions := regs, im_providers := provs\<rparr>"
  have last: "run_op (RegisterConsumer cli_consumer (TypedId 1) cli_authority) ?st =
      (None, ?st\<lparr>im_consumers := [(cli_consumer, TypedId 1)]\<rparr>)"
    using operator_acceptable [of cli_authority ?st] authority f
    by (simp add: registerConsumer_def umap_put_def cli_consumer_def)
  have ops: "build_ops clk disc = structure_ops clk @ map ?pub (enumerate ?np ?es) @
      [RegisterConsumer cli_consumer (TypedId 1) cli_authority]"
    by (simp add: build_ops_def structure_ops_def Let_def case_prod_unfold)
  have "accepted (build_ops clk disc) (new_fabric cli_epoch)" "built clk = ?st\<lparr>im_consumers := [(cli_consumer, TypedId 1)]\<rparr>"
    unfolding ops using acc pub last by (simp_all add: accepted_append run_ops_append del: run_op.simps)
  with rs ps f kept desc on' show ?thesis by blast
qed

text \<open>
  None of the calls is refused; exactly the regions of the backend are registered, and every one ends
  online with its full capacity under a provider of the backend.
\<close>

lemma build_accepted:
  "accepted (build_ops clk disc) (new_fabric cli_epoch)"
  "r \<in> set (di_regions disc) \<Longrightarrow> region_online r (built clk)"
  "umap_find (im_regions (built clk)) i \<noteq> None \<Longrightarrow> i \<in> rd_id ` set (di_regions disc)"
  "p \<in> set (di_providers disc) \<Longrightarrow> \<exists>pr. umap_find (im_providers (built clk)) (pd_id p) = Some pr \<and> pr_descriptor pr = p \<and>
     (pr_lifecycle pr = Lifecycle.REGISTERED \<or> pr_lifecycle pr = Lifecycle.ONLINE)"
  "im_reservations (built clk) = []" "im_consumers (built clk) = [(cli_consumer, TypedId 1)]" "im_epoch (built clk) = cli_epoch"
proof -
  obtain st regs provs where acc: "accepted (build_ops clk disc) (new_fabric cli_epoch)"
    and built: "built clk = st\<lparr>im_regions := regs, im_providers := provs, im_consumers := [(cli_consumer, TypedId 1)]\<rparr>"
    and rs: "im_regions st = map (\<lambda>r. (rd_id r, declared_region r)) (di_regions disc)"
    and ps: "\<forall>p \<in> set (di_providers disc). \<exists>pr. umap_find (im_providers st) (pd_id p) = Some pr \<and> pr_descriptor pr = p \<and>
        pr_lifecycle pr = Lifecycle.REGISTERED"
    and f: "im_epoch st = cli_epoch" "im_reservations st = []" and kept: "providers_kept (im_providers st) provs"
    and desc: "\<forall>j. map_option rr_descriptor (umap_find regs j) = map_option rr_descriptor (umap_find (im_regions st) j)"
    and on: "\<forall>e \<in> set (di_initialEvidence disc cli_epoch). pred_option (brought_online e) (umap_find regs (eh_region (ev_header e)))"
    using build_state [of clk] by blast
  show "accepted (build_ops clk disc) (new_fabric cli_epoch)" by (rule acc)
  show "region_online r (built clk)" if r: "r \<in> set (di_regions disc)"
  proof -
    have "rd_id r \<in> (eh_region \<circ> ev_header) ` set (di_initialEvidence disc cli_epoch)"
      using r evidence_complete [of cli_epoch] by (metis imageI set_map)
    then obtain e where e: "e \<in> set (di_initialEvidence disc cli_epoch)" "eh_region (ev_header e) = rd_id r" by auto
    then have "pred_option (brought_online e) (umap_find regs (rd_id r))" using on by auto
    moreover have "umap_find (im_regions st) (rd_id r) = Some (declared_region r)"
      using r regions_distinct by (simp add: rs umap_find_def comp_def map_of_eq_Some_iff)
    then obtain rr where "umap_find regs (rd_id r) = Some rr" "rr_descriptor rr = r"
      using spec [OF desc, of "rd_id r"] by (auto simp: declared_region_def new_region_def)
    moreover have "ev_onlineCapacityBytes e = rd_totalCapacityBytes r"
      using evidence_region [OF e(1)] e(2) r regions_distinct by (metis distinct_map inj_onD)
    ultimately show ?thesis using evidence_valid [OF e(1)] unfolding region_online_def built by auto
  qed
  show "i \<in> rd_id ` set (di_regions disc)" if "umap_find (im_regions (built clk)) i \<noteq> None"
  proof -
    have "umap_find regs i \<noteq> None" using that unfolding built by simp
    then have "umap_find (im_regions st) i \<noteq> None" using spec [OF desc, of i] by (cases "umap_find (im_regions st) i") auto
    then show ?thesis by (simp add: rs umap_find_def map_of_eq_None_iff image_image)
  qed
  show "\<exists>pr. umap_find (im_providers (built clk)) (pd_id p) = Some pr \<and> pr_descriptor pr = p \<and>
     (pr_lifecycle pr = Lifecycle.REGISTERED \<or> pr_lifecycle pr = Lifecycle.ONLINE)" if "p \<in> set (di_providers disc)"
    using ps that providers_keptD [OF kept] unfolding built by fastforce
  show "im_reservations (built clk) = []" "im_consumers (built clk) = [(cli_consumer, TypedId 1)]" "im_epoch (built clk) = cli_epoch"
    unfolding built by (simp_all add: f)
qed

end

lemma system_valid: "ram \<noteq> 0 \<Longrightarrow> provider_valid (system_provider ram)" "ram \<noteq> 0 \<Longrightarrow> region_valid (system_region ram)"
  by (simp_all add: provider_valid_def region_valid_def system_provider_def system_region_def descriptor_defaults
      capabilityContradiction_def)

lemma synthetic_valid:
  "provider_valid synthetic_cxl" "provider_valid synthetic_remote"
  "region_valid synthetic_region1" "region_valid synthetic_region2"
  by (simp_all add: provider_valid_def region_valid_def synthetic_defs descriptor_defaults capabilityContradiction_def)

lemma system_keys:
  "pd_id (system_provider ram) = TypedId 1" "pd_generation (system_provider ram) = TypedId 1"
  "rd_id (system_region ram) = TypedId 1" "rd_generation (system_region ram) = TypedId 1"
  "rd_provider (system_region ram) = TypedId 1" "rd_totalCapacityBytes (system_region ram) = ram"
  by (simp_all add: system_provider_def system_region_def)

lemma system_evidence_keys:
  "eh_epoch (ev_header (system_evidence ram epoch)) = epoch" "ev_health (system_evidence ram epoch) = HealthState.HEALTHY"
  "ev_reachable (system_evidence ram epoch)" "ev_onlineCapacityBytes (system_evidence ram epoch) = ram"
  "eh_region (ev_header (system_evidence ram epoch)) = TypedId 1"
  "eh_regionGeneration (ev_header (system_evidence ram epoch)) = TypedId 1"
  "eh_sourceProvider (ev_header (system_evidence ram epoch)) = TypedId 1"
  "eh_sourceProviderGeneration (ev_header (system_evidence ram epoch)) = TypedId 1"
  by (simp_all add: system_evidence_def)

lemma synthetic_keys:
  "pd_id synthetic_cxl = TypedId 1" "pd_generation synthetic_cxl = TypedId 1"
  "pd_id synthetic_remote = TypedId 2" "pd_generation synthetic_remote = TypedId 1"
  "rd_id synthetic_region1 = TypedId 1" "rd_generation synthetic_region1 = TypedId 1" "rd_provider synthetic_region1 = TypedId 1"
  "rd_id synthetic_region2 = TypedId 2" "rd_generation synthetic_region2 = TypedId 1" "rd_provider synthetic_region2 = TypedId 2"
  "rd_totalCapacityBytes synthetic_region1 = ev_onlineCapacityBytes (synthetic_evidence1 epoch)"
  "rd_totalCapacityBytes synthetic_region2 = ev_onlineCapacityBytes (synthetic_evidence2 epoch)"
  by (simp_all add: synthetic_defs)

lemma synthetic_evidence_keys:
  "eh_epoch (ev_header (synthetic_evidence1 epoch)) = epoch" "eh_epoch (ev_header (synthetic_evidence2 epoch)) = epoch"
  "ev_health (synthetic_evidence1 epoch) = HealthState.HEALTHY" "ev_health (synthetic_evidence2 epoch) = HealthState.HEALTHY"
  "ev_reachable (synthetic_evidence1 epoch)" "ev_reachable (synthetic_evidence2 epoch)"
  "eh_region (ev_header (synthetic_evidence1 epoch)) = TypedId 1" "eh_region (ev_header (synthetic_evidence2 epoch)) = TypedId 2"
  "eh_regionGeneration (ev_header (synthetic_evidence1 epoch)) = TypedId 1" "eh_regionGeneration (ev_header (synthetic_evidence2 epoch)) = TypedId 1"
  "eh_sourceProvider (ev_header (synthetic_evidence1 epoch)) = TypedId 1" "eh_sourceProvider (ev_header (synthetic_evidence2 epoch)) = TypedId 2"
  "eh_sourceProviderGeneration (ev_header (synthetic_evidence1 epoch)) = TypedId 1"
  "eh_sourceProviderGeneration (ev_header (synthetic_evidence2 epoch)) = TypedId 1"
  by (simp_all add: synthetic_evidence1_def synthetic_evidence2_def)

lemma system_lists:
  "di_providers (SystemDiscovery status) = (if totalPhysicalRam status = 0 then [] else [system_provider (totalPhysicalRam status)])"
  "di_regions (SystemDiscovery status) = (if totalPhysicalRam status = 0 then [] else [system_region (totalPhysicalRam status)])"
  "di_initialEvidence (SystemDiscovery status) epoch =
     (if totalPhysicalRam status = 0 then [] else [system_evidence (totalPhysicalRam status) epoch])"
  "map dd_id (di_domains (SystemDiscovery status)) = (if totalPhysicalRam status = 0 then [] else [TypedId 1])"
  "d \<in> set (di_domains (SystemDiscovery status)) \<Longrightarrow> dd_id d = TypedId 1 \<and> dd_generation d = TypedId 1"
  by (simp_all add: SystemDiscovery_def Let_def word_neq_0_conv split: if_splits)

lemma synthetic_lists:
  "di_providers SyntheticDiscovery = [synthetic_cxl, synthetic_remote]"
  "di_regions SyntheticDiscovery = [synthetic_region1, synthetic_region2]"
  "di_initialEvidence SyntheticDiscovery epoch = [synthetic_evidence1 epoch, synthetic_evidence2 epoch]"
  "map dd_id (di_domains SyntheticDiscovery) = [TypedId 1]"
  "d \<in> set (di_domains SyntheticDiscovery) \<Longrightarrow> dd_id d = TypedId 1 \<and> dd_generation d = TypedId 1"
  by (simp_all add: SyntheticDiscovery_def)

interpretation system: discovery "SystemDiscovery status" for status
  by unfold_locales (simp_all add: system_lists system_keys system_evidence_keys system_valid split: if_splits)

interpretation synthetic: discovery SyntheticDiscovery
proof unfold_locales
  fix e epoch
  assume "e \<in> set (di_initialEvidence SyntheticDiscovery epoch)"
  then have "e = synthetic_evidence1 epoch \<or> e = synthetic_evidence2 epoch" by (simp add: synthetic_lists)
  then show "eh_epoch (ev_header e) = epoch \<and> ev_health e = HealthState.HEALTHY \<and> ev_reachable e"
    and "\<exists>r \<in> set (di_regions SyntheticDiscovery). rd_id r = eh_region (ev_header e) \<and>
      rd_generation r = eh_regionGeneration (ev_header e) \<and> ev_onlineCapacityBytes e = rd_totalCapacityBytes r"
    and "\<exists>p \<in> set (di_providers SyntheticDiscovery).
      pd_id p = eh_sourceProvider (ev_header e) \<and> pd_generation p = eh_sourceProviderGeneration (ev_header e)"
    by (elim disjE; simp add: synthetic_lists synthetic_keys(1-10) synthetic_keys(11,12) [where epoch = epoch] synthetic_evidence_keys)+
qed (use synthetic_valid in \<open>auto simp: synthetic_lists synthetic_keys(1-10) synthetic_evidence_keys\<close>)

interpretation unsupported: discovery UnsupportedDiscovery
  by unfold_locales (simp_all add: UnsupportedDiscovery_def)

section \<open>The demonstration\<close>

text \<open>Every backend keeps the promises, so \<open>buildFabric\<close> always yields the state of \<open>build_accepted\<close>.\<close>

lemma makeDiscovery_keeps: "discovery (makeDiscovery ram backend)"
  unfolding makeDiscovery_def
  using system.discovery_axioms synthetic.discovery_axioms unsupported.discovery_axioms by simp

lemmas buildFabric_facts = discovery.build_accepted [OF makeDiscovery_keeps, folded buildFabric_def]

lemma buildFabric_reach: "fabric_reach (length (build_ops clk (makeDiscovery ram backend))) (buildFabric clk ram backend)"
  using run_ops_reach [OF fabric_reach.start] by (fastforce simp: buildFabric_def)

lemma build_ops_length: "length (build_ops clk (makeDiscovery ram backend)) \<le> 8"
  by (simp add: build_ops_def makeDiscovery_def SystemDiscovery_def SyntheticDiscovery_def UnsupportedDiscovery_def Let_def)

lemma cli_acceptable: "im_epoch st = cli_epoch \<Longrightarrow> authorityAcceptableLocked st cli_authority"
  by (simp add: operator_acceptable cli_authority_def operator_authority_def)

lemma buildFabric_consistent:
  "consistent (buildFabric clk ram backend)" "unat (im_reservationIdAlloc (buildFabric clk ram backend)) \<le> 9"
  using reach_consistent [OF buildFabric_reach, of clk ram backend] build_ops_length [of clk ram backend] by simp_all

text \<open>What the demonstration asks of a region, in terms of the descriptors of the backend.\<close>

definition serves_demo :: "ProviderDescriptor \<Rightarrow> RegionDescriptor \<Rightarrow> bool" where
  "serves_demo p r \<longleftrightarrow>
     (cap_get (pd_capabilities p) CapabilityKey.ACCELERATOR_ACCESSIBLE = SUPPORTED \<or>
      cap_get (pd_capabilities p) CapabilityKey.ACCELERATOR_ACCESSIBLE = CapabilityStatus.UNKNOWN \<and>
      cap_get (rd_staticCapabilities r) CapabilityKey.ACCELERATOR_ACCESSIBLE = SUPPORTED) \<and>
     rq_requiredBytes demo_requirements \<le> rd_totalCapacityBytes r \<and> 1 \<le> rd_alignmentBytes r \<and>
     (0 < rd_granularityBytes r \<and> rd_granularityBytes r < rq_requiredBytes demo_requirements \<longrightarrow>
        unat (rd_granularityBytes r) dvd unat (rq_requiredBytes demo_requirements))"

lemma demo_eligible:
  assumes "region_online r st" "umap_find (im_regions st) (rd_id r) = Some rr"
    and "umap_find (im_providers st) (rd_provider r) = Some pr"
    and "pr_lifecycle pr = Lifecycle.REGISTERED \<or> pr_lifecycle pr = Lifecycle.ONLINE"
  shows "evaluateRegionEligibility st demo_requirements rr = ELIGIBLE \<longleftrightarrow> serves_demo (pr_descriptor pr) r"
proof -
  obtain e where on: "rr_descriptor rr = r" "brought_online e rr" "ev_reachable e" "ev_health e = HealthState.HEALTHY"
    "ev_onlineCapacityBytes e = rd_totalCapacityBytes r"
    using assms(1,2) by (auto simp: region_online_def)
  have "usable_now st demo_requirements pr rr"
    using assms(4) on by (auto simp: usable_now_def brought_online_def)
  moreover have "meets_requirements st demo_requirements pr rr \<longleftrightarrow> serves_demo (pr_descriptor pr) r"
    using on by (auto simp: meets_requirements_def serves_demo_def supports_def demo_requirements_def
        default_ConsumerRequirements_def brought_online_def locality_fits_def null_id_def)
  ultimately show ?thesis using assms(3) on(1) by (simp add: eligible_iff)
qed

context discovery
begin

lemma provider_of: "r \<in> set (di_regions disc) \<Longrightarrow> \<exists>p \<in> set (di_providers disc). pd_id p = rd_provider r"
  using regions_valid by fastforce

lemma region_eligible:
  assumes r: "r \<in> set (di_regions disc)" "umap_find (im_regions (built clk)) (rd_id r) = Some rr"
    and p: "p \<in> set (di_providers disc)" "pd_id p = rd_provider r"
  shows "evaluateRegionEligibility (built clk) demo_requirements rr = ELIGIBLE \<longleftrightarrow> serves_demo p r"
proof -
  obtain pr where "umap_find (im_providers (built clk)) (rd_provider r) = Some pr" "pr_descriptor pr = p"
      "pr_lifecycle pr = Lifecycle.REGISTERED \<or> pr_lifecycle pr = Lifecycle.ONLINE"
    using build_accepted(4) [OF p(1), of clk] p(2) by auto
  then show ?thesis using demo_eligible [OF build_accepted(2) [OF r(1)] r(2)] by blast
qed

lemma demo_ranking_descriptors:
  assumes wf: "umap_wf (im_regions (built clk))"
  shows "ranking (built clk) demo_requirements \<noteq> [] \<longleftrightarrow>
    (\<exists>r \<in> set (di_regions disc). \<exists>p \<in> set (di_providers disc). pd_id p = rd_provider r \<and> serves_demo p r)" (is "_ \<longleftrightarrow> ?R")
proof -
  have adm: "pool_admits demo_requirements rr" for rr
    by (simp add: pool_admits_def demo_requirements_def default_ConsumerRequirements_def)
  have "ranking (built clk) demo_requirements \<noteq> [] \<longleftrightarrow> (\<exists>i. i \<in> rc_region ` set (ranking (built clk) demo_requirements))"
    by (auto simp: neq_Nil_conv)
  also have "\<dots> \<longleftrightarrow> (\<exists>i rr. umap_find (im_regions (built clk)) i = Some rr \<and>
      evaluateRegionEligibility (built clk) demo_requirements rr = ELIGIBLE)"
    unfolding ranked_iff [OF wf] by (simp add: adm)
  also have "\<dots> \<longleftrightarrow> ?R"
  proof
    assume "\<exists>i rr. umap_find (im_regions (built clk)) i = Some rr \<and> evaluateRegionEligibility (built clk) demo_requirements rr = ELIGIBLE"
    then obtain i rr where i: "umap_find (im_regions (built clk)) i = Some rr"
        "evaluateRegionEligibility (built clk) demo_requirements rr = ELIGIBLE" by blast
    then obtain r where r: "r \<in> set (di_regions disc)" "i = rd_id r" using build_accepted(3) [of clk i] by auto
    obtain p where p: "p \<in> set (di_providers disc)" "pd_id p = rd_provider r" using provider_of [OF r(1)] by blast
    have "serves_demo p r" using region_eligible [OF r(1) _ p] i r(2) by simp
    with r(1) p show ?R by blast
  next
    assume ?R
    then obtain r p where rp: "r \<in> set (di_regions disc)" "p \<in> set (di_providers disc)" "pd_id p = rd_provider r" "serves_demo p r"
      by blast
    obtain rr where "umap_find (im_regions (built clk)) (rd_id r) = Some rr"
      using build_accepted(2) [OF rp(1)] by (auto simp: region_online_def)
    then show "\<exists>i rr. umap_find (im_regions (built clk)) i = Some rr \<and> evaluateRegionEligibility (built clk) demo_requirements rr = ELIGIBLE"
      using region_eligible [OF rp(1) _ rp(2,3)] rp(4) by blast
  qed
  finally show ?thesis .
qed

end

lemma serves_demo_synthetic: "serves_demo synthetic_cxl synthetic_region1"
  by (simp add: serves_demo_def synthetic_defs descriptor_defaults demo_requirements_def)

lemma serves_demo_system: "\<not> serves_demo (system_provider ram) (system_region ram)"
  by (simp add: serves_demo_def system_provider_def system_region_def descriptor_defaults)

lemma demo_ranking:
  "ranking (buildFabric clk ram backend) demo_requirements \<noteq> [] \<longleftrightarrow> backend = ''synthetic''"
proof -
  have wf: "umap_wf (im_regions (buildFabric clk ram backend))"
    using buildFabric_consistent(1) by (simp add: consistent_def accounting_def balanced_def)
  have "(\<exists>r \<in> set (di_regions (makeDiscovery ram backend)). \<exists>p \<in> set (di_providers (makeDiscovery ram backend)).
      pd_id p = rd_provider r \<and> serves_demo p r) \<longleftrightarrow> backend = ''synthetic''"
    using serves_demo_synthetic serves_demo_system [of "totalPhysicalRam ram"]
    by (auto simp: makeDiscovery_def synthetic_lists synthetic_keys(1-10) system_lists UnsupportedDiscovery_def)
  then show ?thesis
    using discovery.demo_ranking_descriptors [OF makeDiscovery_keeps wf [unfolded buildFabric_def]]
    by (simp add: buildFabric_def)
qed

text \<open>Selecting only consumes selection identifiers.\<close>

lemma demo_select:
  "\<exists>m n. snd (select demo_requirements cli_authority (buildFabric clk ram backend)) =
     (buildFabric clk ram backend)\<lparr>im_selectionIdAlloc := m, im_selectionGenAlloc := n\<rparr>"
  using evaluate_parts(2) [of demo_requirements "buildFabric clk ram backend"] cli_acceptable [OF buildFabric_facts(7)]
  by (simp add: select_def case_prod_beta demo_requirements_def)

lemma demo_round:
  fixes clk ram backend
  defines "f \<equiv> buildFabric clk ram backend"
  defines "f1 \<equiv> snd (select demo_requirements cli_authority f)"
  shows "(is_ok (fst (requestReservation now demo_requirements cli_authority f1)) \<longleftrightarrow> backend = ''synthetic'') \<and>
    (\<forall>j. bytes_at (im_regions (snd (cmdDemo clk now ram backend))) j = bytes_at (im_regions f) j) \<and>
    (\<forall>k r. umap_find (im_reservations (snd (cmdDemo clk now ram backend))) k = Some r \<longrightarrow> rs_state r = ReservationState.RELEASED)"
proof -
  obtain m n where f1: "f1 = f\<lparr>im_selectionIdAlloc := m, im_selectionGenAlloc := n\<rparr>"
    using demo_select unfolding f1_def f_def by blast
  have rank: "ranking f1 demo_requirements = ranking f demo_requirements" by (simp add: f1 ranking_allocators)
  have c: "consistent f1" using buildFabric_consistent(1) by (simp add: f1 f_def)
  have al: "im_reservationIdAlloc f1 \<noteq> UINT64_MAX"
    using buildFabric_consistent(2) [of clk ram backend] by (auto simp: f1 f_def)
  have a: "authorityAcceptableLocked f1 cli_authority" "null (au_worker cli_authority)"
    using cli_acceptable [of f1] buildFabric_facts(7) by (simp_all add: f1 f_def cli_authority_def operator_authority_def)
  have v: "valid_request demo_requirements"
    by (simp add: valid_request_def demo_requirements_def cli_consumer_def)
  have g: "umap_find (im_consumers f1) (rq_consumer demo_requirements) \<in> {None, Some (rq_consumerGeneration demo_requirements)}"
    using buildFabric_facts(6) by (simp add: f1 f_def umap_find_def demo_requirements_def)
  have none: "im_reservations f1 = []" and regs: "im_regions f1 = im_regions f"
    using buildFabric_facts(5) by (simp_all add: f1 f_def)
  obtain sel where sel: "select demo_requirements cli_authority f = (sel, f1)" unfolding f1_def by (metis prod.collapse)
  show ?thesis
  proof (cases "ranking f1 demo_requirements")
    case Nil
    then have "backend \<noteq> ''synthetic''" using demo_ranking [of clk ram backend] unfolding rank f_def by metis
    moreover obtain p q where "snd (evaluateLocked demo_requirements f1) = f1\<lparr>im_selectionIdAlloc := p, im_selectionGenAlloc := q\<rparr>"
      using evaluate_parts(2) [of demo_requirements f1] by blast
    with request_nothing_eligible [OF a(1) v Nil, of now] have req: "requestReservation now demo_requirements cli_authority f1 =
        (fail CAPACITY_INSUFFICIENT ''no eligible expansion capacity'', f1\<lparr>im_selectionIdAlloc := p, im_selectionGenAlloc := q\<rparr>)"
      by (simp only:)
    moreover have "snd (cmdDemo clk now ram backend) = f1\<lparr>im_selectionIdAlloc := p, im_selectionGenAlloc := q\<rparr>"
      unfolding cmdDemo_def f_def [symmetric] Let_def sel by (simp add: req fail_def)
    ultimately show ?thesis using none regs by simp
  next
    case (Cons best rest)
    then have syn: "backend = ''synthetic''"
      using demo_ranking [of clk ram backend] unfolding rank f_def by (metis list.discI)
    obtain i st1 r st2 st3 where run: "requestReservation now demo_requirements cli_authority f1 = (ok i, st1)"
        "commitReservation i cli_authority st1 = (ok r, st2)" "releaseReservation i cli_authority st2 = (ok (), st3)"
      and b: "\<forall>j. bytes_at (im_regions st3) j = bytes_at (im_regions f1) j"
      and res: "\<forall>k. umap_find (im_reservations st3) k =
        (if k = i then Some (r\<lparr>rs_state := ReservationState.RELEASED\<rparr>) else umap_find (im_reservations f1) k)"
      using reserve_commit_release [OF c al a v g Cons, of now] by blast
    have "snd (cmdDemo clk now ram backend) = st3"
      unfolding cmdDemo_def f_def [symmetric] using run sel by (simp add: Let_def ok_def)
    moreover have "rs_state x = ReservationState.RELEASED" if "umap_find (im_reservations st3) k = Some x" for k x
      using that res [rule_format, of k] none by (simp split: if_splits) auto
    ultimately show ?thesis using run(1) syn b regs by simp
  qed
qed

text \<open>
  C23. The tools set a fabric up correctly and leave it clean. For every backend, whatever memory the
  machine reports and whatever the clock reads: none of the calls of \<open>buildFabric\<close> is refused (the tool
  ignores their results), and every region of the backend ends online with its full capacity. The
  reservation of the demonstration is granted exactly with the synthetic backend, and when the
  demonstration ends every reservation is released and every ledger is back to what it was.
\<close>
theorem demo_leaves_nothing_held:
  "accepted (build_ops clk (makeDiscovery ram backend)) (new_fabric cli_epoch) \<and>
   (\<forall>r \<in> set (di_regions (makeDiscovery ram backend)). region_online r (buildFabric clk ram backend)) \<and>
   (is_ok (fst (requestReservation now demo_requirements cli_authority
      (snd (select demo_requirements cli_authority (buildFabric clk ram backend))))) \<longleftrightarrow> backend = ''synthetic'') \<and>
   (\<forall>j. bytes_at (im_regions (snd (cmdDemo clk now ram backend))) j =
      bytes_at (im_regions (buildFabric clk ram backend)) j) \<and>
   (\<forall>k r. umap_find (im_reservations (snd (cmdDemo clk now ram backend))) k = Some r \<longrightarrow>
      rs_state r = ReservationState.RELEASED)"
  by (intro conjI ballI demo_round buildFabric_facts(1,2)
      demo_round [THEN conjunct1] demo_round [THEN conjunct2, THEN conjunct1] demo_round [THEN conjunct2, THEN conjunct2])

theorem demo_leaves_nothing_held_witness:
  "region_online synthetic_region2 (buildFabric (\<lambda>i. of_nat i) None ''synthetic'')"
  using demo_leaves_nothing_held [of "\<lambda>i. of_nat i" None "''synthetic''" 0]
  by (simp add: makeDiscovery_def synthetic_lists)

end
