(* ===== verification/Session.thy ===== *)
theory Session
  imports Spawning Cli
begin

text \<open>
  A client of the coordinator: it reserves, commits and releases over one connection. The frames of its
  requests go through the codecs, the receive loop and the handlers to the fabric, and the answers carry
  what the fabric granted.
\<close>

section \<open>One request at a time\<close>

lemma reserve_served:
  assumes "requirements_fit req" "requestReservation (en_now env) req (operator_authority (co_epoch c)) (co_fabric c) = (ok i, st)"
  shows "dispatch env \<lparr>fr_type = RESERVE, fr_payload = put_requirements req\<rparr> cn c =
    (sendFrame RESERVE_RESP (flag True @ put64 (id_value i)), cn, c\<lparr>co_fabric := st\<rparr>)"
proof -
  have "decodeRequirements (put_requirements req) = Inr req"
    using requirements.roundtrip [OF assms(1)] by (simp add: decodeRequirements_def ok_def)
  then show ?thesis using assms(2) by (simp add: dispatch_def on_reserve_def ok_def)
qed

lemma commit_served:
  assumes "commitReservation i (operator_authority (co_epoch c)) (co_fabric c) = (ok r, st)"
  shows "dispatch env \<lparr>fr_type = COMMIT, fr_payload = put64 (id_value i)\<rparr> cn c =
    (sendFrame COMMIT_RESP (put_reservation r), cn, c\<lparr>co_fabric := st\<rparr>)"
  using assms memefle64_put64 [of "id_value i" "[]"] by (simp add: dispatch_def on_commit_def ok_def)

lemma release_served:
  assumes "releaseReservation i (operator_authority (co_epoch c)) (co_fabric c) = (ok (), st)"
  shows "dispatch env \<lparr>fr_type = RELEASE, fr_payload = put64 (id_value i)\<rparr> cn c =
    (sendFrame RELEASE_RESP (flag True), cn, c\<lparr>co_fabric := st\<rparr>)"
  using assms memefle64_put64 [of "id_value i" "[]"] by (simp add: dispatch_def on_release_def)

section \<open>A whole session\<close>

text \<open>
  C29. A client that asks for what the fabric can give gets it. When the ranking for its requirements is
  not empty, the requests to reserve, to commit and to release, encoded and cut by the network in any
  way, are answered in order: with the identifier of the reservation, with the committed reservation of
  the bytes asked for, and with success. Afterwards the reservation is released and every ledger is what
  it was before.
\<close>
theorem client_session_served:
  assumes st: "fabric_reach m (co_fabric c)" "m < 2 ^ 64 - 2" "im_epoch (co_fabric c) = co_epoch c"
    and req: "requirements_fit req" "valid_request req" "ranking (co_fabric c) req \<noteq> []"
      "umap_find (im_consumers (co_fabric c)) (rq_consumer req) \<in> {None, Some (rq_consumerGeneration req)}"
    and enc: "encodeFrame RESERVE (put_requirements req) = ok e1"
      "encodeFrame COMMIT (put64 (im_reservationIdAlloc (co_fabric c))) = ok e2"
      "encodeFrame RELEASE (put64 (im_reservationIdAlloc (co_fabric c))) = ok e3"
    and chunks: "[] \<notin> set chunks" "concat chunks = e1 @ e2 @ e3"
  shows "\<exists>r cn' c'. handleConnection envs chunks new_connection c =
      (sendFrame RESERVE_RESP (flag True @ put64 (im_reservationIdAlloc (co_fabric c))) @
       sendFrame COMMIT_RESP (put_reservation r) @ sendFrame RELEASE_RESP (flag True), cn', c') \<and>
    rs_state r = ReservationState.COMMITTED \<and> rs_bytes r = rq_requiredBytes req \<and>
    umap_find (im_reservations (co_fabric c')) (TypedId (im_reservationIdAlloc (co_fabric c))) =
      Some (r\<lparr>rs_state := ReservationState.RELEASED\<rparr>) \<and>
    (\<forall>j. bytes_at (im_regions (co_fabric c')) j = bytes_at (im_regions (co_fabric c)) j)"
proof -
  let ?a = "operator_authority (co_epoch c)" and ?f = "co_fabric c"
  have a: "authorityAcceptableLocked ?f ?a" "null (au_worker ?a)"
    using st(3) by (simp_all add: operator_acceptable operator_authority_def)
  have con: "consistent ?f" "unat (im_reservationIdAlloc ?f) \<le> Suc m" using reach_consistent [OF st(1)] st(2) by simp_all
  then have al: "im_reservationIdAlloc ?f \<noteq> UINT64_MAX" using st(2) by auto
  obtain best rest where "ranking ?f req = best # rest" using req(3) by (cases "ranking ?f req") auto
  from reserve_commit_release [OF con(1) al a req(2,4) this, of "en_now (envs 0)"]
  obtain st1 r st2 st3 where run: "requestReservation (en_now (envs 0)) req ?a ?f = (ok (TypedId (im_reservationIdAlloc ?f)), st1)"
      "commitReservation (TypedId (im_reservationIdAlloc ?f)) ?a st1 = (ok r, st2)"
      "releaseReservation (TypedId (im_reservationIdAlloc ?f)) ?a st2 = (ok (), st3)"
    and r: "rs_state r = ReservationState.COMMITTED" "rs_bytes r = rq_requiredBytes req"
    and b: "\<forall>j. bytes_at (im_regions st3) j = bytes_at (im_regions ?f) j"
    and res: "\<forall>k. umap_find (im_reservations st3) k = (if k = TypedId (im_reservationIdAlloc ?f)
        then Some (r\<lparr>rs_state := ReservationState.RELEASED\<rparr>) else umap_find (im_reservations ?f) k)"
    by blast
  let ?fs = "[\<lparr>fr_type = RESERVE, fr_payload = put_requirements req\<rparr>, \<lparr>fr_type = COMMIT, fr_payload = put64 (im_reservationIdAlloc ?f)\<rparr>,
    \<lparr>fr_type = RELEASE, fr_payload = put64 (im_reservationIdAlloc ?f)\<rparr>]"
  have "list_all2 (\<lambda>f e. FrameType_known (fr_type f) \<and> encodeFrame (fr_type f) (fr_payload f) = ok e) ?fs [e1, e2, e3]"
    using enc by (simp add: FrameType_known_def)
  then have h: "handleConnection envs chunks new_connection c = serve_frames envs ?fs new_connection c"
    using chunks by (intro handle_encoded [where es = "[e1, e2, e3]"]) (simp_all add: new_connection_def)
  have "serve_frames envs ?fs new_connection c =
      (sendFrame RESERVE_RESP (flag True @ put64 (im_reservationIdAlloc ?f)) @
       sendFrame COMMIT_RESP (put_reservation r) @ sendFrame RELEASE_RESP (flag True),
       new_connection\<lparr>cn_served := 3\<rparr>, c\<lparr>co_fabric := st3\<rparr>)"
    using reserve_served [OF req(1), of "envs 0" c] commit_served [of "TypedId (im_reservationIdAlloc ?f)" "c\<lparr>co_fabric := st1\<rparr>"]
      release_served [of "TypedId (im_reservationIdAlloc ?f)" "c\<lparr>co_fabric := st2\<rparr>"] run
    by (simp add: new_connection_def numeral_eq_Suc)
  with h r b res show ?thesis by auto
qed

text \<open>A coordinator over the fabric that the synthetic backend describes, and a client asking for 4 GiB of it.\<close>

definition se_coord :: Coordinator where
  "se_coord = \<lparr>co_fabric = buildFabric (\<lambda>i. of_nat i) None ''synthetic'', co_port = 7000, co_workerExe = [], co_epoch = cli_epoch,
     co_procHandles = [], co_files = Map.empty\<rparr>"

theorem client_session_served_witness:
  "\<exists>e1 e2 e3 r cn' c'. encodeFrame RESERVE (put_requirements demo_requirements) = ok e1 \<and>
     handleConnection (\<lambda>_. sp_env) [e1 @ e2 @ e3] new_connection se_coord =
      (sendFrame RESERVE_RESP (flag True @ put64 (im_reservationIdAlloc (co_fabric se_coord))) @
       sendFrame COMMIT_RESP (put_reservation r) @ sendFrame RELEASE_RESP (flag True), cn', c') \<and>
     rs_state r = ReservationState.COMMITTED \<and> rs_bytes r = 4 * 1024 * 1024 * 1024"
proof -
  let ?f = "buildFabric (\<lambda>i. of_nat i) None ''synthetic''"
  have "length (put_requirements demo_requirements) \<le> kMaxPayload"
    by (simp add: put_requirements_def demo_requirements_def default_ConsumerRequirements_def kind_list_def w_f64_def kMaxPayload_def)
  then obtain e1 e2 e3 where e: "encodeFrame RESERVE (put_requirements demo_requirements) = ok e1"
      "encodeFrame COMMIT (put64 (im_reservationIdAlloc (co_fabric se_coord))) = ok e2"
      "encodeFrame RELEASE (put64 (im_reservationIdAlloc (co_fabric se_coord))) = ok e3"
    using encodes [of "put64 (im_reservationIdAlloc (co_fabric se_coord))"] encodes by (fastforce simp: kMaxPayload_def)
  have ne: "[] \<notin> set [e1 @ e2 @ e3]" using e(1) by (auto simp: encodeFrame_ok kMagic_def w_u8_def)
  have f: "fabric_reach (length (build_ops (\<lambda>i. of_nat i) (makeDiscovery None ''synthetic''))) (co_fabric se_coord)"
    "length (build_ops (\<lambda>i. of_nat i) (makeDiscovery None ''synthetic'')) < 2 ^ 64 - 2"
    "im_epoch (co_fabric se_coord) = co_epoch se_coord" "ranking (co_fabric se_coord) demo_requirements \<noteq> []"
    using buildFabric_reach build_ops_length [of "\<lambda>i. of_nat i" None "''synthetic''"]
      buildFabric_facts(7) demo_ranking [of "\<lambda>i. of_nat i" None "''synthetic''"] by (simp_all add: se_coord_def)
  have g: "umap_find (im_consumers (co_fabric se_coord)) (rq_consumer demo_requirements) \<in> {None, Some (rq_consumerGeneration demo_requirements)}"
    using buildFabric_facts(6) by (simp add: se_coord_def umap_find_def demo_requirements_def)
  have v: "requirements_fit demo_requirements" "valid_request demo_requirements"
    by (simp_all add: requirements_fit_def kinds_fit_def valid_request_def demo_requirements_def default_ConsumerRequirements_def
        Locality_ok_def cli_consumer_def)
  have "rq_requiredBytes demo_requirements = 4 * 1024 * 1024 * 1024" by (simp add: demo_requirements_def)
  then show ?thesis
    using client_session_served [OF f(1-3) v f(4) g e ne, of "\<lambda>_. sp_env"] e(1) by fastforce
qed

end
