(* ===== verification/Sockets.thy ===== *)
theory Sockets
  imports Coordinator
begin

text \<open>
  The coordinator's socket calls (\<open>src/coordinator.cpp\<close>, \<open>sendAll\<close> and the end of \<open>runCoordinator\<close>). What the
  operating system answers is an argument. \<open>send k len\<close> is what the \<open>k\<close>-th call of \<open>::send\<close> returns when it is
  offered \<open>len\<close> bytes; a frame has at most 16 bytes and 1 MiB, so the cast of its size to \<open>int\<close> loses nothing.
  The result is whether the loop got through, and the pieces the socket accepted.
\<close>

section \<open>Sending\<close>

function sendAll :: "(nat \<Rightarrow> nat \<Rightarrow> int) \<Rightarrow> nat \<Rightarrow> u8 list \<Rightarrow> bool \<times> u8 list list" where
  "sendAll send k bytes =
     (if bytes = [] then (True, [])
      else let n = send k (length bytes) in
        if n \<le> 0 then (False, [])
        else let (okay, pieces) = sendAll send (Suc k) (drop (nat n) bytes)
             in (okay, take (nat n) bytes # pieces))"
  by pat_completeness auto
termination
  by (relation "measure (\<lambda>(send, k, bytes). length bytes)") auto

declare sendAll.simps [simp del]

lemma sendAll_result:
  "sendAll send k bytes = (okay, pieces) \<Longrightarrow>
     (\<exists>rest. bytes = concat pieces @ rest \<and> (okay \<longleftrightarrow> rest = [])) \<and> [] \<notin> set pieces"
proof (induction send k bytes arbitrary: okay pieces rule: sendAll.induct)
  case (1 send k bytes)
  show ?case
  proof (cases "bytes = [] \<or> send k (length bytes) \<le> 0")
    case True
    then show ?thesis using "1.prems" by (auto simp: sendAll.simps [of send k bytes] Let_def split: if_splits)
  next
    case False
    obtain okay' pieces' where s: "sendAll send (Suc k) (drop (nat (send k (length bytes))) bytes) = (okay', pieces')"
      by (metis prod.collapse)
    then have p: "okay = okay'" "pieces = take (nat (send k (length bytes))) bytes # pieces'"
      using "1.prems" False by (simp_all add: sendAll.simps [of send k bytes] Let_def)
    obtain rest where rest: "drop (nat (send k (length bytes))) bytes = concat pieces' @ rest" "okay' \<longleftrightarrow> rest = []" "[] \<notin> set pieces'"
      using "1.IH" [OF _ refl _ s] False by auto
    have "bytes = concat pieces @ rest"
      unfolding p(2) using rest(1) by (metis append_assoc append_take_drop_id concat.simps(2))
    moreover have "okay \<longleftrightarrow> rest = []" using p(1) rest(2) by simp
    moreover have "[] \<notin> set pieces" using rest(3) False unfolding p(2) by simp
    ultimately show ?thesis by blast
  qed
qed

lemma pieces_bounded: "[] \<notin> set ps \<Longrightarrow> length ps \<le> length (concat ps)"
proof (induction ps)
  case (Cons p ps)
  then have "1 \<le> length p" "length ps \<le> length (concat ps)" by (auto simp: Suc_le_eq)
  then show ?case by (simp del: length_greater_0_conv)
qed simp

section \<open>Listening\<close>

text \<open>
  Whether \<open>::socket\<close> succeeds, the error of \<open>::bind\<close> for a port, and whether \<open>::listen\<close> succeeds. The port of
  the socket address has 16 bits: \<open>htons((u_short)port)\<close>.
\<close>

record ListenEnv =
  le_socket :: bool
  le_bind :: "16 word \<Rightarrow> int option"
  le_listen :: bool

definition openListener :: "ListenEnv \<Rightarrow> Coordinator \<Rightarrow> string + (16 word \<times> string)" where
  "openListener env c =
     (let port = ucast (co_port c) in
      if \<not> le_socket env then Inl (''coordinator: socket failed'' @ newline)
      else case le_bind env port of
        Some e \<Rightarrow> Inl (''coordinator: bind failed '' @ show_int e @ newline)
      | None \<Rightarrow>
          if \<not> le_listen env then Inl (''coordinator: listen failed'' @ newline)
          else Inr (port, ''coordinator: listening on '' @ to_string (co_port c) @
                          '' (epoch '' @ to_string (id_value (co_epoch c)) @ '')'' @ newline))"

definition runCoordinator ::
    "bool \<Rightarrow> read_io \<Rightarrow> u64 \<Rightarrow> files \<Rightarrow> ListenEnv \<Rightarrow> string list \<Rightarrow> (string + (16 word \<times> string \<times> Coordinator)) option" where
  "runCoordinator wsa_ok io now fs env argv =
     (case startCoordinator wsa_ok io now fs argv of
        None \<Rightarrow> None
      | Some (Inl m) \<Rightarrow> Some (Inl m)
      | Some (Inr c) \<Rightarrow>
          Some (case openListener env c of Inl m \<Rightarrow> Inl m | Inr (port, text) \<Rightarrow> Inr (port, text, c)))"

end
