(* ===== verification/CudaProof.thy ===== *)
theory CudaProof
  imports Cli
begin

text \<open>
  The CUDA demonstration (\<open>proofs/cuda_proof.cu\<close>): a program that registers the host memory and a
  synthetic expansion region, reserves and commits memory for an accelerator, runs a kernel over a
  staging buffer, and checks that its authority is refused once the epoch has advanced. What the CUDA
  runtime answers is an argument, \<open>CudaRuntime\<close>: the error of each call, by the label with which the
  program reports it, the properties of the device, what the two copies deliver, and the order in which
  the threads of a launch take effect. The program is a function to its exit code and the text it prints.

  A staging buffer is a function of the index, read and written below \<open>N\<close> only. A \<open>float\<close> is represented by
  the \<open>double\<close> of the same value; the values here are the integers from 0 to 7, on which the conversion and
  the addition are exact in both formats, and \<open>printf\<close> promotes a \<open>float\<close> to \<open>double\<close> anyway.
\<close>

section \<open>The runtime\<close>

type_synonym float32 = double

record CudaRuntime =
  cu_error :: "string \<Rightarrow> string option"
  cu_ndev :: int
  cu_name :: string
  cu_major :: int
  cu_minor :: int
  cu_totalGlobalMem :: u64
  cu_baseline :: "u64 \<times> u64"
  cu_after :: "u64 \<times> u64"
  cu_hostToDevice :: "(nat \<Rightarrow> float32) \<Rightarrow> nat \<Rightarrow> float32"
  cu_deviceToHost :: "(nat \<Rightarrow> float32) \<Rightarrow> nat \<Rightarrow> float32"
  cu_order :: "nat \<Rightarrow> nat \<Rightarrow> (nat \<times> nat) list"

text \<open>What a program prints before it goes on, and \<open>check\<close>, which prints the error and exits.\<close>

definition say :: "string \<Rightarrow> int \<times> string \<Rightarrow> int \<times> string" where
  "say text next = (fst next, text @ snd next)"

definition cuda_check :: "CudaRuntime \<Rightarrow> string \<Rightarrow> int \<times> string \<Rightarrow> int \<times> string" where
  "cuda_check rt what next =
     (case cu_error rt what of
        Some m \<Rightarrow> (1, ''CUDA ERROR ('' @ what @ ''): '' @ m @ newline)
      | None \<Rightarrow> next)"

section \<open>The kernel and the staging path\<close>

definition f_one :: float32 where
  "f_one = double_of_rat 1"

definition bumpKernel :: "nat \<Rightarrow> nat \<Rightarrow> nat \<times> nat \<Rightarrow> (nat \<Rightarrow> float32) \<Rightarrow> nat \<Rightarrow> float32" where
  "bumpKernel blockDim n = (\<lambda>(blockIdx, threadIdx) data.
     let i = blockIdx * blockDim + threadIdx in
     if i < n then data(i := f_add (data i) f_one) else data)"

definition launch_bump :: "CudaRuntime \<Rightarrow> nat \<Rightarrow> nat \<Rightarrow> nat \<Rightarrow> (nat \<Rightarrow> float32) \<Rightarrow> nat \<Rightarrow> float32" where
  "launch_bump rt grid block n data = fold (bumpKernel block n) (cu_order rt grid block) data"

definition staging_count :: nat where
  "staging_count = 16 * 1024 * 1024 div 4"

definition staging_fill :: "nat \<Rightarrow> float32" where
  "staging_fill i = double_of_u64 (of_nat (i mod 7))"

definition staging_expect :: "nat \<Rightarrow> float32" where
  "staging_expect i = f_add (staging_fill i) f_one"

text \<open>The host buffer after the copy in, the kernel and the copy back.\<close>

definition staged :: "CudaRuntime \<Rightarrow> nat \<Rightarrow> float32" where
  "staged rt = cu_deviceToHost rt
     (launch_bump rt ((staging_count + 255) div 256) 256 staging_count (cu_hostToDevice rt staging_fill))"

text \<open>The parity loop stops at the first element that differs.\<close>

definition parity :: "(nat \<Rightarrow> float32) \<Rightarrow> bool \<times> string" where
  "parity host =
     (case find (\<lambda>i. \<not> f_eq (host i) (staging_expect i)) [0..<staging_count] of
        Some i \<Rightarrow> (False, ''PARITY FAIL at '' @ nat_to_string i @ '': '' @ show_f (host i) @ '' != '' @
                    show_f (staging_expect i) @ newline)
      | None \<Rightarrow> (True, []))"

section \<open>The fabric\<close>

definition cuda_epoch :: CoordinatorEpoch where
  "cuda_epoch = TypedId 1"

definition cuda_authority :: Authority where
  "cuda_authority = operator_authority cuda_epoch"

definition cuda_provider :: ProviderDescriptor where
  "cuda_provider = default_ProviderDescriptor\<lparr>
     pd_id := TypedId 50, pd_generation := TypedId 1, pd_kind := ProviderKind.CXL_CLASS,
     pd_origin := OriginClass.SYNTHETIC, pd_name := ''synthetic-expansion'', pd_totalCapacityBytes := 0x200000000,
     pd_alignmentBytes := 4096, pd_granularityBytes := 4096, pd_persistence := Persistence.VOLATILE,
     pd_capabilities := set_caps
       [(CapabilityKey.CPU_ACCESSIBLE, SUPPORTED), (CapabilityKey.ACCELERATOR_ACCESSIBLE, SUPPORTED),
        (CapabilityKey.DIRECT_ACCESS, SUPPORTED), (CapabilityKey.VOLATILE, SUPPORTED)]\<rparr>"

definition cuda_domain :: ExpansionDomainDescriptor where
  "cuda_domain = \<lparr>dd_id = TypedId 2, dd_generation = TypedId 1, dd_name = ''syn'',
     dd_origin = OriginClass.SYNTHETIC, dd_failureDomain = null_id\<rparr>"

definition cuda_region :: RegionDescriptor where
  "cuda_region = default_RegionDescriptor\<lparr>
     rd_id := TypedId 50, rd_generation := TypedId 1, rd_provider := TypedId 50, rd_domain := TypedId 2,
     rd_name := ''synthetic-expansion-region'', rd_totalCapacityBytes := 0x200000000,
     rd_alignmentBytes := 4096, rd_granularityBytes := 4096, rd_origin := OriginClass.SYNTHETIC\<rparr>"

definition cuda_evidence :: RegionEvidence where
  "cuda_evidence = default_RegionEvidence\<lparr>
     ev_header := default_EvidenceHeader\<lparr>
       eh_id := TypedId 50, eh_generation := TypedId 1, eh_sourceProvider := TypedId 50,
       eh_sourceProviderGeneration := TypedId 1, eh_region := TypedId 50, eh_regionGeneration := TypedId 1,
       eh_epoch := TypedId 1, eh_provenance := ''cuda-proof''\<rparr>,
     ev_health := HealthState.HEALTHY, ev_reachable := True, ev_onlineCapacityBytes := 0x200000000,
     ev_latencyNs := 100, ev_bandwidthBytesPerSec := 20000000000, ev_locality := Locality.FABRIC,
     ev_status := EvidenceStatus.CURRENT\<rparr>"

text \<open>The calls on the fabric before the selection, whose results the program ignores.\<close>

definition host_ops :: "(nat \<Rightarrow> u64) \<Rightarrow> Discovery \<Rightarrow> op list" where
  "host_ops clk sys =
      map (\<lambda>(i, p). RegisterProvider (clk i) p cuda_authority) (enumerate 0 (di_providers sys)) @
      map (\<lambda>d. RegisterDomain d cuda_authority) (di_domains sys) @
      map (\<lambda>r. RegisterRegion r cuda_authority) (di_regions sys) @
      map (\<lambda>(i, e). PublishRegionEvidence (clk i) e cuda_authority)
        (enumerate (length (di_providers sys)) (di_initialEvidence sys cuda_epoch))"

definition cuda_ops :: "(nat \<Rightarrow> u64) \<Rightarrow> Discovery \<Rightarrow> op list" where
  "cuda_ops clk sys =
     (let a = cuda_authority; n = length (di_providers sys) + length (di_initialEvidence sys cuda_epoch) in
      host_ops clk sys @
      [RegisterProvider (clk n) cuda_provider a, RegisterDomain cuda_domain a,
       RegisterRegion cuda_region a, PublishRegionEvidence (clk (n + 1)) cuda_evidence a,
       RegisterConsumer (TypedId 77) (TypedId 1) a])"

definition cuda_fabric :: "(nat \<Rightarrow> u64) \<Rightarrow> u64 option \<Rightarrow> Impl" where
  "cuda_fabric clk ram = run_ops (cuda_ops clk (makeDiscovery ram ''system'')) (new_fabric cuda_epoch)"

definition cuda_requirements :: ConsumerRequirements where
  "cuda_requirements = default_ConsumerRequirements\<lparr>
     rq_consumer := TypedId 77, rq_consumerGeneration := TypedId 1, rq_requiredBytes := 16 * 1024 * 1024,
     rq_acceleratorAccessible := True, rq_cpuAccessible := False, rq_stagingAcceptable := True\<rparr>"

text \<open>Select, reserve and commit: either the program returns 1, or the CUDA path is permitted.\<close>

definition print_top :: "SelectionResult \<Rightarrow> string" where
  "print_top s =
     ''selection outcome='' @ show_byte (SelectionOutcome_byte (sel_outcome s)) @
     '' ranked='' @ nat_to_string (length (sel_ranked s)) @ '' top_region='' @
     (case sel_ranked s of [] \<Rightarrow> ''0'' | best # _ \<Rightarrow> to_string (id_value (rc_region best))) @ '' top_origin='' @
     (if sel_ranked s = [] then ''?'' else ''SYNTHETIC'') @ newline"

definition cuda_gate :: "u64 \<Rightarrow> Impl \<Rightarrow> (Impl \<Rightarrow> int \<times> string) \<Rightarrow> int \<times> string" where
  "cuda_gate now f permitted =
     (let (sel, f1) = select cuda_requirements cuda_authority f in
      case sel of
        Inl e \<Rightarrow> (1, ''select failed'' @ newline)
      | Inr s \<Rightarrow>
          say (print_top s)
           (if sel_ranked s = [] then (1, ''no eligible expansion for CUDA consumer'' @ newline)
            else let (rid, f2) = requestReservation now cuda_requirements cuda_authority f1 in
              case rid of
                Inl e \<Rightarrow> (1, ''reserve failed: '' @ message e @ newline)
              | Inr i \<Rightarrow>
                  let (cr, f3) = commitReservation i cuda_authority f2 in
                  case cr of
                    Inl e \<Rightarrow> (1, ''commit failed: '' @ message e @ newline)
                  | Inr r \<Rightarrow>
                      say (''governed authority CURRENT: reservation reserved+committed (CUDA path permitted)'' @ newline)
                        (permitted f3)))"

text \<open>The same authority after the epoch has advanced: is a second reservation granted and committed?\<close>

definition stale_gate :: "u64 \<Rightarrow> Impl \<Rightarrow> bool \<times> string" where
  "stale_gate now f =
     (let f1 = setEpoch (TypedId 2) f;
          (rid2, f2) = requestReservation now (cuda_requirements\<lparr>rq_requiredBytes := 8 * 1024 * 1024\<rparr>) cuda_authority f1;
          staleAllowed = (case rid2 of Inr i \<Rightarrow> is_ok (fst (commitReservation i cuda_authority f2)) | Inl e \<Rightarrow> False)
      in (staleAllowed,
          ''stale-authority reserve accepted? '' @ show_bool (is_ok rid2) @ '' (expected 0)'' @ newline @
          (if \<not> staleAllowed then ''CUDA gate: stale authority rejected (launch blocked)''
           else ''CUDA gate: STALE AUTHORITY WRONGLY PERMITTED'') @ newline))"

section \<open>The program\<close>

definition cuda_finish :: "CudaRuntime \<Rightarrow> bool \<Rightarrow> int \<times> string" where
  "cuda_finish rt okay =
     cuda_check rt ''cudaMemGetInfo after''
      (let free0 = fst (cu_baseline rt); free1 = fst (cu_after rt); baseline = (free0 \<le> free1) in
       (if okay \<and> baseline then 0 else 1,
        ''CUDA after free='' @ to_string free1 @ '' (baseline '' @ to_string free0 @ '')'' @ newline @
        ''CUDA baseline restored: '' @ (if baseline then ''yes'' else ''no'') @ newline @
        ''cuda proof: '' @ (if okay \<and> baseline then ''PASS'' else ''FAIL'') @ newline))"

definition cuda_stage :: "CudaRuntime \<Rightarrow> (bool \<Rightarrow> int \<times> string) \<Rightarrow> int \<times> string" where
  "cuda_stage rt next =
     cuda_check rt ''cudaMallocHost'' (cuda_check rt ''cudaMalloc'' (cuda_check rt ''H2D''
      (cuda_check rt ''kernel'' (cuda_check rt ''sync'' (cuda_check rt ''D2H''
       (let (okay, mismatch) = parity (staged rt) in
        say (mismatch @ ''CUDA data path (H2D kernel D2H parity) = '' @ (if okay then ''REAL/OK'' else ''FAIL'') @ newline)
         (cuda_check rt ''cudaFree'' (cuda_check rt ''cudaFreeHost'' (next okay)))))))))"

definition cuda_main :: "CudaRuntime \<Rightarrow> (nat \<Rightarrow> u64) \<Rightarrow> u64 \<Rightarrow> u64 \<Rightarrow> u64 option \<Rightarrow> int \<times> string" where
  "cuda_main rt clk now now2 ram =
     cuda_check rt ''cudaGetDeviceCount''
      (if cu_ndev rt = 0 then (0, ''CUDA_UNSUPPORTED: no CUDA device'' @ newline)
       else cuda_check rt ''cudaGetDeviceProperties''
        (say (''CUDA_DEVICE name='' @ cu_name rt @ '' cc='' @ show_int (cu_major rt) @ ''.'' @ show_int (cu_minor rt) @
              '' mem='' @ to_string (cu_totalGlobalMem rt div (1024 * 1024)) @ '' MiB'' @ newline)
         (cuda_check rt ''cudaMemGetInfo baseline''
          (say (''CUDA baseline free='' @ to_string (fst (cu_baseline rt)) @
                '' total='' @ to_string (snd (cu_baseline rt)) @ newline)
           (cuda_gate now (cuda_fabric clk ram) (\<lambda>f.
             cuda_stage rt (\<lambda>okay.
              let (staleAllowed, text) = stale_gate now2 f in
              say text (cuda_finish rt (okay \<and> \<not> staleAllowed)))))))))"

section \<open>The kernel touches each element once\<close>

lemma bump_threads:
  assumes "distinct ts" "\<forall>t \<in> set ts. snd t < block"
  shows "fold (bumpKernel block n) ts data i =
    (if i < n \<and> (i div block, i mod block) \<in> set ts then f_add (data i) f_one else data i)"
  using assms
proof (induction ts arbitrary: data)
  case (Cons t ts)
  obtain b k where t: "t = (b, k)" by (cases t)
  then have k: "k < block" using Cons.prems(2) by simp
  then have "i = b * block + k \<longleftrightarrow> (i div block, i mod block) = t"
    unfolding t by (auto simp: div_mult_mod_eq)
  then show ?case
    using Cons t by (auto simp: bumpKernel_def Let_def)
qed simp

text \<open>What the CUDA documentation promises of copies and launches.\<close>

definition faithful_runtime :: "CudaRuntime \<Rightarrow> bool" where
  "faithful_runtime rt \<longleftrightarrow>
     (\<forall>data. cu_hostToDevice rt data = data \<and> cu_deviceToHost rt data = data) \<and>
     (\<forall>grid block. distinct (cu_order rt grid block) \<and> set (cu_order rt grid block) = {..<grid} \<times> {..<block})"

lemma staged_faithful:
  assumes "faithful_runtime rt" "i < staging_count"
  shows "staged rt i = staging_expect i"
proof -
  have "i div 256 < (staging_count + 255) div 256" using assms(2) by linarith
  then show ?thesis
    using assms bump_threads [of "cu_order rt ((staging_count + 255) div 256) 256" 256 staging_count staging_fill i]
    by (auto simp: staged_def launch_bump_def faithful_runtime_def staging_expect_def)
qed

lemma expect_number: "f_eq (staging_expect i) (staging_expect i)"
proof -
  have "\<not> is_inf f_one" unfolding f_one_def using small_finite(2) [OF small_of_rat [of 1 0]] by simp
  then show ?thesis by (simp add: f_eq_def staging_expect_def f_add_not_nan staging_fill_def f_one_def)
qed

lemma parity_faithful: "faithful_runtime rt \<Longrightarrow> fst (parity (staged rt))"
  by (auto simp: parity_def staged_faithful expect_number find_None_iff find_Some_iff split: option.split)

section \<open>Adding a device\<close>

lemma add_device:
  fixes t t' :: u64
  assumes st: "au_epoch a = im_epoch st" "null (au_worker a)"
    and p: "provider_valid p" "umap_find (im_providers st) (pd_id p) = None"
    and d: "\<not> null (dd_id d)" "\<not> null (dd_generation d)" "umap_find (im_domains st) (dd_id d) = None"
    and r: "region_valid r" "umap_find (im_regions st) (rd_id r) = None" "rd_provider r = pd_id p"
    and e: "eh_epoch (ev_header e) = im_epoch st" "ev_health e = HealthState.HEALTHY"
      "eh_region (ev_header e) = rd_id r" "eh_regionGeneration (ev_header e) = rd_generation r"
      "eh_sourceProvider (ev_header e) = pd_id p" "eh_sourceProviderGeneration (ev_header e) = pd_generation p"
      "ev_onlineCapacityBytes e = rd_totalCapacityBytes r"
  defines "ops \<equiv> [RegisterProvider t p a, RegisterDomain d a, RegisterRegion r a, PublishRegionEvidence t' e a]"
  obtains regs provs doms rr pr where
    "accepted ops st" "run_ops ops st = st\<lparr>im_providers := provs, im_domains := doms, im_regions := regs\<rparr>"
    "\<And>j. umap_find regs j = (if j = rd_id r then Some rr else umap_find (im_regions st) j)"
    "rr_descriptor rr = r" "brought_online e rr"
    "umap_find provs (pd_id p) = Some pr" "pr_descriptor pr = p" "pr_lifecycle pr = Lifecycle.REGISTERED \<or> pr_lifecycle pr = Lifecycle.ONLINE"
    "\<And>q x. umap_find (im_providers st) q = Some x \<Longrightarrow> \<exists>y. umap_find provs q = Some y \<and>
       pr_descriptor y = pr_descriptor x \<and> (pr_lifecycle y = pr_lifecycle x \<or> pr_lifecycle y = Lifecycle.ONLINE)"
    "\<And>j. j \<noteq> dd_id d \<Longrightarrow> umap_find doms j = umap_find (im_domains st) j"
    "\<And>q. q \<noteq> pd_id p \<Longrightarrow> umap_find (im_providers st) q = None \<Longrightarrow> umap_find provs q = None"
proof -
  let ?pr = "\<lparr>pr_descriptor = p, pr_lifecycle = Lifecycle.REGISTERED, pr_registeredAtMs = t\<rparr>"
  let ?dm = "umap_put (dd_id d) \<lparr>dr_descriptor = d, dr_lifecycle = Lifecycle.REGISTERED\<rparr> (im_domains st)"
  define st3 where "st3 = st\<lparr>im_providers := umap_put (pd_id p) ?pr (im_providers st), im_domains := ?dm,
      im_regions := umap_put (rd_id r) (declared_region r) (im_regions st)\<rparr>"
  have ok: "authorityAcceptableLocked s a" if "im_epoch s = im_epoch st" for s
    using operator_acceptable [of a s] st that by simp
  have run: "run_ops ops st = snd (publishRegionEvidence t' e a st3)"
    "accepted ops st \<longleftrightarrow> fst (run_op (PublishRegionEvidence t' e a) st3) = None"
    using registerProvider_fresh [OF p(1) ok p(2), of t] d r
    by (simp_all add: ops_def registerDomain_fresh registerRegion_fresh ok st3_def declared_region_def outcome_ok)
  have "declared_for st3 e" using e by (auto simp: declared_for_def st3_def)
  from publish_declared [OF ok this, of t'] st obtain rr regs provs
    where pub: "publishRegionEvidence t' e a st3 = (ok (), st3\<lparr>im_regions := regs, im_providers := provs\<rparr>)"
      and regs: "\<forall>j. umap_find regs j = (if j = rd_id r then Some rr else umap_find (im_regions st3) j)"
      and rr: "Some r = Some (rr_descriptor rr)" "brought_online e rr"
      and provs: "providers_kept (im_providers st3) provs"
    using e(3) by (auto simp: st3_def declared_region_def new_region_def)
  have kept: "\<exists>y. umap_find provs q = Some y \<and> pr_descriptor y = pr_descriptor x \<and>
      (pr_lifecycle y = pr_lifecycle x \<or> pr_lifecycle y = Lifecycle.ONLINE)"
    if "umap_find (im_providers st3) q = Some x" for q x
    using providers_keptD [OF provs that] .
  have none: "umap_find provs q = None" if "umap_find (im_providers st3) q = None" for q
    using provs [unfolded providers_kept_def, rule_format, of q] that by simp
  have "umap_find (im_providers st3) (pd_id p) = Some ?pr" by (simp add: st3_def)
  from kept [OF this] obtain pr where pr: "umap_find provs (pd_id p) = Some pr" "pr_descriptor pr = p"
      "pr_lifecycle pr = Lifecycle.REGISTERED \<or> pr_lifecycle pr = Lifecycle.ONLINE" by auto
  show thesis
  proof (rule that [where regs = regs and provs = provs and doms = ?dm and rr = rr and pr = pr])
    show "accepted ops st" using run(2) pub by (simp add: outcome_ok)
    show "run_ops ops st = st\<lparr>im_providers := provs, im_domains := ?dm, im_regions := regs\<rparr>"
      using run(1) pub by (simp add: st3_def)
    show "umap_find regs j = (if j = rd_id r then Some rr else umap_find (im_regions st) j)" for j
      using regs by (simp add: st3_def)
    show "\<exists>y. umap_find provs q = Some y \<and> pr_descriptor y = pr_descriptor x \<and>
        (pr_lifecycle y = pr_lifecycle x \<or> pr_lifecycle y = Lifecycle.ONLINE)"
      if x: "umap_find (im_providers st) q = Some x" for q x
    proof -
      have "q \<noteq> pd_id p" using x p(2) by auto
      then show ?thesis using kept [of q x] x by (simp add: st3_def)
    qed
    show "umap_find provs q = None" if "q \<noteq> pd_id p" "umap_find (im_providers st) q = None" for q
      using none [of q] that by (simp add: st3_def)
  qed (use pr rr in \<open>simp_all\<close>)
qed

section \<open>The fabric before the selection\<close>

text \<open>At most the host memory is registered.\<close>

definition host_only :: "u64 \<Rightarrow> Impl \<Rightarrow> bool" where
  "host_only ram st \<longleftrightarrow>
     im_epoch st = cuda_epoch \<and> im_reservations st = [] \<and> im_consumers st = [] \<and>
     umap_find (im_providers st) (TypedId 50) = None \<and> umap_find (im_domains st) (TypedId 2) = None \<and>
     umap_find (im_regions st) (TypedId 50) = None \<and>
     (\<forall>j rr. umap_find (im_regions st) j = Some rr \<longrightarrow> rr_descriptor rr = system_region ram \<and>
        (\<exists>pr. umap_find (im_providers st) (TypedId 1) = Some pr \<and> pr_descriptor pr = system_provider ram))"

lemma cuda_operator: "au_epoch cuda_authority = cuda_epoch" "null (au_worker cuda_authority)"
  by (simp_all add: cuda_authority_def operator_authority_def)

lemma host_registered:
  "accepted (host_ops clk (makeDiscovery ram ''system'')) (new_fabric cuda_epoch) \<and>
   host_only (totalPhysicalRam ram) (run_ops (host_ops clk (makeDiscovery ram ''system'')) (new_fabric cuda_epoch))"
proof (cases "totalPhysicalRam ram = 0")
  case True
  then show ?thesis by (simp add: host_ops_def makeDiscovery_def SystemDiscovery_def Let_def host_only_def new_fabric_def)
next
  case False
  let ?ram = "totalPhysicalRam ram" and ?st = "new_fabric cuda_epoch"
  let ?d = "\<lparr>dd_id = TypedId 1, dd_generation = TypedId 1, dd_name = ''host-system-memory'',
      dd_origin = OriginClass.REAL, dd_failureDomain = null_id\<rparr>"
  have ops: "host_ops clk (makeDiscovery ram ''system'') =
      [RegisterProvider (clk 0) (system_provider ?ram) cuda_authority, RegisterDomain ?d cuda_authority,
       RegisterRegion (system_region ?ram) cuda_authority,
       PublishRegionEvidence (clk 1) (system_evidence ?ram cuda_epoch) cuda_authority]"
    using False by (simp add: host_ops_def makeDiscovery_def SystemDiscovery_def Let_def word_gt_0)
  show ?thesis
    unfolding ops
    by (rule add_device [of cuda_authority ?st "system_provider ?ram" ?d "system_region ?ram" "system_evidence ?ram cuda_epoch"
          "clk 0" "clk 1"])
      (use False system_valid [of ?ram] in \<open>auto simp: cuda_operator new_fabric_def system_keys system_evidence_keys
        host_only_def split: if_splits\<close>)
qed

lemma cuda_fabric_state:
  obtains rr pr where "accepted (cuda_ops clk (makeDiscovery ram ''system'')) (new_fabric cuda_epoch)"
    "umap_find (im_regions (cuda_fabric clk ram)) (TypedId 50) = Some rr" "rr_descriptor rr = cuda_region" "brought_online cuda_evidence rr"
    "umap_find (im_providers (cuda_fabric clk ram)) (TypedId 50) = Some pr" "pr_descriptor pr = cuda_provider"
    "pr_lifecycle pr = Lifecycle.REGISTERED \<or> pr_lifecycle pr = Lifecycle.ONLINE"
    "\<And>j x. j \<noteq> TypedId 50 \<Longrightarrow> umap_find (im_regions (cuda_fabric clk ram)) j = Some x \<Longrightarrow>
      rr_descriptor x = system_region (totalPhysicalRam ram) \<and>
      (\<exists>y. umap_find (im_providers (cuda_fabric clk ram)) (TypedId 1) = Some y \<and> pr_descriptor y = system_provider (totalPhysicalRam ram))"
    "im_reservations (cuda_fabric clk ram) = []" "im_consumers (cuda_fabric clk ram) = [(TypedId 77, TypedId 1)]"
    "im_epoch (cuda_fabric clk ram) = cuda_epoch"
proof -
  let ?sys = "makeDiscovery ram ''system''"
  define st where "st = run_ops (host_ops clk ?sys) (new_fabric cuda_epoch)"
  have h: "accepted (host_ops clk ?sys) (new_fabric cuda_epoch)" "host_only (totalPhysicalRam ram) st"
    using host_registered [of clk ram] by (simp_all add: st_def)
  define n where "n = length (di_providers ?sys) + length (di_initialEvidence ?sys cuda_epoch)"
  let ?ops = "[RegisterProvider (clk n) cuda_provider cuda_authority, RegisterDomain cuda_domain cuda_authority,
      RegisterRegion cuda_region cuda_authority, PublishRegionEvidence (clk (n + 1)) cuda_evidence cuda_authority]"
  have keys: "provider_valid cuda_provider" "region_valid cuda_region" "pd_id cuda_provider = TypedId 50"
      "dd_id cuda_domain = TypedId 2" "rd_id cuda_region = TypedId 50"
    by (simp_all add: provider_valid_def region_valid_def cuda_provider_def cuda_region_def cuda_domain_def
        descriptor_defaults capabilityContradiction_def)
  obtain regs provs doms rr pr where dev: "accepted ?ops st"
      "run_ops ?ops st = st\<lparr>im_providers := provs, im_domains := doms, im_regions := regs\<rparr>"
      "\<And>j. umap_find regs j = (if j = TypedId 50 then Some rr else umap_find (im_regions st) j)"
      "rr_descriptor rr = cuda_region" "brought_online cuda_evidence rr"
      "umap_find provs (TypedId 50) = Some pr" "pr_descriptor pr = cuda_provider" "pr_lifecycle pr = Lifecycle.REGISTERED \<or> pr_lifecycle pr = Lifecycle.ONLINE"
      "\<And>q x. umap_find (im_providers st) q = Some x \<Longrightarrow> \<exists>y. umap_find provs q = Some y \<and>
         pr_descriptor y = pr_descriptor x \<and> (pr_lifecycle y = pr_lifecycle x \<or> pr_lifecycle y = Lifecycle.ONLINE)"
    by (rule add_device [of cuda_authority st cuda_provider cuda_domain cuda_region cuda_evidence "clk n" "clk (n + 1)"])
      (use h(2) keys in \<open>auto simp: host_only_def cuda_operator\<close>,
        simp_all add: cuda_domain_def cuda_region_def cuda_provider_def cuda_evidence_def cuda_epoch_def)
  let ?st = "st\<lparr>im_providers := provs, im_domains := doms, im_regions := regs\<rparr>"
  have st: "im_epoch st = cuda_epoch" "im_reservations st = []" "im_consumers st = []" using h(2) by (simp_all add: host_only_def)
  have last: "run_op (RegisterConsumer (TypedId 77) (TypedId 1) cuda_authority) ?st =
      (None, ?st\<lparr>im_consumers := [(TypedId 77, TypedId 1)]\<rparr>)"
    using operator_acceptable [of cuda_authority ?st] cuda_operator st by (simp add: registerConsumer_def umap_put_def)
  have ops: "cuda_ops clk ?sys = host_ops clk ?sys @ ?ops @ [RegisterConsumer (TypedId 77) (TypedId 1) cuda_authority]"
    by (simp add: cuda_ops_def Let_def n_def)
  have f: "accepted (cuda_ops clk ?sys) (new_fabric cuda_epoch)"
      "cuda_fabric clk ram = ?st\<lparr>im_consumers := [(TypedId 77, TypedId 1)]\<rparr>"
    unfolding ops cuda_fabric_def using h(1) dev(1,2) last st_def
    by (simp_all add: accepted_append run_ops_append del: run_op.simps)
  show thesis
  proof (rule that [OF f(1)])
    show "umap_find (im_regions (cuda_fabric clk ram)) (TypedId 50) = Some rr" using dev(3) by (simp add: f(2))
    show "rr_descriptor x = system_region (totalPhysicalRam ram) \<and>
      (\<exists>y. umap_find (im_providers (cuda_fabric clk ram)) (TypedId 1) = Some y \<and> pr_descriptor y = system_provider (totalPhysicalRam ram))"
      if "j \<noteq> TypedId 50" "umap_find (im_regions (cuda_fabric clk ram)) j = Some x" for j x
      using that dev(3) [of j] h(2) dev(9) [of "TypedId 1"] by (fastforce simp: f(2) host_only_def)
  qed (use dev(4-8) st in \<open>simp_all add: f(2)\<close>)
qed

section \<open>The accelerator is served by the synthetic region\<close>

lemma cuda_fabric_consistent:
  "consistent (cuda_fabric clk ram)" "unat (im_reservationIdAlloc (cuda_fabric clk ram)) \<le> 10"
proof -
  let ?ops = "cuda_ops clk (makeDiscovery ram ''system'')"
  have "length ?ops \<le> 9" by (simp add: cuda_ops_def host_ops_def makeDiscovery_def SystemDiscovery_def Let_def)
  moreover have "fabric_reach (length ?ops) (cuda_fabric clk ram)"
    using run_ops_reach [OF fabric_reach.start] by (fastforce simp: cuda_fabric_def)
  ultimately show "consistent (cuda_fabric clk ram)" "unat (im_reservationIdAlloc (cuda_fabric clk ram)) \<le> 10"
    using reach_consistent [of "length ?ops" "cuda_fabric clk ram"] by simp_all
qed

lemma cuda_ranking:
  "ranking (cuda_fabric clk ram) cuda_requirements \<noteq> []"
  "rc_region ` set (ranking (cuda_fabric clk ram) cuda_requirements) = {TypedId 50}"
proof -
  let ?f = "cuda_fabric clk ram"
  obtain rr pr where f: "umap_find (im_regions ?f) (TypedId 50) = Some rr" "rr_descriptor rr = cuda_region" "brought_online cuda_evidence rr"
      "umap_find (im_providers ?f) (TypedId 50) = Some pr" "pr_descriptor pr = cuda_provider"
      "pr_lifecycle pr = Lifecycle.REGISTERED \<or> pr_lifecycle pr = Lifecycle.ONLINE"
    and o: "\<And>j x. j \<noteq> TypedId 50 \<Longrightarrow> umap_find (im_regions ?f) j = Some x \<Longrightarrow>
      rr_descriptor x = system_region (totalPhysicalRam ram) \<and>
      (\<exists>y. umap_find (im_providers ?f) (TypedId 1) = Some y \<and> pr_descriptor y = system_provider (totalPhysicalRam ram))"
    by (rule cuda_fabric_state [of clk ram]) blast
  have "usable_now ?f cuda_requirements pr rr"
    using f(3,6) by (auto simp: usable_now_def brought_online_def cuda_evidence_def)
  moreover have "meets_requirements ?f cuda_requirements pr rr"
    using f(2,3,5) by (simp add: meets_requirements_def supports_def cuda_requirements_def cuda_provider_def cuda_region_def
        cuda_evidence_def descriptor_defaults default_ConsumerRequirements_def brought_online_def locality_fits_def null_id_def)
  ultimately have yes: "evaluateRegionEligibility ?f cuda_requirements rr = ELIGIBLE"
    using f(2,4) by (auto simp: eligible_iff cuda_region_def)
  have no: "evaluateRegionEligibility ?f cuda_requirements x \<noteq> ELIGIBLE" if "j \<noteq> TypedId 50" "umap_find (im_regions ?f) j = Some x" for j x
    using o [OF that] by (auto simp: eligible_iff system_keys meets_requirements_def supports_def cuda_requirements_def
        default_ConsumerRequirements_def system_provider_def system_region_def descriptor_defaults)
  have adm: "pool_admits cuda_requirements x" for x
    by (simp add: pool_admits_def cuda_requirements_def default_ConsumerRequirements_def)
  have "umap_wf (im_regions ?f)"
    using cuda_fabric_consistent(1) by (simp add: consistent_def accounting_def balanced_def)
  from ranked_iff [OF this, of _ cuda_requirements] have "i \<in> rc_region ` set (ranking ?f cuda_requirements) \<longleftrightarrow> i = TypedId 50" for i
    using yes no f(1) adm by (cases "i = TypedId 50") auto
  then show "rc_region ` set (ranking ?f cuda_requirements) = {TypedId 50}" by blast
  then show "ranking ?f cuda_requirements \<noteq> []" by auto
qed

lemma cuda_gate_permits:
  "\<exists>s f'. cuda_gate now (cuda_fabric clk ram) permitted =
     say (print_top s) (say (''governed authority CURRENT: reservation reserved+committed (CUDA path permitted)'' @ newline)
       (permitted f')) \<and> im_epoch f' = cuda_epoch \<and>
     rc_region ` set (sel_ranked s) = {TypedId 50} \<and>
     (\<exists>i r. umap_find (im_reservations f') i = Some r \<and> rs_state r = ReservationState.COMMITTED \<and> rs_region r = TypedId 50)"
proof -
  let ?f = "cuda_fabric clk ram" and ?q = cuda_requirements and ?a = cuda_authority
  have f: "im_reservations ?f = []" "im_consumers ?f = [(TypedId 77, TypedId 1)]" "im_epoch ?f = cuda_epoch"
    by (rule cuda_fabric_state [of clk ram], assumption)+
  have v: "valid_request ?q" "rq_requiredBytes ?q \<noteq> 0" by (simp_all add: valid_request_def cuda_requirements_def)
  have acc: "authorityAcceptableLocked st ?a" if "im_epoch st = cuda_epoch" for st
    using operator_acceptable [of ?a st] cuda_operator that by simp
  obtain s f1 where ev: "evaluateLocked ?q ?f = (s, f1)" by (metis prod.collapse)
  obtain m n where f1: "f1 = ?f\<lparr>im_selectionIdAlloc := m, im_selectionGenAlloc := n\<rparr>"
    using evaluate_parts(2) [of ?q ?f] ev by auto
  have s: "sel_ranked s = ranking ?f ?q" using evaluate_parts(1) [of ?q ?f] ev by simp
  have sel: "select ?q ?a ?f = (ok s, f1)" using acc [OF f(3)] v(2) ev by (simp add: select_def)
  have c: "consistent f1" using cuda_fabric_consistent(1) by (simp add: f1)
  have al: "im_reservationIdAlloc f1 \<noteq> UINT64_MAX" using cuda_fabric_consistent(2) [of clk ram] by (auto simp: f1)
  have e1: "im_epoch f1 = cuda_epoch" "im_consumers f1 = [(TypedId 77, TypedId 1)]" "im_reservations f1 = []" using f by (simp_all add: f1)
  obtain best rest where best: "ranking f1 ?q = best # rest"
    using cuda_ranking(1) [of clk ram] by (auto simp: f1 ranking_allocators neq_Nil_conv)
  have g: "umap_find (im_consumers f1) (rq_consumer ?q) \<in> {None, Some (rq_consumerGeneration ?q)}"
    using e1 by (simp add: umap_find_def cuda_requirements_def)
  let ?i = "TypedId (im_reservationIdAlloc f1) :: ReservationId"
  obtain st1 r where req: "requestReservation now ?q ?a f1 = (ok ?i, st1)"
    and r: "umap_find (im_reservations st1) ?i = Some r" "rs_state r = ReservationState.RESERVED" "rs_region r = rc_region best"
    using request_grants [OF c acc [OF e1(1)] v(1) best, of now] by blast
  have c1: "consistent st1" using requestReservation_consistent [OF c al, of now ?q ?a] req by simp
  have e2: "im_epoch st1 = cuda_epoch" by (rule request_ok_shape [OF req]) (simp add: e1(1))
  obtain st2 where com: "commitReservation ?i ?a st1 = (ok (r\<lparr>rs_state := ReservationState.COMMITTED\<rparr>), st2)"
    and r2: "\<forall>k. umap_find (im_reservations st2) k =
      (if k = ?i then Some (r\<lparr>rs_state := ReservationState.COMMITTED\<rparr>) else umap_find (im_reservations st1) k)"
    using commit_accepts [OF c1 acc [OF e2] r(1,2) fresh_commit_allowed [OF c c1 req cuda_operator(2) best r(1,3,2) g]] by blast
  have gate: "cuda_gate now ?f permitted = say (print_top s) (say (''governed authority CURRENT: '' @
      ''reservation reserved+committed (CUDA path permitted)'' @ newline) (permitted st2))"
    using sel req com s cuda_ranking(1) [of clk ram] by (simp add: cuda_gate_def ok_def)
  have "rc_region best \<in> rc_region ` set (ranking ?f ?q)" using best by (simp add: f1 ranking_allocators)
  then have "rc_region best = TypedId 50" unfolding cuda_ranking(2) by simp
  moreover have "im_epoch st2 = cuda_epoch" using commit_epoch [of ?i ?a st1] com e2 by simp
  ultimately show ?thesis
    using gate s r2 r(3) cuda_ranking(2) [of clk ram]
    by (intro exI [of _ s] exI [of _ st2] conjI exI [of _ ?i] exI [of _ "r\<lparr>rs_state := ReservationState.COMMITTED\<rparr>"]) simp_all
qed

lemma stale_gate_blocks:
  assumes "im_epoch f = cuda_epoch"
  shows "stale_gate now f = (False, ''stale-authority reserve accepted? 0 (expected 0)'' @ newline @
    ''CUDA gate: stale authority rejected (launch blocked)'' @ newline)"
proof -
  let ?f = "setEpoch (TypedId 2) f"
  have "im_epoch ?f = TypedId 2" using assms by (simp add: setEpoch_def cuda_epoch_def Let_def case_prod_beta word_le_nat_alt)
  then have "\<not> authorityAcceptableLocked ?f cuda_authority"
    by (simp add: authorityAcceptableLocked_def cuda_operator cuda_epoch_def)
  then show ?thesis by (simp add: stale_gate_def requestReservation_def fail_def show_bool_def)
qed

section \<open>The verdict\<close>

definition cuda_calls :: "string list" where
  "cuda_calls = [''cudaGetDeviceProperties'', ''cudaMemGetInfo baseline'', ''cudaMallocHost'', ''cudaMalloc'', ''H2D'',
     ''kernel'', ''sync'', ''D2H'', ''cudaFree'', ''cudaFreeHost'', ''cudaMemGetInfo after'']"

lemma check_code: "fst (cuda_check rt what next) = 0 \<longleftrightarrow> cu_error rt what = None \<and> fst next = 0"
  by (simp add: cuda_check_def split: option.split)

lemma say_code [simp]: "fst (say text next) = fst next"
  by (simp add: say_def)

lemma stage_code:
  "fst (cuda_stage rt next) = 0 \<longleftrightarrow>
     (\<forall>w \<in> set [''cudaMallocHost'', ''cudaMalloc'', ''H2D'', ''kernel'', ''sync'', ''D2H'', ''cudaFree'', ''cudaFreeHost''].
        cu_error rt w = None) \<and> fst (next (fst (parity (staged rt)))) = 0"
  by (auto simp: cuda_stage_def check_code case_prod_beta Let_def)

lemma finish_code:
  "fst (cuda_finish rt okay) = 0 \<longleftrightarrow>
     cu_error rt ''cudaMemGetInfo after'' = None \<and> okay \<and> fst (cu_baseline rt) \<le> fst (cu_after rt)"
  by (simp add: cuda_finish_def check_code Let_def)

text \<open>
  C19. The CUDA demonstration fails only where CUDA fails. Whatever the machine's memory and the clock, none
  of its calls on the fabric is refused, the selection ranks exactly the synthetic region, the reservation
  is granted there and committed, and the authority is refused once the epoch has advanced. So the exit
  code is 0 exactly when the device count could be read and either there is no device, or every runtime
  call succeeds, the buffer read back is the expected one and the free device memory has not shrunk. With
  a runtime whose copies deliver the data and whose launches run every thread once, in any order, the
  buffer is the expected one.
\<close>
theorem cuda_verdict:
  "accepted (cuda_ops clk (makeDiscovery ram ''system'')) (new_fabric cuda_epoch) \<and>
   rc_region ` set (ranking (cuda_fabric clk ram) cuda_requirements) = {TypedId 50} \<and>
   (fst (cuda_main rt clk now now2 ram) = 0 \<longleftrightarrow>
      cu_error rt ''cudaGetDeviceCount'' = None \<and>
      (cu_ndev rt = 0 \<or>
       (\<forall>w \<in> set cuda_calls. cu_error rt w = None) \<and> fst (parity (staged rt)) \<and>
       fst (cu_baseline rt) \<le> fst (cu_after rt))) \<and>
   (faithful_runtime rt \<longrightarrow> fst (parity (staged rt)))"
proof -
  let ?k = "\<lambda>f. cuda_stage rt (\<lambda>okay. let (staleAllowed, text) = stale_gate now2 f in
      say text (cuda_finish rt (okay \<and> \<not> staleAllowed)))"
  obtain s f' where gate: "cuda_gate now (cuda_fabric clk ram) ?k = say (print_top s)
      (say (''governed authority CURRENT: reservation reserved+committed (CUDA path permitted)'' @ newline) (?k f'))"
    and e: "im_epoch f' = cuda_epoch"
    using cuda_gate_permits [of now clk ram ?k] by blast
  have "fst (cuda_gate now (cuda_fabric clk ram) ?k) = 0 \<longleftrightarrow>
      (\<forall>w \<in> set (drop 2 cuda_calls). cu_error rt w = None) \<and> fst (parity (staged rt)) \<and> fst (cu_baseline rt) \<le> fst (cu_after rt)"
    unfolding gate say_code stage_code stale_gate_blocks [OF e] by (auto simp: finish_code cuda_calls_def)
  then have "fst (cuda_main rt clk now now2 ram) = 0 \<longleftrightarrow> cu_error rt ''cudaGetDeviceCount'' = None \<and>
      (cu_ndev rt = 0 \<or> (\<forall>w \<in> set cuda_calls. cu_error rt w = None) \<and> fst (parity (staged rt)) \<and>
       fst (cu_baseline rt) \<le> fst (cu_after rt))"
    by (auto simp: cuda_main_def check_code cuda_calls_def)
  moreover have "accepted (cuda_ops clk (makeDiscovery ram ''system'')) (new_fabric cuda_epoch)"
    by (rule cuda_fabric_state [of clk ram])
  ultimately show ?thesis using cuda_ranking(2) parity_faithful by blast
qed

definition ideal_runtime :: CudaRuntime where
  "ideal_runtime =
     \<lparr>cu_error = (\<lambda>_. None), cu_ndev = 1, cu_name = ''gpu'', cu_major = 8, cu_minor = 6, cu_totalGlobalMem = 8589934592,
      cu_baseline = (1000, 2000), cu_after = (1000, 2000), cu_hostToDevice = (\<lambda>d. d), cu_deviceToHost = (\<lambda>d. d),
      cu_order = (\<lambda>grid block. List.product [0..<grid] [0..<block])\<rparr>"

theorem cuda_verdict_witness:
  "faithful_runtime ideal_runtime \<and> fst (cuda_main ideal_runtime (\<lambda>i. of_nat i) 7 8 (Some 4096)) = 0"
proof -
  have f: "faithful_runtime ideal_runtime"
    by (auto simp: faithful_runtime_def ideal_runtime_def distinct_product)
  then show ?thesis
    using cuda_verdict [of "\<lambda>i. of_nat i" "Some 4096" ideal_runtime 7 8] by (simp add: ideal_runtime_def)
qed

end
