(* ===== verification/Spec2Isabelle.thy ===== *)
theory Spec2Isabelle
  imports Pools Cursor Snapshot Protocol Session Sockets CudaProof
begin

text \<open>
  A verification development for Memory Expansion Fabric, a C++ runtime that keeps an exact account of
  expansion memory (providers, regions, pools), selects regions for consumers deterministically, and
  grants, commits and releases reservations under a fencing discipline of epochs and generations.

  \<^bold>\<open>The program and its model.\<close> One theory per component, in the order in which they build on each other.

  \<^item> \<open>Prelude\<close>: fixed-width integers as words, \<open>std::unordered_map\<close> as an association list in arbitrary
    iteration order, with its laws as the locale \<open>unordered_map\<close>.
  \<^item> \<open>Ids\<close>, \<open>Enums\<close>, \<open>Capability\<close>, \<open>Types\<close>: \<open>id.hpp\<close>, \<open>authority.hpp\<close>, \<open>enums.hpp\<close>, \<open>result.hpp\<close>,
    \<open>capability.hpp\<close>, \<open>types.hpp\<close>. Structs are records, enums datatypes, \<open>Result<T>\<close> a sum.
  \<^item> \<open>Double\<close>: IEEE binary64 with round to nearest, which the scores of the selection use.
  \<^item> \<open>Ledger\<close>: \<open>capacity.hpp\<close>. Every transfer method interprets the locale \<open>ledger_move\<close>.
  \<^item> \<open>FabricState\<close>, \<open>Registry\<close>, \<open>Lifecycles\<close>: \<open>fabric_impl.hpp\<close> and \<open>fabric.cpp\<close>: the state \<open>Impl\<close>, the
    lifecycle tables, authority, fencing, and one function per public method from the arguments and the
    state to the result and the new state. Clock readings are arguments (\<open>now\<close>).
  \<^item> \<open>Selection\<close>, \<open>Reserve\<close>: \<open>selection.cpp\<close> and \<open>reservation.cpp\<close>.
  \<^item> \<open>Snapshot\<close>: \<open>snapshot.cpp\<close>.
  \<^item> \<open>Crc\<close>, \<open>Bytes\<close>, \<open>EnumBytes\<close>, \<open>Frames\<close>, \<open>Protocol\<close>: \<open>protocol.hpp\<close> and \<open>protocol.cpp\<close>: checksum, byte
    reader and writer (locale \<open>codec\<close>), enumerations as bytes (locale \<open>byte_enum\<close>), frames, and the payload
    codecs (locale \<open>payload\<close>).
  \<^item> \<open>Storage\<close>: \<open>persistence.cpp\<close>, over the parsers and writers of \<open>Bytes\<close>. \<open>Cursor\<close>: its classes \<open>ByteReader\<close>
    and \<open>ByteWriter\<close> with buffer and position, and \<open>crc32\<close> with its static variables, which refine \<open>Bytes\<close> and
    \<open>Crc\<close> (locale \<open>cursor_method\<close>).
  \<^item> \<open>Backends\<close>, \<open>Format\<close>, \<open>Cli\<close>: \<open>backends.cpp\<close> and \<open>tools/cli.cpp\<close>: the structure each discovery backend
    reports (locale \<open>discovery\<close>, interpreted on all three), and the commands of the tool with their text.
  \<^item> \<open>Worker\<close>: \<open>worker.cpp\<close>: the command line and the frames a worker sends.
  \<^item> \<open>Coordinator\<close>: \<open>coordinator.cpp\<close>: a handler per frame type from the request, the local variables of the
    connection and the state of the coordinator to the effects on the world and the new states; the receive
    loop; spawning and monitoring of workers; command line, load and seed. \<open>Server\<close>: the process, in which
    connection threads and monitor threads take turns (\<open>proc_step\<close>, \<open>proc_reach\<close>). \<open>Sockets\<close>: the loop that
    sends a reply in pieces, and the listening socket.
  \<^item> \<open>CudaProof\<close>: \<open>proofs/cuda_proof.cu\<close>: the demonstration that gates an accelerator by a reservation, with the
    CUDA runtime as an argument.

  \<^bold>\<open>The proofs.\<close>

  \<^item> \<open>Accounting\<close>: which bytes reservations hold, and that every loop over the reservation table keeps the
    books balanced (locale \<open>reservation_sweep\<close>, and \<open>binding_predicate\<close> for the reasons to fence).
  \<^item> \<open>Ranking\<close>: eligibility, scores and the sorted ranking. \<open>Consistency\<close>: the invariant of the state and its
    preservation by every operation. \<open>Execution\<close>: calls as data, reachable states, from a new fabric or from
    a loaded one. \<open>Behaviour\<close> and \<open>Progress\<close>: what single operations do in consistent states, and what no
    operation ever does. \<open>Keys\<close>: every table is keyed by the identifiers of its entries, in reachable and in
    loaded states, so that saving and loading keeps every descriptor. \<open>Recovery\<close>: what a loaded state can do. \<open>Freshness\<close>: the
    locale \<open>region_rule\<close> of the rules about single region records that every call keeps; current evidence
    belongs to the current epoch and to this incarnation of its region, and after a load it was published after
    the load; what commits and selections do not look at. \<open>Pools\<close>: when the members that a pool lists and the
    memberships recorded on the regions, which selection reads, are the same. \<open>Scenario\<close>: a concrete run, the
    input of the witnesses.
  \<^item> \<open>Bringup\<close>: registrations and evidence on a fresh fabric are accepted, and a reservation goes from request
    to release and back to where it started; \<open>Cli\<close> applies it to the backends, \<open>CudaProof\<close> to its two devices. \<open>Server\<close>: streams in pieces,
    frame by frame service, and that every step of the coordinator process is at most one fabric call, which
    carries the invariant of the fabric over to the process. \<open>Spawning\<close>: a worker across both processes, from
    the command line that starts it to the region it brings online; how the operating system splits a
    command line is a parameter with the law \<open>splits_plain\<close>. \<open>Session\<close>: a client that reserves, commits and
    releases over one connection.

  The claims C1 to C18, C20, C22, C24 to C26, C33 to C37, C39 and C40 are in this theory, C19 in \<open>CudaProof\<close>,
  C21 in \<open>Cursor\<close>, C23 in \<open>Cli\<close>, C27 in \<open>Crc\<close>, C28 and C30 in \<open>Frames\<close>, C29 in \<open>Session\<close>, C31 and C32 in \<open>Protocol\<close>, C38 in \<open>Spawning\<close>.

  \<^bold>\<open>Bounds.\<close> No definition uses fuel: loops are structural recursion over lists or counts, and the
  recursions that are not (\<open>nextValue\<close>, which skips zero, the decimal digits of \<open>nat_to_string\<close>, \<open>serve\<close>,
  which takes frames from a buffer until none is left, and \<open>sendAll\<close>, which sends until no bytes are left) have
  termination proofs. Claims about reachable
  states assume fewer than \<open>2 ^ 64 - 1\<close> calls, so that the 64-bit reservation allocator, which moves by at
  most one per call, does not wrap around; for the coordinator process, whose start makes four calls, fewer
  than \<open>2 ^ 64 - 5\<close> steps. The round trips of the codecs assume the limits that the decoders enforce (strings
  of 1024 bytes, 8192 entries, payloads of 1 MiB on the wire and 64 MiB in a file).

  \<^bold>\<open>Not modelled.\<close> The mutexes: a fabric call is one atomic step, as the lock held during the whole of each
  method makes it, and so is the update of the handle table with the start of its monitor. The blocking
  calls themselves: what the operating system answers is an argument. The diagnostic lines that the worker
  and the connection threads print. The branches of the processes for systems other than Windows, which do
  nothing, and the Windows branch of the atomic rename. The members \<open>evidenceIdAlloc\<close>, \<open>evidenceGenAlloc\<close>
  and \<open>nowMs\<close> of \<open>Impl\<close>, and the functions \<open>processorCount\<close> and \<open>has\<close>, which no code uses. Binary32
  arithmetic beyond the integers from 0 to 7 that the CUDA demonstration computes with. The examples, the
  benchmark and the tests, which exercise the library on fixed inputs.
\<close>

section \<open>The fabric as a whole\<close>

text \<open>
  C1. Every state that fewer than \<open>2 ^ 64 - 1\<close> public calls can lead to, with any callers, arguments
  and interleaving, is consistent: every ledger satisfies its closure invariant, its reserved and
  committed buckets are exactly the bytes of the reservations that hold them, every such reservation
  is bound to the current generations, epoch and an open region, reservation identifiers are unique
  and below the allocator, and pool memberships name registered pools.
\<close>
theorem reachable_states_consistent:
  assumes "fabric_reach n st" "n < 2 ^ 64 - 1"
  shows "consistent st"
  using reach_consistent [OF assms] by simp

theorem reachable_states_consistent_witness: "fabric_reach 5 sc_held \<and> consistent sc_held"
  using reachable_states_consistent [OF sc_held_reach] sc_held_reach by simp

text \<open>
  C2. Exact accounting: in every reachable state, the bytes held by the reservations of a region, its
  free bytes and its draining and unavailable bytes add up to its online capacity, which does not
  exceed the capacity it was registered with. No byte is granted twice.
\<close>
theorem capacity_never_oversubscribed:
  assumes "fabric_reach n st" "n < 2 ^ 64 - 1" "umap_find (im_regions st) i = Some rr"
  shows "held_by_all Reserved i (im_reservations st) + held_by_all Committed i (im_reservations st) +
      unat (free (rr_ledger rr)) + unat (draining (rr_ledger rr)) + unat (unavailable (rr_ledger rr)) =
      unat (governedOnline (rr_ledger rr)) \<and>
    governedOnline (rr_ledger rr) \<le> rd_totalCapacityBytes (rr_descriptor rr)"
proof -
  have "balanced (im_regions st) (im_reservations st)"
    using reach_consistent [OF assms(1,2)] by (simp add: consistent_def accounting_def)
  note b = balancedD [OF this assms(3)]
  from b(1) show ?thesis
    unfolding invariant_iff bucket_sum_def b(3,4) b(2) [symmetric] by (simp add: word_le_nat_alt)
qed

theorem capacity_never_oversubscribed_witness:
  "held_by_all Reserved (TypedId 5) (im_reservations sc_held) +
     held_by_all Committed (TypedId 5) (im_reservations sc_held) + 1536 = 2048"
  using capacity_never_oversubscribed [OF sc_held_reach, of "TypedId 5" "sc_region_record\<lparr>rr_ledger := sc_reserved_ledger\<rparr>"]
  by (simp add: sc_held_eq umap_find_def sc_reserved_ledger_def)

text \<open>
  C3. A call whose authority is stale (another epoch, an unknown, dead, superseded or not re-registered
  worker) is refused with \<open>STALE_AUTHORITY\<close> and leaves the state untouched, for every operation that
  takes an authority except \<open>registerWorker\<close>, which is how a worker acquires one.
\<close>
theorem stale_authority_refused:
  assumes "op_authority o1 = Some a" "\<not> authorityAcceptableLocked st a"
  shows "run_op o1 st = (Some (Error STALE_AUTHORITY ''stale authority''), st)"
  by (rule stale_refused [OF assms])

theorem stale_authority_refused_witness:
  "run_op (ReleaseReservation (TypedId 1) (operator_authority (TypedId 2))) sc_held =
     (Some (Error STALE_AUTHORITY ''stale authority''), sc_held)"
proof (rule stale_authority_refused)
  show "\<not> authorityAcceptableLocked sc_held (operator_authority (TypedId 2))"
    by (simp add: authorityAcceptableLocked_def operator_authority_def sc_held_eq sc_ready_eq new_fabric_def sc_epoch_def)
qed simp

text \<open>
  C4. Advancing the coordinator epoch fences everything that was granted under the old one: afterwards
  no reservation holds bytes and no ledger has reserved or committed bytes, no worker is alive, and
  every region that has evidence must be revalidated.
\<close>
theorem epoch_advance_fences_all:
  assumes "fabric_reach n st" "n < 2 ^ 64 - 1" "id_value (im_epoch st) < id_value e"
  shows "im_epoch (setEpoch e st) = e \<and>
    (\<forall>k r. umap_find (im_reservations (setEpoch e st)) k = Some r \<longrightarrow> holds r = None) \<and>
    (\<forall>i rr. umap_find (im_regions (setEpoch e st)) i = Some rr \<longrightarrow>
       reserved (rr_ledger rr) = 0 \<and> committed (rr_ledger rr) = 0 \<and>
       (rr_hasEvidence rr \<longrightarrow> rr_evidenceStatus rr = EvidenceStatus.REVALIDATION_REQUIRED) \<and>
       rr_lifecycle rr \<notin> {RegionLifecycle.ONLINE, RegionLifecycle.DEGRADED, RegionLifecycle.DECLARED}) \<and>
    (\<forall>w b. \<not> workerAlive w b (setEpoch e st))"
proof -
  have c: "consistent st" using reach_consistent [OF assms(1,2)] by simp
  note f = setEpoch_fences [OF c assms(3)]
  have z: "bytes_at (im_regions (setEpoch e st)) i b = 0" if "b \<in> {Reserved, Committed}" for i b
    using that f(2) by (intro no_holder_no_bytes [OF setEpoch_consistent [OF c]]) auto
  have "reserved (rr_ledger rr) = 0" "committed (rr_ledger rr) = 0"
    if "umap_find (im_regions (setEpoch e st)) i = Some rr" for i rr
    using z [of Reserved i] z [of Committed i] that by (simp_all add: bytes_at_find word_unat_eq_iff)
  moreover have "\<not> workerAlive w b (setEpoch e st)" for w b
    using f(3) by (auto simp: workerAlive_def split: option.split)
  ultimately show ?thesis using f(1,2,4) by fastforce
qed

theorem epoch_advance_fences_all_witness:
  "map_option holds (umap_find (im_reservations (setEpoch (TypedId 2) sc_held)) (TypedId 1)) = Some None"
proof -
  have "id_value (im_epoch sc_held) < id_value (TypedId 2 :: CoordinatorEpoch)"
    by (simp add: sc_held_eq sc_ready_eq new_fabric_def sc_epoch_def)
  moreover have "umap_find (im_reservations (setEpoch (TypedId 2) sc_held)) (TypedId 1) \<noteq> None"
    by (simp add: setEpoch_def sc_held_eq sc_ready_eq new_fabric_def sc_epoch_def Let_def case_prod_beta umap_find_def)
  ultimately show ?thesis using epoch_advance_fences_all [OF sc_held_reach, of "TypedId 2"] by fastforce
qed



section \<open>Reservations\<close>



text \<open>
  C7. The tables are well keyed: in every reachable state a provider, domain, region, pool, policy or
  reservation stands under the identifier in its own descriptor, and the evidence recorded for a region is
  evidence about that region, whatever the callers pass and whatever a loaded file holds. So a pointer found
  under an identifier is the thing of that name, which the code relies on without checking it.
\<close>
theorem tables_keyed_by_identity:
  assumes "fabric_reach n st"
  shows "(\<forall>i p. umap_find (im_providers st) i = Some p \<longrightarrow> pd_id (pr_descriptor p) = i) \<and>
    (\<forall>i d. umap_find (im_domains st) i = Some d \<longrightarrow> dd_id (dr_descriptor d) = i) \<and>
    (\<forall>i r. umap_find (im_regions st) i = Some r \<longrightarrow>
       rd_id (rr_descriptor r) = i \<and> (rr_hasEvidence r \<longrightarrow> eh_region (ev_header (rr_latest r)) = i)) \<and>
    (\<forall>i p. umap_find (im_pools st) i = Some p \<longrightarrow> pl_id (plr_descriptor p) = i) \<and>
    (\<forall>i p. umap_find (im_policies st) i = Some p \<longrightarrow> po_id p = i) \<and>
    (\<forall>i r. umap_find (im_reservations st) i = Some r \<longrightarrow> rs_id r = i)"
proof -
  note k = keyed_parts [OF reach_keyed [OF assms]]
  have "rd_id (rr_descriptor r) = i \<and> (rr_hasEvidence r \<longrightarrow> eh_region (ev_header (rr_latest r)) = i)"
    if "umap_find (im_regions st) i = Some r" for i r
    using each_find [OF k(3) that] by (simp add: region_keyed_def)
  then show ?thesis
    by (intro conjI allI impI each_find [OF k(1)] each_find [OF k(2)] each_find [OF k(4)] each_find [OF k(5)] each_find [OF k(6)])
      blast+
qed

theorem tables_keyed_by_identity_witness:
  "umap_find (im_reservations sc_held) (TypedId 1) = Some sc_reservation \<and> rs_id sc_reservation = TypedId 1"
  using tables_keyed_by_identity [OF sc_held_reach] sc_held_lookups(1) by blast

text \<open>
  C8. A release returns what is held, once. In a reachable state, releasing a reservation that holds bytes
  always succeeds (the branches that report a missing region, another generation, another epoch or a
  ledger failure are dead): exactly its bytes return to the free bucket of its region, and no other region
  or reservation changes. A reservation that holds no bytes (released, cancelled, fenced, expired or
  waiting for revalidation) is not releasable, and the state is unchanged.
\<close>
theorem release_returns_bytes:
  assumes "fabric_reach n st" "n < 2 ^ 64 - 1" "authorityAcceptableLocked st a"
    and "umap_find (im_reservations st) i = Some r"
  shows "case holds r of
    None \<Rightarrow> releaseReservation i a st = (fail INVALID_STATE_TRANSITION ''not releasable'', st)
  | Some b \<Rightarrow> (\<exists>st'. releaseReservation i a st = (ok (), st') \<and>
     (\<forall>j. bytes_at (im_regions st') j =
        (if j = rs_region r then move b Free (unat (rs_bytes r)) (bytes_at (im_regions st) j)
         else bytes_at (im_regions st) j)) \<and>
     (\<forall>k. umap_find (im_reservations st') k =
        (if k = i then Some (r\<lparr>rs_state := ReservationState.RELEASED\<rparr>) else umap_find (im_reservations st) k)))"
  using release_idle [OF assms(3,4)] release_succeeds [OF reach_consistent [OF assms(1,2), THEN conjunct1] assms(3,4)]
  by (cases "holds r") simp_all

theorem release_returns_bytes_witness:
  "fst (releaseReservation (TypedId 1) sc_worker sc_held) = ok ()"
  using release_returns_bytes [OF sc_held_reach _ sc_held_lookups(3,1)] sc_reservation_fields(8) by auto

text \<open>
  C10. A valid request is granted whenever the ranking is not empty, from its first candidate: the
  reservation gets the next identifier, which was not in use, records the caller and is bound to the
  current state; its bytes move from free to reserved in that region and nothing else changes. The
  branches that report a missing region or a failed ledger update are dead.
\<close>
theorem request_grants_best_candidate:
  assumes "fabric_reach n st" "n < 2 ^ 64 - 1" "authorityAcceptableLocked st a" "valid_request req"
    and "ranking st req = best # rest"
  shows "\<exists>st' r. requestReservation now req a st = (ok (TypedId (im_reservationIdAlloc st)), st') \<and>
     umap_find (im_reservations st') (TypedId (im_reservationIdAlloc st)) = Some r \<and>
     rs_state r = ReservationState.RESERVED \<and> rs_region r = rc_region best \<and>
     rs_bytes r = rq_requiredBytes req \<and> rs_consumer r = rq_consumer req \<and>
     rs_worker r = au_worker a \<and> rs_boot r = au_boot a \<and> rs_epoch r = im_epoch st \<and> bound st' r \<and>
     umap_find (im_reservations st) (TypedId (im_reservationIdAlloc st)) = None \<and>
     (\<forall>k. k \<noteq> TypedId (im_reservationIdAlloc st) \<longrightarrow>
        umap_find (im_reservations st') k = umap_find (im_reservations st) k) \<and>
     (\<forall>j. bytes_at (im_regions st') j =
        (if j = rc_region best
         then move Free Reserved (unat (rq_requiredBytes req)) (bytes_at (im_regions st) j)
         else bytes_at (im_regions st) j))"
  by (rule request_grants [OF reach_consistent [OF assms(1,2), THEN conjunct1] assms(3-5)])

theorem request_grants_best_candidate_witness:
  "fst (requestReservation 13 sc_request sc_worker sc_ready) = ok (TypedId 1)"
proof -
  obtain best where best: "ranking sc_ready sc_request = [best]" using sc_ranking by blast
  have "authorityAcceptableLocked sc_ready sc_worker" "valid_request sc_request" "im_reservationIdAlloc sc_ready = 1"
    by (simp_all add: authorityAcceptableLocked_def valid_request_def sc_ready_eq new_fabric_def sc_defs umap_find_def
        FirstValidValue_def)
  with request_grants_best_candidate [OF sc_ready_reach _ _ _ best, of sc_worker 13] show ?thesis by auto
qed

text \<open>
  C11. The reservation lifecycle: one call of any operation in a reachable state keeps every stored
  reservation, never changes what it is bound to (its identity, consumer, provider, region, pool,
  policy, selection, evidence, worker, epoch and bytes), and moves its state only along an edge of
  \<open>reservationStateAllowed\<close>. In particular a terminal reservation never comes back.
\<close>
theorem reservation_lifecycle_respected:
  assumes "fabric_reach n st" "n < 2 ^ 64 - 1" "umap_find (im_reservations st) k = Some r"
  shows "\<exists>r'. umap_find (im_reservations (snd (run_op o1 st))) k = Some r' \<and> same_binding r r' \<and>
    (rs_state r' = rs_state r \<or> reservationStateAllowed (rs_state r) (rs_state r'))"
  using run_op_table_step [OF reach_consistent [OF assms(1,2), THEN conjunct1]] assms(3)
  by (simp add: table_step_def resv_step_def)

theorem reservation_lifecycle_respected_witness:
  "\<exists>r'. umap_find (im_reservations (snd (run_op (SetEpoch (TypedId 2)) sc_held))) (TypedId 1) = Some r' \<and>
     rs_bytes r' = 512"
  using reservation_lifecycle_respected [OF sc_held_reach _ sc_held_lookups(1), of "SetEpoch (TypedId 2)"]
  by (auto dest: same_bindingD simp: sc_reservation_fields)

text \<open>
  C12. Generations never go back: no operation, from any state, lowers the epoch or the generation
  registered for a provider, region, domain, pool, policy or consumer, or forgets one.
\<close>
theorem generations_never_go_back:
  "im_epoch st \<le> im_epoch (snd (run_op o1 st)) \<and>
   advances (provider_gen st) (provider_gen (snd (run_op o1 st))) \<and>
   advances (region_gen st) (region_gen (snd (run_op o1 st))) \<and>
   advances (domain_gen st) (domain_gen (snd (run_op o1 st))) \<and>
   advances (pool_gen st) (pool_gen (snd (run_op o1 st))) \<and>
   advances (policy_gen st) (policy_gen (snd (run_op o1 st))) \<and>
   advances (consumer_gen st) (consumer_gen (snd (run_op o1 st)))"
  using run_op_advances [of st o1] by (simp only: generations_advance_def)

text \<open>
  C13. A failed call changes nothing: in a reachable state, an operation that returns an error leaves
  the state as it was. The exceptions are a request for a reservation, which has consumed selection
  identifiers, and a publication of evidence that asks for a lifecycle which is neither the region's own
  nor one the table allows from it (C15 shows what that does).
\<close>
theorem failed_call_changes_nothing:
  assumes "fabric_reach n st" "n < 2 ^ 64 - 1" "fst (run_op o1 st) \<noteq> None"
    and "\<forall>now req a. o1 \<noteq> RequestReservation now req a"
    and "\<forall>now e a rr. o1 = PublishRegionEvidence now e a \<longrightarrow> umap_find (im_regions st) (eh_region (ev_header e)) = Some rr \<longrightarrow>
        evidence_target e = rr_lifecycle rr \<or> regionLifecycleAllowed (rr_lifecycle rr) (evidence_target e)"
  shows "snd (run_op o1 st) = st"
  by (rule run_op_failure_exact [OF reach_consistent [OF assms(1,2), THEN conjunct1] assms(3-5)])

theorem failed_call_changes_nothing_witness:
  "snd (run_op (PublishRegionEvidence 14 sc_shrunk sc_worker) sc_held) = sc_held"
proof (rule failed_call_changes_nothing [OF sc_held_reach])
  have "\<not> fst (setOnline 256 sc_reserved_ledger)"
    by (simp add: setOnline_def sc_reserved_ledger_def Let_def)
  then show "fst (run_op (PublishRegionEvidence 14 sc_shrunk sc_worker) sc_held) \<noteq> None"
    by (simp add: publishRegionEvidence_def sc_held_eq sc_ready_eq new_fabric_def sc_shrunk_def sc_defs
        authorityAcceptableLocked_def umap_find_def sc_region_record_def Let_def case_prod_beta outcome_fail)
  have "umap_find (im_regions sc_held) (eh_region (ev_header sc_shrunk)) =
      Some (sc_region_record\<lparr>rr_ledger := sc_reserved_ledger\<rparr>)"
    using sc_held_lookups(2) by (simp add: sc_shrunk_def sc_evidence_def)
  then show "\<forall>now e a rr. PublishRegionEvidence 14 sc_shrunk sc_worker = PublishRegionEvidence now e a \<longrightarrow>
      umap_find (im_regions sc_held) (eh_region (ev_header e)) = Some rr \<longrightarrow>
      evidence_target e = rr_lifecycle rr \<or> regionLifecycleAllowed (rr_lifecycle rr) (evidence_target e)"
    by (simp add: evidence_target_def sc_shrunk_def sc_evidence_def sc_region_record_def)
qed simp_all

text \<open>
  C15. Without that proviso a refused publication does change the state: when a region must be
  revalidated (or is unavailable) and the operator publishes evidence of degraded health within capacity, the
  call returns \<open>INVALID_STATE_TRANSITION\<close> but has already replaced the evidence, marked it current and
  resized the ledger.
\<close>
theorem refused_degraded_evidence_is_recorded:
  assumes "authorityAcceptableLocked st a" "eh_epoch (ev_header e) = im_epoch st"
    and "umap_find (im_regions st) (eh_region (ev_header e)) = Some rr"
    and "eh_regionGeneration (ev_header e) = rd_generation (rr_descriptor rr)"
    and "umap_find (im_providers st) (eh_sourceProvider (ev_header e)) = Some p"
    and "eh_sourceProviderGeneration (ev_header e) = pd_generation (pr_descriptor p)"
    and "null (au_worker a)" "ev_onlineCapacityBytes e \<le> rd_totalCapacityBytes (rr_descriptor rr)"
    and "rr_lifecycle rr = RegionLifecycle.REVALIDATION_REQUIRED \<or> rr_lifecycle rr = RegionLifecycle.UNAVAILABLE"
    and "ev_health e = HealthState.DEGRADED" "fst (setOnline (ev_onlineCapacityBytes e) (rr_ledger rr))"
  shows "fails_with INVALID_STATE_TRANSITION (fst (publishRegionEvidence now e a st)) \<and>
    umap_find (im_regions (snd (publishRegionEvidence now e a st))) (eh_region (ev_header e)) =
      Some (record_evidence now e (snd (setOnline (ev_onlineCapacityBytes e) (rr_ledger rr))) rr)"
  using assms
  by (auto simp: publishRegionEvidence_def Let_def case_prod_beta evidence_target_def regionLifecycleAllowed_def)

theorem refused_degraded_evidence_is_recorded_witness:
  "let st = setEpoch (TypedId 2) sc_ready; a = operator_authority (TypedId 2) in
   fails_with INVALID_STATE_TRANSITION (fst (publishRegionEvidence 20 sc_degraded a st)) \<and>
   map_option rr_evidenceStatus (umap_find (im_regions (snd (publishRegionEvidence 20 sc_degraded a st))) (TypedId 5)) =
     Some EvidenceStatus.CURRENT"
proof -
  let ?st = "setEpoch (TypedId 2) sc_ready" and ?a = "operator_authority (TypedId 2)"
  let ?rr = "epoch_region sc_region_record"
  have st: "?st = sc_ready\<lparr>im_epoch := TypedId 2, im_workers := umap_map (\<lambda>w. w\<lparr>wr_alive := False\<rparr>) (im_workers sc_ready),
      im_regions := [(TypedId 5, ?rr)]\<rparr>"
    by (simp add: setEpoch_def sc_ready_eq new_fabric_def sc_epoch_def umap_map_def Let_def word_le_nat_alt)
  have rr: "?rr = sc_region_record\<lparr>rr_evidenceStatus := EvidenceStatus.REVALIDATION_REQUIRED,
      rr_lifecycle := RegionLifecycle.REVALIDATION_REQUIRED\<rparr>"
    by (simp add: epoch_region_def sc_region_record_def Let_def)
  have h: "eh_region (ev_header sc_degraded) = TypedId 5" by (simp add: sc_degraded_def sc_evidence_def)
  have led: "fst (setOnline 2048 (rr_ledger sc_region_record))"
    by (simp add: setOnline_def sc_region_record_def invariant_def Let_def)
  let ?p = "\<lparr>pr_descriptor = sc_provider, pr_lifecycle = Lifecycle.ONLINE, pr_registeredAtMs = 10\<rparr>"
  have f: "im_epoch ?st = TypedId 2" "umap_find (im_regions ?st) (TypedId 5) = Some ?rr"
      "umap_find (im_providers ?st) (TypedId 1) = Some ?p"
    unfolding st by (simp_all add: sc_ready_eq umap_find_def)
  have "fails_with INVALID_STATE_TRANSITION (fst (publishRegionEvidence 20 sc_degraded ?a ?st)) \<and>
    umap_find (im_regions (snd (publishRegionEvidence 20 sc_degraded ?a ?st))) (eh_region (ev_header sc_degraded)) =
      Some (record_evidence 20 sc_degraded (snd (setOnline (ev_onlineCapacityBytes sc_degraded) (rr_ledger ?rr))) ?rr)"
    by (rule refused_degraded_evidence_is_recorded [where p = ?p])
      (use led f in \<open>simp_all add: h rr authorityAcceptableLocked_def operator_authority_def sc_degraded_def sc_evidence_def\<close>,
       simp_all add: sc_region_record_def sc_provider_def sc_region_def)
  then show ?thesis by (simp add: Let_def h record_evidence_def)
qed

section \<open>Selection\<close>

text \<open>
  C16. Hard eligibility, exactly, and what it rests on. A region is eligible if and only if its provider is
  registered and usable, the region is online (or degraded where that is allowed) with current evidence and a
  reachable, non-failed device, and the conditions that the code tests hold: free bytes, demanded
  capabilities, persistence, alignment, granularity, latency, bandwidth, provider kinds, locality,
  forbidden failure domain and an existing policy. In a reachable state the figures that decide are those of
  the evidence the region received last, and this evidence is of the current epoch, about this region and
  about the current incarnation of it: nothing measured before a restart or about a replaced region makes
  one eligible. Four fields of the requirements are no conditions at all: the whole result of a selection
  is independent of \<open>failureDomainIsolationRequired\<close>, \<open>freshEvidenceRequired\<close>, \<open>stagingAcceptable\<close> and
  \<open>allowStaging\<close>.
\<close>
theorem eligibility_exact:
  "(evaluateRegionEligibility st req rr = ELIGIBLE \<longleftrightarrow>
     (\<exists>pr. umap_find (im_providers st) (rd_provider (rr_descriptor rr)) = Some pr \<and>
        usable_now st req pr rr \<and> meets_requirements st req pr rr)) \<and>
   (\<forall>n i. fabric_reach n st \<and> n < 2 ^ 64 - 1 \<and> umap_find (im_regions st) i = Some rr \<and>
      evaluateRegionEligibility st req rr = ELIGIBLE \<longrightarrow>
      eh_epoch (ev_header (rr_latest rr)) = im_epoch st \<and> eh_region (ev_header (rr_latest rr)) = i \<and>
      eh_regionGeneration (ev_header (rr_latest rr)) = rd_generation (rr_descriptor rr) \<and>
      rr_health rr = ev_health (rr_latest rr) \<and> rr_reachable rr = ev_reachable (rr_latest rr) \<and>
      rr_latencyNs rr = ev_latencyNs (rr_latest rr) \<and> rr_bandwidthBytesPerSec rr = ev_bandwidthBytesPerSec (rr_latest rr)) \<and>
   (\<forall>isolation fresh staging allow. evaluateLocked (with_ignored isolation fresh staging allow req) st = evaluateLocked req st)"
proof (intro conjI allI impI ignored_requirements eligible_iff)
  fix n i
  assume "fabric_reach n st \<and> n < 2 ^ 64 - 1 \<and> umap_find (im_regions st) i = Some rr \<and>
      evaluateRegionEligibility st req rr = ELIGIBLE"
  then have h: "fabric_reach n st" "n < 2 ^ 64 - 1" "umap_find (im_regions st) i = Some rr"
      "evaluateRegionEligibility st req rr = ELIGIBLE" by blast+
  show "eh_epoch (ev_header (rr_latest rr)) = im_epoch st" "eh_region (ev_header (rr_latest rr)) = i"
    "eh_regionGeneration (ev_header (rr_latest rr)) = rd_generation (rr_descriptor rr)"
    "rr_health rr = ev_health (rr_latest rr)" "rr_reachable rr = ev_reachable (rr_latest rr)"
    "rr_latencyNs rr = ev_latencyNs (rr_latest rr)" "rr_bandwidthBytesPerSec rr = ev_bandwidthBytesPerSec (rr_latest rr)"
    by (rule eligible_fresh [OF h])+
qed

theorem eligibility_exact_witness:
  "evaluateRegionEligibility sc_ready sc_request sc_region_record = ELIGIBLE \<and>
   eh_epoch (ev_header (rr_latest sc_region_record)) = im_epoch sc_ready \<and>
   evaluateLocked (with_ignored True True False False sc_request) sc_ready = evaluateLocked sc_request sc_ready"
proof -
  have "umap_find (im_regions sc_ready) (TypedId 5) = Some sc_region_record" by (simp add: sc_ready_eq umap_find_def)
  moreover have "(4 :: nat) < 2 ^ 64 - 1" by simp
  ultimately show ?thesis using eligibility_exact [of sc_ready sc_request sc_region_record] sc_ready_reach sc_eligible(1) by blast
qed

text \<open>
  C17. Selection is complete and sound, in every state that calls lead to from a new fabric or a loaded one:
  the ranked list contains every eligible region on which a membership of the preferred pool is recorded
  (every eligible region when no pool is preferred), each exactly once, and nothing else; every other
  region with that membership is reported as rejected with its reason, and no other region is. The recorded
  memberships are the members that the pool itself lists, so that selection serves the pool, as long as no
  call on the way was one of those that \<open>unsettles\<close> names: registering the pool with members or once more,
  and registering a region that the pool already lists. After those the code does select by something else
  than the members of the pool.
\<close>
theorem ranking_complete:
  assumes "load_bytes bytes = ok st0 \<or> st0 = new_fabric e" "length ops < 2 ^ 64 - 1" "st = run_ops ops st0"
    and "pool = rq_preferredPool req"
  shows "distinct (map rc_region (ranking st req)) \<and>
    (\<forall>i. i \<in> rc_region ` set (ranking st req) \<longleftrightarrow>
       (\<exists>rr. umap_find (im_regions st) i = Some rr \<and> (null pool \<or> pool \<in> fst ` set (rr_poolMemberships rr)) \<and>
          evaluateRegionEligibility st req rr = ELIGIBLE)) \<and>
    (\<forall>i why. (\<exists>c \<in> set (rejected_cands st req). ca_region c = i \<and> ca_reason c = why) \<longleftrightarrow>
       (\<exists>rr. umap_find (im_regions st) i = Some rr \<and> (null pool \<or> pool \<in> fst ` set (rr_poolMemberships rr)) \<and>
          evaluateRegionEligibility st req rr = why \<and> why \<noteq> ELIGIBLE)) \<and>
    (settled pool ops st0 \<longrightarrow>
       (\<forall>i rr. umap_find (im_regions st) i = Some rr \<longrightarrow>
          (pool \<in> fst ` set (rr_poolMemberships rr) \<longleftrightarrow>
           (\<exists>pl. umap_find (im_pools st) pool = Some pl \<and> i \<in> pm_region ` set (pl_members (plr_descriptor pl))))))"
proof -
  have "fabric_reach (length ops) st" using run_ops_reach [OF start_agrees(1) [OF assms(1)], of ops] assms(3) by simp
  then have w: "umap_wf (im_regions st)" using regions_wf assms(2) by blast
  have "pool \<in> fst ` set (rr_poolMemberships rr) \<longleftrightarrow>
      (\<exists>pl. umap_find (im_pools st) pool = Some pl \<and> i \<in> pm_region ` set (pl_members (plr_descriptor pl)))"
    if "settled pool ops st0" "umap_find (im_regions st) i = Some rr" for i rr
    using settled_listed [OF assms(1,2) that(1), of i rr] that(2) assms(3)
    by (simp add: indexed_def pool_lists_def split: option.split)
  then show ?thesis
    unfolding ranked_iff [OF w] rejected_iff [OF w] pool_admits_indexed indexed_def assms(4) [symmetric]
    using ranking_distinct [OF w] by auto
qed

theorem ranking_complete_witness:
  "\<exists>st. st = run_ops sc_pool_setup (new_fabric sc_epoch) \<and> TypedId 5 \<in> rc_region ` set (ranking st sc_pool_request) \<and>
     settled (TypedId 3) sc_pool_setup (new_fabric sc_epoch) \<and>
     (\<exists>pl. umap_find (im_pools st) (TypedId 3) = Some pl \<and> TypedId 5 \<in> pm_region ` set (pl_members (plr_descriptor pl)))"
proof -
  let ?st = "run_ops sc_pool_setup (new_fabric sc_epoch)"
  let ?rr = "sc_region_record\<lparr>rr_poolMemberships := [(TypedId 3, TypedId 1)]\<rparr>"
  have "length sc_pool_setup < 2 ^ 64 - 1" by (simp add: sc_pool_setup_def sc_setup_def)
  moreover have "TypedId 3 = rq_preferredPool sc_pool_request" by (simp add: sc_pool_request_def)
  ultimately have c: "(load_bytes [] = ok (new_fabric sc_epoch) \<or> new_fabric sc_epoch = new_fabric sc_epoch)"
      "length sc_pool_setup < 2 ^ 64 - 1" "?st = ?st" "TypedId 3 = rq_preferredPool sc_pool_request"
    by simp_all
  note complete = ranking_complete [OF c]
  have rr: "umap_find (im_regions ?st) (TypedId 5) = Some ?rr" "TypedId 3 \<in> fst ` set (rr_poolMemberships ?rr)"
    by (simp_all add: sc_pooled umap_find_def)
  have "TypedId 5 \<in> rc_region ` set (ranking ?st sc_pool_request)"
    unfolding complete [THEN conjunct2, THEN conjunct1, rule_format] using rr sc_pool_eligible by blast
  moreover have "\<exists>pl. umap_find (im_pools ?st) (TypedId 3) = Some pl \<and> TypedId 5 \<in> pm_region ` set (pl_members (plr_descriptor pl))"
    using complete [THEN conjunct2, THEN conjunct2, THEN conjunct2, rule_format, OF sc_pool_settled rr(1)] rr(2) by (rule iffD1)
  ultimately show ?thesis using sc_pool_settled by blast
qed

text \<open>
  C18. Selection is deterministic and documented: with a headroom factor that is a number, the ranked list is
  in order of descending score, then ascending region, provider and pool identifier, and it does not depend
  (scores and factors included) on the order in which the hash table of regions is iterated.
\<close>
theorem ranking_follows_tie_break:
  assumes "\<not> is_nan (rq_reserveHeadroomFactor req)"
  shows "sorted (map ranked_key (ranking st req)) \<and>
    (\<forall>regs. umap_wf (im_regions st) \<longrightarrow> mset regs = mset (im_regions st) \<longrightarrow>
       ranking (st\<lparr>im_regions := regs\<rparr>) req = ranking st req)"
  using ranking_is_sorted [OF assms] ranking_iteration_order [OF assms] by blast

theorem ranking_follows_tie_break_witness:
  "sorted (map ranked_key (ranking sc_two sc_request)) \<and>
   ranking (sc_two\<lparr>im_regions := rev (im_regions sc_two)\<rparr>) sc_request = ranking sc_two sc_request"
proof -
  have "\<not> is_nan (rq_reserveHeadroomFactor sc_request)" by (simp add: sc_request_def default_ConsumerRequirements_def)
  note ranking_follows_tie_break [OF this, of sc_two]
  moreover have "umap_wf (im_regions sc_two)" by (simp add: sc_two_def sc_ready_eq umap_wf_def)
  moreover have "mset (rev (im_regions sc_two)) = mset (im_regions sc_two)" by simp
  ultimately show ?thesis by blast
qed

text \<open>
  C20. With a headroom factor that is NaN the ranking is not deterministic: every score is NaN, the
  comparator orders nothing and the ranked regions stand in the iteration order of the hash table.
\<close>
theorem nan_headroom_ranks_by_hash_order:
  assumes "is_nan (rq_reserveHeadroomFactor req)" "0 < rq_requiredBytes req"
  shows "map rc_region (ranking st req) =
     map fst (filter (\<lambda>(rid, rr). evaluateRegionEligibility st req rr = ELIGIBLE) (admitted st req))"
  by (rule nan_ranking [OF assms])

theorem nan_headroom_ranks_by_hash_order_witness:
  "map rc_region (ranking sc_two (sc_request\<lparr>rq_reserveHeadroomFactor := quiet_nan\<rparr>)) = [TypedId 6, TypedId 5]"
proof -
  let ?req = "sc_request\<lparr>rq_reserveHeadroomFactor := quiet_nan\<rparr>"
  have "evaluateRegionEligibility sc_two ?req sc_region_record = ELIGIBLE"
    using evaluation_frame(1) [of sc_two sc_ready] sc_eligible(2) by (simp add: sc_two_def)
  moreover have "admitted sc_two ?req = [(TypedId 6, sc_region_record), (TypedId 5, sc_region_record)]"
    by (simp add: admitted_def sc_two_def pool_admits_def sc_request_def default_ConsumerRequirements_def)
  ultimately show ?thesis
    using nan_headroom_ranks_by_hash_order [of ?req sc_two] by (simp add: sc_request_def)
qed

section \<open>The capacity ledger\<close>

text \<open>
  C22. Each of the eleven transfer methods of the ledger refines a move between two buckets of an
  unbounded ledger: on a ledger that satisfies the invariant it succeeds exactly when the source holds
  the bytes, then moves exactly them, keeps the invariant, the total and the online capacity; a refusal
  leaves the ledger as it was. The overflow and rollback branches are dead. The twelfth method,
  \<open>setOnline\<close>, accepts exactly the capacities between the bytes that are not free and the total, gives
  the difference to the free bucket, keeps the invariant, and otherwise changes nothing. \<open>invariant()\<close>
  itself is exact: its overflow tests make the 64-bit sum of the five buckets meaningful, so for every ledger
  it holds if and only if the unbounded sum is the online capacity and that is within the total.
\<close>
theorem ledger_methods_refine_moves:
  assumes "(f, s, d) \<in> set ledger_methods" "invariant l"
  shows "(fst (f n l) \<longleftrightarrow> unat n \<le> bytes_in l s) \<and>
    (fst (f n l) \<longrightarrow> bytes_in (snd (f n l)) = move s d (unat n) (bytes_in l)) \<and>
    (\<not> fst (f n l) \<longrightarrow> snd (f n l) = l) \<and> invariant (snd (f n l)) \<and>
    total (snd (f n l)) = total l \<and> governedOnline (snd (f n l)) = governedOnline l \<and>
    setOnline n l =
      (let need = bytes_in l Reserved + bytes_in l Committed + bytes_in l Draining + bytes_in l Unavailable in
       if n \<le> total l \<and> need \<le> unat n
       then (True, l\<lparr>governedOnline := n, free := n - of_nat need\<rparr>) else (False, l)) \<and>
    invariant (snd (setOnline n l)) \<and>
    (\<forall>l'. invariant l' \<longleftrightarrow>
       bucket_sum (bytes_in l') = unat (governedOnline l') \<and> unat (governedOnline l') \<le> unat (total l'))"
proof -
  have m: "ledger_move f s d" by (rule ledger_methods_are_moves [OF assms(1)])
  note online = setOnline_eq [OF assms(2), of n] setOnline_invariant [OF assms(2), of n]
  show ?thesis
    using ledger_move.accepts_iff [OF m assms(2)] ledger_move.bytes_after [OF m assms(2)]
      ledger_move.failure_unchanged [OF m assms(2)] ledger_move.keeps_invariant [OF m assms(2)]
      ledger_move.frame [OF m assms(2)] online invariant_iff by (intro conjI) (blast | simp)+
qed

theorem ledger_methods_refine_moves_witness:
  "fst (fenceReserved 512 sc_reserved_ledger) \<and>
   bytes_in (snd (fenceReserved 512 sc_reserved_ledger)) Unavailable = 512 \<and>
   setOnline 512 sc_reserved_ledger = (True, sc_reserved_ledger\<lparr>governedOnline := 512, free := 0\<rparr>)"
proof -
  have "(fenceReserved, Reserved, Unavailable) \<in> set ledger_methods" by (simp add: ledger_methods_def)
  moreover have "invariant sc_reserved_ledger" by (simp add: invariant_def sc_reserved_ledger_def)
  ultimately show ?thesis
    using ledger_methods_refine_moves [of fenceReserved Reserved Unavailable sc_reserved_ledger 512]
    by (simp add: move_def sc_reserved_ledger_def word_le_nat_alt)
qed

section \<open>Inspection\<close>

text \<open>
  C24. What an audit reports in a reachable state: its ledger checks and its reservation sums (computed
  with wrap-around) always pass, so the verdict is \<open>PASS\<close> exactly when every pool member names the
  current generation of its region and no region awaiting revalidation has current evidence.
\<close>
theorem audit_exact:
  assumes "fabric_reach n st" "n < 2 ^ 64 - 1"
  shows "list_all fst (ledger_checks st @ reservation_checks st) \<and>
    audit st = ok (concat (map audit_line (audit_checks st)) @
      (if list_all (\<lambda>(i, pl). list_all (member_current (im_regions st)) (pl_members (plr_descriptor pl))) (im_pools st) \<and>
          list_all (\<lambda>(i, r). \<not> (rr_lifecycle r = RegionLifecycle.REVALIDATION_REQUIRED \<and>
            rr_evidenceStatus r = EvidenceStatus.CURRENT)) (im_regions st)
       then ''PASS audit complete'' else ''FAIL audit complete'') @ newline)"
proof -
  have c: "consistent st" using reach_consistent [OF assms] by simp
  show ?thesis
    unfolding audit_def Let_def audit_verdict [OF c, symmetric] list_all_append
    using accounting_checks_pass [OF c] by blast
qed

theorem audit_exact_witness:
  "\<exists>report. audit sc_held = ok (report @ ''PASS audit complete'' @ newline)"
proof -
  have "im_pools sc_held = []" "list_all (\<lambda>(i, r). \<not> (rr_lifecycle r = RegionLifecycle.REVALIDATION_REQUIRED \<and>
      rr_evidenceStatus r = EvidenceStatus.CURRENT)) (im_regions sc_held)"
    by (simp_all add: sc_held_eq sc_ready_eq new_fabric_def sc_region_record_def)
  with audit_exact [OF sc_held_reach] show ?thesis by auto
qed

text \<open>
  C25. A snapshot is enough to redo the accounting: for every region it lists, the reserved and committed
  bytes are the sums over the reservations it lists, the five buckets add up to the online bytes and
  these are within the total.
\<close>
theorem snapshot_balances:
  assumes "fabric_reach n st" "n < 2 ^ 64 - 1" "s \<in> set (sn_regions (snapshot st))"
  shows "unat (gs_reservedBytes s) = snapshot_held {ReservationState.RESERVED} (gs_id s) (snapshot st) \<and>
    unat (gs_committedBytes s) =
      snapshot_held {ReservationState.COMMITTED, ReservationState.ACTIVE} (gs_id s) (snapshot st) \<and>
    unat (gs_freeBytes s) + unat (gs_reservedBytes s) + unat (gs_committedBytes s) + unat (gs_drainingBytes s) +
      unat (gs_unavailableBytes s) = unat (gs_onlineBytes s) \<and>
    gs_onlineBytes s \<le> gs_totalCapacityBytes s"
  using snapshot_recounts [OF reach_consistent [OF assms(1,2), THEN conjunct1] assms(3)] by simp

theorem snapshot_balances_witness:
  "snapshot_held {ReservationState.RESERVED} (TypedId 5) (snapshot sc_held) = 512"
proof -
  let ?s = "region_snapshot (TypedId 5, sc_region_record\<lparr>rr_ledger := sc_reserved_ledger\<rparr>)"
  have "?s \<in> set (sn_regions (snapshot sc_held))" by (simp add: snapshot_def sc_held_eq)
  moreover have "gs_reservedBytes ?s = 512" "gs_id ?s = TypedId 5"
    by (simp_all add: region_snapshot_def sc_reserved_ledger_def)
  ultimately show ?thesis using snapshot_balances [OF sc_held_reach, of ?s] by simp
qed

text \<open>
  C26. Evidence that reports a failed device makes the audit fail: an accepted publication leaves the
  region awaiting revalidation with evidence that is marked current, the combination the audit rejects.
\<close>
theorem failed_evidence_fails_audit:
  assumes "is_ok (fst (publishRegionEvidence now e a st))" "ev_health e = HealthState.FAILED"
  shows "\<exists>report. audit (snd (publishRegionEvidence now e a st)) = ok (report @ ''FAIL audit complete'' @ newline)"
proof -
  let ?st = "snd (publishRegionEvidence now e a st)"
  have "\<not> list_all fst (audit_checks ?st)"
    using publish_success_region [OF assms(1)] assms(2)
    by (auto simp: evidence_target_def dest: current_revalidation_fails_audit)
  then show ?thesis by (simp add: audit_def Let_def)
qed

theorem failed_evidence_fails_audit_witness:
  "\<exists>report. audit (snd (publishRegionEvidence 30 (sc_evidence\<lparr>ev_health := HealthState.FAILED\<rparr>) sc_worker sc_held)) =
     ok (report @ ''FAIL audit complete'' @ newline)"
proof (rule failed_evidence_fails_audit)
  have "fst (setOnline 2048 sc_reserved_ledger)"
    by (simp add: setOnline_def sc_reserved_ledger_def invariant_def Let_def)
  then show "is_ok (fst (publishRegionEvidence 30 (sc_evidence\<lparr>ev_health := HealthState.FAILED\<rparr>) sc_worker sc_held))"
    by (simp add: publishRegionEvidence_def sc_held_eq sc_ready_eq new_fabric_def sc_defs
        authorityAcceptableLocked_def umap_find_def sc_region_record_def Let_def case_prod_beta evidence_target_def
        regionLifecycleAllowed_def)
qed simp

section \<open>Durability\<close>

text \<open>
  C33. What was saved is what is loaded: saving a reachable state within the format's limits and loading
  the file gives the same registries (the descriptors of all providers, domains, regions and pools, the
  policies and the consumers, under the same identifiers) under the next epoch, everything waiting for
  revalidation with empty ledgers, no reservation and no worker, and on every region the memberships of the
  pools that list it. The equations between association lists say more than that: the order of a list stands
  for the iteration order of a hash table, which the code does not promise.
\<close>
theorem save_load_roundtrip:
  assumes "fabric_reach n st" "n < 2 ^ 64 - 1" "persistable st"
    and "save io path st fs = (ok (), fs')" "io_readable r \<and> io_sized r \<and> io_reads r"
  shows "\<exists>st'. load r path fs' = ok st' \<and>
    st' = rebuild_memberships (recover_tables (TypedId (id_value (im_epoch st) + 1)) st) \<and>
    descriptors pr_descriptor (im_providers st') = descriptors pr_descriptor (im_providers st) \<and>
    descriptors dr_descriptor (im_domains st') = descriptors dr_descriptor (im_domains st) \<and>
    descriptors rr_descriptor (im_regions st') = descriptors rr_descriptor (im_regions st) \<and>
    descriptors plr_descriptor (im_pools st') = descriptors plr_descriptor (im_pools st) \<and>
    im_policies st' = im_policies st \<and> im_consumers st' = im_consumers st \<and>
    (\<forall>i. map_option rr_poolMemberships (umap_find (im_regions st') i) =
       map_option (\<lambda>_. concat (map (pool_entries i) (im_pools st))) (umap_find (im_regions st) i)) \<and>
    (im_epoch st \<noteq> TypedId UINT64_MAX \<longrightarrow> im_epoch st < im_epoch st')"
proof -
  have f: "fs' path = Some (file_of_payload (put_state st))"
    by (rule save_ok_content [OF assms(4)])
  have "load_bytes (file_of_payload (put_state st)) =
      ok (rebuild_memberships (recover_tables (TypedId (id_value (im_epoch st) + 1)) st))"
    using load_saved [OF _ deserialize_serialize [OF assms(3) reach_tables_wf [OF assms(1,2)]]] assms(3)
    by (simp add: persistable_def)
  then have "load r path fs' = ok (rebuild_memberships (recover_tables (TypedId (id_value (im_epoch st) + 1)) st))"
    using f assms(5) by (simp add: load_def readFile_def)
  then show ?thesis
    using recovered_memberships [of _ st] next_epoch_greater [of "im_epoch st"] rebuild_descriptors
      recover_descriptors [OF reach_keyed [OF assms(1)], of "TypedId (id_value (im_epoch st) + 1)"]
    by (simp add: rebuild_memberships_def)
qed

theorem save_load_roundtrip_witness:
  "\<exists>st'. load \<lparr>io_readable = True, io_sized = True, io_reads = True\<rparr> ''f'' [''f'' \<mapsto> file_of_payload (put_state sc_held)] = ok st' \<and>
     im_epoch st' = TypedId 2"
proof -
  let ?io = "\<lparr>io_opens = True, io_writes = True, io_renames = True, io_removes = True, io_partial = []\<rparr>"
  have s: "save ?io ''f'' sc_held Map.empty = (ok (), [''f'' \<mapsto> file_of_payload (put_state sc_held)])"
    using sc_persistable by (simp add: save_def serializePayload_def atomicWrite_def persistable_def Let_def fun_upd_def)
  have "id_value (im_epoch sc_held) + 1 = 2" by (simp add: sc_held_eq sc_ready_eq new_fabric_def sc_epoch_def)
  then show ?thesis
    using save_load_roundtrip [OF sc_held_reach _ sc_persistable s, of "\<lparr>io_readable = True, io_sized = True, io_reads = True\<rparr>"]
    by (auto simp: rebuild_memberships_def recover_tables_def)
qed

text \<open>
  C34. Recovery is safe whatever the file holds: a state that a load accepts is consistent, has no
  reservation, no worker and no current evidence, nothing is eligible in it and it grants no request. And
  this lasts until fresh evidence arrives: whatever calls follow the load, drains, recoveries, registrations
  and later epochs included, a region is ranked only if evidence about this region, of the epoch that is
  current then and of a reachable, non-failed device, was handed to \<open>publishRegionEvidence\<close> after the load,
  and every reservation granted is on such a region.
\<close>
theorem loaded_state_safe:
  assumes "load_bytes bytes = ok st"
  shows "consistent st \<and> recovered st \<and> (\<forall>req. ranking st req = []) \<and>
    (\<forall>now req a. \<not> is_ok (fst (requestReservation now req a st))) \<and>
    (\<forall>ops req i. length ops < 2 ^ 64 - 1 \<and> i \<in> rc_region ` set (ranking (run_ops ops st) req) \<longrightarrow>
       (\<exists>e \<in> published ops. eh_region (ev_header e) = i \<and> eh_epoch (ev_header e) = im_epoch (run_ops ops st) \<and>
          ev_reachable e \<and> ev_health e \<noteq> HealthState.FAILED)) \<and>
    (\<forall>ops now req a k. length ops < 2 ^ 64 - 1 \<and> fst (requestReservation now req a (run_ops ops st)) = ok k \<longrightarrow>
       (\<exists>r. umap_find (im_reservations (snd (requestReservation now req a (run_ops ops st)))) k = Some r \<and>
          (\<exists>e \<in> published ops. eh_region (ev_header e) = rs_region r \<and>
             eh_epoch (ev_header e) = im_epoch (run_ops ops st) \<and> ev_reachable e \<and> ev_health e \<noteq> HealthState.FAILED)))"
proof -
  have r: "recovered st" by (rule load_recovered [OF assms])
  then have "ranking st req = []" for req by (rule recovered_ranking)
  moreover from this have "\<not> is_ok (fst (requestReservation now req a st))" for now req a
    by (simp add: requestReservation_def evaluateLocked_def Let_def case_prod_beta)
  moreover note ranked = loaded_ranked [OF assms]
  moreover have "\<exists>r. umap_find (im_reservations (snd (requestReservation now req a (run_ops ops st)))) k = Some r \<and>
      (\<exists>e \<in> published ops. eh_region (ev_header e) = rs_region r \<and>
         eh_epoch (ev_header e) = im_epoch (run_ops ops st) \<and> ev_reachable e \<and> ev_health e \<noteq> HealthState.FAILED)"
    if o: "length ops < 2 ^ 64 - 1" "fst (requestReservation now req a (run_ops ops st)) = ok k" for ops now req a k
  proof -
    have "consistent (run_ops ops st)" using reach_consistent [OF loaded_reach [OF assms] o(1)] by simp
    from granted_region [OF this o(2)] ranked [OF o(1)] show ?thesis by blast
  qed
  ultimately show ?thesis using r recovered_consistent by blast
qed

theorem loaded_state_safe_witness:
  "load_bytes (file_of_payload (put_state sc_held)) = ok sc_restarted \<and> ranking sc_restarted sc_request = [] \<and>
   TypedId 5 \<in> rc_region ` set (ranking (run_ops sc_revived sc_restarted) sc_request) \<and>
   (\<exists>e \<in> published sc_revived. eh_region (ev_header e) = TypedId 5)"
proof -
  have "length sc_revived < 2 ^ 64 - 1" by (simp add: sc_revived_def)
  with sc_revived_ranked have h: "length sc_revived < 2 ^ 64 - 1 \<and> TypedId 5 \<in> rc_region ` set (ranking (run_ops sc_revived sc_restarted) sc_request)"
    by simp
  note s = loaded_state_safe [OF sc_restart]
  from s [THEN conjunct2, THEN conjunct2, THEN conjunct2, THEN conjunct2, THEN conjunct1, rule_format, OF h]
  have "\<exists>e \<in> published sc_revived. eh_region (ev_header e) = TypedId 5" by blast
  moreover have "ranking sc_restarted sc_request = []" using s [THEN conjunct2, THEN conjunct2, THEN conjunct1] by (rule spec)
  ultimately show ?thesis using sc_restart sc_revived_ranked by (intro conjI)
qed

text \<open>
  C35. A damaged file is refused: every proper prefix of a saved file, every extension of it, and every
  file in which up to four consecutive bytes of the payload were replaced by others fails to load.
\<close>
theorem damaged_file_refused:
  assumes "length (xs @ ws @ ys) \<le> kMaxFile" "length ws' = length ws" "length ws \<le> 4" "ws' \<noteq> ws" "x \<noteq> []"
  shows "(\<forall>n < length (file_of_payload (xs @ ws @ ys)). \<not> is_ok (load_bytes (take n (file_of_payload (xs @ ws @ ys))))) \<and>
    load_bytes (file_of_payload (xs @ ws @ ys) @ x) = fail ErrorCode.CORRUPT ''trailing garbage'' \<and>
    load_bytes (take 14 (file_of_payload (xs @ ws @ ys)) @ xs @ ws' @ ys) = fail ErrorCode.CORRUPT ''checksum''"
proof -
  have "unat (of_nat (length (xs @ ws @ ys)) :: u32) = length (xs @ ws @ ys)"
    by (rule file_length [OF assms(1)])
  then have "load_bytes (file_of_payload (xs @ ws @ ys) @ x) = fail ErrorCode.CORRUPT ''trailing garbage''"
    using assms(1,5) unfolding file_of_payload_eq append_assoc load_bytes_header by simp
  then show ?thesis using load_truncated [OF assms(1)] load_corrupted [OF assms(1-4)] by blast
qed

theorem damaged_file_refused_witness:
  "load_bytes (take 14 (file_of_payload [1, 2, 3]) @ [1, 9, 3]) = fail ErrorCode.CORRUPT ''checksum''"
  using damaged_file_refused [of "[1]" "[2]" "[3]" "[9]" "[0]"] by (simp add: kMaxFile_def)

text \<open>
  C36. Saving is atomic: whichever of its file operations fails, the file at the path is either the
  complete new content, when the call succeeds, or what it was before, when it fails; no other file but
  the temporary one is touched.
\<close>
theorem save_is_atomic:
  assumes "save io path st fs = (res, fs')"
  shows "(is_ok res \<longrightarrow> fs' path = Some (file_of_payload (put_state st))) \<and>
    (\<not> is_ok res \<longrightarrow> fs' path = fs path) \<and>
    (\<forall>q. q \<noteq> path \<and> q \<noteq> path @ ''.tmp'' \<longrightarrow> fs' q = fs q)"
  using assms by (rule save_cases) (auto dest: atomicWrite_cases)

theorem save_is_atomic_witness:
  "\<exists>res fs'. save \<lparr>io_opens = True, io_writes = False, io_renames = True, io_removes = False, io_partial = [7]\<rparr> ''f'' sc_held
     [''f'' \<mapsto> [1, 2]] = (res, fs') \<and> fs' ''f'' = Some [1, 2] \<and> \<not> is_ok res"
proof -
  let ?io = "\<lparr>io_opens = True, io_writes = False, io_renames = True, io_removes = False, io_partial = [7]\<rparr>"
  obtain res fs' where s: "save ?io ''f'' sc_held [''f'' \<mapsto> [1, 2]] = (res, fs')" by fastforce
  then have "\<not> is_ok res" by (auto simp: save_def serializePayload_def atomicWrite_def Let_def split: if_splits)
  with save_is_atomic [OF s] s show ?thesis by auto
qed

text \<open>
  C37. The limits are enforced on one side only: a state with more than 8192 providers whose payload is
  within 64 MiB is saved without an error, and the file can never be loaded again.
\<close>
theorem oversized_registry_cannot_be_loaded:
  assumes "\<not> null (im_epoch st)" "length (put_state st) \<le> kMaxFile"
    and "unat kMaxCount < length (im_providers st)" "length (im_providers st) < 2 ^ 32"
  shows "(\<exists>p. serializePayload st = Inr p \<and>
    load_bytes (file_of_payload p) = fail ErrorCode.CORRUPT ''payload: provider count'')"
proof -
  have "unat (of_nat (length (im_providers st)) :: u32) = length (im_providers st)"
    using assms(4) by (simp add: unat_of_nat take_bit_nat_eq_self)
  then have c: "kMaxCount < of_nat (length (im_providers st))" using assms(3) by (simp add: word_less_nat_alt)
  have "deserializePayload (put_state st) = Inl ''provider count''"
    using c assms(1)
    by (simp add: deserializePayload_def put_state_def null_def get_table_def put_table_def field_def [of "''provider count''"]
        r_count_def u32.get_put)
  then show ?thesis
    using assms(2) by (simp add: serializePayload_def file_of_payload_eq load_bytes_header)
qed

theorem oversized_registry_cannot_be_loaded_witness:
  "load_bytes (file_of_payload (put_state sc_crowded)) = fail ErrorCode.CORRUPT ''payload: provider count''"
proof -
  have "\<not> null (im_epoch sc_crowded)" "length (im_providers sc_crowded) = 8193"
    by (simp_all add: sc_crowded_def new_fabric_def sc_epoch_def del: upt_rec_numeral)
  with oversized_registry_cannot_be_loaded [of sc_crowded] sc_crowded_size show ?thesis
    by (auto simp: serializePayload_def kMaxCount_def split: if_splits)
qed

section \<open>The processes\<close>

text \<open>
  C9. The coordinator process is safe: whatever its arguments, its file, its clients and workers, the
  answers of the operating system and the order in which its threads run, in every state that fewer than
  \<open>2 ^ 64 - 5\<close> steps lead to, the fabric is consistent, the authority with which the coordinator calls it
  is acceptable (so no request of a client fails for a stale authority), and every process handle it
  holds is watched by a monitor thread that has not ended.
\<close>
theorem coordinator_process_safe:
  assumes "proc_reach n y" "n < 2 ^ 64 - 5"
  shows "consistent (co_fabric (sy_coord y)) \<and>
    authorityAcceptableLocked (co_fabric (sy_coord y)) (operator_authority (co_epoch (sy_coord y))) \<and> monitored y"
proof -
  obtain m where m: "m \<le> n + 4" "fabric_reach m (co_fabric (sy_coord y))"
    and e: "im_epoch (co_fabric (sy_coord y)) = co_epoch (sy_coord y)" "monitored y"
    using proc_reach_fabric [OF assms(1)] by blast
  have "m < 2 ^ 64 - 1" using m(1) assms(2) by simp
  then have "consistent (co_fabric (sy_coord y))" using reach_consistent [OF m(2)] by blast
  with e show ?thesis by (simp add: operator_acceptable operator_authority_def)
qed

theorem coordinator_process_safe_witness:
  "\<exists>y. proc_reach 9 y \<and> umap_find (co_procHandles (sy_coord y)) (TypedId 7) = Some 128 \<and>
     consistent (co_fabric (sy_coord y)) \<and> monitored y"
proof -
  obtain y where y: "proc_reach 9 y" "umap_find (co_procHandles (sy_coord y)) (TypedId 7) = Some 128"
    using sp_taken_over by blast
  with coordinator_process_safe [OF y(1)] show ?thesis by auto
qed

text \<open>
  C14. Every frame that a peer sends is handled, once and in order. When the encodings of any frames of
  known types arrive at an open connection, cut into pieces in any way, the connection does exactly what
  the server without a network does, which handles the frames one at a time; nothing is left over.
\<close>
theorem every_frame_handled_in_order:
  assumes "list_all2 (\<lambda>f e. FrameType_known (fr_type f) \<and> encodeFrame (fr_type f) (fr_payload f) = ok e) fs es"
    and "cn_buf cn = []" "cn_open cn" "[] \<notin> set chunks" "concat chunks = concat es"
  shows "handleConnection envs chunks cn c = serve_frames envs fs cn c"
  by (rule handle_encoded [OF assms])

theorem every_frame_handled_in_order_witness:
  "\<exists>e1 e2. encodeFrame AUDIT [] = ok e1 \<and> encodeFrame INSPECT [] = ok e2 \<and>
     handleConnection (\<lambda>_. sp_env) [take 3 e1, drop 3 e1 @ e2] new_connection sp_coord =
       serve_frames (\<lambda>_. sp_env) [\<lparr>fr_type = AUDIT, fr_payload = []\<rparr>, \<lparr>fr_type = INSPECT, fr_payload = []\<rparr>]
         new_connection sp_coord"
proof -
  obtain e1 e2 where e: "encodeFrame AUDIT [] = ok e1" "encodeFrame INSPECT [] = ok e2"
    by (simp add: encodeFrame_def kMaxPayload_def)
  then have "16 \<le> length e1" "16 \<le> length e2" by (auto simp: encodeFrame_ok)
  then have "[] \<notin> set [take 3 e1, drop 3 e1 @ e2]" by auto
  moreover have "list_all2 (\<lambda>f e. FrameType_known (fr_type f) \<and> encodeFrame (fr_type f) (fr_payload f) = ok e)
      [\<lparr>fr_type = AUDIT, fr_payload = []\<rparr>, \<lparr>fr_type = INSPECT, fr_payload = []\<rparr>] [e1, e2]"
    using e by (simp add: FrameType_known_def)
  moreover have "cn_buf new_connection = []" "cn_open new_connection" "concat [take 3 e1, drop 3 e1 @ e2] = concat [e1, e2]"
    by (simp_all add: new_connection_def)
  ultimately show ?thesis using every_frame_handled_in_order e by blast
qed

text \<open>
  C39. How a connection treats arbitrary bytes. What it does depends on the bytes of the stream and not on
  how the network cuts them into pieces; and when it waits for more, its buffer holds no complete frame
  and fewer bytes than the largest frame has, so no peer can make it grow without bound. The loops end: a
  connection handles at most one frame per 16 bytes it receives, and sending a reply takes at most one accepted
  call per byte, whatever the socket accepts; the accepted pieces are a prefix of the reply, and all of it
  exactly when \<open>sendAll\<close> returns true.
\<close>
theorem stream_cuts_do_not_matter:
  assumes "[] \<notin> set chunks" "[] \<notin> set chunks'" "concat chunks = concat chunks'"
    and "decodeFrame (cn_buf cn) = INCOMPLETE" "handleConnection envs chunks cn c = (effects, cn', c')"
  shows "handleConnection envs chunks' cn c = (effects, cn', c') \<and> decodeFrame (cn_buf cn') = INCOMPLETE \<and>
    length (cn_buf cn') < kHeader + kMaxPayload \<and>
    16 * (cn_served cn' - cn_served cn) \<le> length (cn_buf cn) + length (concat chunks) \<and>
    (\<forall>send reply okay pieces. sendAll send 0 reply = (okay, pieces) \<longrightarrow>
       length pieces \<le> length reply \<and> (\<exists>rest. reply = concat pieces @ rest \<and> (okay \<longleftrightarrow> rest = [])))"
proof -
  have "chunks = [] \<longleftrightarrow> chunks' = []" using assms(1-3) by (cases chunks; cases chunks') auto
  then have "handleConnection envs chunks' cn c = handleConnection envs chunks cn c"
    using handleConnection_concat [OF assms(1)] handleConnection_concat [OF assms(2)] assms(3) by (cases "chunks = []") simp_all
  moreover have "decodeFrame (cn_buf cn') = INCOMPLETE" by (rule handle_drained [OF assms(4,5)])
  moreover from this have "length (cn_buf cn') < kHeader + kMaxPayload"
    using decode_bounded [of "cn_buf cn'"] unfolding kHeader_def not_le [symmetric] by blast
  moreover have "16 * (cn_served cn' - cn_served cn) \<le> length (cn_buf cn) + length (concat chunks)"
    using handle_bounded [OF assms(5)] by simp
  moreover have "length pieces \<le> length reply \<and> (\<exists>rest. reply = concat pieces @ rest \<and> (okay \<longleftrightarrow> rest = []))"
    if "sendAll send 0 reply = (okay, pieces)" for send reply okay pieces
    using sendAll_result [OF that] pieces_bounded [of pieces] by fastforce
  ultimately show ?thesis using assms(5) by simp
qed

theorem stream_cuts_do_not_matter_witness:
  "handleConnection (\<lambda>_. sp_env) [[77], [69, 70]] new_connection sp_coord =
   handleConnection (\<lambda>_. sp_env) [[77, 69], [70]] new_connection sp_coord"
proof -
  obtain effects cn' c' where h: "handleConnection (\<lambda>_. sp_env) [[77], [69, 70]] new_connection sp_coord = (effects, cn', c')"
    by (metis prod_cases3)
  have "decodeFrame (cn_buf new_connection) = INCOMPLETE" by (simp add: new_connection_def)
  from stream_cuts_do_not_matter [OF _ _ _ this h, of "[[77, 69], [70]]"] show ?thesis
    unfolding h by (simp del: handleConnection.simps)
qed

text \<open>
  C40. A late monitor takes down the successor of its worker. When the table holds the handle of a later
  incarnation of a worker, which is alive, and the monitor of an earlier process of that worker has not
  reported yet, its two steps mark the later incarnation dead and remove its handle: from then on a
  request to terminate the worker is refused without any process being terminated.
\<close>
theorem late_monitor_takes_down_successor:
  assumes "proc_reach n y" "i < length (sy_monitors y)" "\<not> mo_marked (sy_monitors y ! i)"
    and "mo_worker (sy_monitors y ! i) = w" "mo_handle (sy_monitors y ! i) \<noteq> h"
    and "umap_find (co_procHandles (sy_coord y)) w = Some h" "workerAlive w b (co_fabric (sy_coord y))"
  shows "\<exists>y1 y2. proc_step y y1 \<and> proc_step y1 y2 \<and> \<not> workerAlive w b (co_fabric (sy_coord y2)) \<and>
    umap_find (co_procHandles (sy_coord y2)) w = None \<and>
    (\<forall>env cn rest. dispatch env \<lparr>fr_type = TERMINATE_WORKER, fr_payload = put64 (id_value w) @ rest\<rparr> cn (sy_coord y2) =
       (sendFrame TERMINATE_WORKER_RESP (flag False), cn, sy_coord y2))"
proof -
  have "im_epoch (co_fabric (sy_coord y)) = co_epoch (sy_coord y)" using proc_reach_fabric [OF assms(1)] by blast
  from late_monitor [OF this assms(2-4)] obtain y1 y2 where y: "proc_step y y1" "proc_step y1 y2"
    "\<not> workerAlive w b (co_fabric (sy_coord y2))" "umap_find (co_procHandles (sy_coord y2)) w = None" by blast
  then have "dispatch env \<lparr>fr_type = TERMINATE_WORKER, fr_payload = put64 (id_value w) @ rest\<rparr> cn (sy_coord y2) =
       (sendFrame TERMINATE_WORKER_RESP (flag False), cn, sy_coord y2)" for env cn rest
    by (simp add: dispatch_def on_terminate_worker_def Let_def)
  with y show ?thesis by blast
qed

theorem late_monitor_takes_down_successor_witness:
  "\<exists>y y1 y2. proc_reach 9 y \<and> workerAlive (TypedId 7) (TypedId 2) (co_fabric (sy_coord y)) \<and>
     proc_step y y1 \<and> proc_step y1 y2 \<and> \<not> workerAlive (TypedId 7) (TypedId 2) (co_fabric (sy_coord y2)) \<and>
     umap_find (co_procHandles (sy_coord y)) (TypedId 7) = Some 128 \<and>
     umap_find (co_procHandles (sy_coord y2)) (TypedId 7) = None"
proof -
  obtain y where y: "proc_reach 9 y" "length (sy_monitors y) = 2"
    "sy_monitors y ! 0 = \<lparr>mo_worker = TypedId 7, mo_handle = 64, mo_marked = False\<rparr>"
    "umap_find (co_procHandles (sy_coord y)) (TypedId 7) = Some 128"
    "workerAlive (TypedId 7) (TypedId 2) (co_fabric (sy_coord y))"
    using sp_taken_over by blast
  from late_monitor_takes_down_successor [OF y(1) _ _ _ _ y(4,5), of 0] y(2,3) show ?thesis
    using y(1,4,5) by auto
qed

end
